(* ===== verification/Prelude.thy ===== *)
theory Prelude
  imports Main
begin

text \<open>
  Shared vocabulary of the development: the errors a request can end in, the request
  monad (a handler reads and updates a state and ends in an error or a value), optional
  fields of request bodies (JavaScript tells \<open>undefined\<close>, \<open>null\<close> and a value apart), the
  notion of an operation that keeps an invariant, and list facts every table needs.
\<close>

named_theorems app_simps \<open>evaluation of request handlers\<close>
named_theorems keeps_intros \<open>an operation keeps an invariant\<close>
named_theorems table_simps \<open>tables: find, update, delete, insert\<close>

section \<open>Errors and the request monad\<close>

text \<open>
  The NestJS exceptions the services raise, with their message. \<open>HttpStatus\<close> is
  \<open>HttpException(message, status)\<close>; \<open>Crash\<close> is any other thrown \<open>Error\<close>, which the
  framework turns into a 500.
\<close>

datatype http_error =
    BadRequest string
  | Unauthorized string
  | Forbidden string
  | NotFound string
  | Conflict string
  | HttpStatus int string
  | Crash string

type_synonym ('s, 'a) app = "'s \<Rightarrow> (http_error + 'a) \<times> 's"

definition ok :: "'a \<Rightarrow> ('s, 'a) app" where
  "ok x s = (Inr x, s)"

definition throw :: "http_error \<Rightarrow> ('s, 'a) app" where
  "throw e s = (Inl e, s)"

definition andThen :: "('s, 'a) app \<Rightarrow> ('a \<Rightarrow> ('s, 'b) app) \<Rightarrow> ('s, 'b) app" where
  "andThen m k s = (case m s of (Inl e, s') \<Rightarrow> (Inl e, s') | (Inr x, s') \<Rightarrow> k x s')"

text \<open>A handler seen from outside: its answer and the state it leaves.\<close>

abbreviation answer :: "('s, 'a) app \<Rightarrow> 's \<Rightarrow> http_error + 'a" where
  "answer m s \<equiv> fst (m s)"

abbreviation after :: "('s, 'a) app \<Rightarrow> 's \<Rightarrow> 's" where
  "after m s \<equiv> snd (m s)"

lemma ok_apply [simp, app_simps]: "ok x s = (Inr x, s)"
  by (simp add: ok_def)

lemma throw_apply [simp, app_simps]: "throw e s = (Inl e, s)"
  by (simp add: throw_def)

lemma andThen_ok [simp]: "andThen (ok x) k = k x"
  by (simp add: andThen_def fun_eq_iff)

lemma andThen_throw [simp]: "andThen (throw e) k = throw e"
  by (simp add: andThen_def fun_eq_iff)

lemma andThen_assoc: "andThen (andThen m k) l = andThen m (\<lambda>x. andThen (k x) l)"
  by (auto simp: andThen_def fun_eq_iff split: prod.splits sum.splits)

lemma andThen_Inr: "m s = (Inr x, s') \<Longrightarrow> andThen m k s = k x s'"
  by (simp add: andThen_def)

lemma andThen_Inl: "m s = (Inl e, s') \<Longrightarrow> andThen m k s = (Inl e, s')"
  by (simp add: andThen_def)

lemma answer_andThen_Inr:
  "answer (andThen m k) s = Inr y \<longleftrightarrow>
     (\<exists>x. answer m s = Inr x \<and> answer (k x) (after m s) = Inr y)"
  by (cases "m s"; cases "fst (m s)") (auto simp: andThen_def)

lemma after_andThen:
  "after (andThen m k) s =
     (case answer m s of Inl e \<Rightarrow> after m s | Inr x \<Rightarrow> after (k x) (after m s))"
  by (cases "m s"; cases "fst (m s)") (auto simp: andThen_def)

text \<open>\<open>err.message\<close>, and \<open>try m catch (err) h\<close>.\<close>

definition err_message :: "http_error \<Rightarrow> string" where
  "err_message e = (case e of Crash m \<Rightarrow> m | BadRequest m \<Rightarrow> m | Unauthorized m \<Rightarrow> m
     | Forbidden m \<Rightarrow> m | NotFound m \<Rightarrow> m | Conflict m \<Rightarrow> m | HttpStatus _ m \<Rightarrow> m)"

definition catching :: "('s, 'a) app \<Rightarrow> (http_error \<Rightarrow> ('s, 'a) app) \<Rightarrow> ('s, 'a) app" where
  "catching m h s = (case m s of (Inl e, s') \<Rightarrow> h e s' | (Inr x, s') \<Rightarrow> (Inr x, s'))"

section \<open>Operations that keep an invariant\<close>

definition keeps :: "('s \<Rightarrow> bool) \<Rightarrow> ('s, 'a) app \<Rightarrow> bool" where
  "keeps I m \<longleftrightarrow> (\<forall>s. I s \<longrightarrow> I (after m s))"

lemma keepsI: "(\<And>s. I s \<Longrightarrow> I (after m s)) \<Longrightarrow> keeps I m"
  by (simp add: keeps_def)

lemma keepsD: "keeps I m \<Longrightarrow> I s \<Longrightarrow> I (after m s)"
  by (simp add: keeps_def)

lemma keeps_ok [keeps_intros]: "keeps I (ok x)"
  by (simp add: keeps_def)

lemma keeps_throw [keeps_intros]: "keeps I (throw e)"
  by (simp add: keeps_def)

lemma keeps_andThen [keeps_intros]:
  "keeps I m \<Longrightarrow> (\<And>x. keeps I (k x)) \<Longrightarrow> keeps I (andThen m k)"
  by (auto simp: keeps_def after_andThen split: sum.splits)

text \<open>A handler that answers without touching the state.\<close>

definition reads :: "('s, 'a) app \<Rightarrow> bool" where
  "reads m \<longleftrightarrow> (\<forall>s. after m s = s)"

lemma reads_keeps: "reads m \<Longrightarrow> keeps I m"
  by (simp add: reads_def keeps_def)

lemma reads_after: "reads m \<Longrightarrow> after m s = s"
  by (simp add: reads_def)

text \<open>
  What a handler does to the state, as a relation between the state before and after it. The
  locale is the contract of a relation that a handler which only reads satisfies; under it the
  checks in front of a service (pipes, roles) and the shaping of its answer need no attention.
\<close>

definition obeys :: "('s \<Rightarrow> bool) \<Rightarrow> ('s \<Rightarrow> 's \<Rightarrow> bool) \<Rightarrow> ('s, 'a) app \<Rightarrow> bool" where
  "obeys pre R m \<longleftrightarrow> (\<forall>s. pre s \<longrightarrow> R s (after m s))"

lemma obeysI: "(\<And>s. pre s \<Longrightarrow> R s (after m s)) \<Longrightarrow> obeys pre R m"
  by (simp add: obeys_def)

lemma obeysD: "obeys pre R m \<Longrightarrow> pre s \<Longrightarrow> R s (after m s)"
  by (simp add: obeys_def)

locale frame_condition =
  fixes pre :: "'s \<Rightarrow> bool"
    and R :: "'s \<Rightarrow> 's \<Rightarrow> bool"
  assumes unchanged: "pre s \<Longrightarrow> R s s"
begin

lemma only_reads: "reads m \<Longrightarrow> obeys pre R m"
  by (simp add: obeys_def reads_def unchanged)

lemma reads_first: "reads m \<Longrightarrow> (\<And>x. obeys pre R (k x)) \<Longrightarrow> obeys pre R (andThen m k)"
  by (auto simp: obeys_def reads_def after_andThen unchanged split: sum.split)

lemma reads_last: "obeys pre R m \<Longrightarrow> (\<And>x. reads (k x)) \<Longrightarrow> obeys pre R (andThen m k)"
  by (auto simp: obeys_def reads_def after_andThen split: sum.split)

end

section \<open>Step relations and their invariants\<close>

text \<open>
  The parts of the program that run for a while (a tick, a queue, a socket, a client with
  timers) are step relations; a state is reachable when finitely many steps lead to it. The
  locale is the contract of an invariant: what each part proves of its own steps, step by step.
\<close>

abbreviation reaches :: "('s \<Rightarrow> 's \<Rightarrow> bool) \<Rightarrow> 's \<Rightarrow> 's \<Rightarrow> bool" where
  "reaches step \<equiv> step\<^sup>*\<^sup>*"

lemmas reaches_refl [intro] = rtranclp.rtrancl_refl
lemmas reaches_step = rtranclp.rtrancl_into_rtrancl
lemmas reaches_one = r_into_rtranclp

locale inductive_invariant =
  fixes step :: "'s \<Rightarrow> 's \<Rightarrow> bool"
    and inv :: "'s \<Rightarrow> bool"
  assumes inv_step: "step s t \<Longrightarrow> inv s \<Longrightarrow> inv t"
begin

lemma inv_reaches: "reaches step s t \<Longrightarrow> inv s \<Longrightarrow> inv t"
  by (induction rule: rtranclp_induct) (auto intro: inv_step)

text \<open>A fact that the invariant gives for one step holds between any two reachable states.\<close>

lemma step_fact:
  assumes "reaches step s t" and "inv s" and "step t u" and "\<And>x y. inv x \<Longrightarrow> step x y \<Longrightarrow> R x y"
  shows "R t u"
  using assms inv_reaches by blast

text \<open>A reflexive and transitive relation that every step obeys holds along every run.\<close>

lemma run_fact:
  assumes "reaches step s t" and "inv s" and "R s s"
    and "\<And>x y. inv x \<Longrightarrow> R s x \<Longrightarrow> step x y \<Longrightarrow> R s y"
  shows "R s t"
  using assms(1)
proof (induction rule: rtranclp_induct)
  case base
  show ?case by fact
next
  case (step t u)
  with inv_reaches assms(2) have "inv t" by blast
  with step show ?case using assms(4) by blast
qed

end

section \<open>Optional fields of a request body\<close>

text \<open>
  A field of a DTO that the client may leave out. The services test it in two ways:
  \<open>field ?? d\<close> takes the default for \<open>undefined\<close> and \<open>null\<close> alike, and
  \<open>field !== undefined\<close> treats \<open>null\<close> as a value to write.
\<close>

datatype 'a opt_field = Undefined | Null | Val 'a

fun nullish :: "'a opt_field \<Rightarrow> 'a \<Rightarrow> 'a" where
  "nullish (Val x) d = x"
| "nullish Undefined d = d"
| "nullish Null d = d"

text \<open>What \<open>@IsOptional()\<close> lets through: both \<open>undefined\<close> and \<open>null\<close> skip the other checks.\<close>

fun optional :: "('a \<Rightarrow> bool) \<Rightarrow> 'a opt_field \<Rightarrow> bool" where
  "optional P (Val x) = P x"
| "optional P Undefined = True"
| "optional P Null = True"

text \<open>
  Writing a field of an update: \<open>if (dto.f !== undefined) data.f = dto.f\<close>. On a column
  that is not nullable the database client refuses \<open>null\<close>; on a nullable one it stores it.
\<close>

fun write_field :: "'a opt_field \<Rightarrow> 'a \<Rightarrow> 'a" where
  "write_field (Val x) old = x"
| "write_field Undefined old = old"
| "write_field Null old = old"

fun write_nullable :: "'a opt_field \<Rightarrow> 'a option \<Rightarrow> 'a option" where
  "write_nullable (Val x) old = Some x"
| "write_nullable Undefined old = old"
| "write_nullable Null old = None"

definition is_null :: "'a opt_field \<Rightarrow> bool" where
  "is_null f \<longleftrightarrow> (case f of Null \<Rightarrow> True | _ \<Rightarrow> False)"

lemma is_null_simps [simp]:
  "is_null Null" "\<not> is_null Undefined" "\<not> is_null (Val x)"
  by (simp_all add: is_null_def)

lemma nullish_in: "optional P f \<Longrightarrow> P d \<Longrightarrow> P (nullish f d)"
  by (cases f) auto

lemma write_field_in: "optional P f \<Longrightarrow> P old \<Longrightarrow> P (write_field f old)"
  by (cases f) auto

section \<open>Lists as tables\<close>

lemma find_None [table_simps]: "List.find P xs = None \<longleftrightarrow> (\<forall>x \<in> set xs. \<not> P x)"
  by (auto simp: find_None_iff)

lemma find_SomeD: "List.find P xs = Some x \<Longrightarrow> x \<in> set xs \<and> P x"
  by (metis find_Some_iff nth_mem)

text \<open>
  A search by a key that is unique in the table does not depend on the order of the rows:
  whatever row it returns is the row with that key.
\<close>

lemma find_unique_key:
  assumes "distinct (map key xs)" and "x \<in> set xs" and "P x"
    and "\<And>y. y \<in> set xs \<Longrightarrow> P y \<Longrightarrow> key y = key x"
  shows "List.find P xs = Some x"
proof (cases "List.find P xs")
  case None
  then show ?thesis using assms(2,3) by (auto simp: find_None_iff)
next
  case (Some y)
  then have "y \<in> set xs" and "P y" by (auto dest: find_SomeD)
  moreover from this have "key y = key x" by (rule assms(4))
  ultimately have "y = x" using assms(1,2) by (auto simp: distinct_map inj_on_def)
  with Some show ?thesis by simp
qed

lemma distinct_map_filter': "distinct (map f xs) \<Longrightarrow> distinct (map f (filter P xs))"
  by (simp add: distinct_map_filter)

lemma map_key_update:
  "(\<And>x. key (g x) = key x) \<Longrightarrow> map key (map (\<lambda>x. if P x then g x else x) xs) = map key xs"
  by (induction xs) auto

lemma ex_image: "(\<exists>x \<in> A. f x = y) \<longleftrightarrow> y \<in> f ` A"
  by auto

end
