(* ===== verification/JsText.thy ===== *)
theory JsText
  imports Prelude
begin

text \<open>
  The string functions of the JavaScript standard library that the services call, on
  \<open>string\<close> (a list of characters; the model reads a character as one code unit below 256).
  Each function is executable; the lemmas are the facts the components use about them.
\<close>

abbreviation code_of :: "char \<Rightarrow> nat" where
  "code_of c \<equiv> of_char c"

definition between :: "nat \<Rightarrow> nat \<Rightarrow> char \<Rightarrow> bool" where
  "between lo hi c \<longleftrightarrow> lo \<le> code_of c \<and> code_of c \<le> hi"

section \<open>Trimming, slicing, splitting, joining\<close>

text \<open>White space and line terminators among the code units below 256.\<close>

definition is_space :: "char \<Rightarrow> bool" where
  "is_space c \<longleftrightarrow> c \<in> {CHR 0x09, CHR 0x0A, CHR 0x0B, CHR 0x0C, CHR 0x0D, CHR '' '', CHR 0xA0}"

definition js_trim :: "string \<Rightarrow> string" where
  "js_trim s = rev (dropWhile is_space (rev (dropWhile is_space s)))"

text \<open>\<open>s.replace(/c+$/, '')\<close> for a single character \<open>c\<close>.\<close>

definition strip_trailing :: "char \<Rightarrow> string \<Rightarrow> string" where
  "strip_trailing c s = rev (dropWhile (\<lambda>x. x = c) (rev s))"

definition strip_leading :: "char \<Rightarrow> string \<Rightarrow> string" where
  "strip_leading c s = dropWhile (\<lambda>x. x = c) s"

definition starts_with :: "string \<Rightarrow> string \<Rightarrow> bool" where
  "starts_with p s \<longleftrightarrow> take (length p) s = p"

text \<open>\<open>s.split(c)\<close>: always at least one piece, empty pieces kept.\<close>

fun split_on :: "char \<Rightarrow> string \<Rightarrow> string list" where
  "split_on c [] = [[]]"
| "split_on c (x # xs) =
     (if x = c then [] # split_on c xs
      else case split_on c xs of [] \<Rightarrow> [[x]] | p # ps \<Rightarrow> (x # p) # ps)"

fun js_join :: "string \<Rightarrow> string list \<Rightarrow> string" where
  "js_join sep [] = []"
| "js_join sep [x] = x"
| "js_join sep (x # y # xs) = x @ sep @ js_join sep (y # xs)"

definition to_lower_char :: "char \<Rightarrow> char" where
  "to_lower_char c =
     (if between 65 90 c then char_of (code_of c + 32) else c)"

definition to_lower :: "string \<Rightarrow> string" where
  "to_lower s = map to_lower_char s"

section \<open>Decimal numerals\<close>

definition digit_char :: "nat \<Rightarrow> char" where
  "digit_char d = char_of (48 + d)"

fun nat_str :: "nat \<Rightarrow> string" where
  "nat_str n = (if n < 10 then [digit_char n] else nat_str (n div 10) @ [digit_char (n mod 10)])"

declare nat_str.simps [simp del]

definition int_str :: "int \<Rightarrow> string" where
  "int_str i = (if i < 0 then ''-'' @ nat_str (nat (- i)) else nat_str (nat i))"

definition is_digit :: "char \<Rightarrow> bool" where
  "is_digit c \<longleftrightarrow> between 48 57 c"

definition digit_val :: "char \<Rightarrow> nat" where
  "digit_val c = code_of c - 48"

definition str_nat :: "string \<Rightarrow> nat" where
  "str_nat s = foldl (\<lambda>n c. 10 * n + digit_val c) 0 s"

section \<open>Facts about splitting and joining\<close>

lemma split_on_not_Nil [simp]: "split_on c s \<noteq> []"
  by (induction s) (auto split: list.splits)

lemma js_join_Cons: "xs \<noteq> [] \<Longrightarrow> js_join sep (x # xs) = x @ sep @ js_join sep xs"
  by (cases xs) auto

lemma join_split: "js_join [c] (split_on c s) = s"
proof (induction s)
  case Nil
  show ?case by simp
next
  case (Cons x s)
  then show ?case
  proof (cases "x = c")
    case True
    with Cons show ?thesis by (simp add: js_join_Cons)
  next
    case False
    obtain p ps where "split_on c s = p # ps" by (cases "split_on c s") auto
    with Cons False show ?thesis by (cases ps) auto
  qed
qed

lemma split_on_no_sep: "c \<notin> set s \<Longrightarrow> split_on c s = [s]"
  by (induction s) auto

lemma split_on_append:
  "c \<notin> set a \<Longrightarrow> split_on c (a @ c # b) = a # split_on c b"
  by (induction a) auto

lemma split_join:
  assumes "xs \<noteq> []" and "\<And>x. x \<in> set xs \<Longrightarrow> c \<notin> set x"
  shows "split_on c (js_join [c] xs) = xs"
  using assms
proof (induction xs rule: induct_list012)
  case 1
  then show ?case by simp
next
  case (2 x)
  then show ?case by (simp add: split_on_no_sep)
next
  case (3 x y zs)
  then have "split_on c (js_join [c] (y # zs)) = y # zs" by simp
  with 3 show ?case by (simp add: split_on_append)
qed

lemma js_join_inj:
  assumes "js_join [c] xs = js_join [c] ys" and "xs \<noteq> []" and "ys \<noteq> []"
    and "\<And>x. x \<in> set xs \<union> set ys \<Longrightarrow> c \<notin> set x"
  shows "xs = ys"
proof -
  have "xs = split_on c (js_join [c] xs)" using assms(2,4) by (simp add: split_join)
  also have "\<dots> = split_on c (js_join [c] ys)" using assms(1) by simp
  also have "\<dots> = ys" using assms(3,4) by (simp add: split_join)
  finally show ?thesis .
qed

lemma split_on_pieces: "p \<in> set (split_on c s) \<Longrightarrow> c \<notin> set p"
proof (induction s arbitrary: p)
  case Nil
  then show ?case by simp
next
  case (Cons x s)
  obtain q qs where "split_on c s = q # qs" by (cases "split_on c s") auto
  with Cons show ?case by (cases "x = c") auto
qed

text \<open>
  Two strings with a separator that does not occur before it agree piece by piece. Cache
  keys and channel names are read back with this fact.
\<close>

lemma append_sep_inject:
  assumes "a @ c # x = b @ c # y" and "c \<notin> set a" and "c \<notin> set b"
  shows "a = b \<and> x = y"
proof -
  have "takeWhile (\<lambda>z. z \<noteq> c) (a @ c # x) = a" using assms(2) by (induction a) auto
  moreover have "takeWhile (\<lambda>z. z \<noteq> c) (b @ c # y) = b" using assms(3) by (induction b) auto
  ultimately have "a = b" using assms(1) by simp
  with assms(1) show ?thesis by simp
qed

lemma js_trim_subset: "set (js_trim s) \<subseteq> set s"
  unfolding js_trim_def by (auto dest!: set_dropWhileD)

lemma js_trim_length: "length (js_trim s) \<le> length s"
  unfolding js_trim_def
  by (metis length_dropWhile_le length_rev order_trans)

lemma starts_with_append [simp]: "starts_with p (p @ s)"
  by (simp add: starts_with_def)

lemma starts_withE:
  assumes "starts_with p s"
  obtains t where "s = p @ t"
  using assms unfolding starts_with_def by (metis append_take_drop_id)

lemma starts_with_iff: "starts_with p s \<longleftrightarrow> (\<exists>t. s = p @ t)"
  by (auto elim: starts_withE)

lemma strip_trailing_last:
  "strip_trailing c s = [] \<or> last (strip_trailing c s) \<noteq> c"
  unfolding strip_trailing_def
  by (metis (mono_tags, lifting) hd_dropWhile last_rev rev.simps(1) rev_rev_ident)

lemma strip_trailing_subset: "set (strip_trailing c s) \<subseteq> set s"
  unfolding strip_trailing_def by (auto dest: set_dropWhileD)

lemma strip_leading_hd: "strip_leading c s = [] \<or> hd (strip_leading c s) \<noteq> c"
  unfolding strip_leading_def by (metis (mono_tags) hd_dropWhile)

lemma strip_leading_subset: "set (strip_leading c s) \<subseteq> set s"
  unfolding strip_leading_def by (auto dest: set_dropWhileD)

section \<open>Facts about numerals\<close>

lemma code_of_digit [simp]: "d < 10 \<Longrightarrow> code_of (digit_char d) = 48 + d"
  by (simp add: digit_char_def)

lemma is_digit_digit_char [simp]: "d < 10 \<Longrightarrow> is_digit (digit_char d)"
  by (simp add: is_digit_def between_def)

lemma digit_val_digit_char [simp]: "d < 10 \<Longrightarrow> digit_val (digit_char d) = d"
  by (simp add: digit_val_def)

lemma nat_str_digits: "c \<in> set (nat_str n) \<Longrightarrow> is_digit c"
proof (induction n rule: nat_str.induct)
  case (1 n)
  then show ?case by (cases "n < 10") (auto simp: nat_str.simps [of n])
qed

lemma nat_str_not_Nil [simp]: "nat_str n \<noteq> []"
  by (subst nat_str.simps) simp

lemma str_nat_nat_str: "str_nat (nat_str n) = n"
proof (induction n rule: nat_str.induct)
  case (1 n)
  then show ?case
    by (cases "n < 10") (auto simp: nat_str.simps [of n] str_nat_def)
qed

lemma nat_str_inject [simp]: "nat_str m = nat_str n \<longleftrightarrow> m = n"
  by (metis str_nat_nat_str)

lemma nat_str_no_char: "\<not> is_digit c \<Longrightarrow> c \<notin> set (nat_str n)"
  using nat_str_digits by blast

lemma int_str_no_char: "\<not> is_digit c \<Longrightarrow> c \<noteq> CHR ''-'' \<Longrightarrow> c \<notin> set (int_str i)"
  by (auto simp: int_str_def nat_str_no_char)

lemma int_str_inject [simp]: "int_str i = int_str j \<longleftrightarrow> i = j"
proof -
  have minus: "CHR ''-'' \<notin> set (nat_str n)" for n
    by (rule nat_str_no_char) (simp add: is_digit_def between_def)
  have neg: "''-'' @ nat_str m \<noteq> nat_str n" for m n
    using minus [of n] by (metis append_Cons list.set_intros(1))
  show ?thesis
    using neg neg [symmetric] by (auto simp: int_str_def)
qed

end
