(* ===== verification/Json.thy ===== *)
theory Json
  imports Complex_Main JsText
begin

text \<open>
  JSON values: what request bodies, the \<open>Json\<close> columns of the database and the payloads of
  tokens hold. A number is read as the rational it denotes; rounding to a double is not
  modelled, and a whole number is printed with all its digits where the language's library turns
  to an exponent at \<open>10 ^ 21\<close>. What the program prints as a number (counts, times, sizes) stays
  far below.
\<close>

datatype json =
    JNull
  | JBool bool
  | JNum rat
  | JStr string
  | JArr "json list"
  | JObj "(string \<times> json) list"

text \<open>\<open>o[k]\<close> on a parsed object (a later duplicate key wins); \<open>undefined\<close> when absent.\<close>

fun json_get :: "string \<Rightarrow> json \<Rightarrow> json option" where
  "json_get k (JObj kvs) = map_of (rev kvs) k"
| "json_get k _ = None"

lemma json_get_absent: "k \<notin> fst ` set kvs \<Longrightarrow> json_get k (JObj kvs) = None"
  by (simp add: map_of_eq_None_iff)

text \<open>The truth value of a property that may be absent.\<close>

definition truthy :: "json option \<Rightarrow> bool" where
  "truthy v =
     (case v of
        None \<Rightarrow> False
      | Some JNull \<Rightarrow> False
      | Some (JBool b) \<Rightarrow> b
      | Some (JNum q) \<Rightarrow> q \<noteq> 0
      | Some (JStr t) \<Rightarrow> t \<noteq> []
      | Some _ \<Rightarrow> True)"

text \<open>An object literal handed to \<open>JSON.stringify\<close>: undefined members are left out.\<close>

definition defined_members :: "(string \<times> json option) list \<Rightarrow> json" where
  "defined_members kvs =
     JObj (List.map_filter (\<lambda>(k, v). map_option (Pair k) v) kvs)"

section \<open>JSON.stringify\<close>

definition hex_char :: "nat \<Rightarrow> char" where
  "hex_char d = ''0123456789abcdef'' ! d"

definition escape :: "char \<Rightarrow> string" where
  "escape c =
     (if c = CHR 0x22 then [CHR 0x5C, CHR 0x22]
      else if c = CHR 0x5C then [CHR 0x5C, CHR 0x5C]
      else if c = CHR 0x08 then [CHR 0x5C, CHR ''b'']
      else if c = CHR 0x0C then [CHR 0x5C, CHR ''f'']
      else if c = CHR 0x0A then [CHR 0x5C, CHR ''n'']
      else if c = CHR 0x0D then [CHR 0x5C, CHR ''r'']
      else if c = CHR 0x09 then [CHR 0x5C, CHR ''t'']
      else if code_of c < 32
        then [CHR 0x5C, CHR ''u'', CHR ''0'', CHR ''0'', hex_char (code_of c div 16),
              hex_char (code_of c mod 16)]
      else [c])"

definition json_string :: "string \<Rightarrow> string" where
  "json_string s = [CHR 0x22] @ concat (map escape s) @ [CHR 0x22]"

text \<open>
  Numbers: an integer prints its decimal digits (below 10 ^ 21, where the language switches to
  an exponent); the text of a fraction is the argument \<open>fr\<close>.
\<close>

definition json_number :: "(rat \<Rightarrow> string) \<Rightarrow> rat \<Rightarrow> string" where
  "json_number fr q = (if q = of_int \<lfloor>q\<rfloor> then int_str \<lfloor>q\<rfloor> else fr q)"

fun stringify :: "(rat \<Rightarrow> string) \<Rightarrow> json \<Rightarrow> string"
  and stringify_elems :: "(rat \<Rightarrow> string) \<Rightarrow> json list \<Rightarrow> string"
  and stringify_members :: "(rat \<Rightarrow> string) \<Rightarrow> (string \<times> json) list \<Rightarrow> string"
where
  "stringify fr JNull = ''null''"
| "stringify fr (JBool b) = (if b then ''true'' else ''false'')"
| "stringify fr (JNum q) = json_number fr q"
| "stringify fr (JStr s) = json_string s"
| "stringify fr (JArr xs) = ''['' @ stringify_elems fr xs @ '']''"
| "stringify fr (JObj kvs) = ''{'' @ stringify_members fr kvs @ ''}''"
| "stringify_elems fr [] = []"
| "stringify_elems fr [x] = stringify fr x"
| "stringify_elems fr (x # y # xs) = stringify fr x @ '','' @ stringify_elems fr (y # xs)"
| "stringify_members fr [] = []"
| "stringify_members fr [(k, v)] = json_string k @ '':'' @ stringify fr v"
| "stringify_members fr ((k, v) # kv # kvs) =
     json_string k @ '':'' @ stringify fr v @ '','' @ stringify_members fr (kv # kvs)"

section \<open>JSON.parse\<close>

definition skip_ws :: "string \<Rightarrow> string" where
  "skip_ws s = dropWhile (\<lambda>c. c \<in> {CHR '' '', CHR 0x09, CHR 0x0A, CHR 0x0D}) s"

definition hex_val :: "char \<Rightarrow> nat option" where
  "hex_val c =
     (if between 48 57 c then Some (code_of c - 48)
      else if between 97 102 c then Some (code_of c - 87)
      else if between 65 70 c then Some (code_of c - 55) else None)"

definition simple_escape :: "char \<Rightarrow> char option" where
  "simple_escape c =
     (if c = CHR 0x22 \<or> c = CHR 0x5C \<or> c = CHR ''/'' then Some c
      else if c = CHR ''b'' then Some (CHR 0x08)
      else if c = CHR ''f'' then Some (CHR 0x0C)
      else if c = CHR ''n'' then Some (CHR 0x0A)
      else if c = CHR ''r'' then Some (CHR 0x0D)
      else if c = CHR ''t'' then Some (CHR 0x09) else None)"

definition unicode_escape :: "string \<Rightarrow> (char \<times> string) option" where
  "unicode_escape s =
     (case s of
        a # b # c # d # rest \<Rightarrow>
          (case (hex_val a, hex_val b, hex_val c, hex_val d) of
             (Some p, Some q, Some x, Some y) \<Rightarrow>
               if p = 0 \<and> q = 0 then Some (char_of (16 * x + y), rest) else None
           | _ \<Rightarrow> None)
      | _ \<Rightarrow> None)"

text \<open>The rest of a string literal after its opening quote.\<close>

function parse_string :: "string \<Rightarrow> (string \<times> string) option" where
  "parse_string s =
     (case s of
        [] \<Rightarrow> None
      | c # cs \<Rightarrow>
          if c = CHR 0x22 then Some ([], cs)
          else if c = CHR 0x5C then
            (case cs of
               [] \<Rightarrow> None
             | e # rest \<Rightarrow>
                 if e = CHR ''u'' then
                   (case unicode_escape rest of
                      None \<Rightarrow> None
                    | Some (x, rest') \<Rightarrow>
                        if length rest' < length s
                        then map_option (\<lambda>(t, r). (x # t, r)) (parse_string rest') else None)
                 else
                   (case simple_escape e of
                      None \<Rightarrow> None
                    | Some x \<Rightarrow> map_option (\<lambda>(t, r). (x # t, r)) (parse_string rest)))
          else if code_of c < 32 then None
          else map_option (\<lambda>(t, r). (c # t, r)) (parse_string cs))"
  by pat_completeness auto
termination
  by (relation "measure length") auto

declare parse_string.simps [simp del]

text \<open>Number tokens: sign, integer part without leading zeros, fraction, exponent.\<close>

definition parse_exponent :: "rat \<Rightarrow> string \<Rightarrow> (rat \<times> string) option" where
  "parse_exponent q s =
     (case s of
        e # cs \<Rightarrow>
          if e = CHR ''e'' \<or> e = CHR ''E'' then
            (let (neg, ds) = (case cs of c # cs' \<Rightarrow>
                    if c = CHR ''-'' then (True, cs') else if c = CHR ''+'' then (False, cs')
                    else (False, cs) | [] \<Rightarrow> (False, cs));
                 n = str_nat (takeWhile is_digit ds)
             in if takeWhile is_digit ds = [] then None
                else Some (if neg then q / 10 ^ n else q * 10 ^ n, dropWhile is_digit ds))
          else Some (q, s)
      | [] \<Rightarrow> Some (q, s))"

definition parse_fraction :: "rat \<Rightarrow> string \<Rightarrow> (rat \<times> string) option" where
  "parse_fraction q s =
     (case s of
        c # cs \<Rightarrow>
          if c = CHR ''.'' then
            (let ds = takeWhile is_digit cs in
             if ds = [] then None
             else parse_exponent (q + of_nat (str_nat ds) / 10 ^ length ds) (dropWhile is_digit cs))
          else parse_exponent q s
      | [] \<Rightarrow> Some (q, s))"

definition parse_unsigned :: "string \<Rightarrow> (rat \<times> string) option" where
  "parse_unsigned s =
     (let ds = takeWhile is_digit s in
      if ds = [] \<or> (1 < length ds \<and> hd ds = CHR ''0'') then None
      else parse_fraction (of_nat (str_nat ds)) (dropWhile is_digit s))"

definition parse_number :: "string \<Rightarrow> (rat \<times> string) option" where
  "parse_number s =
     (case s of
        c # cs \<Rightarrow>
          if c = CHR ''-'' then map_option (\<lambda>(q, r). (- q, r)) (parse_unsigned cs)
          else parse_unsigned s
      | [] \<Rightarrow> None)"

text \<open>
  Values, the elements after \<open>[\<close> and the members after \<open>{\<close>. The length tests hold on every
  input (a value consumes at least one character); they are what the termination proof reads
  off, so the parser is total without a fuel argument.
\<close>

definition parse_literal :: "string \<Rightarrow> json \<Rightarrow> string \<Rightarrow> (json \<times> string) option" where
  "parse_literal lit j s = (if starts_with lit s then Some (j, drop (length lit) s) else None)"

lemma skip_ws_length [simp]: "length (skip_ws s) \<le> length s"
  by (simp add: skip_ws_def length_dropWhile_le)

lemma skip_ws_Cons: "skip_ws s = d # ds \<Longrightarrow> length ds < length s"
  using skip_ws_length [of s] by simp

lemma skip_ws_bounds:
  "length s < n \<Longrightarrow> Suc (2 * length (skip_ws s)) \<le> 2 * n"
  "length s \<le> n \<Longrightarrow> 2 * length (skip_ws s) \<le> Suc (2 * n)"
  "length s \<le> n \<Longrightarrow> 2 * length (skip_ws s) \<le> Suc (Suc (2 * n))"
  using skip_ws_length [of s] by linarith+

function parse_value :: "string \<Rightarrow> (json \<times> string) option"
  and parse_elems :: "string \<Rightarrow> (json list \<times> string) option"
  and parse_members :: "string \<Rightarrow> ((string \<times> json) list \<times> string) option"
where
  "parse_value s =
     (case s of
        [] \<Rightarrow> None
      | c # cs \<Rightarrow>
          if c = CHR ''n'' then parse_literal ''null'' JNull s
          else if c = CHR ''t'' then parse_literal ''true'' (JBool True) s
          else if c = CHR ''f'' then parse_literal ''false'' (JBool False) s
          else if c = CHR 0x22 then map_option (\<lambda>(t, r). (JStr t, r)) (parse_string cs)
          else if c = CHR ''['' then
            (case skip_ws cs of
               [] \<Rightarrow> None
             | d # ds \<Rightarrow>
                 if d = CHR '']'' then Some (JArr [], ds)
                 else map_option (\<lambda>(xs, r). (JArr xs, r)) (parse_elems (skip_ws cs)))
          else if c = CHR ''{'' then
            (case skip_ws cs of
               [] \<Rightarrow> None
             | d # ds \<Rightarrow>
                 if d = CHR ''}'' then Some (JObj [], ds)
                 else map_option (\<lambda>(ms, r). (JObj ms, r)) (parse_members (skip_ws cs)))
          else map_option (\<lambda>(q, r). (JNum q, r)) (parse_number s))"
| "parse_elems s =
     (case parse_value s of
        None \<Rightarrow> None
      | Some (x, r) \<Rightarrow>
          (case skip_ws r of
             [] \<Rightarrow> None
           | d # ds \<Rightarrow>
               if d = CHR '']'' then Some ([x], ds)
               else if d = CHR '','' \<and> length ds < length s then
                 map_option (\<lambda>(xs, r'). (x # xs, r')) (parse_elems (skip_ws ds))
               else None))"
| "parse_members s =
     (case s of
        [] \<Rightarrow> None
      | q # cs \<Rightarrow>
          if q \<noteq> CHR 0x22 then None
          else (case parse_string cs of
             None \<Rightarrow> None
           | Some (k, r) \<Rightarrow>
               (case skip_ws r of
                  [] \<Rightarrow> None
                | d # ds \<Rightarrow>
                    if d = CHR '':'' \<and> length ds < length s then
                      (case parse_value (skip_ws ds) of
                         None \<Rightarrow> None
                       | Some (v, r') \<Rightarrow>
                           (case skip_ws r' of
                              [] \<Rightarrow> None
                            | e # es \<Rightarrow>
                                if e = CHR ''}'' then Some ([(k, v)], es)
                                else if e = CHR '','' \<and> length es < length s then
                                  map_option (\<lambda>(ms, r''). ((k, v) # ms, r''))
                                    (parse_members (skip_ws es))
                                else None))
                    else None)))"
  by pat_completeness auto
termination
proof (relation "measure (\<lambda>x. case x of Inl s \<Rightarrow> 2 * length s
    | Inr (Inl s) \<Rightarrow> 2 * length s + 1 | Inr (Inr s) \<Rightarrow> 2 * length s + 1)", goal_cases)
qed (auto dest!: skip_ws_Cons intro!: skip_ws_bounds simp: less_Suc_eq_le)

declare parse_value.simps [simp del] parse_elems.simps [simp del] parse_members.simps [simp del]

definition json_parse :: "string \<Rightarrow> json option" where
  "json_parse s =
     (case parse_value (skip_ws s) of
        None \<Rightarrow> None
      | Some (j, r) \<Rightarrow> if skip_ws r = [] then Some j else None)"

section \<open>Parsing what was printed\<close>

subsection \<open>Strings\<close>

lemma hex_all: "list_all (\<lambda>d. hex_val (hex_char d) = Some d) [0..<16]"
  by code_simp

lemma hex_val_hex_char: "d < 16 \<Longrightarrow> hex_val (hex_char d) = Some d"
  using hex_all by (simp add: list_all_iff)

lemma hex_val_zero: "hex_val (CHR ''0'') = Some 0"
  by (simp add: hex_val_def between_def)

lemma unicode_escape_code:
  assumes "code_of c < 32"
  shows "unicode_escape (CHR ''0'' # CHR ''0'' # hex_char (code_of c div 16) #
           hex_char (code_of c mod 16) # rest) = Some (c, rest)"
proof -
  have "16 * (code_of c div 16) + code_of c mod 16 = code_of c" by simp
  then have "char_of (16 * (code_of c div 16) + code_of c mod 16) = c"
    by (simp only: char_of_char)
  with assms show ?thesis
    by (simp add: unicode_escape_def hex_val_zero hex_val_hex_char)
qed

lemma parse_string_escape:
  "parse_string (escape c @ s) = map_option (\<lambda>(t, r). (c # t, r)) (parse_string s)"
proof (cases "c \<in> {CHR 0x22, CHR 0x5C, CHR 0x08, CHR 0x0C, CHR 0x0A, CHR 0x0D, CHR 0x09}")
  case True
  then show ?thesis
    by (auto simp: escape_def parse_string.simps [of "_ # _"] simple_escape_def)
next
  case False
  show ?thesis
  proof (cases "code_of c < 32")
    case True
    with False have "escape c @ s = CHR 0x5C # CHR ''u'' # CHR ''0'' # CHR ''0'' #
        hex_char (code_of c div 16) # hex_char (code_of c mod 16) # s"
      by (auto simp: escape_def)
    then show ?thesis
      by (simp add: parse_string.simps [of "CHR 0x5C # _"] unicode_escape_code [OF True])
  next
    case plain: False
    with False have "escape c @ s = c # s" by (auto simp: escape_def)
    with False plain show ?thesis by (simp add: parse_string.simps [of "c # s"])
  qed
qed

lemma parse_json_string:
  "parse_string (concat (map escape t) @ CHR 0x22 # rest) = Some (t, rest)"
proof (induction t)
  case Nil
  show ?case by (simp add: parse_string.simps [of "_ # _"])
next
  case (Cons c t)
  then show ?case by (simp add: parse_string_escape)
qed

subsection \<open>Integers\<close>

text \<open>A number is read to its end when what follows cannot continue it.\<close>

definition num_stop :: "string \<Rightarrow> bool" where
  "num_stop rest \<longleftrightarrow>
     (case rest of [] \<Rightarrow> True
      | c # _ \<Rightarrow> \<not> is_digit c \<and> c \<notin> {CHR ''.'', CHR ''e'', CHR ''E''})"

lemma nat_str_hd: "10 \<le> n \<Longrightarrow> hd (nat_str n) \<noteq> CHR ''0''"
proof (induction n rule: nat_str.induct)
  case (1 n)
  have step: "nat_str n = nat_str (n div 10) @ [digit_char (n mod 10)]"
    using 1(2) by (simp add: nat_str.simps [of n])
  show ?case
  proof (cases "10 \<le> n div 10")
    case True
    with 1 show ?thesis unfolding step by simp
  next
    case False
    then have small: "nat_str (n div 10) = [digit_char (n div 10)]"
      by (simp add: nat_str.simps [of "n div 10"])
    have "n div 10 \<noteq> 0" "n div 10 < 10" using 1(2) False by simp_all
    then have "code_of (digit_char (n div 10)) \<noteq> code_of (CHR ''0'')" by simp
    then have "digit_char (n div 10) \<noteq> CHR ''0''" by (rule contrapos_nn) simp
    then show ?thesis unfolding step small by simp
  qed
qed

lemma nat_str_single: "n < 10 \<Longrightarrow> length (nat_str n) = 1"
  by (simp add: nat_str.simps [of n])

lemma takeWhile_digits:
  "num_stop rest \<Longrightarrow> takeWhile is_digit (nat_str n @ rest) = nat_str n \<and>
     dropWhile is_digit (nat_str n @ rest) = rest"
proof -
  assume stop: "num_stop rest"
  have "takeWhile is_digit rest = []" and "dropWhile is_digit rest = rest"
    using stop by (auto simp: num_stop_def split: list.splits)
  then show ?thesis
    using nat_str_digits by (simp add: takeWhile_append2 dropWhile_append2)
qed

lemma parse_unsigned_nat_str:
  assumes "num_stop rest"
  shows "parse_unsigned (nat_str n @ rest) = Some (of_nat n, rest)"
proof -
  have "\<not> (1 < length (nat_str n) \<and> hd (nat_str n) = CHR ''0'')"
    using nat_str_hd [of n] nat_str_single [of n] by (cases "n < 10") auto
  moreover have "parse_fraction q rest = Some (q, rest)" for q
    using assms by (auto simp: parse_fraction_def parse_exponent_def num_stop_def split: list.splits)
  ultimately show ?thesis
    using takeWhile_digits [OF assms, of n]
    by (simp add: parse_unsigned_def Let_def str_nat_nat_str)
qed

lemma parse_number_int_str:
  assumes "num_stop rest"
  shows "parse_number (int_str i @ rest) = Some (of_int i, rest)"
proof (cases "i < 0")
  case True
  then show ?thesis
    using parse_unsigned_nat_str [OF assms, of "nat (- i)"]
    by (simp add: int_str_def parse_number_def)
next
  case False
  obtain c cs where nz: "nat_str (nat i) = c # cs" by (cases "nat_str (nat i)") auto
  have "is_digit c" using nat_str_digits [of c "nat i"] nz by simp
  then have "c \<noteq> CHR ''-''" by (auto simp: is_digit_def between_def)
  with False nz parse_unsigned_nat_str [OF assms, of "nat i"] show ?thesis
    by (simp add: int_str_def parse_number_def)
qed

subsection \<open>Values\<close>

text \<open>Values all of whose numbers are integers: their text is fixed by the language alone.\<close>

fun integral :: "json \<Rightarrow> bool"
  and integral_elems :: "json list \<Rightarrow> bool"
  and integral_members :: "(string \<times> json) list \<Rightarrow> bool"
where
  "integral (JNum q) \<longleftrightarrow> q = of_int \<lfloor>q\<rfloor>"
| "integral (JArr xs) \<longleftrightarrow> integral_elems xs"
| "integral (JObj kvs) \<longleftrightarrow> integral_members kvs"
| "integral _ \<longleftrightarrow> True"
| "integral_elems [] \<longleftrightarrow> True"
| "integral_elems (x # xs) \<longleftrightarrow> integral x \<and> integral_elems xs"
| "integral_members [] \<longleftrightarrow> True"
| "integral_members ((k, v) # kvs) \<longleftrightarrow> integral v \<and> integral_members kvs"

text \<open>What a printed value starts with: never white space, never a closing bracket.\<close>

definition value_start :: "char \<Rightarrow> bool" where
  "value_start c \<longleftrightarrow> c \<in> {CHR ''n'', CHR ''t'', CHR ''f'', CHR 0x22, CHR ''['', CHR ''{'', CHR ''-''} \<or>
     is_digit c"

lemma value_start_facts:
  "value_start c \<Longrightarrow> c \<notin> {CHR '' '', CHR 0x09, CHR 0x0A, CHR 0x0D, CHR '']'', CHR ''}'', CHR '',''}"
  by (auto simp: value_start_def is_digit_def between_def)

lemma int_str_start: "\<exists>c cs. int_str i = c # cs \<and> value_start c \<and> (is_digit c \<or> c = CHR ''-'')"
proof -
  have "\<exists>c cs. nat_str n = c # cs \<and> is_digit c" for n
    using nat_str_digits [of _ n] by (cases "nat_str n") auto
  from this [of "nat i"] show ?thesis by (auto simp: int_str_def value_start_def)
qed

lemma stringify_start:
  "integral j \<Longrightarrow> \<exists>c cs. stringify fr j = c # cs \<and> value_start c"
proof (cases j)
  case (JNum q)
  assume "integral j"
  then show ?thesis using JNum int_str_start [of "\<lfloor>q\<rfloor>"] by (auto simp: json_number_def)
qed (auto simp: json_string_def value_start_def)

lemma elems_start:
  assumes "integral_elems (x # xs)"
  shows "\<exists>c cs. stringify_elems fr (x # xs) = c # cs \<and> value_start c"
proof -
  obtain c cs where "stringify fr x = c # cs" "value_start c"
    using stringify_start assms by fastforce
  then show ?thesis by (cases xs) auto
qed

lemma skip_ws_start: "value_start c \<Longrightarrow> skip_ws (c # cs) = c # cs"
  using value_start_facts by (auto simp: skip_ws_def)

lemma skip_ws_punct [simp]:
  "skip_ws (CHR '']'' # s) = CHR '']'' # s" "skip_ws (CHR ''}'' # s) = CHR ''}'' # s"
  "skip_ws (CHR '','' # s) = CHR '','' # s" "skip_ws (CHR '':'' # s) = CHR '':'' # s"
  "skip_ws (CHR 0x22 # s) = CHR 0x22 # s" "skip_ws [] = []"
  by (simp_all add: skip_ws_def)

lemma num_stop_punct [simp]:
  "num_stop (CHR '']'' # s)" "num_stop (CHR ''}'' # s)" "num_stop (CHR '','' # s)" "num_stop []"
  by (simp_all add: num_stop_def is_digit_def between_def)

lemma parse_value_int:
  assumes "num_stop rest"
  shows "parse_value (int_str i @ rest) = Some (JNum (of_int i), rest)"
proof -
  obtain c cs where c: "int_str i = c # cs" "is_digit c \<or> c = CHR ''-''"
    using int_str_start by blast
  then have "c \<notin> {CHR ''n'', CHR ''t'', CHR ''f'', CHR 0x22, CHR ''['', CHR ''{''}"
    by (auto simp: is_digit_def between_def)
  with parse_number_int_str [OF assms, of i] show ?thesis
    by (simp add: c(1) parse_value.simps [of "c # _"])
qed

text \<open>
  One step of each loop of the printer is undone by one step of the parser; the parts may be given
  as equations, so that the induction below only has to supply them.
\<close>

lemma stringify_members_start: "kvs \<noteq> [] \<Longrightarrow> \<exists>cs. stringify_members fr kvs = CHR 0x22 # cs"
  by (cases "(fr, kvs)" rule: stringify_members.cases) (auto simp: json_string_def)

lemma parse_array:
  assumes "integral_elems xs"
    and "xs \<noteq> [] \<Longrightarrow> parse_elems (stringify_elems fr xs @ CHR '']'' # rest) = Some (xs, rest)"
  shows "parse_value (stringify fr (JArr xs) @ rest) = Some (JArr xs, rest)"
proof (cases xs)
  case Nil
  then show ?thesis by (simp add: parse_value.simps [of "_ # _"])
next
  case (Cons x ys)
  then obtain c cs where c: "stringify_elems fr xs = c # cs" "value_start c"
    using elems_start assms(1) by metis
  with assms(2) Cons value_start_facts [OF c(2)] skip_ws_start [OF c(2)] show ?thesis
    by (simp add: parse_value.simps [of "CHR ''['' # _"])
qed

lemma parse_object:
  assumes "kvs \<noteq> [] \<Longrightarrow> parse_members (stringify_members fr kvs @ CHR ''}'' # rest) = Some (kvs, rest)"
  shows "parse_value (stringify fr (JObj kvs) @ rest) = Some (JObj kvs, rest)"
proof (cases kvs)
  case Nil
  then show ?thesis by (simp add: parse_value.simps [of "_ # _"] skip_ws_def)
next
  case (Cons kv ys)
  then obtain cs where "stringify_members fr kvs = CHR 0x22 # cs" using stringify_members_start by blast
  with assms Cons show ?thesis by (simp add: parse_value.simps [of "CHR ''{'' # _"])
qed

lemma parse_next_elem:
  assumes "integral_elems ys" "ys \<noteq> []"
    and "parse_value (v @ CHR '','' # stringify_elems fr ys @ CHR '']'' # rest) =
      Some (x, CHR '','' # stringify_elems fr ys @ CHR '']'' # rest)"
    and "parse_elems (stringify_elems fr ys @ CHR '']'' # rest) = Some (ys, rest)"
  shows "parse_elems (v @ CHR '','' # stringify_elems fr ys @ CHR '']'' # rest) = Some (x # ys, rest)"
proof -
  obtain c cs where "stringify_elems fr ys = c # cs" "value_start c"
    using elems_start assms(1,2) by (metis neq_Nil_conv)
  with assms(3,4) skip_ws_start show ?thesis by (simp add: parse_elems.simps [of "v @ _"])
qed

lemma parse_last_member:
  assumes "integral v" and "parse_value (stringify fr v @ CHR ''}'' # rest) = Some (v, CHR ''}'' # rest)"
  shows "parse_members (json_string k @ CHR '':'' # stringify fr v @ CHR ''}'' # rest) = Some ([(k, v)], rest)"
proof -
  obtain c cs where "stringify fr v = c # cs" "value_start c" using stringify_start assms(1) by blast
  with assms(2) skip_ws_start show ?thesis
    by (simp add: parse_members.simps [of "CHR 0x22 # _"] json_string_def parse_json_string)
qed

lemma parse_next_member:
  assumes "integral v"
    and "parse_value (stringify fr v @ CHR '','' # CHR 0x22 # more) = Some (v, CHR '','' # CHR 0x22 # more)"
    and "parse_members (CHR 0x22 # more) = Some (kvs, rest)"
  shows "parse_members (json_string k @ CHR '':'' # stringify fr v @ CHR '','' # CHR 0x22 # more) =
    Some ((k, v) # kvs, rest)"
proof -
  obtain c cs where "stringify fr v = c # cs" "value_start c" using stringify_start assms(1) by blast
  with assms(2,3) skip_ws_start show ?thesis
    by (simp add: parse_members.simps [of "CHR 0x22 # _ @ _"] json_string_def parse_json_string)
qed

lemma parse_stringify:
  "integral j \<Longrightarrow> num_stop rest \<Longrightarrow> parse_value (stringify fr j @ rest) = Some (j, rest)"
  "integral_elems xs \<Longrightarrow> xs \<noteq> [] \<Longrightarrow>
     parse_elems (stringify_elems fr xs @ CHR '']'' # rest) = Some (xs, rest)"
  "integral_members kvs \<Longrightarrow> kvs \<noteq> [] \<Longrightarrow>
     parse_members (stringify_members fr kvs @ CHR ''}'' # rest) = Some (kvs, rest)"
proof (induction fr j and fr xs and fr kvs arbitrary: rest and rest and rest
    rule: stringify_stringify_elems_stringify_members.induct)
  case (3 fr q)
  then have "stringify fr (JNum q) = int_str \<lfloor>q\<rfloor>" by (simp add: json_number_def)
  with 3 show ?case by (simp add: parse_value_int)
next
  case (5 fr xs)
  then show ?case by (intro parse_array) simp_all
next
  case (6 fr kvs)
  then show ?case by (intro parse_object) simp_all
next
  case (9 fr x y xs)
  then show ?case using parse_next_elem [of "y # xs"] by simp
next
  case (11 fr k v)
  then show ?case by (simp add: parse_last_member)
next
  case (12 fr k v kv kvs)
  obtain ds where d: "stringify_members fr (kv # kvs) = CHR 0x22 # ds"
    using stringify_members_start by blast
  have "parse_members (CHR 0x22 # ds @ CHR ''}'' # rest) = Some (kv # kvs, rest)"
    using 12 d by simp
  then show ?case
    using parse_next_member [of v fr "ds @ CHR ''}'' # rest" "kv # kvs" rest k] 12 d by simp
qed (simp_all add: parse_value.simps [of "_ # _"] parse_elems.simps parse_literal_def starts_with_def
    json_string_def parse_json_string)

text \<open>
  Parsing what \<open>stringify\<close> printed gives the value back, for every value whose numbers are
  integers: strings with quotes, backslashes and control characters, nested arrays and objects
  included.
\<close>

lemma json_parse_stringify: "integral j \<Longrightarrow> json_parse (stringify fr j) = Some j"
  using stringify_start [of j fr] skip_ws_start parse_stringify(1) [of j "[]" fr]
  by (auto simp: json_parse_def)

end
