(* ===== verification/Store.thy ===== *)
theory Store
  imports Json
begin

text \<open>
  The Postgres tables of \<open>api/prisma/schema.prisma\<close>: one record per model with the columns
  of the schema, one list of rows per table (in insertion order). A call on the Prisma
  client that the schema determines is a list operation here: a \<open>where\<close> is a predicate, an
  \<open>orderBy\<close> a stable sort, a \<open>@unique\<close> column a check before the insertion, an
  \<open>onDelete: Cascade\<close> a filter on the dependent table. What the schema leaves to the server
  (generated ids, the clock) is an argument of the operation.
\<close>

section \<open>Rows\<close>

record user =
  user_id :: string
  user_email :: string
  user_passwordHash :: string
  user_displayName :: "string option"
  user_emailVerified :: bool
  user_createdAt :: int

record workspace =
  ws_id :: string
  ws_name :: string
  ws_slug :: string
  ws_ownerId :: string
  ws_createdAt :: int

datatype role = Owner | Member | Viewer

record member =
  mem_id :: string
  mem_workspaceId :: string
  mem_userId :: string
  mem_role :: role
  mem_invitedAt :: int
  mem_joinedAt :: "int option"

record api_key =
  key_id :: string
  key_workspaceId :: string
  key_createdById :: string
  key_name :: string
  key_prefix :: string
  key_hash :: string
  key_scopes :: "string list"
  key_lastUsedAt :: "int option"
  key_createdAt :: int
  key_revokedAt :: "int option"

record dashboard =
  dash_id :: string
  dash_workspaceId :: string
  dash_createdById :: string
  dash_name :: string
  dash_description :: "string option"
  dash_layoutJson :: json
  dash_createdAt :: int
  dash_updatedAt :: int

datatype widget_type = Kpi | Line | Bar | Funnel | Cohort | Forecast | Table

record widget =
  wid_id :: string
  wid_dashboardId :: string
  wid_type :: widget_type
  wid_title :: string
  wid_configJson :: json
  wid_positionX :: int
  wid_positionY :: int
  wid_width :: int
  wid_height :: int
  wid_createdAt :: int
  wid_updatedAt :: int

datatype alert_method = Zscore | Iqr | Threshold

record alert =
  al_id :: string
  al_workspaceId :: string
  al_name :: string
  al_metric :: string
  al_method :: alert_method
  al_thresholdParams :: json
  al_channelsJson :: json
  al_cooldownSeconds :: int
  al_enabled :: bool
  al_lastFiredAt :: "int option"
  al_createdAt :: int
  al_updatedAt :: int

record alert_event =
  ev_id :: string
  ev_alertId :: string
  ev_workspaceId :: string
  ev_firedAt :: int
  ev_value :: rat
  ev_expected :: "rat option"
  ev_payload :: json

record share_link =
  sl_id :: string
  sl_workspaceId :: string
  sl_dashboardId :: string
  sl_createdById :: string
  sl_tokenHash :: string
  sl_expiresAt :: "int option"
  sl_revokedAt :: "int option"
  sl_createdAt :: int

datatype job_status = Queued | Running | Done | Failed

record pdf_job =
  job_id :: string
  job_workspaceId :: string
  job_dashboardId :: string
  job_requestedBy :: string
  job_status :: job_status
  job_s3Key :: "string option"
  job_errorMessage :: "string option"
  job_createdAt :: int
  job_completedAt :: "int option"

record db =
  users :: "user list"
  workspaces :: "workspace list"
  members :: "member list"
  api_keys :: "api_key list"
  dashboards :: "dashboard list"
  widgets :: "widget list"
  alerts :: "alert list"
  alert_events :: "alert_event list"
  share_links :: "share_link list"
  pdf_jobs :: "pdf_job list"

definition empty_db :: db where
  "empty_db = \<lparr>users = [], workspaces = [], members = [], api_keys = [], dashboards = [],
     widgets = [], alerts = [], alert_events = [], share_links = [], pdf_jobs = []\<rparr>"

section \<open>Queries and writes\<close>

definition update_where :: "('r \<Rightarrow> bool) \<Rightarrow> ('r \<Rightarrow> 'r) \<Rightarrow> 'r list \<Rightarrow> 'r list" where
  "update_where P f rows = map (\<lambda>r. if P r then f r else r) rows"

definition delete_where :: "('r \<Rightarrow> bool) \<Rightarrow> 'r list \<Rightarrow> 'r list" where
  "delete_where P rows = filter (\<lambda>r. \<not> P r) rows"

definition order_asc :: "('r \<Rightarrow> int) \<Rightarrow> 'r list \<Rightarrow> 'r list" where
  "order_asc key rows = sort_key key rows"

definition order_desc :: "('r \<Rightarrow> int) \<Rightarrow> 'r list \<Rightarrow> 'r list" where
  "order_desc key rows = sort_key (\<lambda>r. - key r) rows"

lemma set_order [simp, table_simps]:
  "set (order_asc key rows) = set rows" "set (order_desc key rows) = set rows"
  by (simp_all add: order_asc_def order_desc_def)

lemma order_asc_sorted: "sorted (map key (order_asc key rows))"
  by (simp add: order_asc_def)

lemma order_desc_sorted: "sorted (map (\<lambda>r. - key r) (order_desc key rows))"
  by (simp add: order_desc_def)

lemma set_delete_where [simp, table_simps]:
  "set (delete_where P rows) = {r \<in> set rows. \<not> P r}"
  by (simp add: delete_where_def)

lemma set_update_where [table_simps]:
  "set (update_where P f rows) = {r \<in> set rows. \<not> P r} \<union> f ` {r \<in> set rows. P r}"
  by (auto simp: update_where_def)

lemma update_where_none: "\<forall>r \<in> set rows. \<not> P r \<Longrightarrow> update_where P f rows = rows"
  by (simp add: update_where_def map_idI)

lemma keys_update_where [simp, table_simps]:
  "(\<And>r. key (f r) = key r) \<Longrightarrow> map key (update_where P f rows) = map key rows"
  by (simp add: update_where_def map_key_update)

lemma distinct_delete_where [simp, table_simps]:
  "distinct (map key rows) \<Longrightarrow> distinct (map key (delete_where P rows))"
  by (simp add: delete_where_def distinct_map_filter')

text \<open>Rows that a filter keeps apart from the written rows are untouched.\<close>

lemma filter_update_where:
  assumes "\<And>r. r \<in> set rows \<Longrightarrow> P r \<Longrightarrow> \<not> Q r \<and> \<not> Q (f r)"
  shows "filter Q (update_where P f rows) = filter Q rows"
  using assms by (induction rows) (auto simp: update_where_def)

lemma filter_delete_where:
  assumes "\<And>r. r \<in> set rows \<Longrightarrow> P r \<Longrightarrow> \<not> Q r"
  shows "filter Q (delete_where P rows) = filter Q rows"
  using assms by (induction rows) (auto simp: delete_where_def)

section \<open>The contract of a workspace-scoped table\<close>

text \<open>
  Dashboards, alerts, API keys, share links and PDF jobs are read the same way: by id and
  workspace together, with a 404 when there is no such row. Updates and deletes then address
  the row by its id alone. The locale states what the lookup promises and proves once that
  such a write stays inside the workspace.
\<close>

locale tenant_table =
  fixes rows :: "'s \<Rightarrow> 'r list"
    and row_id :: "'r \<Rightarrow> string"
    and row_ws :: "'r \<Rightarrow> string"
    and lookup :: "string \<Rightarrow> string \<Rightarrow> ('s, 'r) app"
  assumes lookup_reads: "reads (lookup w i)"
    and lookup_found: "answer (lookup w i) s = Inr r \<Longrightarrow>
          r \<in> set (rows s) \<and> row_id r = i \<and> row_ws r = w"
    and lookup_complete: "r \<in> set (rows s) \<Longrightarrow> row_id r = i \<Longrightarrow> row_ws r = w \<Longrightarrow>
          \<exists>r'. answer (lookup w i) s = Inr r'"
    and lookup_error: "answer (lookup w i) s = Inl e \<Longrightarrow> \<exists>m. e = NotFound m"
begin

definition others :: "string \<Rightarrow> 's \<Rightarrow> 'r list" where
  "others w s = filter (\<lambda>r. row_ws r \<noteq> w) (rows s)"

definition ids_unique :: "'s \<Rightarrow> bool" where
  "ids_unique s \<longleftrightarrow> distinct (map row_id (rows s))"

lemma lookup_state [simp]: "after (lookup w i) s = s"
  using lookup_reads by (simp add: reads_def)

lemma lookup_pair: "answer (lookup w i) s = a \<Longrightarrow> lookup w i s = (a, s)"
  by (metis lookup_state prod.collapse)

lemma andThen_lookup:
  "andThen (lookup w i) k s =
     (case answer (lookup w i) s of Inl e \<Rightarrow> (Inl e, s) | Inr r \<Rightarrow> k r s)"
proof (cases "answer (lookup w i) s")
  case (Inl e)
  with lookup_pair [OF Inl] show ?thesis by (simp add: andThen_def)
next
  case (Inr r)
  with lookup_pair [OF Inr] show ?thesis by (simp add: andThen_def)
qed

lemma lookup_eq:
  assumes "ids_unique s" and "r \<in> set (rows s)" and "row_ws r = w" and "row_id r = i"
  shows "lookup w i s = (Inr r, s)"
proof -
  obtain r' where r': "answer (lookup w i) s = Inr r'"
    using lookup_complete assms by blast
  with lookup_found have "r' \<in> set (rows s)" and "row_id r' = i" by blast+
  with assms have "r' = r" unfolding ids_unique_def distinct_map inj_on_def by metis
  with r' have "answer (lookup w i) s = Inr r" by simp
  then show ?thesis by (rule lookup_pair)
qed

lemma lookup_foreign:
  assumes "\<And>r. r \<in> set (rows s) \<Longrightarrow> row_id r = i \<Longrightarrow> row_ws r \<noteq> w"
  shows "\<exists>m. lookup w i s = (Inl (NotFound m), s)"
proof (cases "answer (lookup w i) s")
  case (Inl e)
  then show ?thesis using lookup_error lookup_pair by blast
next
  case (Inr r)
  with assms lookup_found show ?thesis by blast
qed

lemma only_row:
  assumes "ids_unique s" and "answer (lookup w i) s = Inr r" and "r' \<in> set (rows s)"
    and "row_id r' = i"
  shows "r' = r"
proof -
  have "r \<in> set (rows s)" and "row_id r = row_id r'"
    using lookup_found [OF assms(2)] assms(4) by simp_all
  then show ?thesis
    using assms(1,3) unfolding ids_unique_def distinct_map inj_on_def by metis
qed

lemma update_stays_inside:
  assumes "ids_unique s" and "answer (lookup w i) s = Inr r" and "\<And>x. row_ws (f x) = row_ws x"
  shows "filter (\<lambda>r. row_ws r \<noteq> w) (update_where (\<lambda>r. row_id r = i) f (rows s)) = others w s"
  unfolding others_def
proof (rule filter_update_where)
  fix r' assume "r' \<in> set (rows s)" and "row_id r' = i"
  then have "r' = r" using only_row [OF assms(1,2)] by blast
  then show "\<not> row_ws r' \<noteq> w \<and> \<not> row_ws (f r') \<noteq> w"
    using lookup_found [OF assms(2)] assms(3) by simp
qed

lemma delete_stays_inside:
  assumes "ids_unique s" and "answer (lookup w i) s = Inr r"
  shows "filter (\<lambda>r. row_ws r \<noteq> w) (delete_where (\<lambda>r. row_id r = i) (rows s)) = others w s"
  unfolding others_def
proof (rule filter_delete_where)
  fix r' assume "r' \<in> set (rows s)" and "row_id r' = i"
  then have "r' = r" using only_row [OF assms(1,2)] by blast
  then show "\<not> row_ws r' \<noteq> w" using lookup_found [OF assms(2)] by simp
qed

text \<open>The same from the side of one other workspace.\<close>

lemma update_spares:
  assumes "ids_unique s" and "answer (lookup w i) s = Inr r" and "\<And>x. row_ws (f x) = row_ws x" and "v \<noteq> w"
  shows "filter (\<lambda>r. row_ws r = v) (update_where (\<lambda>r. row_id r = i) f (rows s)) = filter (\<lambda>r. row_ws r = v) (rows s)"
proof (rule filter_update_where)
  fix r' assume "r' \<in> set (rows s)" and "row_id r' = i"
  then have "r' = r" using only_row [OF assms(1,2)] by blast
  then show "\<not> row_ws r' = v \<and> \<not> row_ws (f r') = v"
    using lookup_found [OF assms(2)] assms(3,4) by simp
qed

lemma delete_spares:
  assumes "ids_unique s" and "answer (lookup w i) s = Inr r" and "v \<noteq> w"
  shows "filter (\<lambda>r. row_ws r = v) (delete_where (\<lambda>r. row_id r = i) (rows s)) = filter (\<lambda>r. row_ws r = v) (rows s)"
proof (rule filter_delete_where)
  fix r' assume "r' \<in> set (rows s)" and "row_id r' = i"
  then have "r' = r" using only_row [OF assms(1,2)] by blast
  then show "\<not> row_ws r' = v" using lookup_found [OF assms(2)] assms(3) by simp
qed

end

section \<open>Lookup by id and workspace\<close>

text \<open>
  The lookup all these services use: \<open>findFirst({ where: { id, workspaceId } })\<close>, then
  \<open>if (!row) throw new NotFoundException(message)\<close>.
\<close>

definition scoped_find ::
  "('s \<Rightarrow> 'r list) \<Rightarrow> ('r \<Rightarrow> string) \<Rightarrow> ('r \<Rightarrow> string) \<Rightarrow> string \<Rightarrow> string \<Rightarrow> string \<Rightarrow> ('s, 'r) app" where
  "scoped_find rows row_id row_ws message w i s =
     (case List.find (\<lambda>r. row_id r = i \<and> row_ws r = w) (rows s) of
        None \<Rightarrow> (Inl (NotFound message), s)
      | Some r \<Rightarrow> (Inr r, s))"

lemma scoped_find_state [simp]: "after (scoped_find rows row_id row_ws m w i) s = s"
  by (simp add: scoped_find_def split: option.splits)

lemma scoped_find_tenant_table:
  "tenant_table rows row_id row_ws (scoped_find rows row_id row_ws m)"
proof
  fix w i s r e
  show "reads (scoped_find rows row_id row_ws m w i)"
    by (simp add: reads_def)
  show "answer (scoped_find rows row_id row_ws m w i) s = Inr r \<Longrightarrow>
      r \<in> set (rows s) \<and> row_id r = i \<and> row_ws r = w"
    by (auto simp: scoped_find_def dest: find_SomeD split: option.splits)
  show "r \<in> set (rows s) \<Longrightarrow> row_id r = i \<Longrightarrow> row_ws r = w \<Longrightarrow>
      \<exists>r'. answer (scoped_find rows row_id row_ws m w i) s = Inr r'"
    by (auto simp: scoped_find_def find_None split: option.splits)
  show "answer (scoped_find rows row_id row_ws m w i) s = Inl e \<Longrightarrow> \<exists>m. e = NotFound m"
    by (auto simp: scoped_find_def split: option.splits)
qed

end
