(* ===== verification/Workspaces.thy ===== *)
theory Workspaces
  imports Store
begin

text \<open>
  Workspaces, roles and the workspace guard: \<open>workspaces.service.ts\<close>,
  \<open>workspaces.controller.ts\<close> and \<open>workspace.guard.ts\<close>. The role of a user in a workspace is
  read from the membership table alone; every guarded route of the other components goes
  through \<open>can_activate\<close> and \<open>require_role\<close>.
\<close>

section \<open>Roles\<close>

text \<open>
  The roles are ranked: what a viewer may do a member may do, and what a member may do an owner may
  do. The routes list the roles they admit; that the lists are the upper parts of this order is a
  fact about the routes (see \<open>Isolation\<close>).
\<close>

instantiation role :: linorder
begin

fun rank :: "role \<Rightarrow> nat" where
  "rank Viewer = 0"
| "rank Member = 1"
| "rank Owner = 2"

definition less_eq_role :: "role \<Rightarrow> role \<Rightarrow> bool" where
  "a \<le> b \<longleftrightarrow> rank a \<le> rank b"

definition less_role :: "role \<Rightarrow> role \<Rightarrow> bool" where
  "a < b \<longleftrightarrow> rank a < rank b"

instance
proof
  fix a b c :: role
  show "a < b \<longleftrightarrow> a \<le> b \<and> \<not> b \<le> a" by (simp add: less_eq_role_def less_role_def less_le_not_le)
  show "a \<le> a" by (simp add: less_eq_role_def)
  show "a \<le> b \<Longrightarrow> b \<le> c \<Longrightarrow> a \<le> c" by (simp add: less_eq_role_def)
  show "a \<le> b \<Longrightarrow> b \<le> a \<Longrightarrow> a = b" by (cases a; cases b) (simp_all add: less_eq_role_def)
  show "a \<le> b \<or> b \<le> a" by (auto simp: less_eq_role_def)
qed

end

lemma role_order [simp]:
  "Viewer \<le> r" "r \<le> Owner" "Member \<le> r \<longleftrightarrow> r \<noteq> Viewer" "Owner \<le> r \<longleftrightarrow> r = Owner"
  by (cases r; simp add: less_eq_role_def)+

section \<open>Service\<close>

definition is_member :: "db \<Rightarrow> string \<Rightarrow> string \<Rightarrow> bool" where
  "is_member s w u \<longleftrightarrow> (\<exists>m \<in> set (members s). mem_workspaceId m = w \<and> mem_userId m = u)"

definition list_for_user :: "string \<Rightarrow> (db, workspace list) app" where
  "list_for_user uid s =
     (Inr (order_asc ws_createdAt
        (filter (\<lambda>w. ws_ownerId w = uid \<or> is_member s (ws_id w) uid) (workspaces s))), s)"

definition get_for_user :: "string \<Rightarrow> string \<Rightarrow> (db, workspace) app" where
  "get_for_user wid uid s =
     (case List.find (\<lambda>w. ws_id w = wid \<and> (ws_ownerId w = uid \<or> is_member s (ws_id w) uid))
             (workspaces s) of
        None \<Rightarrow> (Inl (NotFound ''workspace not found''), s)
      | Some w \<Rightarrow> (Inr w, s))"

definition resolve_role :: "string \<Rightarrow> string \<Rightarrow> (db, role option) app" where
  "resolve_role wid uid s =
     (Inr (map_option mem_role
        (List.find (\<lambda>m. mem_workspaceId m = wid \<and> mem_userId m = uid) (members s))), s)"

definition require_role :: "string \<Rightarrow> string \<Rightarrow> role list \<Rightarrow> (db, role) app" where
  "require_role wid uid allowed =
     andThen (resolve_role wid uid) (\<lambda>role.
       case role of
         None \<Rightarrow> throw (Forbidden ''insufficient role for this workspace'')
       | Some r \<Rightarrow>
           if r \<in> set allowed then ok r
           else throw (Forbidden ''insufficient role for this workspace''))"

text \<open>
  \<open>upsert\<close> on the unique pair (workspace, user): the role of an existing row is overwritten,
  otherwise a row is inserted with the generated id and the current time.
\<close>

definition upsert_member :: "string \<Rightarrow> int \<Rightarrow> string \<Rightarrow> string \<Rightarrow> role \<Rightarrow> (db, member) app" where
  "upsert_member fresh now wid uid r s =
     (case List.find (\<lambda>m. mem_workspaceId m = wid \<and> mem_userId m = uid) (members s) of
        Some m \<Rightarrow>
          (Inr (m\<lparr>mem_role := r\<rparr>),
           s\<lparr>members := update_where (\<lambda>m. mem_workspaceId m = wid \<and> mem_userId m = uid)
                          (\<lambda>m. m\<lparr>mem_role := r\<rparr>) (members s)\<rparr>)
      | None \<Rightarrow>
          (let m = \<lparr>mem_id = fresh, mem_workspaceId = wid, mem_userId = uid, mem_role = r,
                    mem_invitedAt = now, mem_joinedAt = None\<rparr>
           in (Inr m, s\<lparr>members := members s @ [m]\<rparr>)))"

definition invite :: "string \<Rightarrow> int \<Rightarrow> string \<Rightarrow> string \<Rightarrow> string \<Rightarrow> role \<Rightarrow> (db, member) app" where
  "invite fresh now wid inviter invitee r =
     andThen (require_role wid inviter [Owner]) (\<lambda>_. upsert_member fresh now wid invitee r)"

section \<open>Guard\<close>

text \<open>
  \<open>WorkspaceGuard.canActivate\<close>: the user that the JWT guard left on the request, the route
  parameters \<open>workspaceId\<close> and \<open>id\<close>; the result is the \<open>req.workspace\<close> it attaches.
\<close>

definition can_activate ::
  "string option \<Rightarrow> string option \<Rightarrow> string option \<Rightarrow> (db, string \<times> role) app" where
  "can_activate user p_workspaceId p_id =
     (let workspaceId = (case p_workspaceId of Some w \<Rightarrow> Some w | None \<Rightarrow> p_id) in
      case user of
        None \<Rightarrow> throw (Forbidden ''no user'')
      | Some uid \<Rightarrow>
         (case workspaceId of
            None \<Rightarrow> throw (Forbidden ''missing workspaceId param'')
          | Some w \<Rightarrow>
              if w = [] then throw (Forbidden ''missing workspaceId param'')
              else andThen (resolve_role w uid) (\<lambda>role.
                case role of
                  None \<Rightarrow> throw (Forbidden ''not a member of this workspace'')
                | Some r \<Rightarrow> ok (w, r))))"

text \<open>
  A route under \<open>workspaces/:workspaceId\<close> with both guards: the handler gets the workspace
  the guard attached.
\<close>

definition guarded ::
  "string \<Rightarrow> string \<Rightarrow> (string \<Rightarrow> (db, 'a) app) \<Rightarrow> (db, 'a) app" where
  "guarded uid workspaceId handler =
     andThen (can_activate (Some uid) (Some workspaceId) None) (\<lambda>(w, r). handler w)"

text \<open>\<open>ParseUUIDPipe\<close> on a route parameter; the test itself is the framework's (\<open>is_uuid\<close>).\<close>

definition uuid_pipe :: "(string \<Rightarrow> bool) \<Rightarrow> string \<Rightarrow> ('s, unit) app" where
  "uuid_pipe is_uuid p =
     (if is_uuid p then ok () else throw (BadRequest ''Validation failed (uuid is expected)''))"

text \<open>The global \<open>ValidationPipe\<close> on a body or a query: a DTO that fails its checks is a 400.\<close>

definition validation_pipe :: "bool \<Rightarrow> ('s, unit) app" where
  "validation_pipe valid = (if valid then ok () else throw (BadRequest ''Bad Request Exception''))"

section \<open>Controller\<close>

datatype invite_result = UserNotFound string | Invited member

definition ws_list :: "string \<Rightarrow> (db, workspace list) app" where
  "ws_list uid = list_for_user uid"

definition ws_get :: "(string \<Rightarrow> bool) \<Rightarrow> string \<Rightarrow> string \<Rightarrow> (db, workspace) app" where
  "ws_get is_uuid uid wid = andThen (uuid_pipe is_uuid wid) (\<lambda>_. get_for_user wid uid)"

record invite_dto =
  inv_email :: string
  inv_role :: role

text \<open>
  \<open>InviteDto\<close>: an e-mail address (the format test is class-validator's) of at most 254
  characters, a role of \<open>member\<close> or \<open>viewer\<close>.
\<close>

definition valid_invite :: "(string \<Rightarrow> bool) \<Rightarrow> invite_dto \<Rightarrow> bool" where
  "valid_invite is_email d \<longleftrightarrow>
     is_email (inv_email d) \<and> length (inv_email d) \<le> 254 \<and> inv_role d \<in> {Member, Viewer}"

definition ws_invite ::
  "(string \<Rightarrow> bool) \<Rightarrow> (string \<Rightarrow> bool) \<Rightarrow> string \<Rightarrow> int \<Rightarrow> string \<Rightarrow> string \<Rightarrow> invite_dto
     \<Rightarrow> (db, invite_result) app" where
  "ws_invite is_uuid is_email fresh now uid wid d =
     andThen (uuid_pipe is_uuid wid) (\<lambda>_.
     andThen (validation_pipe (valid_invite is_email d)) (\<lambda>_ s.
       case List.find (\<lambda>u. user_email u = inv_email d) (users s) of
         None \<Rightarrow> (Inr (UserNotFound (inv_email d)), s)
       | Some invitee \<Rightarrow>
           andThen (invite fresh now wid uid (user_id invitee) (inv_role d))
             (\<lambda>m. ok (Invited m)) s))"

section \<open>Roles as a function of the membership table\<close>

definition role_of :: "db \<Rightarrow> string \<Rightarrow> string \<Rightarrow> role option" where
  "role_of s w u =
     map_option mem_role
       (List.find (\<lambda>m. mem_workspaceId m = w \<and> mem_userId m = u) (members s))"

lemma resolve_role_eq [simp, app_simps]: "resolve_role w u s = (Inr (role_of s w u), s)"
  by (simp add: resolve_role_def role_of_def)

lemma require_role_eq [app_simps]:
  "require_role w u al s =
     (case role_of s w u of
        Some r \<Rightarrow> if r \<in> set al then (Inr r, s)
                  else (Inl (Forbidden ''insufficient role for this workspace''), s)
      | None \<Rightarrow> (Inl (Forbidden ''insufficient role for this workspace''), s))"
  by (simp add: require_role_def andThen_def split: option.splits)

lemma require_role_Inr [simp]:
  "answer (require_role w u al) s = Inr r \<longleftrightarrow> role_of s w u = Some r \<and> r \<in> set al"
  by (auto simp: require_role_eq split: option.splits)

lemma require_role_state [simp]: "after (require_role w u al) s = s"
  by (simp add: require_role_eq split: option.splits)

lemma reads_require_role [keeps_intros]: "reads (require_role w u al)"
  by (simp add: reads_def)

lemma can_activate_eq [app_simps]:
  "can_activate (Some u) (Some w) p s =
     (if w = [] then (Inl (Forbidden ''missing workspaceId param''), s)
      else case role_of s w u of
        None \<Rightarrow> (Inl (Forbidden ''not a member of this workspace''), s)
      | Some r \<Rightarrow> (Inr (w, r), s))"
  by (simp add: can_activate_def andThen_def Let_def split: option.splits)

lemma guarded_eq [app_simps]:
  "guarded u w h s =
     (if w = [] then (Inl (Forbidden ''missing workspaceId param''), s)
      else case role_of s w u of
        None \<Rightarrow> (Inl (Forbidden ''not a member of this workspace''), s)
      | Some r \<Rightarrow> h w s)"
  by (simp add: guarded_def andThen_def can_activate_eq split: option.splits)

lemma guarded_non_member:
  "role_of s w u = None \<Longrightarrow> after (guarded u w h) s = s"
  by (simp add: guarded_eq)

lemma keeps_guarded [keeps_intros]:
  "(\<And>w. keeps I (h w)) \<Longrightarrow> keeps I (guarded u w h)"
  by (auto simp: keeps_def guarded_eq split: option.splits)

lemma uuid_pipe_state [simp]: "after (uuid_pipe is_uuid p) s = s"
  by (simp add: uuid_pipe_def)

lemma uuid_pipe_Inr [simp]: "answer (uuid_pipe is_uuid p) s = Inr x \<longleftrightarrow> is_uuid p"
  by (simp add: uuid_pipe_def)

lemma keeps_uuid_pipe [keeps_intros]: "keeps I (uuid_pipe is_uuid p)"
  by (simp add: keeps_def)

lemma validation_pipe_state [simp]: "after (validation_pipe v) s = s"
  by (simp add: validation_pipe_def)

lemma validation_pipe_Inr [simp]: "answer (validation_pipe v) s = Inr x \<longleftrightarrow> v"
  by (simp add: validation_pipe_def)

lemma keeps_validation_pipe [keeps_intros]: "keeps I (validation_pipe v)"
  by (simp add: keeps_def)

lemma keeps_require_role [keeps_intros]: "keeps I (require_role w u al)"
  by (simp add: keeps_def)

section \<open>Membership table: unique pairs, at most one owner\<close>

definition members_unique :: "db \<Rightarrow> bool" where
  "members_unique s \<longleftrightarrow> distinct (map (\<lambda>m. (mem_workspaceId m, mem_userId m)) (members s))"

definition owners :: "db \<Rightarrow> string \<Rightarrow> string set" where
  "owners s w = {u. role_of s w u = Some Owner}"

lemma role_of_Some:
  "role_of s w u = Some r \<Longrightarrow>
     \<exists>m \<in> set (members s). mem_workspaceId m = w \<and> mem_userId m = u \<and> mem_role m = r"
  by (auto simp: role_of_def dest: find_SomeD)

lemma role_of_None:
  "role_of s w u = None \<longleftrightarrow> (\<forall>m \<in> set (members s). \<not> (mem_workspaceId m = w \<and> mem_userId m = u))"
  by (auto simp: role_of_def find_None)

lemma role_of_member:
  assumes "members_unique s" and "m \<in> set (members s)"
  shows "role_of s (mem_workspaceId m) (mem_userId m) = Some (mem_role m)"
proof -
  have "List.find (\<lambda>x. mem_workspaceId x = mem_workspaceId m \<and> mem_userId x = mem_userId m)
          (members s) = Some m"
    using assms
    by (intro find_unique_key [where key = "\<lambda>m. (mem_workspaceId m, mem_userId m)"])
       (auto simp: members_unique_def)
  then show ?thesis by (simp add: role_of_def)
qed

lemma find_append:
  "List.find P (xs @ ys) = (case List.find P xs of None \<Rightarrow> List.find P ys | Some x \<Rightarrow> Some x)"
  by (induction xs) auto

lemma find_update_where:
  assumes "\<And>x. P (f x) = P x"
  shows "List.find P (update_where Q f xs) =
         map_option (\<lambda>x. if Q x then f x else x) (List.find P xs)"
  using assms by (induction xs) (auto simp: update_where_def)

lemma role_of_members_cong: "members s = members t \<Longrightarrow> role_of s w u = role_of t w u"
  by (simp add: role_of_def)

lemma upsert_member_role:
  "role_of (after (upsert_member fresh now w u r) s) w' u' =
     (if w' = w \<and> u' = u then Some r else role_of s w' u')"
proof (cases "List.find (\<lambda>m. mem_workspaceId m = w \<and> mem_userId m = u) (members s)")
  case None
  then have after: "members (after (upsert_member fresh now w u r) s) = members s @
      [\<lparr>mem_id = fresh, mem_workspaceId = w, mem_userId = u, mem_role = r,
        mem_invitedAt = now, mem_joinedAt = None\<rparr>]"
    by (simp add: upsert_member_def Let_def)
  show ?thesis
    unfolding role_of_def after find_append using None by (auto split: option.splits)
next
  case (Some m)
  then have after: "members (after (upsert_member fresh now w u r) s) =
      update_where (\<lambda>m. mem_workspaceId m = w \<and> mem_userId m = u) (\<lambda>m. m\<lparr>mem_role := r\<rparr>) (members s)"
    by (simp add: upsert_member_def)
  have upd: "List.find (\<lambda>m. mem_workspaceId m = w' \<and> mem_userId m = u')
      (members (after (upsert_member fresh now w u r) s)) =
    map_option (\<lambda>m. if mem_workspaceId m = w \<and> mem_userId m = u then m\<lparr>mem_role := r\<rparr> else m)
      (List.find (\<lambda>m. mem_workspaceId m = w' \<and> mem_userId m = u') (members s))"
    unfolding after by (rule find_update_where) simp
  show ?thesis
  proof (cases "w' = w \<and> u' = u")
    case True
    with Some find_SomeD [OF Some] show ?thesis unfolding role_of_def upd by auto
  next
    case False
    then show ?thesis
      unfolding role_of_def upd
      by (cases "List.find (\<lambda>m. mem_workspaceId m = w' \<and> mem_userId m = u') (members s)")
         (auto dest!: find_SomeD)
  qed
qed

lemma upsert_member_answer: "\<exists>m. answer (upsert_member fresh now w u r) s = Inr m \<and>
    mem_workspaceId m = w \<and> mem_userId m = u \<and> mem_role m = r"
  by (auto simp: upsert_member_def Let_def dest: find_SomeD split: option.splits)

lemma upsert_member_frame [simp]:
  "users (after (upsert_member fresh now w u r) s) = users s"
  "workspaces (after (upsert_member fresh now w u r) s) = workspaces s"
  "api_keys (after (upsert_member fresh now w u r) s) = api_keys s"
  "dashboards (after (upsert_member fresh now w u r) s) = dashboards s"
  "widgets (after (upsert_member fresh now w u r) s) = widgets s"
  "alerts (after (upsert_member fresh now w u r) s) = alerts s"
  "alert_events (after (upsert_member fresh now w u r) s) = alert_events s"
  "share_links (after (upsert_member fresh now w u r) s) = share_links s"
  "pdf_jobs (after (upsert_member fresh now w u r) s) = pdf_jobs s"
  by (simp_all add: upsert_member_def Let_def split: option.splits)

lemma upsert_member_unique:
  "members_unique s \<Longrightarrow> members_unique (after (upsert_member fresh now w u r) s)"
  by (auto simp: upsert_member_def members_unique_def Let_def find_None split: option.splits)

lemma invite_eq [app_simps]:
  "invite fresh now w inviter invitee r s =
     (if role_of s w inviter = Some Owner then upsert_member fresh now w invitee r s
      else (Inl (Forbidden ''insufficient role for this workspace''), s))"
  by (auto simp: invite_def andThen_def require_role_eq split: option.splits)

lemma invite_keeps_unique: "keeps members_unique (invite fresh now w a b r)"
  by (auto simp: keeps_def invite_eq upsert_member_unique)

end
