(* ===== verification/ApiKeys.thy ===== *)
theory ApiKeys
  imports Workspaces
begin

text \<open>
  API keys of a workspace: \<open>api-keys.service.ts\<close> and \<open>api-keys.controller.ts\<close>. A key is
  minted from random bytes, only its argon2 hash and its 12-character prefix are stored, and
  it is revoked by a timestamp. The random source and argon2 are arguments: \<open>draw n\<close> is the
  base64url text of the \<open>n\<close>-th \<open>randomBytes(32)\<close> of the request, \<open>argon\<close> the hash function.
\<close>

section \<open>Service\<close>

record issued_key =
  ik_id :: string
  ik_prefix :: string
  ik_secret :: string
  ik_name :: string
  ik_scopes :: "string list"
  ik_createdAt :: int

text \<open>The columns \<open>list\<close> selects: everything but the hash.\<close>

record key_summary =
  ks_id :: string
  ks_name :: string
  ks_prefix :: string
  ks_scopes :: "string list"
  ks_lastUsedAt :: "int option"
  ks_createdAt :: int
  ks_revokedAt :: "int option"

definition generate_key :: "string \<Rightarrow> string \<times> string" where
  "generate_key random =
     (let full = ''ifk_live_'' @ random in (full, take 12 full))"

definition insert_key :: "api_key \<Rightarrow> db \<Rightarrow> db" where
  "insert_key k s = s\<lparr>api_keys := api_keys s @ [k]\<rparr>"

text \<open>
  The retry loop of \<open>issue\<close> over the attempts still to make: a prefix that is taken costs one
  attempt; after the third the request fails with an uncaught error.
\<close>

fun issue_attempts ::
  "(string \<Rightarrow> string) \<Rightarrow> string \<Rightarrow> int \<Rightarrow> string \<Rightarrow> string \<Rightarrow> string \<Rightarrow> string list \<Rightarrow> string list
     \<Rightarrow> (db, issued_key) app" where
  "issue_attempts argon fresh now wid uid name scopes [] s =
     (Inl (Crash ''failed to generate unique api key prefix''), s)"
| "issue_attempts argon fresh now wid uid name scopes (random # rest) s =
     (let (full, prefix) = generate_key random in
      case List.find (\<lambda>k. key_prefix k = prefix) (api_keys s) of
        Some _ \<Rightarrow> issue_attempts argon fresh now wid uid name scopes rest s
      | None \<Rightarrow>
          (Inr \<lparr>ik_id = fresh, ik_prefix = prefix, ik_secret = full, ik_name = name,
                ik_scopes = scopes, ik_createdAt = now\<rparr>,
           insert_key \<lparr>key_id = fresh, key_workspaceId = wid, key_createdById = uid,
                       key_name = name, key_prefix = prefix, key_hash = argon full,
                       key_scopes = scopes, key_lastUsedAt = None, key_createdAt = now,
                       key_revokedAt = None\<rparr> s))"

definition issue ::
  "(string \<Rightarrow> string) \<Rightarrow> (nat \<Rightarrow> string) \<Rightarrow> string \<Rightarrow> int \<Rightarrow> string \<Rightarrow> string \<Rightarrow> string
     \<Rightarrow> string list opt_field \<Rightarrow> (db, issued_key) app" where
  "issue argon draw fresh now wid uid name scopes =
     (case scopes of
        Undefined \<Rightarrow>
          issue_attempts argon fresh now wid uid name [''events:write''] (map draw [0..<3])
      | Val sc \<Rightarrow> issue_attempts argon fresh now wid uid name sc (map draw [0..<3])
      | Null \<Rightarrow> throw (Crash ''scopes must not be null''))"

definition summary :: "api_key \<Rightarrow> key_summary" where
  "summary k = \<lparr>ks_id = key_id k, ks_name = key_name k, ks_prefix = key_prefix k,
     ks_scopes = key_scopes k, ks_lastUsedAt = key_lastUsedAt k,
     ks_createdAt = key_createdAt k, ks_revokedAt = key_revokedAt k\<rparr>"

definition keys_list :: "string \<Rightarrow> (db, key_summary list) app" where
  "keys_list wid s =
     (Inr (map summary
        (order_desc key_createdAt (filter (\<lambda>k. key_workspaceId k = wid) (api_keys s)))), s)"

definition keys_find :: "string \<Rightarrow> string \<Rightarrow> (db, api_key) app" where
  "keys_find = scoped_find api_keys key_id key_workspaceId ''api key not found''"

definition keys_revoke :: "int \<Rightarrow> string \<Rightarrow> string \<Rightarrow> (db, api_key) app" where
  "keys_revoke now wid kid =
     andThen (keys_find wid kid) (\<lambda>rec s.
       if key_revokedAt rec \<noteq> None then (Inr rec, s)
       else (Inr (rec\<lparr>key_revokedAt := Some now\<rparr>),
             s\<lparr>api_keys := update_where (\<lambda>k. key_id k = kid)
                             (\<lambda>k. k\<lparr>key_revokedAt := Some now\<rparr>) (api_keys s)\<rparr>))"

section \<open>Controller\<close>

record create_key_dto =
  ck_name :: string
  ck_scopes :: "string list opt_field"

definition valid_create_key :: "create_key_dto \<Rightarrow> bool" where
  "valid_create_key d \<longleftrightarrow>
     1 \<le> length (ck_name d) \<and> length (ck_name d) \<le> 64 \<and>
     optional (\<lambda>sc. length sc \<le> 8) (ck_scopes d)"

definition keys_list_route ::
  "(string \<Rightarrow> bool) \<Rightarrow> string \<Rightarrow> string \<Rightarrow> (db, key_summary list) app" where
  "keys_list_route is_uuid uid wid =
     andThen (uuid_pipe is_uuid wid) (\<lambda>_.
     andThen (require_role wid uid [Owner, Member]) (\<lambda>_. keys_list wid))"

definition keys_create_route ::
  "(string \<Rightarrow> bool) \<Rightarrow> (string \<Rightarrow> string) \<Rightarrow> (nat \<Rightarrow> string) \<Rightarrow> string \<Rightarrow> int \<Rightarrow> string \<Rightarrow> string
     \<Rightarrow> create_key_dto \<Rightarrow> (db, issued_key \<times> string) app" where
  "keys_create_route is_uuid argon draw fresh now uid wid d =
     andThen (uuid_pipe is_uuid wid) (\<lambda>_.
     andThen (validation_pipe (valid_create_key d)) (\<lambda>_.
     andThen (require_role wid uid [Owner]) (\<lambda>_.
     andThen (issue argon draw fresh now wid uid (ck_name d) (ck_scopes d)) (\<lambda>issued.
       ok (issued, ''this secret will not be shown again -- store it securely now'')))))"

definition keys_revoke_route ::
  "(string \<Rightarrow> bool) \<Rightarrow> int \<Rightarrow> string \<Rightarrow> string \<Rightarrow> string \<Rightarrow> (db, api_key) app" where
  "keys_revoke_route is_uuid now uid wid kid =
     andThen (uuid_pipe is_uuid wid) (\<lambda>_.
     andThen (uuid_pipe is_uuid kid) (\<lambda>_.
     andThen (require_role wid uid [Owner]) (\<lambda>_. keys_revoke now wid kid)))"

interpretation keys: tenant_table api_keys key_id key_workspaceId keys_find
  unfolding keys_find_def by (rule scoped_find_tenant_table)

section \<open>Facts\<close>

text \<open>The dash of the warning text is written as two hyphens.\<close>

definition prefixes_unique :: "db \<Rightarrow> bool" where
  "prefixes_unique s \<longleftrightarrow> distinct (map key_prefix (api_keys s))"

lemma api_keys_insert_key [simp]: "api_keys (insert_key k s) = api_keys s @ [k]"
  by (simp add: insert_key_def)

lemma insert_key_frame [simp]:
  "users (insert_key k s) = users s" "workspaces (insert_key k s) = workspaces s"
  "members (insert_key k s) = members s" "dashboards (insert_key k s) = dashboards s"
  "widgets (insert_key k s) = widgets s" "alerts (insert_key k s) = alerts s"
  "alert_events (insert_key k s) = alert_events s"
  "share_links (insert_key k s) = share_links s" "pdf_jobs (insert_key k s) = pdf_jobs s"
  by (simp_all add: insert_key_def)

lemma generate_key_eq: "generate_key r = (''ifk_live_'' @ r, ''ifk_live_'' @ take 3 r)"
  by (simp add: generate_key_def)

lemma generate_key_prefix: "snd (generate_key r) = take 12 (fst (generate_key r))"
  by (simp add: generate_key_def)

text \<open>How the loop ends: a stored key with a fresh prefix, or every drawn prefix taken.\<close>

definition issued_from ::
  "(string \<Rightarrow> string) \<Rightarrow> string \<Rightarrow> string \<Rightarrow> string list \<Rightarrow> db \<Rightarrow> issued_key \<Rightarrow> api_key \<Rightarrow> bool" where
  "issued_from argon fresh w draws s ik k \<longleftrightarrow>
     (\<exists>r \<in> set draws. ik_secret ik = fst (generate_key r) \<and> ik_prefix ik = snd (generate_key r)) \<and>
     key_id k = fresh \<and> key_workspaceId k = w \<and> key_prefix k = ik_prefix ik \<and>
     key_hash k = argon (ik_secret ik) \<and> key_revokedAt k = None \<and>
     key_prefix k \<notin> key_prefix ` set (api_keys s)"

lemma issue_attempts_cases:
  "(\<exists>ik k. issue_attempts argon fresh now w u name sc draws s = (Inr ik, insert_key k s) \<and>
      issued_from argon fresh w draws s ik k) \<or>
   (issue_attempts argon fresh now w u name sc draws s =
      (Inl (Crash ''failed to generate unique api key prefix''), s) \<and>
      (\<forall>r \<in> set draws. snd (generate_key r) \<in> key_prefix ` set (api_keys s)))"
proof (induction draws)
  case Nil
  show ?case by simp
next
  case (Cons r rest)
  obtain full prefix where gen: "generate_key r = (full, prefix)" by fastforce
  show ?case
  proof (cases "List.find (\<lambda>k. key_prefix k = prefix) (api_keys s)")
    case None
    then have "prefix \<notin> key_prefix ` set (api_keys s)" by (auto simp: find_None)
    with None gen show ?thesis by (auto simp: issued_from_def)
  next
    case (Some k)
    then have taken: "prefix \<in> key_prefix ` set (api_keys s)"
      by (metis (mono_tags, lifting) find_SomeD image_eqI)
    have step: "issue_attempts argon fresh now w u name sc (r # rest) s =
        issue_attempts argon fresh now w u name sc rest s"
      using Some gen by simp
    have more: "issued_from argon fresh w rest s ik k \<Longrightarrow>
        issued_from argon fresh w (r # rest) s ik k" for ik k
      unfolding issued_from_def by (metis list.set_intros(2))
    from Cons.IH taken gen more show ?thesis unfolding step by fastforce
  qed
qed

lemma prefix_lookup: "List.find (\<lambda>k. key_prefix k = p) rows = None \<longleftrightarrow> p \<notin> key_prefix ` set rows"
  by (auto simp: find_None)

text \<open>The loop as a search for the first draw with a free prefix.\<close>

lemma issue_attempts_find:
  "issue_attempts argon fresh now w u name sc draws s =
     (case List.find (\<lambda>r. ''ifk_live_'' @ take 3 r \<notin> key_prefix ` set (api_keys s)) draws of
        None \<Rightarrow> (Inl (Crash ''failed to generate unique api key prefix''), s)
      | Some r \<Rightarrow>
          (Inr \<lparr>ik_id = fresh, ik_prefix = ''ifk_live_'' @ take 3 r, ik_secret = ''ifk_live_'' @ r, ik_name = name,
                ik_scopes = sc, ik_createdAt = now\<rparr>,
           s\<lparr>api_keys := api_keys s @
             [\<lparr>key_id = fresh, key_workspaceId = w, key_createdById = u, key_name = name,
               key_prefix = ''ifk_live_'' @ take 3 r, key_hash = argon (''ifk_live_'' @ r), key_scopes = sc,
               key_lastUsedAt = None, key_createdAt = now, key_revokedAt = None\<rparr>]\<rparr>))"
proof (induction draws)
  case (Cons r rest)
  show ?case
  proof (cases "''ifk_live_'' @ take 3 r \<in> key_prefix ` set (api_keys s)")
    case True
    then have "List.find (\<lambda>k. key_prefix k = ''ifk_live_'' @ take 3 r) (api_keys s) \<noteq> None"
      unfolding prefix_lookup by blast
    with True Cons.IH show ?thesis by (auto simp: generate_key_eq)
  next
    case False
    then have "List.find (\<lambda>k. key_prefix k = ''ifk_live_'' @ take 3 r) (api_keys s) = None"
      unfolding prefix_lookup .
    with False show ?thesis by (simp add: generate_key_eq insert_key_def)
  qed
qed simp

lemma issue_cases:
  obtains (issued) ik k where
      "issue argon draw fresh now w u name scopes s = (Inr ik, insert_key k s)"
      and "issued_from argon fresh w (map draw [0..<3]) s ik k"
  | (failed) e where "issue argon draw fresh now w u name scopes s = (Inl e, s)"
proof (cases scopes)
  case Undefined
  then show thesis
    using issue_attempts_cases [of argon fresh now w u name "[''events:write'']" "map draw [0..<3]" s]
      issued failed unfolding issue_def by fastforce
next
  case Null
  then show thesis using failed by (simp add: issue_def)
next
  case (Val sc)
  then show thesis
    using issue_attempts_cases [of argon fresh now w u name sc "map draw [0..<3]" s]
      issued failed unfolding issue_def by fastforce
qed

lemma issue_keeps_prefixes: "keeps prefixes_unique (issue argon draw fresh now w u name scopes)"
proof (rule keepsI)
  fix s assume "prefixes_unique s"
  then show "prefixes_unique (after (issue argon draw fresh now w u name scopes) s)"
    by (cases rule: issue_cases [of argon draw fresh now w u name scopes s])
       (auto simp: prefixes_unique_def issued_from_def image_iff)
qed

lemma keys_revoke_eq:
  "keys_revoke now w i s =
     (case answer (keys_find w i) s of
        Inl e \<Rightarrow> (Inl e, s)
      | Inr r \<Rightarrow>
          if key_revokedAt r \<noteq> None then (Inr r, s)
          else (Inr (r\<lparr>key_revokedAt := Some now\<rparr>),
                s\<lparr>api_keys := update_where (\<lambda>k. key_id k = i)
                                (\<lambda>k. k\<lparr>key_revokedAt := Some now\<rparr>) (api_keys s)\<rparr>))"
  by (auto simp: keys_revoke_def keys.andThen_lookup split: sum.splits)

text \<open>A key that is revoked keeps its timestamp through any further revocation.\<close>

lemma keys_revoke_permanent:
  assumes "keys.ids_unique s" and "k \<in> set (api_keys s)" and "key_revokedAt k = Some t"
  shows "k \<in> set (api_keys (after (keys_revoke now w i) s))"
proof (cases "answer (keys_find w i) s")
  case (Inl e)
  then show ?thesis using assms by (simp add: keys_revoke_eq)
next
  case (Inr r)
  show ?thesis
  proof (cases "key_id k = i")
    case True
    then have "k = r" using keys.only_row [OF assms(1) Inr assms(2)] by simp
    with Inr assms show ?thesis by (simp add: keys_revoke_eq)
  next
    case False
    then show ?thesis using Inr assms(2) by (auto simp: keys_revoke_eq set_update_where)
  qed
qed

lemma keys_revoke_ids: "map key_id (api_keys (after (keys_revoke now w i) s)) = map key_id (api_keys s)"
  by (auto simp: keys_revoke_eq split: sum.splits)

lemma keys_revoke_prefixes:
  "map key_prefix (api_keys (after (keys_revoke now w i) s)) = map key_prefix (api_keys s)"
  by (auto simp: keys_revoke_eq split: sum.splits)

section \<open>Properties\<close>

text \<open>
  Claim C23: issuing a key takes the first of three drawn keys whose 12-character prefix no stored key
  has, and stores exactly one new row for it: in the caller's workspace, with that prefix, with the
  argon2 hash of the whole secret in place of the secret, not revoked; the secret itself is in the
  answer only. It fails exactly when all three prefixes are taken (or the scopes are sent as
  \<open>null\<close>), and then nothing has changed.
\<close>

theorem issue_outcome:
  "let prefix = (\<lambda>r. ''ifk_live_'' @ take 3 r); taken = (\<lambda>r. prefix r \<in> key_prefix ` set (api_keys s));
       sc = (case scopes of Val sc \<Rightarrow> sc | _ \<Rightarrow> [''events:write''])
   in issue argon draw fresh now w u name scopes s =
     (case (scopes, List.find (\<lambda>r. \<not> taken r) [draw 0, draw 1, draw 2]) of
        (Null, _) \<Rightarrow> (Inl (Crash ''scopes must not be null''), s)
      | (_, None) \<Rightarrow> (Inl (Crash ''failed to generate unique api key prefix''), s)
      | (_, Some r) \<Rightarrow>
          (Inr \<lparr>ik_id = fresh, ik_prefix = prefix r, ik_secret = ''ifk_live_'' @ r, ik_name = name,
                ik_scopes = sc, ik_createdAt = now\<rparr>,
           s\<lparr>api_keys := api_keys s @
             [\<lparr>key_id = fresh, key_workspaceId = w, key_createdById = u, key_name = name, key_prefix = prefix r,
               key_hash = argon (''ifk_live_'' @ r), key_scopes = sc, key_lastUsedAt = None, key_createdAt = now,
               key_revokedAt = None\<rparr>]\<rparr>))"
proof -
  have "map draw [0..<3] = [draw 0, draw 1, draw 2]" by (simp add: numeral_3_eq_3 numeral_2_eq_2)
  then show ?thesis
    unfolding Let_def issue_def issue_attempts_find by (cases scopes) (simp_all split: option.split)
qed

text \<open>The first draw is taken by the key of the first request.\<close>

theorem issue_outcome_witness:
  "\<exists>t k1 k2. issue (\<lambda>x. ''h'' @ x) (\<lambda>n. ''abcdef'') ''id1'' 5 ''w'' ''u'' ''n'' Undefined empty_db =
       (Inr \<lparr>ik_id = ''id1'', ik_prefix = ''ifk_live_abc'', ik_secret = ''ifk_live_abcdef'', ik_name = ''n'',
          ik_scopes = [''events:write''], ik_createdAt = 5\<rparr>, t) \<and>
     api_keys (after (issue (\<lambda>x. ''h'' @ x) (\<lambda>n. nat_str n @ ''bcdef'') ''id2'' 6 ''w'' ''u'' ''n'' (Val []))
       (t\<lparr>api_keys := [(api_keys t ! 0)\<lparr>key_prefix := ''ifk_live_0bc''\<rparr>]\<rparr>)) = [k1, k2] \<and>
     key_prefix k2 = ''ifk_live_1bc'' \<and> key_hash k2 = ''hifk_live_1bcdef''"
proof -
  have digits: "nat_str 0 = ''0''" "nat_str (Suc 0) = ''1''" by code_simp+
  show ?thesis
    unfolding issue_outcome [unfolded Let_def] by (simp add: empty_db_def digits)
qed

text \<open>
  Claim C37: only three characters of the unique prefix are random. Over an alphabet of 64 the whole
  installation (every workspace, revoked keys included, for nothing removes a key) never holds more
  than 64 ^ 3 = 262144 keys, and once it holds that many every further request for a key fails,
  whatever is drawn, and changes nothing; the comment in the source speaks of 1 in 2 ^ 60.
\<close>

theorem keys_capacity:
  assumes "distinct (map key_prefix (api_keys s))" and "finite A" and "card A = 64"
    and "\<forall>k \<in> set (api_keys s). \<exists>r. set r \<subseteq> A \<and> length r = 43 \<and> key_prefix k = snd (generate_key r)"
  shows "length (api_keys s) \<le> 64 ^ 3 \<and>
    (length (api_keys s) = 64 ^ 3 \<longrightarrow> (\<forall>n. set (draw n) \<subseteq> A \<and> length (draw n) = 43) \<longrightarrow>
       (\<exists>e. issue argon draw fresh now w u name scopes s = (Inl e, s)))"
proof -
  let ?T = "{t. set t \<subseteq> A \<and> length t = 3}" and ?P = "key_prefix ` set (api_keys s)"
  let ?all = "(\<lambda>t. ''ifk_live_'' @ t) ` ?T"
  have prefix: "snd (generate_key r) \<in> ?all" if "set r \<subseteq> A" "length r = 43" for r
    using that set_take_subset [of 3 r] unfolding generate_key_eq snd_conv by (intro imageI) auto
  have used: "?P \<subseteq> ?all" using assms(4) prefix by fastforce
  have "card ?all = card ?T" by (intro card_image inj_onI) simp
  then have all: "finite ?all" "card ?all = 64 ^ 3"
    using card_lists_length_eq [OF assms(2), of 3] assms(2,3) by (simp_all add: finite_lists_length_eq)
  have len: "card ?P = length (api_keys s)" using distinct_card [OF assms(1)] by simp
  have "\<exists>e. issue argon draw fresh now w u name scopes s = (Inl e, s)"
    if "length (api_keys s) = 64 ^ 3" and draws: "\<forall>n. set (draw n) \<subseteq> A \<and> length (draw n) = 43"
  proof -
    have "?P = ?all" using card_subset_eq [OF all(1) used] that(1) all(2) len by simp
    moreover have "snd (generate_key (draw n)) \<in> ?all" for n
      using draws by (intro prefix) simp_all
    ultimately have "snd (generate_key (draw n)) \<in> ?P" for n by (simp only:)
    then have taken: "snd (generate_key r) \<in> ?P" if "r \<in> set (map draw [0..<3])" for r
      using that unfolding set_map by (elim imageE) (simp only:)
    show ?thesis
    proof (cases rule: issue_cases [of argon draw fresh now w u name scopes s])
      case (issued ik k)
      then obtain r where "r \<in> set (map draw [0..<3])" "key_prefix k = snd (generate_key r)" "key_prefix k \<notin> ?P"
        unfolding issued_from_def by metis
      with taken show ?thesis by metis
    next
      case (failed e)
      then show ?thesis by blast
    qed
  qed
  with card_mono [OF all(1) used] all(2) len show ?thesis by simp
qed

text \<open>An installation with every prefix over the URL-safe alphabet in use.\<close>

definition url_alphabet :: string where
  "url_alphabet = ''ABCDEFGHIJKLMNOPQRSTUVWXYZabcdefghijklmnopqrstuvwxyz0123456789-_''"

definition key_of :: "string \<Rightarrow> api_key" where
  "key_of t = \<lparr>key_id = t, key_workspaceId = ''w'', key_createdById = ''u'', key_name = ''n'',
     key_prefix = ''ifk_live_'' @ t, key_hash = [], key_scopes = [], key_lastUsedAt = None, key_createdAt = 0,
     key_revokedAt = Some 1\<rparr>"

definition full_db :: db where
  "full_db = empty_db\<lparr>api_keys := map key_of (List.n_lists 3 url_alphabet)\<rparr>"

theorem keys_capacity_witness:
  "length (api_keys full_db) = 64 ^ 3 \<and>
   (\<exists>e. issue (\<lambda>x. x) (\<lambda>n. replicate 43 (CHR ''Q'')) ''k'' 5 ''w2'' ''u2'' ''n'' Undefined full_db = (Inl e, full_db))"
proof -
  have url: "distinct url_alphabet" "length url_alphabet = 64" "CHR ''Q'' \<in> set url_alphabet"
    by (simp_all add: url_alphabet_def)
  have len: "length (api_keys full_db) = 64 ^ 3" by (simp add: full_db_def length_n_lists url(2))
  have "map key_prefix (api_keys full_db) = map (\<lambda>t. ''ifk_live_'' @ t) (List.n_lists 3 url_alphabet)"
    by (simp add: full_db_def key_of_def)
  then have "distinct (map key_prefix (api_keys full_db))"
    by (simp add: distinct_map distinct_n_lists [OF url(1)] inj_on_def)
  moreover have "card (set url_alphabet) = 64" using distinct_card [OF url(1)] url(2) by simp
  moreover have "\<exists>r. set r \<subseteq> set url_alphabet \<and> length r = 43 \<and> key_prefix k = snd (generate_key r)"
    if stored: "k \<in> set (api_keys full_db)" for k
  proof -
    obtain t where k: "k = key_of t" and t: "t \<in> set (List.n_lists 3 url_alphabet)"
      using stored by (auto simp: full_db_def)
    from t have "set t \<subseteq> set url_alphabet" "length t = 3" by (simp_all add: set_n_lists)
    moreover from k have "key_prefix k = ''ifk_live_'' @ t" by (simp add: key_of_def)
    ultimately show ?thesis
      using url(3) by (intro exI [of _ "t @ replicate 40 (CHR ''Q'')"]) (simp add: generate_key_eq)
  qed
  moreover have "set (replicate 43 (CHR ''Q'')) \<subseteq> set url_alphabet" using url(3) by simp
  ultimately show ?thesis
    using keys_capacity [where A = "set url_alphabet" and s = full_db and draw = "\<lambda>n. replicate 43 (CHR ''Q'')"] len
    by simp
qed

end
