(* ===== verification/Sample.thy ===== *)
theory Sample
  imports Store
begin

text \<open>
  A small concrete database for the witnesses: two workspaces \<open>w1\<close> and \<open>w2\<close> with their
  owners \<open>u1\<close> and \<open>u2\<close>, a viewer \<open>u3\<close> of \<open>w1\<close>, a dashboard in each workspace, a widget and an
  alert in \<open>w1\<close>.
\<close>

definition sample_user :: "string \<Rightarrow> string \<Rightarrow> user" where
  "sample_user i mail = \<lparr>user_id = i, user_email = mail, user_passwordHash = ''h'' @ i,
     user_displayName = None, user_emailVerified = False, user_createdAt = 0\<rparr>"

definition sample_ws :: "string \<Rightarrow> string \<Rightarrow> workspace" where
  "sample_ws i owner = \<lparr>ws_id = i, ws_name = i, ws_slug = i, ws_ownerId = owner, ws_createdAt = 0\<rparr>"

definition sample_member :: "string \<Rightarrow> string \<Rightarrow> string \<Rightarrow> role \<Rightarrow> member" where
  "sample_member i w u r = \<lparr>mem_id = i, mem_workspaceId = w, mem_userId = u, mem_role = r,
     mem_invitedAt = 0, mem_joinedAt = Some 0\<rparr>"

definition sample_dash :: "string \<Rightarrow> string \<Rightarrow> string \<Rightarrow> dashboard" where
  "sample_dash i w u = \<lparr>dash_id = i, dash_workspaceId = w, dash_createdById = u,
     dash_name = i, dash_description = None, dash_layoutJson = JArr [],
     dash_createdAt = 0, dash_updatedAt = 0\<rparr>"

definition sample_widget :: "string \<Rightarrow> string \<Rightarrow> widget" where
  "sample_widget i d = \<lparr>wid_id = i, wid_dashboardId = d, wid_type = Kpi, wid_title = i,
     wid_configJson = JObj [], wid_positionX = 0, wid_positionY = 0, wid_width = 4,
     wid_height = 3, wid_createdAt = 0, wid_updatedAt = 0\<rparr>"

definition sample_alert :: "string \<Rightarrow> string \<Rightarrow> alert" where
  "sample_alert i w = \<lparr>al_id = i, al_workspaceId = w, al_name = i, al_metric = ''mrr'',
     al_method = Zscore, al_thresholdParams = JObj [], al_channelsJson = JArr [],
     al_cooldownSeconds = 3600, al_enabled = True, al_lastFiredAt = None, al_createdAt = 0,
     al_updatedAt = 0\<rparr>"

definition sample_db :: db where
  "sample_db = \<lparr>users = [sample_user ''u1'' ''a@x'', sample_user ''u2'' ''b@x'', sample_user ''u3'' ''c@x''],
     workspaces = [sample_ws ''w1'' ''u1'', sample_ws ''w2'' ''u2''],
     members = [sample_member ''m1'' ''w1'' ''u1'' Owner, sample_member ''m2'' ''w2'' ''u2'' Owner,
                sample_member ''m3'' ''w1'' ''u3'' Viewer],
     api_keys = [],
     dashboards = [sample_dash ''d1'' ''w1'' ''u1'', sample_dash ''d2'' ''w2'' ''u2''],
     widgets = [sample_widget ''x1'' ''d1''],
     alerts = [sample_alert ''a1'' ''w1''], alert_events = [], share_links = [], pdf_jobs = []\<rparr>"

lemmas sample_defs = sample_db_def sample_user_def sample_ws_def sample_member_def
  sample_dash_def sample_widget_def sample_alert_def

end
