(* ===== verification/Dashboards.thy ===== *)
theory Dashboards
  imports Workspaces Sample
begin

text \<open>
  Dashboards and their widgets: \<open>dashboards.service.ts\<close>, \<open>widgets.service.ts\<close>, the two
  controllers and the DTOs. A dashboard belongs to a workspace, a widget to a dashboard;
  deleting a dashboard removes its widgets and its share links (\<open>onDelete: Cascade\<close>).
\<close>

section \<open>Request bodies\<close>

record create_dashboard_dto =
  cd_name :: string
  cd_description :: "string opt_field"

definition valid_create_dashboard :: "create_dashboard_dto \<Rightarrow> bool" where
  "valid_create_dashboard d \<longleftrightarrow>
     1 \<le> length (cd_name d) \<and> length (cd_name d) \<le> 120 \<and>
     optional (\<lambda>t. length t \<le> 500) (cd_description d)"

record update_dashboard_dto =
  ud_name :: "string opt_field"
  ud_description :: "string opt_field"
  ud_layout :: "json list opt_field"

definition valid_update_dashboard :: "update_dashboard_dto \<Rightarrow> bool" where
  "valid_update_dashboard d \<longleftrightarrow>
     optional (\<lambda>t. length t \<le> 120) (ud_name d) \<and>
     optional (\<lambda>t. length t \<le> 500) (ud_description d)"

record create_widget_dto =
  cw_type :: widget_type
  cw_title :: string
  cw_config :: "json opt_field"
  cw_positionX :: "int opt_field"
  cw_positionY :: "int opt_field"
  cw_width :: "int opt_field"
  cw_height :: "int opt_field"

definition in_range :: "int \<Rightarrow> int \<Rightarrow> int \<Rightarrow> bool" where
  "in_range lo hi n \<longleftrightarrow> lo \<le> n \<and> n \<le> hi"

fun is_object :: "json \<Rightarrow> bool" where
  "is_object (JObj _) = True"
| "is_object _ = False"

definition valid_create_widget :: "create_widget_dto \<Rightarrow> bool" where
  "valid_create_widget d \<longleftrightarrow>
     1 \<le> length (cw_title d) \<and> length (cw_title d) \<le> 120 \<and>
     optional is_object (cw_config d) \<and>
     optional (in_range 0 64) (cw_positionX d) \<and> optional (in_range 0 256) (cw_positionY d) \<and>
     optional (in_range 1 24) (cw_width d) \<and> optional (in_range 1 24) (cw_height d)"

record update_widget_dto =
  uw_title :: "string opt_field"
  uw_config :: "json opt_field"
  uw_positionX :: "int opt_field"
  uw_positionY :: "int opt_field"
  uw_width :: "int opt_field"
  uw_height :: "int opt_field"

definition valid_update_widget :: "update_widget_dto \<Rightarrow> bool" where
  "valid_update_widget d \<longleftrightarrow>
     optional (\<lambda>t. length t \<le> 120) (uw_title d) \<and> optional is_object (uw_config d) \<and>
     optional (in_range 0 64) (uw_positionX d) \<and> optional (in_range 0 256) (uw_positionY d) \<and>
     optional (in_range 1 24) (uw_width d) \<and> optional (in_range 1 24) (uw_height d)"

section \<open>Dashboards service\<close>

definition dash_list :: "string \<Rightarrow> (db, dashboard list) app" where
  "dash_list wid s =
     (Inr (order_desc dash_updatedAt
        (filter (\<lambda>d. dash_workspaceId d = wid) (dashboards s))), s)"

definition dash_find :: "string \<Rightarrow> string \<Rightarrow> (db, dashboard) app" where
  "dash_find = scoped_find dashboards dash_id dash_workspaceId ''dashboard not found''"

definition dash_widgets :: "string \<Rightarrow> db \<Rightarrow> widget list" where
  "dash_widgets did s =
     order_asc wid_createdAt (filter (\<lambda>x. wid_dashboardId x = did) (widgets s))"

definition dash_get :: "string \<Rightarrow> string \<Rightarrow> (db, dashboard \<times> widget list) app" where
  "dash_get wid did =
     andThen (dash_find wid did) (\<lambda>d s. (Inr (d, dash_widgets (dash_id d) s), s))"

definition dash_create ::
  "string \<Rightarrow> int \<Rightarrow> string \<Rightarrow> string \<Rightarrow> create_dashboard_dto \<Rightarrow> (db, dashboard) app" where
  "dash_create fresh now wid uid dto s =
     (let d = \<lparr>dash_id = fresh, dash_workspaceId = wid, dash_createdById = uid,
               dash_name = cd_name dto, dash_description = write_nullable (cd_description dto) None,
               dash_layoutJson = JArr [], dash_createdAt = now, dash_updatedAt = now\<rparr>
      in (Inr d, s\<lparr>dashboards := dashboards s @ [d]\<rparr>))"

definition dash_changes :: "int \<Rightarrow> update_dashboard_dto \<Rightarrow> dashboard \<Rightarrow> dashboard" where
  "dash_changes now dto d =
     d\<lparr>dash_name := write_field (ud_name dto) (dash_name d),
       dash_description := write_nullable (ud_description dto) (dash_description d),
       dash_layoutJson := (case ud_layout dto of Val l \<Rightarrow> JArr l | _ \<Rightarrow> dash_layoutJson d),
       dash_updatedAt := now\<rparr>"

text \<open>
  The client refuses \<open>null\<close> for the two required columns before anything is written.
\<close>

definition dash_update ::
  "int \<Rightarrow> string \<Rightarrow> string \<Rightarrow> update_dashboard_dto \<Rightarrow> (db, dashboard) app" where
  "dash_update now wid did dto =
     andThen (dash_find wid did) (\<lambda>existing s.
       if is_null (ud_name dto) \<or> is_null (ud_layout dto)
       then (Inl (Crash ''Argument must not be null''), s)
       else (Inr (dash_changes now dto existing),
             s\<lparr>dashboards := update_where (\<lambda>d. dash_id d = did) (dash_changes now dto)
                               (dashboards s)\<rparr>))"

definition dash_delete :: "string \<Rightarrow> string \<Rightarrow> (db, string \<times> bool) app" where
  "dash_delete wid did =
     andThen (dash_find wid did) (\<lambda>existing s.
       (Inr (did, True),
        s\<lparr>dashboards := delete_where (\<lambda>d. dash_id d = did) (dashboards s),
          widgets := delete_where (\<lambda>x. wid_dashboardId x = did) (widgets s),
          share_links := delete_where (\<lambda>l. sl_dashboardId l = did) (share_links s)\<rparr>))"

section \<open>Widgets service\<close>

definition assert_dashboard_in_workspace :: "string \<Rightarrow> string \<Rightarrow> (db, unit) app" where
  "assert_dashboard_in_workspace wid did = andThen (dash_find wid did) (\<lambda>_. ok ())"

definition widget_create ::
  "string \<Rightarrow> int \<Rightarrow> string \<Rightarrow> string \<Rightarrow> create_widget_dto \<Rightarrow> (db, widget) app" where
  "widget_create fresh now wid did dto =
     andThen (assert_dashboard_in_workspace wid did) (\<lambda>_ s.
       (let x = \<lparr>wid_id = fresh, wid_dashboardId = did, wid_type = cw_type dto,
                 wid_title = cw_title dto, wid_configJson = nullish (cw_config dto) (JObj []),
                 wid_positionX = nullish (cw_positionX dto) 0,
                 wid_positionY = nullish (cw_positionY dto) 0,
                 wid_width = nullish (cw_width dto) 4, wid_height = nullish (cw_height dto) 3,
                 wid_createdAt = now, wid_updatedAt = now\<rparr>
        in (Inr x, s\<lparr>widgets := widgets s @ [x]\<rparr>)))"

definition widget_find :: "string \<Rightarrow> string \<Rightarrow> (db, widget) app" where
  "widget_find = scoped_find widgets wid_id wid_dashboardId ''widget not found''"

definition widget_changes :: "int \<Rightarrow> update_widget_dto \<Rightarrow> widget \<Rightarrow> widget" where
  "widget_changes now dto x =
     x\<lparr>wid_title := write_field (uw_title dto) (wid_title x),
       wid_configJson := write_field (uw_config dto) (wid_configJson x),
       wid_positionX := write_field (uw_positionX dto) (wid_positionX x),
       wid_positionY := write_field (uw_positionY dto) (wid_positionY x),
       wid_width := write_field (uw_width dto) (wid_width x),
       wid_height := write_field (uw_height dto) (wid_height x),
       wid_updatedAt := now\<rparr>"

definition widget_has_null :: "update_widget_dto \<Rightarrow> bool" where
  "widget_has_null dto \<longleftrightarrow>
     is_null (uw_title dto) \<or> is_null (uw_config dto) \<or> is_null (uw_positionX dto) \<or>
     is_null (uw_positionY dto) \<or> is_null (uw_width dto) \<or> is_null (uw_height dto)"

definition widget_update ::
  "int \<Rightarrow> string \<Rightarrow> string \<Rightarrow> string \<Rightarrow> update_widget_dto \<Rightarrow> (db, widget) app" where
  "widget_update now wid did xid dto =
     andThen (assert_dashboard_in_workspace wid did) (\<lambda>_.
     andThen (widget_find did xid) (\<lambda>existing s.
       if widget_has_null dto then (Inl (Crash ''Argument must not be null''), s)
       else (Inr (widget_changes now dto existing),
             s\<lparr>widgets := update_where (\<lambda>x. wid_id x = xid) (widget_changes now dto) (widgets s)\<rparr>)))"

definition widget_delete :: "string \<Rightarrow> string \<Rightarrow> string \<Rightarrow> (db, string \<times> bool) app" where
  "widget_delete wid did xid =
     andThen (assert_dashboard_in_workspace wid did) (\<lambda>_.
     andThen (widget_find did xid) (\<lambda>existing s.
       (Inr (xid, True), s\<lparr>widgets := delete_where (\<lambda>x. wid_id x = xid) (widgets s)\<rparr>)))"

section \<open>Controllers\<close>

definition dash_list_route :: "string \<Rightarrow> string \<Rightarrow> (db, dashboard list) app" where
  "dash_list_route uid p = guarded uid p dash_list"

definition dash_get_route ::
  "(string \<Rightarrow> bool) \<Rightarrow> string \<Rightarrow> string \<Rightarrow> string \<Rightarrow> (db, dashboard \<times> widget list) app" where
  "dash_get_route is_uuid uid p did =
     guarded uid p (\<lambda>w. andThen (uuid_pipe is_uuid did) (\<lambda>_. dash_get w did))"

definition dash_create_route ::
  "string \<Rightarrow> int \<Rightarrow> string \<Rightarrow> string \<Rightarrow> create_dashboard_dto \<Rightarrow> (db, dashboard) app" where
  "dash_create_route fresh now uid p dto =
     guarded uid p (\<lambda>w. andThen (validation_pipe (valid_create_dashboard dto)) (\<lambda>_.
       andThen (require_role w uid [Owner, Member]) (\<lambda>_. dash_create fresh now w uid dto)))"

definition dash_update_route ::
  "(string \<Rightarrow> bool) \<Rightarrow> int \<Rightarrow> string \<Rightarrow> string \<Rightarrow> string \<Rightarrow> update_dashboard_dto
     \<Rightarrow> (db, dashboard) app" where
  "dash_update_route is_uuid now uid p did dto =
     guarded uid p (\<lambda>w. andThen (uuid_pipe is_uuid did) (\<lambda>_.
       andThen (validation_pipe (valid_update_dashboard dto)) (\<lambda>_.
       andThen (require_role w uid [Owner, Member]) (\<lambda>_. dash_update now w did dto))))"

definition dash_delete_route ::
  "(string \<Rightarrow> bool) \<Rightarrow> string \<Rightarrow> string \<Rightarrow> string \<Rightarrow> (db, string \<times> bool) app" where
  "dash_delete_route is_uuid uid p did =
     guarded uid p (\<lambda>w. andThen (uuid_pipe is_uuid did) (\<lambda>_.
       andThen (require_role w uid [Owner]) (\<lambda>_. dash_delete w did)))"

definition widget_create_route ::
  "(string \<Rightarrow> bool) \<Rightarrow> string \<Rightarrow> int \<Rightarrow> string \<Rightarrow> string \<Rightarrow> string \<Rightarrow> create_widget_dto
     \<Rightarrow> (db, widget) app" where
  "widget_create_route is_uuid fresh now uid p did dto =
     guarded uid p (\<lambda>w. andThen (uuid_pipe is_uuid did) (\<lambda>_.
       andThen (validation_pipe (valid_create_widget dto)) (\<lambda>_.
       andThen (require_role w uid [Owner, Member]) (\<lambda>_. widget_create fresh now w did dto))))"

definition widget_update_route ::
  "(string \<Rightarrow> bool) \<Rightarrow> int \<Rightarrow> string \<Rightarrow> string \<Rightarrow> string \<Rightarrow> string \<Rightarrow> update_widget_dto
     \<Rightarrow> (db, widget) app" where
  "widget_update_route is_uuid now uid p did xid dto =
     guarded uid p (\<lambda>w. andThen (uuid_pipe is_uuid did) (\<lambda>_.
       andThen (uuid_pipe is_uuid xid) (\<lambda>_.
       andThen (validation_pipe (valid_update_widget dto)) (\<lambda>_.
       andThen (require_role w uid [Owner, Member]) (\<lambda>_. widget_update now w did xid dto)))))"

definition widget_delete_route ::
  "(string \<Rightarrow> bool) \<Rightarrow> string \<Rightarrow> string \<Rightarrow> string \<Rightarrow> string \<Rightarrow> (db, string \<times> bool) app" where
  "widget_delete_route is_uuid uid p did xid =
     guarded uid p (\<lambda>w. andThen (uuid_pipe is_uuid did) (\<lambda>_.
       andThen (uuid_pipe is_uuid xid) (\<lambda>_.
       andThen (require_role w uid [Owner, Member]) (\<lambda>_. widget_delete w did xid))))"

interpretation dash: tenant_table dashboards dash_id dash_workspaceId dash_find
  unfolding dash_find_def by (rule scoped_find_tenant_table)

interpretation widget: tenant_table widgets wid_id wid_dashboardId widget_find
  unfolding widget_find_def by (rule scoped_find_tenant_table)

section \<open>Facts\<close>

lemma dash_find_eq:
  "answer (dash_find w i) s =
     (case List.find (\<lambda>d. dash_id d = i \<and> dash_workspaceId d = w) (dashboards s) of
        None \<Rightarrow> Inl (NotFound ''dashboard not found'') | Some d \<Rightarrow> Inr d)"
  by (simp add: dash_find_def scoped_find_def split: option.splits)

lemma dash_get_eq:
  "dash_get w i s =
     (case answer (dash_find w i) s of
        Inl e \<Rightarrow> (Inl e, s) | Inr d \<Rightarrow> (Inr (d, dash_widgets (dash_id d) s), s))"
  by (simp add: dash_get_def dash.andThen_lookup)

lemma dash_update_eq:
  "dash_update now w i dto s =
     (case answer (dash_find w i) s of
        Inl e \<Rightarrow> (Inl e, s)
      | Inr d \<Rightarrow>
          if is_null (ud_name dto) \<or> is_null (ud_layout dto)
          then (Inl (Crash ''Argument must not be null''), s)
          else (Inr (dash_changes now dto d),
                s\<lparr>dashboards := update_where (\<lambda>d. dash_id d = i) (dash_changes now dto)
                                  (dashboards s)\<rparr>))"
  by (simp add: dash_update_def dash.andThen_lookup)

lemma dash_delete_eq:
  "dash_delete w i s =
     (case answer (dash_find w i) s of
        Inl e \<Rightarrow> (Inl e, s)
      | Inr d \<Rightarrow>
          (Inr (i, True),
           s\<lparr>dashboards := delete_where (\<lambda>d. dash_id d = i) (dashboards s),
             widgets := delete_where (\<lambda>x. wid_dashboardId x = i) (widgets s),
             share_links := delete_where (\<lambda>l. sl_dashboardId l = i) (share_links s)\<rparr>))"
  by (simp add: dash_delete_def dash.andThen_lookup)

lemma assert_dashboard_eq:
  "assert_dashboard_in_workspace w i s =
     (case answer (dash_find w i) s of Inl e \<Rightarrow> (Inl e, s) | Inr d \<Rightarrow> (Inr (), s))"
  by (simp add: assert_dashboard_in_workspace_def dash.andThen_lookup
      split: sum.split)

lemma andThen_assert_dashboard:
  "andThen (assert_dashboard_in_workspace w i) k s =
     (case answer (dash_find w i) s of Inl e \<Rightarrow> (Inl e, s) | Inr d \<Rightarrow> k () s)"
  by (simp add: andThen_def assert_dashboard_eq split: sum.splits)

definition new_widget :: "string \<Rightarrow> int \<Rightarrow> string \<Rightarrow> create_widget_dto \<Rightarrow> widget" where
  "new_widget fresh now did dto =
     \<lparr>wid_id = fresh, wid_dashboardId = did, wid_type = cw_type dto,
      wid_title = cw_title dto, wid_configJson = nullish (cw_config dto) (JObj []),
      wid_positionX = nullish (cw_positionX dto) 0, wid_positionY = nullish (cw_positionY dto) 0,
      wid_width = nullish (cw_width dto) 4, wid_height = nullish (cw_height dto) 3,
      wid_createdAt = now, wid_updatedAt = now\<rparr>"

lemma widget_create_eq:
  "widget_create fresh now w did dto s =
     (case answer (dash_find w did) s of
        Inl e \<Rightarrow> (Inl e, s)
      | Inr d \<Rightarrow> (Inr (new_widget fresh now did dto),
                  s\<lparr>widgets := widgets s @ [new_widget fresh now did dto]\<rparr>))"
  by (simp add: widget_create_def andThen_assert_dashboard new_widget_def Let_def
      split: sum.split)

lemma widget_update_eq:
  "widget_update now w did xid dto s =
     (case answer (dash_find w did) s of
        Inl e \<Rightarrow> (Inl e, s)
      | Inr d \<Rightarrow>
         (case answer (widget_find did xid) s of
            Inl e \<Rightarrow> (Inl e, s)
          | Inr x \<Rightarrow>
              if widget_has_null dto then (Inl (Crash ''Argument must not be null''), s)
              else (Inr (widget_changes now dto x),
                    s\<lparr>widgets := update_where (\<lambda>x. wid_id x = xid) (widget_changes now dto)
                                   (widgets s)\<rparr>)))"
  by (simp add: widget_update_def andThen_assert_dashboard widget.andThen_lookup
      split: sum.split)

lemma widget_delete_eq:
  "widget_delete w did xid s =
     (case answer (dash_find w did) s of
        Inl e \<Rightarrow> (Inl e, s)
      | Inr d \<Rightarrow>
         (case answer (widget_find did xid) s of
            Inl e \<Rightarrow> (Inl e, s)
          | Inr x \<Rightarrow> (Inr (xid, True),
                      s\<lparr>widgets := delete_where (\<lambda>x. wid_id x = xid) (widgets s)\<rparr>)))"
  by (simp add: widget_delete_def andThen_assert_dashboard widget.andThen_lookup
      split: sum.split)

lemmas dashboard_service_eqs =
  dash_get_eq dash_update_eq dash_delete_eq widget_create_eq widget_update_eq widget_delete_eq

lemma dash_changes_keys [simp]:
  "dash_id (dash_changes now dto d) = dash_id d"
  "dash_workspaceId (dash_changes now dto d) = dash_workspaceId d"
  "dash_createdById (dash_changes now dto d) = dash_createdById d"
  by (simp_all add: dash_changes_def)

lemma widget_changes_keys [simp]:
  "wid_id (widget_changes now dto x) = wid_id x"
  "wid_dashboardId (widget_changes now dto x) = wid_dashboardId x"
  by (simp_all add: widget_changes_def)

lemma new_widget_keys [simp]:
  "wid_id (new_widget fresh now did dto) = fresh"
  "wid_dashboardId (new_widget fresh now did dto) = did"
  by (simp_all add: new_widget_def)

section \<open>The widget grid\<close>

text \<open>
  What the DTO bounds say about a stored widget: the position lies in the 65 by 257 grid and
  the size is 1 to 24 cells, whichever requests created and edited it.
\<close>

definition widget_in_grid :: "widget \<Rightarrow> bool" where
  "widget_in_grid x \<longleftrightarrow>
     in_range 0 64 (wid_positionX x) \<and> in_range 0 256 (wid_positionY x) \<and>
     in_range 1 24 (wid_width x) \<and> in_range 1 24 (wid_height x) \<and>
     length (wid_title x) \<le> 120 \<and> is_object (wid_configJson x)"

definition grid_ok :: "db \<Rightarrow> bool" where
  "grid_ok s \<longleftrightarrow> list_all widget_in_grid (widgets s)"

lemma in_range_defaults [simp]:
  "in_range 0 64 0" "in_range 0 256 0" "in_range 1 24 4" "in_range 1 24 3"
  by (simp_all add: in_range_def)

lemma new_widget_in_grid:
  "valid_create_widget dto \<Longrightarrow> widget_in_grid (new_widget fresh now did dto)"
  by (simp add: valid_create_widget_def widget_in_grid_def new_widget_def nullish_in)

lemma widget_changes_in_grid:
  "valid_update_widget dto \<Longrightarrow> widget_in_grid x \<Longrightarrow> widget_in_grid (widget_changes now dto x)"
  by (simp add: valid_update_widget_def widget_in_grid_def widget_changes_def
      write_field_in write_field_in [where P = "\<lambda>t. length t \<le> 120"])

lemma list_all_update_where:
  "list_all P xs \<Longrightarrow> (\<And>x. P x \<Longrightarrow> P (f x)) \<Longrightarrow> list_all P (update_where Q f xs)"
  by (induction xs) (auto simp: update_where_def)

lemma list_all_delete_where: "list_all P xs \<Longrightarrow> list_all P (delete_where Q xs)"
  by (induction xs) (auto simp: delete_where_def)

lemma validated:
  assumes "v \<Longrightarrow> keeps I m" shows "keeps I (andThen (validation_pipe v) (\<lambda>_. m))"
  using assms by (auto simp: keeps_def after_andThen validation_pipe_def)

lemma keeps_widget_create:
  "valid_create_widget dto \<Longrightarrow> keeps grid_ok (widget_create fresh now w did dto)"
  by (auto simp: keeps_def grid_ok_def widget_create_eq new_widget_in_grid split: sum.split)

lemma keeps_widget_update:
  "valid_update_widget dto \<Longrightarrow> keeps grid_ok (widget_update now w did xid dto)"
  by (auto simp: keeps_def grid_ok_def widget_update_eq widget_changes_in_grid
      intro: list_all_update_where split: sum.split)

lemma keeps_widget_delete: "keeps grid_ok (widget_delete w did xid)"
  by (auto simp: keeps_def grid_ok_def widget_delete_eq list_all_delete_where split: sum.split)

lemma keeps_dash_delete: "keeps grid_ok (dash_delete w did)"
  by (auto simp: keeps_def grid_ok_def dash_delete_eq list_all_delete_where split: sum.split)

section \<open>Properties\<close>

text \<open>
  Claim C22: whatever body a client sends, every route that writes widgets keeps every stored
  widget inside the grid of the DTO bounds: position 0..64 by 0..256, width and height 1..24,
  a title of at most 120 characters and an object as configuration.
\<close>

theorem widget_grid_invariant:
  "keeps grid_ok (widget_create_route is_uuid fresh now uid p did c) \<and>
   keeps grid_ok (widget_update_route is_uuid now uid p did xid u) \<and>
   keeps grid_ok (widget_delete_route is_uuid uid p did xid) \<and>
   keeps grid_ok (dash_delete_route is_uuid uid p did)"
  unfolding widget_create_route_def widget_update_route_def widget_delete_route_def
    dash_delete_route_def
  by (intro conjI keeps_guarded keeps_andThen [OF keeps_uuid_pipe] validated
      keeps_andThen [OF keeps_require_role] keeps_widget_create keeps_widget_update
      keeps_widget_delete keeps_dash_delete)

text \<open>
  Deleting a dashboard of the workspace answers \<open>{ id, deleted: true }\<close>, and then
  the dashboard is gone (the next \<open>get\<close> is a 404), no widget and no share link of it is left,
  and every other dashboard, widget and share link is still there.
\<close>

theorem dash_delete_cascades:
  assumes "d \<in> set (dashboards s)" and "dash_workspaceId d = w" and "dash_id d = i"
  shows "let (a, t) = dash_delete w i s in
     a = Inr (i, True) \<and>
     answer (dash_get w i) t = Inl (NotFound ''dashboard not found'') \<and>
     set (dashboards t) = {d \<in> set (dashboards s). dash_id d \<noteq> i} \<and>
     set (widgets t) = {x \<in> set (widgets s). wid_dashboardId x \<noteq> i} \<and>
     set (share_links t) = {l \<in> set (share_links s). sl_dashboardId l \<noteq> i}"
proof -
  obtain d' where found: "answer (dash_find w i) s = Inr d'"
    using dash.lookup_complete assms by blast
  have gone: "List.find (\<lambda>d. dash_id d = i \<and> dash_workspaceId d = w)
      (delete_where (\<lambda>d. dash_id d = i) (dashboards s)) = None"
    by (auto simp: find_None)
  have "answer (dash_find w i) (after (dash_delete w i) s) = Inl (NotFound ''dashboard not found'')"
    by (simp add: dash_delete_eq found) (simp add: dash_find_eq gone)
  then have "answer (dash_get w i) (after (dash_delete w i) s) = Inl (NotFound ''dashboard not found'')"
    by (simp add: dash_get_eq)
  then show ?thesis by (simp add: dash_delete_eq found)
qed

theorem dash_delete_cascades_witness:
  "answer (dash_get ''w1'' ''d1'') (after (dash_delete ''w1'' ''d1'') sample_db) =
     Inl (NotFound ''dashboard not found'')"
  using dash_delete_cascades [of "sample_dash ''d1'' ''w1'' ''u1''" sample_db "''w1''" "''d1''"]
  by (simp add: sample_defs Let_def split: prod.splits)

text \<open>
  A dashboard that \<open>create\<close> answered is the one \<open>get\<close> reads back, with no widgets,
  under the same workspace and only under it.
\<close>

theorem dash_create_get:
  assumes "fresh \<notin> dash_id ` set (dashboards s)"
    and "fresh \<notin> wid_dashboardId ` set (widgets s)"
    and "dash_create fresh now w uid dto s = (Inr d, t)"
  shows "dash_get w' (dash_id d) t =
     (if w' = w then (Inr (d, []), t) else (Inl (NotFound ''dashboard not found''), t))"
proof -
  have t: "t = s\<lparr>dashboards := dashboards s @ [d]\<rparr>" and d: "dash_id d = fresh"
    "dash_workspaceId d = w"
    using assms(3) by (auto simp: dash_create_def Let_def)
  have none: "List.find (\<lambda>x. dash_id x = fresh \<and> dash_workspaceId x = v) (dashboards s) = None" for v
    using assms(1) by (auto simp: find_None)
  have "filter (\<lambda>x. wid_dashboardId x = fresh) (widgets t) = []"
    using assms(2) by (auto simp: t filter_empty_conv)
  then have "dash_widgets fresh t = []" by (simp add: dash_widgets_def order_asc_def)
  then show ?thesis
    using d by (auto simp: dash_get_eq dash_find_eq find_append none t)
qed

theorem dash_create_get_witness:
  "\<exists>d t. dash_create ''d9'' 7 ''w1'' ''u1'' \<lparr>cd_name = ''Sales'', cd_description = Undefined\<rparr> sample_db
        = (Inr d, t) \<and> dash_get ''w1'' ''d9'' t = (Inr (d, []), t) \<and>
     answer (dash_get ''w2'' ''d9'') t = Inl (NotFound ''dashboard not found'')"
proof -
  let ?dto = "\<lparr>cd_name = ''Sales'', cd_description = Undefined :: string opt_field\<rparr>"
  obtain d t where c: "dash_create ''d9'' 7 ''w1'' ''u1'' ?dto sample_db = (Inr d, t)"
    and i: "dash_id d = ''d9''"
    by (simp add: dash_create_def Let_def)
  have "''d9'' \<notin> dash_id ` set (dashboards sample_db)"
    and "''d9'' \<notin> wid_dashboardId ` set (widgets sample_db)"
    by (simp_all add: sample_defs)
  note get = dash_create_get [OF this c]
  show ?thesis using c i get [of "''w1''"] get [of "''w2''"] by auto
qed

text \<open>
  A PATCH of a dashboard of the workspace changes exactly the fields the body
  carries: an absent field keeps its value, \<open>null\<close> clears the description and is refused with
  no effect for the name and the layout.
\<close>

theorem dash_update_fields:
  assumes "dash.ids_unique s" and "d \<in> set (dashboards s)" and "dash_workspaceId d = w"
    and "dash_id d = i"
  shows "dash_update now w i dto s =
     (if is_null (ud_name dto) \<or> is_null (ud_layout dto)
      then (Inl (Crash ''Argument must not be null''), s)
      else let d' = d\<lparr>
               dash_name := (case ud_name dto of Val n \<Rightarrow> n | _ \<Rightarrow> dash_name d),
               dash_description := (case ud_description dto of Val t \<Rightarrow> Some t
                   | Null \<Rightarrow> None | Undefined \<Rightarrow> dash_description d),
               dash_layoutJson := (case ud_layout dto of Val l \<Rightarrow> JArr l | _ \<Rightarrow> dash_layoutJson d),
               dash_updatedAt := now\<rparr>
           in (Inr d', s\<lparr>dashboards := map (\<lambda>x. if x = d then d' else x) (dashboards s)\<rparr>))"
proof -
  have "dash_find w i s = (Inr d, s)" using dash.lookup_eq assms by blast
  then have found: "answer (dash_find w i) s = Inr d" by simp
  have "(dash_id x = i) = (x = d)" if "x \<in> set (dashboards s)" for x
    using dash.only_row [OF assms(1) found that] assms(4) by auto
  then have upd: "update_where (\<lambda>d. dash_id d = i) f (dashboards s) =
      map (\<lambda>x. if x = d then f d else x) (dashboards s)" for f
    by (auto simp: update_where_def)
  have "dash_changes now dto d = d\<lparr>
               dash_name := (case ud_name dto of Val n \<Rightarrow> n | _ \<Rightarrow> dash_name d),
               dash_description := (case ud_description dto of Val t \<Rightarrow> Some t
                   | Null \<Rightarrow> None | Undefined \<Rightarrow> dash_description d),
               dash_layoutJson := (case ud_layout dto of Val l \<Rightarrow> JArr l | _ \<Rightarrow> dash_layoutJson d),
               dash_updatedAt := now\<rparr>"
    by (cases "ud_name dto"; cases "ud_description dto") (simp_all add: dash_changes_def)
  then show ?thesis by (simp add: dash_update_eq found upd Let_def)
qed

theorem dash_update_fields_witness:
  "\<exists>t. dash_update 9 ''w1'' ''d1''
        \<lparr>ud_name = Val ''New'', ud_description = Null, ud_layout = Undefined\<rparr> sample_db =
     (Inr ((sample_dash ''d1'' ''w1'' ''u1'')\<lparr>dash_name := ''New'', dash_updatedAt := 9\<rparr>), t)"
proof -
  have "dash.ids_unique sample_db" and "sample_dash ''d1'' ''w1'' ''u1'' \<in> set (dashboards sample_db)"
    by (simp_all add: dash.ids_unique_def sample_defs)
  from dash_update_fields [OF this, of "''w1''" "''d1''" 9
      "\<lparr>ud_name = Val ''New'', ud_description = Null, ud_layout = Undefined\<rparr>"]
  show ?thesis by (simp add: Let_def sample_dash_def)
qed

end
