(* ===== verification/Base64Url.thy ===== *)
theory Base64Url
  imports JsText "HOL-Library.Word"
begin

unbundle bit_operations_syntax

text \<open>
  The two codecs of \<open>share.service.ts\<close> around Node's \<open>Buffer\<close>: bytes are 8-bit words, a
  base64 digit is a 6-bit word. \<open>Buffer.from(s, 'base64')\<close> accepts both alphabets and skips
  every other character, as Node documents it.
\<close>

type_synonym byte = "8 word"
type_synonym sextet = "6 word"

section \<open>Digits\<close>

definition alphabet :: string where
  "alphabet = ''ABCDEFGHIJKLMNOPQRSTUVWXYZabcdefghijklmnopqrstuvwxyz0123456789+/''"

definition digit_of :: "sextet \<Rightarrow> char" where
  "digit_of w = alphabet ! unat w"

definition value_of :: "char \<Rightarrow> sextet option" where
  "value_of c =
     (if between 65 90 c then Some (of_nat (code_of c - 65))
      else if between 97 122 c then Some (of_nat (code_of c - 71))
      else if between 48 57 c then Some (of_nat (code_of c + 4))
      else if c = CHR ''+'' \<or> c = CHR ''-'' then Some 62
      else if c = CHR ''/'' \<or> c = CHR ''_'' then Some 63
      else None)"

text \<open>\<open>replace(/+/g, '-').replace(/\//g, '_')\<close> and its inverse.\<close>

definition url_char :: "char \<Rightarrow> char" where
  "url_char c = (if c = CHR ''+'' then CHR ''-'' else if c = CHR ''/'' then CHR ''_'' else c)"

definition unurl_char :: "char \<Rightarrow> char" where
  "unurl_char c = (if c = CHR ''-'' then CHR ''+'' else if c = CHR ''_'' then CHR ''/'' else c)"

section \<open>Groups of three bytes and four digits\<close>

definition sext1 :: "byte \<Rightarrow> sextet" where
  "sext1 a = ucast (drop_bit 2 a)"

definition sext2 :: "byte \<Rightarrow> byte \<Rightarrow> sextet" where
  "sext2 a b = ucast (push_bit 4 a) OR ucast (drop_bit 4 b)"

definition sext3 :: "byte \<Rightarrow> byte \<Rightarrow> sextet" where
  "sext3 b c = ucast (push_bit 2 b) OR ucast (drop_bit 6 c)"

definition sext4 :: "byte \<Rightarrow> sextet" where
  "sext4 c = ucast c"

definition oct1 :: "sextet \<Rightarrow> sextet \<Rightarrow> byte" where
  "oct1 s t = push_bit 2 (ucast s) OR drop_bit 4 (ucast t)"

definition oct2 :: "sextet \<Rightarrow> sextet \<Rightarrow> byte" where
  "oct2 t u = push_bit 4 (ucast t) OR drop_bit 2 (ucast u)"

definition oct3 :: "sextet \<Rightarrow> sextet \<Rightarrow> byte" where
  "oct3 u v = push_bit 6 (ucast u) OR ucast v"

fun sextets :: "byte list \<Rightarrow> sextet list" where
  "sextets [] = []"
| "sextets [a] = [sext1 a, sext2 a 0]"
| "sextets [a, b] = [sext1 a, sext2 a b, sext3 b 0]"
| "sextets (a # b # c # bs) = sext1 a # sext2 a b # sext3 b c # sext4 c # sextets bs"

fun octets :: "sextet list \<Rightarrow> byte list" where
  "octets [] = []"
| "octets [s] = []"
| "octets [s, t] = [oct1 s t]"
| "octets [s, t, u] = [oct1 s t, oct2 t u]"
| "octets (s # t # u # v # rest) = oct1 s t # oct2 t u # oct3 u v # octets rest"

section \<open>The functions of the source\<close>

definition pad_for :: "nat \<Rightarrow> string" where
  "pad_for n = (if n mod 4 = 2 then ''=='' else if n mod 4 = 3 then ''='' else [])"

text \<open>\<open>buf.toString('base64')\<close> and \<open>Buffer.from(s, 'base64')\<close>.\<close>

definition to_base64 :: "byte list \<Rightarrow> string" where
  "to_base64 bs = map digit_of (sextets bs) @ pad_for (length (sextets bs))"

definition from_base64 :: "string \<Rightarrow> byte list" where
  "from_base64 s = octets (List.map_filter value_of s)"

definition b64url :: "byte list \<Rightarrow> string" where
  "b64url buf = map url_char (strip_trailing (CHR ''='') (to_base64 buf))"

definition b64urlDecode :: "string \<Rightarrow> string + byte list" where
  "b64urlDecode s =
     (let pad = length s mod 4 in
      if pad = 2 then Inr (from_base64 (map unurl_char (s @ ''=='')))
      else if pad = 3 then Inr (from_base64 (map unurl_char (s @ ''='')))
      else if pad \<noteq> 0 then Inl ''bad b64url length''
      else Inr (from_base64 (map unurl_char s)))"

section \<open>Round trip\<close>

lemma Suc_Suc_minus_2 [simp]: "2 \<le> n \<Longrightarrow> Suc (Suc (n - 2)) = n"
  by simp

lemma oct1_sext [simp]: "oct1 (sext1 a) (sext2 a b) = a"
  unfolding oct1_def sext1_def sext2_def
  by (rule bit_word_eqI) (auto simp: bit_simps dest: bit_imp_le_length)

lemma oct2_sext [simp]: "oct2 (sext2 a b) (sext3 b c) = b"
  unfolding oct2_def sext2_def sext3_def
  by (rule bit_word_eqI) (auto simp: bit_simps dest: bit_imp_le_length)

lemma oct3_sext [simp]: "oct3 (sext3 b c) (sext4 c) = c"
  unfolding oct3_def sext3_def sext4_def
  by (rule bit_word_eqI) (auto simp: bit_simps dest: bit_imp_le_length)

lemma octets_sextets: "octets (sextets bs) = bs"
  by (induction bs rule: sextets.induct) simp_all

lemma length_sextets: "length (sextets bs) mod 4 \<noteq> 1"
proof (induction bs rule: sextets.induct)
  case (4 a b c bs)
  moreover have "length (sextets (a # b # c # bs)) = length (sextets bs) + 4" by simp
  ultimately show ?case by presburger
qed simp_all

text \<open>Every digit is read back, and stays readable through the url-safe detour.\<close>

lemma digits_all:
  "list_all (\<lambda>n. value_of (alphabet ! n) = Some (of_nat n) \<and>
     value_of (unurl_char (url_char (alphabet ! n))) = Some (of_nat n) \<and>
     url_char (alphabet ! n) \<noteq> CHR ''='' \<and> url_char (alphabet ! n) \<noteq> CHR ''.'' \<and>
     alphabet ! n \<noteq> CHR ''='') [0..<64]"
  by code_simp

lemma digit_facts:
  "value_of (unurl_char (url_char (digit_of w))) = Some w"
  "url_char (digit_of w) \<noteq> CHR ''.''" "digit_of w \<noteq> CHR ''=''"
proof -
  have "unat w < 64" using unsigned_less [of w] by simp
  then have "unat w \<in> set [0..<64]" by simp
  moreover have "of_nat (unat w) = w" by simp
  ultimately show "value_of (unurl_char (url_char (digit_of w))) = Some w"
    "url_char (digit_of w) \<noteq> CHR ''.''" "digit_of w \<noteq> CHR ''=''"
    using digits_all unfolding list_all_iff digit_of_def by metis+
qed

lemma strip_pad: "strip_trailing (CHR ''='') (map digit_of ws @ pad_for n) = map digit_of ws"
proof -
  have "dropWhile (\<lambda>x. x = CHR ''='') (rev (map digit_of ws)) = rev (map digit_of ws)"
    by (cases ws rule: rev_cases) (simp_all add: digit_facts)
  then have "dropWhile (\<lambda>x. x = CHR ''='') (rev (map digit_of ws @ pad_for n)) = rev (map digit_of ws)"
    by (auto simp: pad_for_def)
  then show ?thesis by (simp add: strip_trailing_def)
qed

lemma b64url_eq: "b64url buf = map (\<lambda>w. url_char (digit_of w)) (sextets buf)"
  by (simp add: b64url_def to_base64_def strip_pad)

lemma b64url_no_dot: "CHR ''.'' \<notin> set (b64url buf)"
  using digit_facts(2) by (auto simp: b64url_eq) metis

lemma from_base64_digits:
  "from_base64 (map unurl_char (map (\<lambda>w. url_char (digit_of w)) ws @ replicate n (CHR ''=''))) = octets ws"
proof -
  have "value_of (unurl_char (CHR ''='')) = None"
    by (simp add: value_of_def unurl_char_def between_def)
  then have pad: "List.map_filter value_of (map unurl_char (replicate n (CHR ''=''))) = []"
    by (induction n) (simp_all add: List.map_filter_def)
  have "List.map_filter value_of (map unurl_char (map (\<lambda>w. url_char (digit_of w)) ws)) = ws"
    by (induction ws) (simp_all add: List.map_filter_def digit_facts(1))
  with pad show ?thesis by (simp add: from_base64_def List.map_filter_def)
qed

lemma b64urlDecode_b64url: "b64urlDecode (b64url buf) = Inr buf"
proof -
  have "length (b64url buf) mod 4 \<noteq> 1" using length_sextets [of buf] by (simp add: b64url_eq)
  moreover have "length (b64url buf) mod 4 < 4" by simp
  ultimately have "length (b64url buf) mod 4 \<in> {0, 2, 3}" by auto
  then show ?thesis
    using from_base64_digits [of "sextets buf" 0] from_base64_digits [of "sextets buf" 1]
      from_base64_digits [of "sextets buf" 2]
    by (auto simp: b64urlDecode_def b64url_eq Let_def octets_sextets numeral_2_eq_2)
qed

lemma b64url_inject: "b64url a = b64url b \<longleftrightarrow> a = b"
  by (metis b64urlDecode_b64url Inr_inject)

text \<open>
  Decoding a url-safe base64 text that the service encoded gives the bytes back,
  for every byte sequence: the padding restored from the length alone is always right.
\<close>

theorem b64url_round_trip: "b64urlDecode (b64url buf) = Inr buf"
  by (rule b64urlDecode_b64url)

end
