(* ===== verification/Bytes.thy ===== *)
theory Bytes
  imports Base64Url
begin

text \<open>
  Text and bytes as Node's \<open>Buffer\<close> converts them: UTF-8 (\<open>Buffer.from(s)\<close>,
  \<open>toString('utf-8')\<close>, the default of \<open>hash.update(s)\<close>) and Latin-1 (\<open>toString('binary')\<close>).
  A character of the model is a code unit below 256, so UTF-8 gives one or two bytes; bytes
  that decode to a character beyond the model are \<open>None\<close>.
\<close>

definition utf8_char :: "char \<Rightarrow> byte list" where
  "utf8_char c =
     (let n = code_of c in
      if n < 128 then [of_nat n] else [of_nat (192 + n div 64), of_nat (128 + n mod 64)])"

definition utf8_encode :: "string \<Rightarrow> byte list" where
  "utf8_encode s = concat (map utf8_char s)"

fun utf8_decode :: "byte list \<Rightarrow> string option" where
  "utf8_decode [] = Some []"
| "utf8_decode [b] = (if unat b < 128 then Some [char_of (unat b)] else None)"
| "utf8_decode (b # c # bs) =
     (if unat b < 128 then map_option (Cons (char_of (unat b))) (utf8_decode (c # bs))
      else if unat b \<in> {194, 195} \<and> 128 \<le> unat c \<and> unat c < 192 then
        map_option (Cons (char_of ((unat b - 192) * 64 + (unat c - 128)))) (utf8_decode bs)
      else None)"

definition latin1_decode :: "byte list \<Rightarrow> string" where
  "latin1_decode bs = map (\<lambda>b. char_of (unat b)) bs"

section \<open>Facts\<close>

lemma unat_byte [simp]: "n < 256 \<Longrightarrow> unat (of_nat n :: byte) = n"
  by (simp add: unat_of_nat take_bit_eq_mod)

lemma code_of_less [simp]: "code_of c < 256"
  by (rule nat_of_char_less_256)

lemma utf8_decode_ascii:
  "unat b < 128 \<Longrightarrow> utf8_decode (b # bs) = map_option (Cons (char_of (unat b))) (utf8_decode bs)"
  by (cases bs) simp_all

lemma utf8_decode_char:
  "utf8_decode (utf8_char c @ bs) = map_option (Cons c) (utf8_decode bs)"
proof (cases "code_of c < 128")
  case True
  then show ?thesis by (simp add: utf8_char_def utf8_decode_ascii)
next
  case False
  define n where "n = code_of c"
  have n: "128 \<le> n" "n < 256" using False by (simp_all add: n_def)
  let ?b = "of_nat (192 + n div 64) :: byte" and ?c = "of_nat (128 + n mod 64) :: byte"
  have unat: "unat ?b = 192 + n div 64" "unat ?c = 128 + n mod 64"
    using n by (intro unat_byte; linarith)+
  have two: "192 + n div 64 = 194 \<or> 192 + n div 64 = 195" using n by linarith
  have "n div 64 * 64 + n mod 64 = n" by simp
  then have char: "char_of (n div 64 * 64 + n mod 64) = c" by (simp only: n_def char_of_char)
  have "utf8_char c = [?b, ?c]" using n by (simp add: utf8_char_def n_def [symmetric] Let_def)
  then have "utf8_decode (utf8_char c @ bs) = utf8_decode (?b # ?c # bs)" by simp
  also have "\<dots> = map_option (Cons (char_of (n div 64 * 64 + n mod 64))) (utf8_decode bs)"
    using two unat by (simp del: of_nat_add)
  finally show ?thesis by (simp only: char)
qed

lemma utf8_round_trip: "utf8_decode (utf8_encode s) = Some s"
proof (induction s)
  case Nil
  show ?case by (simp add: utf8_encode_def)
next
  case (Cons c s)
  then show ?case using utf8_decode_char [of c "utf8_encode s"] by (simp add: utf8_encode_def)
qed

lemma latin1_ascii:
  assumes "\<And>b. b \<in> set bs \<Longrightarrow> unat b < 128"
  shows "utf8_encode (latin1_decode bs) = bs"
  using assms
proof (induction bs)
  case Nil
  show ?case by (simp add: utf8_encode_def latin1_decode_def)
next
  case (Cons b bs)
  then have "unat b < 128" by simp
  then have "utf8_char (char_of (unat b)) = [b]" by (simp add: utf8_char_def Let_def)
  with Cons show ?case by (simp add: utf8_encode_def latin1_decode_def)
qed

end
