(* ===== verification/Share.thy ===== *)
theory Share
  imports Dashboards Base64Url Bytes
begin

text \<open>
  Signed share links: \<open>share.service.ts\<close> and \<open>share.controller.ts\<close>. A token is
  \<open>ifs1.payload.signature\<close>, both parts url-safe base64: the payload is the UTF-8 JSON of
  the workspace, the dashboard, the expiry and a random id, the signature an HMAC over the
  payload's text. A row keyed by the SHA-256 of the whole token makes it revocable.

  The environment holds what is not code of the repository: the secret, HMAC-SHA256 and
  SHA-256, and two behaviours that only a payload the service never mints can reach: the
  coercing \<open><\<close> on an \<open>exp\<close> that is no number, and the database client's reading of a
  \<open>where\<close> value that is no string (\<open>None\<close>: it refuses it).
\<close>

record share_env =
  sh_secret :: string
  sh_hmac :: "string \<Rightarrow> string \<Rightarrow> byte list"
  sh_sha256 :: "string \<Rightarrow> string"
  sh_coerced_less :: "json \<Rightarrow> int \<Rightarrow> bool"
  sh_filter :: "json \<Rightarrow> (string \<Rightarrow> bool) option"

section \<open>Tokens\<close>

definition share_payload :: "string \<Rightarrow> string \<Rightarrow> int option \<Rightarrow> string \<Rightarrow> json" where
  "share_payload wid did expiry jti = JObj
     [(''v'', JNum 1), (''d'', JStr did), (''w'', JStr wid),
      (''exp'', case expiry of None \<Rightarrow> JNull | Some e \<Rightarrow> JNum (of_int e)),
      (''jti'', JStr jti)]"

definition TOKEN_PREFIX :: string where
  "TOKEN_PREFIX = ''ifs1.''"

definition mint :: "share_env \<Rightarrow> string \<Rightarrow> string \<Rightarrow> int option \<Rightarrow> string \<Rightarrow> string" where
  "mint env wid did expiry jti =
     (let payloadStr = b64url (utf8_encode (stringify (\<lambda>_. []) (share_payload wid did expiry jti)));
          sig = b64url (sh_hmac env (sh_secret env) payloadStr)
      in TOKEN_PREFIX @ payloadStr @ ''.'' @ sig)"

section \<open>Service\<close>

text \<open>\<open>rand\<close> is the result of \<open>randomBytes(18)\<close>.\<close>

definition share_create ::
  "share_env \<Rightarrow> byte list \<Rightarrow> string \<Rightarrow> int \<Rightarrow> string \<Rightarrow> string \<Rightarrow> string \<Rightarrow> int opt_field
     \<Rightarrow> (db, string \<times> int option) app" where
  "share_create env rand fresh now wid did uid ttl =
     andThen (dash_find wid did) (\<lambda>_ s.
       let jti = b64url rand;
           expSeconds = (case ttl of
               Val t \<Rightarrow> if t \<noteq> 0 then Some (now div 1000 + t) else None
             | _ \<Rightarrow> None);
           token = mint env wid did expSeconds jti;
           tokenHash = sh_sha256 env token;
           expiresAt = (case expSeconds of
               Some e \<Rightarrow> if e \<noteq> 0 then Some (e * 1000) else None
             | None \<Rightarrow> None)
       in if \<exists>l \<in> set (share_links s). sl_tokenHash l = tokenHash
          then (Inl (Crash ''Unique constraint failed on the fields: (token_hash)''), s)
          else (Inr (token, expiresAt),
                s\<lparr>share_links := share_links s @
                   [\<lparr>sl_id = fresh, sl_workspaceId = wid, sl_dashboardId = did,
                     sl_createdById = uid, sl_tokenHash = tokenHash, sl_expiresAt = expiresAt,
                     sl_revokedAt = None, sl_createdAt = now\<rparr>]\<rparr>))"

record link_summary =
  ls_id :: string
  ls_dashboardId :: string
  ls_createdAt :: int
  ls_expiresAt :: "int option"
  ls_revokedAt :: "int option"

definition link_select :: "share_link \<Rightarrow> link_summary" where
  "link_select l = \<lparr>ls_id = sl_id l, ls_dashboardId = sl_dashboardId l,
     ls_createdAt = sl_createdAt l, ls_expiresAt = sl_expiresAt l, ls_revokedAt = sl_revokedAt l\<rparr>"

definition share_list :: "string \<Rightarrow> (db, link_summary list) app" where
  "share_list wid s =
     (Inr (map link_select
        (order_desc sl_createdAt (filter (\<lambda>l. sl_workspaceId l = wid) (share_links s)))), s)"

definition link_find :: "string \<Rightarrow> string \<Rightarrow> (db, share_link) app" where
  "link_find = scoped_find share_links sl_id sl_workspaceId ''share link not found''"

definition share_revoke :: "int \<Rightarrow> string \<Rightarrow> string \<Rightarrow> (db, share_link) app" where
  "share_revoke now wid lid =
     andThen (link_find wid lid) (\<lambda>link s.
       if sl_revokedAt link \<noteq> None then (Inr link, s)
       else (Inr (link\<lparr>sl_revokedAt := Some now\<rparr>),
             s\<lparr>share_links := update_where (\<lambda>l. sl_id l = lid)
                                (\<lambda>l. l\<lparr>sl_revokedAt := Some now\<rparr>) (share_links s)\<rparr>))"

text \<open>
  A field of a signed payload in a \<open>where\<close>: \<open>undefined\<close> drops the condition, a string is
  compared, anything else is up to the database client.
\<close>

definition where_field :: "share_env \<Rightarrow> json option \<Rightarrow> (string \<Rightarrow> bool) option" where
  "where_field env v =
     (case v of
        None \<Rightarrow> Some (\<lambda>_. True)
      | Some (JStr t) \<Rightarrow> Some (\<lambda>x. x = t)
      | Some j \<Rightarrow> sh_filter env j)"

definition exp_passed :: "share_env \<Rightarrow> json option \<Rightarrow> int \<Rightarrow> bool" where
  "exp_passed env e now =
     (case e of
        None \<Rightarrow> False
      | Some JNull \<Rightarrow> False
      | Some (JNum q) \<Rightarrow> q < of_int (now div 1000)
      | Some j \<Rightarrow> sh_coerced_less env j (now div 1000))"

text \<open>\<open>JSON.parse(b64urlDecode(payloadStr).toString('utf-8'))\<close>, \<open>None\<close> when it throws.\<close>

definition decode_payload :: "string \<Rightarrow> json option" where
  "decode_payload payloadStr =
     (case b64urlDecode payloadStr of
        Inl _ \<Rightarrow> None
      | Inr bytes \<Rightarrow> Option.bind (utf8_decode bytes) json_parse)"

text \<open>The checks of \<open>verify\<close> that follow the signature check.\<close>

definition verify_payload ::
  "share_env \<Rightarrow> int \<Rightarrow> string \<Rightarrow> json \<Rightarrow> (db, json option \<times> json option) app" where
  "verify_payload env now token payload s =
     (if payload = JNull then (Inl (Crash ''TypeError''), s)
      else if json_get ''v'' payload \<noteq> Some (JNum 1)
      then (Inl (Unauthorized ''unsupported share token version''), s)
      else if exp_passed env (json_get ''exp'' payload) now
      then (Inl (Unauthorized ''share token expired''), s)
      else
        let w = json_get ''w'' payload; d = json_get ''d'' payload in
        case (where_field env w, where_field env d) of
          (Some P, Some Q) \<Rightarrow>
            (case List.find (\<lambda>l. sl_tokenHash l = sh_sha256 env token \<and>
                               P (sl_workspaceId l) \<and> Q (sl_dashboardId l)) (share_links s) of
               None \<Rightarrow> (Inl (Unauthorized ''share token not on record''), s)
             | Some link \<Rightarrow>
                 if sl_revokedAt link \<noteq> None
                 then (Inl (Unauthorized ''share token revoked''), s)
                 else (Inr (w, d), s))
        | _ \<Rightarrow> (Inl (Crash ''PrismaClientValidationError''), s))"

definition verify :: "share_env \<Rightarrow> int \<Rightarrow> string \<Rightarrow> (db, json option \<times> json option) app" where
  "verify env now token s =
     (if token = [] \<or> \<not> starts_with TOKEN_PREFIX token
      then (Inl (Unauthorized ''invalid share token''), s)
      else case split_on (CHR ''.'') (drop (length TOKEN_PREFIX) token) of
        [payloadStr, sig] \<Rightarrow>
          (let expected = sh_hmac env (sh_secret env) payloadStr in
           case b64urlDecode sig of
             Inl _ \<Rightarrow> (Inl (Unauthorized ''invalid share token''), s)
           | Inr sigBuf \<Rightarrow>
               if length sigBuf \<noteq> length expected \<or> sigBuf \<noteq> expected
               then (Inl (Unauthorized ''invalid share token''), s)
               else case decode_payload payloadStr of
                 None \<Rightarrow> (Inl (Unauthorized ''invalid share token''), s)
               | Some payload \<Rightarrow> verify_payload env now token payload s)
      | _ \<Rightarrow> (Inl (Unauthorized ''invalid share token''), s))"

definition read_dashboard ::
  "share_env \<Rightarrow> json option \<Rightarrow> json option \<Rightarrow> (db, dashboard \<times> widget list) app" where
  "read_dashboard env w d s =
     (case (where_field env w, where_field env d) of
        (Some P, Some Q) \<Rightarrow>
          (case List.find (\<lambda>x. Q (dash_id x) \<and> P (dash_workspaceId x)) (dashboards s) of
             None \<Rightarrow> (Inl (NotFound ''dashboard not found''), s)
           | Some x \<Rightarrow> (Inr (x, dash_widgets (dash_id x) s), s))
      | _ \<Rightarrow> (Inl (Crash ''PrismaClientValidationError''), s))"

section \<open>Controller\<close>

definition valid_share_ttl :: "int opt_field \<Rightarrow> bool" where
  "valid_share_ttl ttl \<longleftrightarrow> optional (in_range 60 (60 * 60 * 24 * 365)) ttl"

definition share_list_route :: "string \<Rightarrow> string \<Rightarrow> string \<Rightarrow> (db, link_summary list) app" where
  "share_list_route uid wid did = guarded uid wid (\<lambda>w. share_list w)"

definition share_create_route ::
  "(string \<Rightarrow> bool) \<Rightarrow> share_env \<Rightarrow> byte list \<Rightarrow> string \<Rightarrow> int \<Rightarrow> string \<Rightarrow> string \<Rightarrow> string
     \<Rightarrow> int opt_field \<Rightarrow> (db, string \<times> int option) app" where
  "share_create_route is_uuid env rand fresh now uid wid did ttl =
     guarded uid wid (\<lambda>w.
     andThen (uuid_pipe is_uuid did) (\<lambda>_.
     andThen (validation_pipe (valid_share_ttl ttl)) (\<lambda>_.
     andThen (require_role w uid [Owner]) (\<lambda>_.
     share_create env rand fresh now w did uid ttl))))"

definition share_revoke_route ::
  "(string \<Rightarrow> bool) \<Rightarrow> int \<Rightarrow> string \<Rightarrow> string \<Rightarrow> string \<Rightarrow> (db, share_link) app" where
  "share_revoke_route is_uuid now uid wid lid =
     guarded uid wid (\<lambda>w.
     andThen (uuid_pipe is_uuid lid) (\<lambda>_.
     andThen (require_role w uid [Owner]) (\<lambda>_. share_revoke now w lid)))"

definition share_resolve :: "share_env \<Rightarrow> int \<Rightarrow> string \<Rightarrow> (db, dashboard \<times> widget list) app" where
  "share_resolve env now token =
     (if token = [] \<or> length token > 4096
      then throw (BadRequest ''missing or oversized token'')
      else andThen (verify env now token) (\<lambda>(w, d). read_dashboard env w d))"

interpretation link: tenant_table share_links sl_id sl_workspaceId link_find
  unfolding link_find_def by (rule scoped_find_tenant_table)

section \<open>Facts\<close>

lemma stringify_payload: "json_parse (stringify fr (share_payload w d e j)) = Some (share_payload w d e j)"
  by (rule json_parse_stringify) (simp add: share_payload_def split: option.split)

lemma payload_fields [simp]:
  "json_get ''v'' (share_payload w d e j) = Some (JNum 1)"
  "json_get ''w'' (share_payload w d e j) = Some (JStr w)"
  "json_get ''d'' (share_payload w d e j) = Some (JStr d)"
  "json_get ''exp'' (share_payload w d e j) =
     Some (case e of None \<Rightarrow> JNull | Some t \<Rightarrow> JNum (of_int t))"
  "share_payload w d e j \<noteq> JNull"
  by (simp_all add: share_payload_def)

lemma where_string [simp]: "where_field env (Some (JStr t)) = Some (\<lambda>x. x = t)"
  by (simp add: where_field_def)

lemma where_undefined [simp]: "where_field env None = Some (\<lambda>x. True)"
  by (simp add: where_field_def)

lemma decode_minted:
  "decode_payload (b64url (utf8_encode (stringify fr (share_payload w d e j)))) =
     Some (share_payload w d e j)"
  by (simp add: decode_payload_def b64urlDecode_b64url utf8_round_trip stringify_payload)

lemma starts_mint: "starts_with TOKEN_PREFIX (TOKEN_PREFIX @ t)" "TOKEN_PREFIX @ t \<noteq> []"
  by (simp_all add: TOKEN_PREFIX_def starts_with_def)

lemma split_minted:
  "split_on (CHR ''.'') (drop (length TOKEN_PREFIX) (TOKEN_PREFIX @ b64url a @ ''.'' @ b64url b)) =
     [b64url a, b64url b]"
  by (simp add: split_on_append split_on_no_sep b64url_no_dot)

definition expired :: "int option \<Rightarrow> int \<Rightarrow> bool" where
  "expired e now \<longleftrightarrow> (case e of None \<Rightarrow> False | Some t \<Rightarrow> t < now div 1000)"

lemma exp_passed_minted [simp]:
  "exp_passed env (Some (case e of None \<Rightarrow> JNull | Some t \<Rightarrow> JNum (of_int t))) now \<longleftrightarrow>
     expired e now"
  by (cases e) (simp_all add: exp_passed_def expired_def)

lemma mint_not_Nil [simp]: "mint env w d e j \<noteq> []"
  by (simp add: mint_def Let_def starts_mint)

text \<open>A minted token passes the signature check whatever the HMAC is.\<close>

lemma verify_minted:
  "verify env now (mint env w d e j) s =
     verify_payload env now (mint env w d e j) (share_payload w d e j) s"
  unfolding verify_def mint_def Let_def split_minted
  by (simp add: starts_mint b64urlDecode_b64url decode_minted)

lemma verify_payload_minted:
  "verify_payload env now token (share_payload w d e j) s =
     (if expired e now then (Inl (Unauthorized ''share token expired''), s)
      else case List.find (\<lambda>l. sl_tokenHash l = sh_sha256 env token \<and> sl_workspaceId l = w \<and>
                sl_dashboardId l = d) (share_links s) of
        None \<Rightarrow> (Inl (Unauthorized ''share token not on record''), s)
      | Some l \<Rightarrow>
          if sl_revokedAt l \<noteq> None then (Inl (Unauthorized ''share token revoked''), s)
          else (Inr (Some (JStr w), Some (JStr d)), s))"
  by (simp add: verify_payload_def Let_def)

lemma verify_payload_state: "after (verify_payload env now token p) s = s"
  by (simp add: verify_payload_def Let_def split: option.splits)

lemma verify_state: "after (verify env now token) s = s"
proof (cases "split_on (CHR ''.'') (drop (length TOKEN_PREFIX) token)")
  case Nil
  then show ?thesis by (simp add: verify_def)
next
  case (Cons p ps)
  then show ?thesis
    by (cases ps; cases "tl ps")
       (simp_all add: verify_def Let_def verify_payload_state split: sum.splits option.splits)
qed

lemma reads_verify: "reads (verify env now token)"
  by (simp add: reads_def verify_state)

lemma reads_read_dashboard: "reads (read_dashboard env w d)"
  by (auto simp: reads_def read_dashboard_def split: option.splits)

lemma share_resolve_state: "after (share_resolve env now token) s = s"
proof (cases "token = [] \<or> length token > 4096")
  case True
  then show ?thesis by (simp only: share_resolve_def if_True throw_apply snd_conv)
next
  case False
  have "after (read_dashboard env w d) s = s" for w d
    by (rule reads_after [OF reads_read_dashboard])
  with False show ?thesis
    by (simp only: share_resolve_def if_False after_andThen verify_state)
       (simp split: sum.split prod.split)
qed

lemma read_dashboard_strings:
  "read_dashboard env (Some (JStr w)) (Some (JStr d)) s =
     (case List.find (\<lambda>x. dash_id x = d \<and> dash_workspaceId x = w) (dashboards s) of
        None \<Rightarrow> (Inl (NotFound ''dashboard not found''), s)
      | Some x \<Rightarrow> (Inr (x, dash_widgets (dash_id x) s), s))"
  by (simp add: read_dashboard_def)

definition ttl_expiry :: "int \<Rightarrow> int opt_field \<Rightarrow> int option" where
  "ttl_expiry now ttl = (case ttl of
      Val t \<Rightarrow> if t \<noteq> 0 then Some (now div 1000 + t) else None | _ \<Rightarrow> None)"

definition new_link ::
  "share_env \<Rightarrow> byte list \<Rightarrow> string \<Rightarrow> int \<Rightarrow> string \<Rightarrow> string \<Rightarrow> string \<Rightarrow> int opt_field \<Rightarrow> share_link" where
  "new_link env rand fresh now w d u ttl =
     \<lparr>sl_id = fresh, sl_workspaceId = w, sl_dashboardId = d, sl_createdById = u,
      sl_tokenHash = sh_sha256 env (mint env w d (ttl_expiry now ttl) (b64url rand)),
      sl_expiresAt = (case ttl_expiry now ttl of
         Some e \<Rightarrow> if e \<noteq> 0 then Some (e * 1000) else None | None \<Rightarrow> None),
      sl_revokedAt = None, sl_createdAt = now\<rparr>"

lemma share_create_eq:
  "share_create env rand fresh now w d u ttl s =
     (let l = new_link env rand fresh now w d u ttl in
      case answer (dash_find w d) s of
        Inl e \<Rightarrow> (Inl e, s)
      | Inr _ \<Rightarrow>
          if sl_tokenHash l \<in> sl_tokenHash ` set (share_links s)
          then (Inl (Crash ''Unique constraint failed on the fields: (token_hash)''), s)
          else (Inr (mint env w d (ttl_expiry now ttl) (b64url rand), sl_expiresAt l),
                s\<lparr>share_links := share_links s @ [l]\<rparr>))"
  by (auto simp: share_create_def dash.andThen_lookup Let_def ttl_expiry_def new_link_def ex_image
      split: sum.split)

lemma share_revoke_eq:
  "share_revoke now w i s =
     (case answer (link_find w i) s of
        Inl e \<Rightarrow> (Inl e, s)
      | Inr l \<Rightarrow>
          if sl_revokedAt l \<noteq> None then (Inr l, s)
          else (Inr (l\<lparr>sl_revokedAt := Some now\<rparr>),
                s\<lparr>share_links := update_where (\<lambda>l. sl_id l = i)
                                   (\<lambda>l. l\<lparr>sl_revokedAt := Some now\<rparr>) (share_links s)\<rparr>))"
  by (auto simp: share_revoke_def link.andThen_lookup split: sum.splits)

text \<open>Verification of a minted token against the rows, when the hashes of the rows differ.\<close>

definition hashes_unique :: "db \<Rightarrow> bool" where
  "hashes_unique s \<longleftrightarrow> distinct (map sl_tokenHash (share_links s))"

lemma verify_with_row:
  assumes "hashes_unique s" and "l \<in> set (share_links s)"
    and "sl_tokenHash l = sh_sha256 env (mint env w d e j)"
    and "sl_workspaceId l = w" and "sl_dashboardId l = d"
  shows "verify env now (mint env w d e j) s =
     (if expired e now then (Inl (Unauthorized ''share token expired''), s)
      else if sl_revokedAt l \<noteq> None then (Inl (Unauthorized ''share token revoked''), s)
      else (Inr (Some (JStr w), Some (JStr d)), s))"
proof -
  have "List.find (\<lambda>l. sl_tokenHash l = sh_sha256 env (mint env w d e j) \<and> sl_workspaceId l = w \<and>
      sl_dashboardId l = d) (share_links s) = Some l"
    using assms by (intro find_unique_key [where key = sl_tokenHash]) (auto simp: hashes_unique_def)
  then show ?thesis by (simp add: verify_minted verify_payload_minted)
qed

lemma share_create_unique: "keeps hashes_unique (share_create env rand fresh now w d u ttl)"
  by (auto simp: keeps_def hashes_unique_def share_create_eq Let_def split: sum.split)

lemma share_revoke_hashes:
  "map sl_tokenHash (share_links (after (share_revoke now w i) s)) = map sl_tokenHash (share_links s)"
  by (auto simp: share_revoke_eq split: sum.split)

text \<open>A revoked link keeps its row and its timestamp through any further revocation.\<close>

lemma share_revoke_permanent:
  assumes "link.ids_unique s" and "l \<in> set (share_links s)" and "sl_revokedAt l = Some t"
  shows "l \<in> set (share_links (after (share_revoke now w i) s))"
proof (cases "answer (link_find w i) s")
  case (Inl e)
  then show ?thesis using assms by (simp add: share_revoke_eq)
next
  case (Inr r)
  show ?thesis
  proof (cases "sl_id l = i")
    case True
    then have "l = r" using link.only_row [OF assms(1) Inr assms(2)] by simp
    with Inr assms show ?thesis by (simp add: share_revoke_eq)
  next
    case False
    then show ?thesis using Inr assms(2) by (auto simp: share_revoke_eq set_update_where)
  qed
qed

section \<open>What an accepted token says\<close>

lemma verify_cases:
  assumes "answer (verify env now token) s = Inr (w, d)"
  obtains p sig payload where
    "token = TOKEN_PREFIX @ p @ ''.'' @ sig"
    "CHR ''.'' \<notin> set p" "CHR ''.'' \<notin> set sig"
    "b64urlDecode sig = Inr (sh_hmac env (sh_secret env) p)"
    "decode_payload p = Some payload"
    "answer (verify_payload env now token payload) s = Inr (w, d)"
proof -
  have pre: "starts_with TOKEN_PREFIX token" using assms by (simp add: verify_def split: if_splits)
  then obtain rest where rest: "token = TOKEN_PREFIX @ rest" by (rule starts_withE)
  obtain p sig where parts: "split_on (CHR ''.'') rest = [p, sig]"
    using assms pre rest
    by (cases "split_on (CHR ''.'') rest"; cases "tl (split_on (CHR ''.'') rest)";
        cases "tl (tl (split_on (CHR ''.'') rest))") (simp_all add: verify_def split: if_splits)
  then have "rest = p @ ''.'' @ sig" using join_split [of "CHR ''.''" rest] by simp
  moreover have "CHR ''.'' \<notin> set p" "CHR ''.'' \<notin> set sig"
    using split_on_pieces [of _ "CHR ''.''" rest] parts by auto
  moreover have "b64urlDecode sig = Inr (sh_hmac env (sh_secret env) p)"
    and "\<exists>payload. decode_payload p = Some payload \<and>
      answer (verify_payload env now token payload) s = Inr (w, d)"
    using assms parts rest
    by (simp_all add: verify_def Let_def split: sum.splits if_splits option.splits)
  ultimately show thesis using that rest by blast
qed

lemma verify_payload_row:
  assumes "answer (verify_payload env now token payload) s = Inr (w, d)"
  shows "\<exists>l \<in> set (share_links s). sl_tokenHash l = sh_sha256 env token \<and> sl_revokedAt l = None"
  using assms
  by (auto simp: verify_payload_def Let_def dest!: find_SomeD split: if_splits option.splits)

text \<open>What the payload of an accepted token says, and the row it was looked up by.\<close>

lemma verify_payload_accepts:
  assumes "answer (verify_payload env now token payload) s = Inr (w, d)"
  shows "json_get ''v'' payload = Some (JNum 1)" "w = json_get ''w'' payload" "d = json_get ''d'' payload"
    and "json_get ''exp'' payload = Some (JNum q) \<Longrightarrow> of_int (now div 1000) \<le> q"
    and "\<exists>l \<in> set (share_links s). sl_tokenHash l = sh_sha256 env token \<and> sl_revokedAt l = None \<and>
      (\<forall>x. w = Some (JStr x) \<longrightarrow> sl_workspaceId l = x) \<and> (\<forall>x. d = Some (JStr x) \<longrightarrow> sl_dashboardId l = x)"
  using assms
  by (auto simp: verify_payload_def Let_def exp_passed_def dest!: find_SomeD split: if_splits option.splits)

lemma verify_minted_row:
  assumes "answer (verify env now (mint env w d e j)) s = Inr (a, b)"
  shows "a = Some (JStr w) \<and> b = Some (JStr d) \<and>
    (\<exists>l \<in> set (share_links s). sl_tokenHash l = sh_sha256 env (mint env w d e j) \<and>
       sl_workspaceId l = w \<and> sl_dashboardId l = d \<and> sl_revokedAt l = None)"
proof (cases "List.find (\<lambda>l. sl_tokenHash l = sh_sha256 env (mint env w d e j) \<and>
    sl_workspaceId l = w \<and> sl_dashboardId l = d) (share_links s)")
  case None
  with assms show ?thesis by (simp add: verify_minted verify_payload_minted split: if_splits)
next
  case (Some l)
  from find_SomeD [OF this] Some assms show ?thesis
    by (auto simp: verify_minted verify_payload_minted split: if_splits)
qed

text \<open>Every row of the table is the hash of a token of \<open>T\<close> minted for the row's own target.\<close>

definition row_minted :: "share_env \<Rightarrow> string set \<Rightarrow> share_link \<Rightarrow> bool" where
  "row_minted env T l \<longleftrightarrow> (\<exists>e j.
     mint env (sl_workspaceId l) (sl_dashboardId l) e j \<in> T \<and>
     sl_tokenHash l = sh_sha256 env (mint env (sl_workspaceId l) (sl_dashboardId l) e j))"

definition links_minted :: "share_env \<Rightarrow> string set \<Rightarrow> db \<Rightarrow> bool" where
  "links_minted env T s \<longleftrightarrow> (\<forall>l \<in> set (share_links s). row_minted env T l)"

lemma row_minted_mono: "row_minted env T l \<Longrightarrow> T \<subseteq> T' \<Longrightarrow> row_minted env T' l"
  unfolding row_minted_def by blast

lemma row_minted_revoked [simp]:
  "row_minted env T (l\<lparr>sl_revokedAt := r\<rparr>) = row_minted env T l"
  by (simp add: row_minted_def)

lemma new_link_minted:
  "row_minted env (insert (mint env w d (ttl_expiry now ttl) (b64url rand)) T)
     (new_link env rand fresh now w d u ttl)"
  unfolding row_minted_def new_link_def by auto

lemma links_minted_create:
  assumes "links_minted env T s"
  shows "links_minted env (insert (mint env w d (ttl_expiry now ttl) (b64url rand)) T)
           (after (share_create env rand fresh now w d u ttl) s)"
  using assms new_link_minted row_minted_mono [OF _ subset_insertI]
  by (simp add: links_minted_def share_create_eq Let_def split: sum.split)

lemma links_minted_revoke:
  "links_minted env T s \<Longrightarrow> links_minted env T (after (share_revoke now w i) s)"
  by (auto simp: links_minted_def share_revoke_eq set_update_where split: sum.split)

lemma dash_widgets_of: "x \<in> set (dash_widgets d s) \<Longrightarrow> wid_dashboardId x = d"
  by (simp add: dash_widgets_def)

section \<open>Properties\<close>

text \<open>
  Claim C31: a token that \<open>create\<close> answered is accepted by \<open>verify\<close> and shows the dashboard it
  was minted for with its widgets, until its lifetime has passed; from then on it is refused
  as expired. Without a lifetime it never expires.
\<close>

theorem share_create_resolve:
  assumes "share_create env rand fresh now w d u ttl s = (Inr (token, expires), t)"
    and "length token \<le> 4096"
  shows "\<exists>x \<in> set (dashboards s). dash_id x = d \<and> dash_workspaceId x = w \<and>
     share_resolve env now' token t =
       (if (case ttl of Val k \<Rightarrow> k \<noteq> 0 \<and> now div 1000 + k < now' div 1000 | _ \<Rightarrow> False)
        then (Inl (Unauthorized ''share token expired''), t)
        else (Inr (x, dash_widgets d s), t))"
proof -
  define l where "l = new_link env rand fresh now w d u ttl"
  obtain x where found: "answer (dash_find w d) s = Inr x"
    and token: "token = mint env w d (ttl_expiry now ttl) (b64url rand)"
    and new: "sl_tokenHash l \<notin> sl_tokenHash ` set (share_links s)"
    and t: "t = s\<lparr>share_links := share_links s @ [l]\<rparr>"
    using assms(1) by (auto simp: share_create_eq Let_def l_def split: sum.splits if_splits)
  have x: "x \<in> set (dashboards s)" "dash_id x = d" "dash_workspaceId x = w"
    and read: "List.find (\<lambda>x. dash_id x = d \<and> dash_workspaceId x = w) (dashboards s) = Some x"
    using dash.lookup_found [OF found] found by (auto simp: dash_find_eq split: option.splits)
  have hash: "sl_tokenHash l = sh_sha256 env token" and l: "sl_workspaceId l = w"
    "sl_dashboardId l = d" "sl_revokedAt l = None"
    by (simp_all add: l_def new_link_def token)
  have "List.find (\<lambda>l. sl_tokenHash l = sh_sha256 env token \<and> sl_workspaceId l = w \<and>
      sl_dashboardId l = d) (share_links s) = None"
    using new hash by (auto simp: find_None image_iff)
  then have "List.find (\<lambda>l. sl_tokenHash l = sh_sha256 env token \<and> sl_workspaceId l = w \<and>
      sl_dashboardId l = d) (share_links t) = Some l"
    using hash l by (simp add: t find_append)
  then have ver: "verify env now' token t =
      (if expired (ttl_expiry now ttl) now' then (Inl (Unauthorized ''share token expired''), t)
       else (Inr (Some (JStr w), Some (JStr d)), t))"
    using l by (simp add: token verify_minted verify_payload_minted)
  have "token \<noteq> []" by (simp add: token mint_def Let_def starts_mint)
  moreover have "dash_widgets d t = dash_widgets d s" by (simp add: t dash_widgets_def)
  moreover have "expired (ttl_expiry now ttl) now' \<longleftrightarrow>
      (case ttl of Val k \<Rightarrow> k \<noteq> 0 \<and> now div 1000 + k < now' div 1000 | _ \<Rightarrow> False)"
    by (auto simp: expired_def ttl_expiry_def split: opt_field.split)
  ultimately have "share_resolve env now' token t =
      (if (case ttl of Val k \<Rightarrow> k \<noteq> 0 \<and> now div 1000 + k < now' div 1000 | _ \<Rightarrow> False)
       then (Inl (Unauthorized ''share token expired''), t)
       else (Inr (x, dash_widgets d s), t))"
    using assms(2) ver read x
    by (simp add: share_resolve_def andThen_def read_dashboard_strings t)
  with x show ?thesis by blast
qed

definition sample_env :: share_env where
  "sample_env = \<lparr>sh_secret = ''k'', sh_hmac = (\<lambda>k m. [7, 9]), sh_sha256 = (\<lambda>x. x),
     sh_coerced_less = (\<lambda>_ _. False), sh_filter = (\<lambda>_. None)\<rparr>"

lemma sample_token_length: "length (mint sample_env ''w1'' ''d1'' (Some 65) (b64url [1, 2, 3])) \<le> 4096"
  by code_simp

lemma sample_create:
  "\<exists>t. share_create sample_env [1, 2, 3] ''l1'' 5000 ''w1'' ''d1'' ''u1'' (Val 60) sample_db =
     (Inr (mint sample_env ''w1'' ''d1'' (Some 65) (b64url [1, 2, 3]), Some 65000), t)"
  by (simp add: share_create_eq Let_def dash_find_eq new_link_def ttl_expiry_def sample_defs)

theorem share_create_resolve_witness:
  "\<exists>token t x. share_create sample_env [1, 2, 3] ''l1'' 5000 ''w1'' ''d1'' ''u1'' (Val 60) sample_db =
       (Inr (token, Some 65000), t) \<and> dash_id x = ''d1'' \<and>
     share_resolve sample_env 6000 token t = (Inr (x, dash_widgets ''d1'' sample_db), t) \<and>
     share_resolve sample_env 66000 token t = (Inl (Unauthorized ''share token expired''), t)"
proof -
  obtain t where t: "share_create sample_env [1, 2, 3] ''l1'' 5000 ''w1'' ''d1'' ''u1'' (Val 60) sample_db =
     (Inr (mint sample_env ''w1'' ''d1'' (Some 65) (b64url [1, 2, 3]), Some 65000), t)"
    using sample_create by blast
  note resolve = share_create_resolve [OF t sample_token_length]
  from resolve [of 6000] obtain x where "dash_id x = ''d1''"
    "share_resolve sample_env 6000 (mint sample_env ''w1'' ''d1'' (Some 65) (b64url [1, 2, 3])) t =
      (Inr (x, dash_widgets ''d1'' sample_db), t)" by auto
  moreover from resolve [of 66000] have
    "share_resolve sample_env 66000 (mint sample_env ''w1'' ''d1'' (Some 65) (b64url [1, 2, 3])) t =
      (Inl (Unauthorized ''share token expired''), t)" by auto
  ultimately show ?thesis using t by blast
qed

text \<open>
  Claim C7: whatever string is presented, \<open>verify\<close> accepts it only if it has the form
  \<open>ifs1.p.sig\<close>, \<open>sig\<close> decodes to the HMAC of \<open>p\<close> under the secret, \<open>p\<close> decodes to a payload of
  version 1 whose expiry, when it is a number, is not before the current second, and the table
  holds an unrevoked link with the token's hash, of the workspace and the dashboard that the
  payload names; these two are the answer. It never changes the database.
\<close>

theorem share_verify_sound:
  "after (verify env now token) s = s \<and>
   (answer (verify env now token) s = Inr (w, d) \<longrightarrow>
     (\<exists>p sig payload. token = ''ifs1.'' @ p @ ''.'' @ sig \<and> CHR ''.'' \<notin> set p \<and> CHR ''.'' \<notin> set sig \<and>
        b64urlDecode sig = Inr (sh_hmac env (sh_secret env) p) \<and>
        decode_payload p = Some payload \<and> json_get ''v'' payload = Some (JNum 1) \<and>
        (\<forall>q. json_get ''exp'' payload = Some (JNum q) \<longrightarrow> of_int (now div 1000) \<le> q) \<and>
        w = json_get ''w'' payload \<and> d = json_get ''d'' payload) \<and>
     (\<exists>l \<in> set (share_links s). sl_tokenHash l = sh_sha256 env token \<and> sl_revokedAt l = None \<and>
        (\<forall>x. w = Some (JStr x) \<longrightarrow> sl_workspaceId l = x) \<and> (\<forall>x. d = Some (JStr x) \<longrightarrow> sl_dashboardId l = x)))"
proof (intro conjI impI)
  show "after (verify env now token) s = s" by (rule verify_state)
next
  assume "answer (verify env now token) s = Inr (w, d)"
  then obtain p sig payload where token: "token = TOKEN_PREFIX @ p @ ''.'' @ sig"
    and parts: "CHR ''.'' \<notin> set p" "CHR ''.'' \<notin> set sig" "b64urlDecode sig = Inr (sh_hmac env (sh_secret env) p)"
      "decode_payload p = Some payload"
    and accepted: "answer (verify_payload env now token payload) s = Inr (w, d)"
    by (rule verify_cases)
  note payload = verify_payload_accepts [OF accepted]
  from token parts payload(1-4)
  show "\<exists>p sig payload. token = ''ifs1.'' @ p @ ''.'' @ sig \<and> CHR ''.'' \<notin> set p \<and> CHR ''.'' \<notin> set sig \<and>
        b64urlDecode sig = Inr (sh_hmac env (sh_secret env) p) \<and>
        decode_payload p = Some payload \<and> json_get ''v'' payload = Some (JNum 1) \<and>
        (\<forall>q. json_get ''exp'' payload = Some (JNum q) \<longrightarrow> of_int (now div 1000) \<le> q) \<and>
        w = json_get ''w'' payload \<and> d = json_get ''d'' payload"
    unfolding TOKEN_PREFIX_def by blast
  show "\<exists>l \<in> set (share_links s). sl_tokenHash l = sh_sha256 env token \<and> sl_revokedAt l = None \<and>
        (\<forall>x. w = Some (JStr x) \<longrightarrow> sl_workspaceId l = x) \<and> (\<forall>x. d = Some (JStr x) \<longrightarrow> sl_dashboardId l = x)"
    by (rule payload(5))
qed

lemma sample_link_state:
  obtains t where
    "share_create sample_env [1, 2, 3] ''l1'' 5000 ''w1'' ''d1'' ''u1'' (Val 60) sample_db =
       (Inr (mint sample_env ''w1'' ''d1'' (Some 65) (b64url [1, 2, 3]), Some 65000), t)"
    and "share_links t = [new_link sample_env [1, 2, 3] ''l1'' 5000 ''w1'' ''d1'' ''u1'' (Val 60)]"
proof -
  have "share_links (after (share_create sample_env [1, 2, 3] ''l1'' 5000 ''w1'' ''d1'' ''u1'' (Val 60))
      sample_db) = [new_link sample_env [1, 2, 3] ''l1'' 5000 ''w1'' ''d1'' ''u1'' (Val 60)]"
    by (simp add: share_create_eq Let_def dash_find_eq sample_defs)
  with sample_create that show thesis by force
qed

lemma sample_link_only:
  obtains t :: db where "share_links t = [new_link sample_env [1, 2, 3] ''l1'' 5000 ''w1'' ''d1'' ''u1'' (Val 60)]"
  by (rule sample_link_state)

lemma sample_verify:
  assumes "share_links t = [new_link sample_env [1, 2, 3] ''l1'' 5000 ''w1'' ''d1'' ''u1'' (Val 60)]"
  shows "verify sample_env 6000 (mint sample_env ''w1'' ''d1'' (Some 65) (b64url [1, 2, 3])) t =
    (Inr (Some (JStr ''w1''), Some (JStr ''d1'')), t)"
  using assms
  by (simp add: verify_minted verify_payload_minted expired_def new_link_def ttl_expiry_def)

definition sample_shared :: db where
  "sample_shared = sample_db\<lparr>share_links := [new_link sample_env [1, 2, 3] ''l1'' 5000 ''w1'' ''d1'' ''u1'' (Val 60)]\<rparr>"

text \<open>
  The token of a link that lasts a minute: accepted in the last second of its life, when the row
  and the expiry are as stated, and never after it.
\<close>

theorem share_verify_sound_witness:
  "answer (verify sample_env 65999 (mint sample_env ''w1'' ''d1'' (Some 65) (b64url [1, 2, 3]))) sample_shared
     = Inr (Some (JStr ''w1''), Some (JStr ''d1'')) \<and>
   (\<exists>l \<in> set (share_links sample_shared). sl_workspaceId l = ''w1'' \<and> sl_dashboardId l = ''d1'' \<and> sl_revokedAt l = None) \<and>
   (\<forall>w d. answer (verify sample_env 66000 (mint sample_env ''w1'' ''d1'' (Some 65) (b64url [1, 2, 3]))) sample_shared
     \<noteq> Inr (w, d))"
proof (intro conjI allI notI)
  let ?token = "mint sample_env ''w1'' ''d1'' (Some 65) (b64url [1, 2, 3])"
  show accepted: "answer (verify sample_env 65999 ?token) sample_shared = Inr (Some (JStr ''w1''), Some (JStr ''d1''))"
    by (simp add: verify_minted verify_payload_minted expired_def new_link_def ttl_expiry_def sample_shared_def)
  show "\<exists>l \<in> set (share_links sample_shared). sl_workspaceId l = ''w1'' \<and> sl_dashboardId l = ''d1'' \<and> sl_revokedAt l = None"
    using share_verify_sound [of sample_env 65999 ?token sample_shared] accepted by blast
  fix w d
  assume late: "answer (verify sample_env 66000 ?token) sample_shared = Inr (w, d)"
  let ?p = "b64url (utf8_encode (stringify (\<lambda>_. []) (share_payload ''w1'' ''d1'' (Some 65) (b64url [1, 2, 3]))))"
  obtain p sig payload where token: "?token = ''ifs1.'' @ p @ ''.'' @ sig" "CHR ''.'' \<notin> set p"
    and payload: "decode_payload p = Some payload"
    and exp: "\<forall>q. json_get ''exp'' payload = Some (JNum q) \<longrightarrow> of_int ((66000 :: int) div 1000) \<le> q"
    using share_verify_sound [of sample_env 66000 ?token sample_shared w d] late by blast
  have "?p @ ''.'' @ b64url (sh_hmac sample_env (sh_secret sample_env) ?p) = p @ ''.'' @ sig"
    using token(1) by (simp add: mint_def Let_def TOKEN_PREFIX_def)
  then have "split_on (CHR ''.'') (?p @ ''.'' @ b64url (sh_hmac sample_env (sh_secret sample_env) ?p))
      = split_on (CHR ''.'') (p @ ''.'' @ sig)" by (rule arg_cong)
  then have "?p = p" using token(2) by (simp add: split_on_append b64url_no_dot)
  with payload have "payload = share_payload ''w1'' ''d1'' (Some 65) (b64url [1, 2, 3])"
    using decode_minted [of "\<lambda>_. []"] by (metis option.inject)
  with exp show False by simp
qed

text \<open>
  Claim C8: a share link shows nothing but its own dashboard. If every row of the table is the
  hash of a token minted for the row's target (which creation and revocation keep) and no two
  of the minted tokens and the presented one collide under SHA-256, then an answered token is
  a minted one, its link is unrevoked, and the dashboard shown is the link's dashboard in the
  link's workspace, with widgets of that dashboard only.
\<close>

theorem share_scope:
  assumes "links_minted env T s" and "inj_on (sh_sha256 env) (insert token T)"
    and "answer (share_resolve env now token) s = Inr (x, ws)"
  shows "token \<in> T \<and> (\<exists>l \<in> set (share_links s). sl_tokenHash l = sh_sha256 env token \<and>
     sl_revokedAt l = None \<and> dash_id x = sl_dashboardId l \<and> dash_workspaceId x = sl_workspaceId l \<and>
     x \<in> set (dashboards s) \<and> (\<forall>y \<in> set ws. wid_dashboardId y = dash_id x))"
proof -
  obtain w d where ver: "answer (verify env now token) s = Inr (w, d)"
    and read: "answer (read_dashboard env w d) s = Inr (x, ws)"
    using assms(3) verify_state [of env now token s]
    by (auto simp: share_resolve_def answer_andThen_Inr split: if_splits)
  from ver obtain payload where "answer (verify_payload env now token payload) s = Inr (w, d)"
    by (rule verify_cases)
  from verify_payload_row [OF this] obtain l where l: "l \<in> set (share_links s)"
    "sl_tokenHash l = sh_sha256 env token" by blast
  with assms(1) obtain e j where
    m: "mint env (sl_workspaceId l) (sl_dashboardId l) e j \<in> T" and
    h: "sl_tokenHash l = sh_sha256 env (mint env (sl_workspaceId l) (sl_dashboardId l) e j)"
    by (auto simp: links_minted_def row_minted_def)
  have token: "mint env (sl_workspaceId l) (sl_dashboardId l) e j = token"
  proof (rule inj_onD [OF assms(2)])
    show "sh_sha256 env (mint env (sl_workspaceId l) (sl_dashboardId l) e j) = sh_sha256 env token"
      using h l(2) by (rule subst)
    show "mint env (sl_workspaceId l) (sl_dashboardId l) e j \<in> insert token T"
      using m by (rule insertI2)
    show "token \<in> insert token T" by (rule insertI1)
  qed
  have "answer (verify env now (mint env (sl_workspaceId l) (sl_dashboardId l) e j)) s = Inr (w, d)"
    using ver token by simp
  from verify_minted_row [OF this] token obtain l' where l': "l' \<in> set (share_links s)"
    "sl_tokenHash l' = sh_sha256 env token" "sl_workspaceId l' = sl_workspaceId l"
    "sl_dashboardId l' = sl_dashboardId l" "sl_revokedAt l' = None"
    "w = Some (JStr (sl_workspaceId l))" "d = Some (JStr (sl_dashboardId l))" by auto
  have "dash_id x = sl_dashboardId l'" "dash_workspaceId x = sl_workspaceId l'"
    "x \<in> set (dashboards s)" "\<forall>y \<in> set ws. wid_dashboardId y = dash_id x"
    using read l' by (auto simp: read_dashboard_strings dash_widgets_of
        split: option.splits dest!: find_SomeD)
  with l' m token show ?thesis by blast
qed

theorem share_scope_witness:
  "\<exists>t x ws. answer (share_resolve sample_env 6000
       (mint sample_env ''w1'' ''d1'' (Some 65) (b64url [1, 2, 3]))) t = Inr (x, ws) \<and>
     dash_id x = ''d1'' \<and> (\<forall>y \<in> set ws. wid_dashboardId y = dash_id x)"
proof -
  let ?token = "mint sample_env ''w1'' ''d1'' (Some 65) (b64url [1, 2, 3])"
  obtain t where c: "share_create sample_env [1, 2, 3] ''l1'' 5000 ''w1'' ''d1'' ''u1'' (Val 60) sample_db =
      (Inr (?token, Some 65000), t)"
    and links: "share_links t = [new_link sample_env [1, 2, 3] ''l1'' 5000 ''w1'' ''d1'' ''u1'' (Val 60)]"
    by (rule sample_link_state)
  have m: "links_minted sample_env {?token} t"
    using links by (simp add: links_minted_def row_minted_def new_link_def ttl_expiry_def) blast
  have i: "inj_on (sh_sha256 sample_env) (insert ?token {?token})" by simp
  have "dashboards t = dashboards sample_db"
    using c by (auto simp: share_create_eq Let_def split: sum.splits if_splits)
  then have "\<exists>x ws. answer (share_resolve sample_env 6000 ?token) t = Inr (x, ws)"
    using sample_token_length
    by (simp add: share_resolve_def andThen_def sample_verify [OF links] read_dashboard_strings
        sample_defs)
  then obtain x ws where a: "answer (share_resolve sample_env 6000 ?token) t = Inr (x, ws)" by blast
  from share_scope [OF m i a] links a show ?thesis by (auto simp: new_link_def)
qed

text \<open>
  Revoking a link of the workspace is final: afterwards the token of that row is
  refused at every time, as revoked or as expired, and by a second revocation its timestamp
  is not moved.
\<close>

theorem share_revoked_refused:
  assumes "link.ids_unique s" and "hashes_unique s" and "l \<in> set (share_links s)"
    and "sl_workspaceId l = w" and "sl_id l = i"
    and "sl_tokenHash l = sh_sha256 env (mint env w (sl_dashboardId l) e j)"
  shows "let t = after (share_revoke now w i) s in
     answer (verify env now' (mint env w (sl_dashboardId l) e j)) t =
       Inl (Unauthorized (if expired e now' then ''share token expired'' else ''share token revoked'')) \<and>
     share_revoke now'' w i t = (answer (share_revoke now w i) s, t)"
proof -
  have found: "answer (link_find w i) s = Inr l" using link.lookup_eq assms by fastforce
  define l' where "l' = (if sl_revokedAt l = None then l\<lparr>sl_revokedAt := Some now\<rparr> else l)"
  define t where "t = after (share_revoke now w i) s"
  have rev: "share_revoke now w i s = (Inr l', t)"
    using found by (simp add: t_def l'_def share_revoke_eq)
  have l': "l' \<in> set (share_links t)" "sl_revokedAt l' \<noteq> None" "sl_tokenHash l' = sl_tokenHash l"
    "sl_workspaceId l' = w" "sl_dashboardId l' = sl_dashboardId l" "sl_id l' = i"
    using found assms by (auto simp: t_def share_revoke_eq l'_def set_update_where)
  have "hashes_unique t" "link.ids_unique t"
    using assms(1,2) found
    by (auto simp: t_def share_revoke_eq hashes_unique_def link.ids_unique_def)
  then have "verify env now' (mint env w (sl_dashboardId l) e j) t =
      (Inl (Unauthorized (if expired e now' then ''share token expired'' else ''share token revoked'')), t)"
    and "answer (link_find w i) t = Inr l'"
    using verify_with_row [of t l' env w "sl_dashboardId l" e j now'] l' assms(6)
      link.lookup_eq [of t l' w i] by auto
  then show ?thesis using rev l'(2) unfolding t_def [symmetric]
    by (simp add: Let_def share_revoke_eq)
qed

theorem share_revoked_refused_witness:
  "\<exists>t. answer (verify sample_env 6000 (mint sample_env ''w1'' ''d1'' (Some 65) (b64url [1, 2, 3])))
     (after (share_revoke 5500 ''w1'' ''l1'') t) = Inl (Unauthorized ''share token revoked'')"
proof -
  let ?l = "new_link sample_env [1, 2, 3] ''l1'' 5000 ''w1'' ''d1'' ''u1'' (Val 60)"
  obtain t :: db where links: "share_links t = [?l]" by (rule sample_link_only)
  then have "link.ids_unique t" "hashes_unique t" "?l \<in> set (share_links t)"
    by (simp_all add: link.ids_unique_def hashes_unique_def)
  from share_revoked_refused [OF this, of "''w1''" "''l1''" sample_env "Some 65" "b64url [1, 2, 3]"
      5500 6000 0]
  show ?thesis by (auto simp: new_link_def ttl_expiry_def Let_def expired_def)
qed

end
