(* ===== verification/Metrics.thy ===== *)
theory Metrics
  imports Prelude
begin

text \<open>
  The allowlist of metrics (\<open>metrics.ts\<close>): a frozen object, read by own property only, so a
  name of \<open>Object.prototype\<close> is no metric.
\<close>

datatype aggregation = Sum_revenue | Count_events | Unique_users

record metric_def =
  md_label :: string
  md_eventName :: string
  md_agg :: aggregation
  md_currency :: "string option"

definition METRICS :: "(string \<times> metric_def) list" where
  "METRICS =
    [(''mrr'', \<lparr>md_label = ''Monthly recurring revenue'', md_eventName = ''subscription_payment'',
        md_agg = Sum_revenue, md_currency = Some ''USD''\<rparr>),
     (''dau'', \<lparr>md_label = ''Daily active users'', md_eventName = ''session_start'',
        md_agg = Unique_users, md_currency = None\<rparr>),
     (''signups'', \<lparr>md_label = ''Signups'', md_eventName = ''signup'',
        md_agg = Count_events, md_currency = None\<rparr>),
     (''churn'', \<lparr>md_label = ''Churn events'', md_eventName = ''subscription_cancelled'',
        md_agg = Count_events, md_currency = None\<rparr>),
     (''payments'', \<lparr>md_label = ''Payments'', md_eventName = ''subscription_payment'',
        md_agg = Count_events, md_currency = None\<rparr>)]"

definition isKnownMetric :: "string \<Rightarrow> bool" where
  "isKnownMetric name \<longleftrightarrow> map_of METRICS name \<noteq> None"

lemma isKnownMetric_iff:
  "isKnownMetric name \<longleftrightarrow> name \<in> {''mrr'', ''dau'', ''signups'', ''churn'', ''payments''}"
  by (auto simp: isKnownMetric_def METRICS_def)

lemma map_of_METRICS: "isKnownMetric name \<Longrightarrow> \<exists>d. map_of METRICS name = Some d"
  by (auto simp: isKnownMetric_def)

text \<open>No metric name contains the separator of the cache keys.\<close>

lemma known_metric_no_colon: "isKnownMetric name \<Longrightarrow> CHR '':'' \<notin> set name"
  by (auto simp: isKnownMetric_iff)

end
