(* ===== verification/Alerts.thy ===== *)
theory Alerts
  imports Dashboards Metrics
begin

text \<open>
  Alert rules and their history: \<open>alerts.service.ts\<close>, \<open>alerts.controller.ts\<close> and
  \<open>dto/alert.dto.ts\<close>. \<open>recordFire\<close>, the write of the evaluator, is here too.
\<close>

section \<open>Request bodies\<close>

record channel_dto =
  ch_type :: string
  ch_config :: json

definition valid_channel :: "channel_dto \<Rightarrow> bool" where
  "valid_channel c \<longleftrightarrow>
     ch_type c \<in> {''email'', ''slack'', ''webhook''} \<and> is_object (ch_config c)"

definition channel_json :: "channel_dto \<Rightarrow> json" where
  "channel_json c = JObj [(''type'', JStr (ch_type c)), (''config'', ch_config c)]"

record create_alert_dto =
  ca_name :: string
  ca_metric :: string
  ca_method :: alert_method
  ca_thresholdParams :: json
  ca_channels :: "channel_dto list"
  ca_cooldownSeconds :: "int opt_field"
  ca_enabled :: "bool opt_field"

definition valid_channels :: "channel_dto list \<Rightarrow> bool" where
  "valid_channels cs \<longleftrightarrow> length cs \<le> 4 \<and> list_all valid_channel cs"

definition valid_create_alert :: "create_alert_dto \<Rightarrow> bool" where
  "valid_create_alert d \<longleftrightarrow>
     1 \<le> length (ca_name d) \<and> length (ca_name d) \<le> 120 \<and> length (ca_metric d) \<le> 64 \<and>
     is_object (ca_thresholdParams d) \<and> valid_channels (ca_channels d) \<and>
     optional (in_range 60 86400) (ca_cooldownSeconds d)"

record update_alert_dto =
  ua_name :: "string opt_field"
  ua_thresholdParams :: "json opt_field"
  ua_channels :: "channel_dto list opt_field"
  ua_cooldownSeconds :: "int opt_field"
  ua_enabled :: "bool opt_field"

definition valid_update_alert :: "update_alert_dto \<Rightarrow> bool" where
  "valid_update_alert d \<longleftrightarrow>
     optional (\<lambda>t. length t \<le> 120) (ua_name d) \<and> optional is_object (ua_thresholdParams d) \<and>
     optional valid_channels (ua_channels d) \<and>
     optional (in_range 60 86400) (ua_cooldownSeconds d)"

section \<open>Service\<close>

definition alert_list :: "string \<Rightarrow> (db, alert list) app" where
  "alert_list wid s =
     (Inr (order_desc al_createdAt (filter (\<lambda>a. al_workspaceId a = wid) (alerts s))), s)"

definition alert_get :: "string \<Rightarrow> string \<Rightarrow> (db, alert) app" where
  "alert_get = scoped_find alerts al_id al_workspaceId ''alert not found''"

definition alert_create ::
  "string \<Rightarrow> int \<Rightarrow> string \<Rightarrow> create_alert_dto \<Rightarrow> (db, alert) app" where
  "alert_create fresh now wid dto s =
     (if \<not> isKnownMetric (ca_metric dto)
      then (Inl (BadRequest (''unknown metric: '' @ ca_metric dto)), s)
      else let a = \<lparr>al_id = fresh, al_workspaceId = wid, al_name = ca_name dto,
                    al_metric = ca_metric dto, al_method = ca_method dto,
                    al_thresholdParams = ca_thresholdParams dto,
                    al_channelsJson = JArr (map channel_json (ca_channels dto)),
                    al_cooldownSeconds = nullish (ca_cooldownSeconds dto) 3600,
                    al_enabled = nullish (ca_enabled dto) True, al_lastFiredAt = None,
                    al_createdAt = now, al_updatedAt = now\<rparr>
           in (Inr a, s\<lparr>alerts := alerts s @ [a]\<rparr>))"

definition alert_changes :: "int \<Rightarrow> update_alert_dto \<Rightarrow> alert \<Rightarrow> alert" where
  "alert_changes now dto a =
     a\<lparr>al_name := write_field (ua_name dto) (al_name a),
       al_thresholdParams := write_field (ua_thresholdParams dto) (al_thresholdParams a),
       al_channelsJson := (case ua_channels dto of Val cs \<Rightarrow> JArr (map channel_json cs)
                             | _ \<Rightarrow> al_channelsJson a),
       al_cooldownSeconds := write_field (ua_cooldownSeconds dto) (al_cooldownSeconds a),
       al_enabled := write_field (ua_enabled dto) (al_enabled a),
       al_updatedAt := now\<rparr>"

definition alert_has_null :: "update_alert_dto \<Rightarrow> bool" where
  "alert_has_null dto \<longleftrightarrow>
     is_null (ua_name dto) \<or> is_null (ua_thresholdParams dto) \<or> is_null (ua_channels dto) \<or>
     is_null (ua_cooldownSeconds dto) \<or> is_null (ua_enabled dto)"

definition alert_update ::
  "int \<Rightarrow> string \<Rightarrow> string \<Rightarrow> update_alert_dto \<Rightarrow> (db, alert) app" where
  "alert_update now wid i dto =
     andThen (alert_get wid i) (\<lambda>existing s.
       if alert_has_null dto then (Inl (Crash ''Argument must not be null''), s)
       else (Inr (alert_changes now dto existing),
             s\<lparr>alerts := update_where (\<lambda>a. al_id a = i) (alert_changes now dto) (alerts s)\<rparr>))"

definition alert_delete :: "string \<Rightarrow> string \<Rightarrow> (db, string \<times> bool) app" where
  "alert_delete wid i =
     andThen (alert_get wid i) (\<lambda>existing s.
       (Inr (i, True),
        s\<lparr>alerts := delete_where (\<lambda>a. al_id a = i) (alerts s),
          alert_events := delete_where (\<lambda>e. ev_alertId e = i) (alert_events s)\<rparr>))"

text \<open>Each event with the name and the metric of its alert.\<close>

definition alert_history ::
  "string \<Rightarrow> nat \<Rightarrow> (db, (alert_event \<times> (string \<times> string) option) list) app" where
  "alert_history wid limit s =
     (Inr (map (\<lambda>e. (e, map_option (\<lambda>a. (al_name a, al_metric a))
                          (List.find (\<lambda>a. al_id a = ev_alertId e) (alerts s))))
        (take limit
          (order_desc ev_firedAt (filter (\<lambda>e. ev_workspaceId e = wid) (alert_events s))))), s)"

text \<open>
  The foreign key of an event refuses an alert that has been deleted meanwhile.
\<close>

definition recordFire ::
  "string \<Rightarrow> int \<Rightarrow> string \<Rightarrow> string \<Rightarrow> rat \<Rightarrow> rat option \<Rightarrow> json \<Rightarrow> (db, alert_event) app" where
  "recordFire fresh now wid aid val expected payload s =
     (if \<exists>a \<in> set (alerts s). al_id a = aid
      then let e = \<lparr>ev_id = fresh, ev_alertId = aid, ev_workspaceId = wid, ev_firedAt = now,
                    ev_value = val, ev_expected = expected, ev_payload = payload\<rparr>
           in (Inr e, s\<lparr>alert_events := alert_events s @ [e]\<rparr>)
      else (Inl (Crash ''Foreign key constraint failed on the field: alert_id''), s))"

section \<open>Controller\<close>

definition alert_list_route :: "string \<Rightarrow> string \<Rightarrow> (db, alert list) app" where
  "alert_list_route uid p = guarded uid p alert_list"

definition alert_history_route ::
  "string \<Rightarrow> string \<Rightarrow> (db, (alert_event \<times> (string \<times> string) option) list) app" where
  "alert_history_route uid p = guarded uid p (\<lambda>w. alert_history w 50)"

definition alert_get_route ::
  "(string \<Rightarrow> bool) \<Rightarrow> string \<Rightarrow> string \<Rightarrow> string \<Rightarrow> (db, alert) app" where
  "alert_get_route is_uuid uid p i =
     guarded uid p (\<lambda>w. andThen (uuid_pipe is_uuid i) (\<lambda>_. alert_get w i))"

definition alert_create_route ::
  "string \<Rightarrow> int \<Rightarrow> string \<Rightarrow> string \<Rightarrow> create_alert_dto \<Rightarrow> (db, alert) app" where
  "alert_create_route fresh now uid p dto =
     guarded uid p (\<lambda>w. andThen (validation_pipe (valid_create_alert dto)) (\<lambda>_.
       andThen (require_role w uid [Owner, Member]) (\<lambda>_. alert_create fresh now w dto)))"

definition alert_update_route ::
  "(string \<Rightarrow> bool) \<Rightarrow> int \<Rightarrow> string \<Rightarrow> string \<Rightarrow> string \<Rightarrow> update_alert_dto \<Rightarrow> (db, alert) app" where
  "alert_update_route is_uuid now uid p i dto =
     guarded uid p (\<lambda>w. andThen (uuid_pipe is_uuid i) (\<lambda>_.
       andThen (validation_pipe (valid_update_alert dto)) (\<lambda>_.
       andThen (require_role w uid [Owner, Member]) (\<lambda>_. alert_update now w i dto))))"

definition alert_delete_route ::
  "(string \<Rightarrow> bool) \<Rightarrow> string \<Rightarrow> string \<Rightarrow> string \<Rightarrow> (db, string \<times> bool) app" where
  "alert_delete_route is_uuid uid p i =
     guarded uid p (\<lambda>w. andThen (uuid_pipe is_uuid i) (\<lambda>_.
       andThen (require_role w uid [Owner]) (\<lambda>_. alert_delete w i)))"

interpretation alert: tenant_table alerts al_id al_workspaceId alert_get
  unfolding alert_get_def by (rule scoped_find_tenant_table)

section \<open>Facts\<close>

definition new_alert :: "string \<Rightarrow> int \<Rightarrow> string \<Rightarrow> create_alert_dto \<Rightarrow> alert" where
  "new_alert fresh now wid dto = \<lparr>al_id = fresh, al_workspaceId = wid, al_name = ca_name dto,
     al_metric = ca_metric dto, al_method = ca_method dto,
     al_thresholdParams = ca_thresholdParams dto,
     al_channelsJson = JArr (map channel_json (ca_channels dto)),
     al_cooldownSeconds = nullish (ca_cooldownSeconds dto) 3600,
     al_enabled = nullish (ca_enabled dto) True, al_lastFiredAt = None,
     al_createdAt = now, al_updatedAt = now\<rparr>"

lemma alert_create_eq:
  "alert_create fresh now w dto s =
     (if isKnownMetric (ca_metric dto)
      then (Inr (new_alert fresh now w dto), s\<lparr>alerts := alerts s @ [new_alert fresh now w dto]\<rparr>)
      else (Inl (BadRequest (''unknown metric: '' @ ca_metric dto)), s))"
  by (simp add: alert_create_def new_alert_def Let_def)

lemma alert_update_eq:
  "alert_update now w i dto s =
     (case answer (alert_get w i) s of
        Inl e \<Rightarrow> (Inl e, s)
      | Inr a \<Rightarrow>
          if alert_has_null dto then (Inl (Crash ''Argument must not be null''), s)
          else (Inr (alert_changes now dto a),
                s\<lparr>alerts := update_where (\<lambda>a. al_id a = i) (alert_changes now dto) (alerts s)\<rparr>))"
  by (simp add: alert_update_def alert.andThen_lookup split: sum.split)

lemma alert_delete_eq:
  "alert_delete w i s =
     (case answer (alert_get w i) s of
        Inl e \<Rightarrow> (Inl e, s)
      | Inr a \<Rightarrow> (Inr (i, True),
          s\<lparr>alerts := delete_where (\<lambda>a. al_id a = i) (alerts s),
            alert_events := delete_where (\<lambda>e. ev_alertId e = i) (alert_events s)\<rparr>))"
  by (simp add: alert_delete_def alert.andThen_lookup split: sum.split)

lemma alert_changes_keys [simp]:
  "al_id (alert_changes now dto a) = al_id a"
  "al_workspaceId (alert_changes now dto a) = al_workspaceId a"
  "al_lastFiredAt (alert_changes now dto a) = al_lastFiredAt a"
  "al_metric (alert_changes now dto a) = al_metric a"
  "al_method (alert_changes now dto a) = al_method a"
  by (simp_all add: alert_changes_def)

lemma new_alert_keys [simp]:
  "al_id (new_alert fresh now w dto) = fresh" "al_workspaceId (new_alert fresh now w dto) = w"
  "al_lastFiredAt (new_alert fresh now w dto) = None"
  by (simp_all add: new_alert_def)

text \<open>
  A rule as the DTOs leave it: a metric of the allowlist, a cool-down between a minute and a
  day, parameters that are an object and channels that are a list of \<open>{ type, config }\<close>.
\<close>

definition channels_ok :: "json \<Rightarrow> bool" where
  "channels_ok j \<longleftrightarrow> (\<exists>cs. j = JArr (map channel_json cs) \<and> valid_channels cs)"

definition alert_ok :: "alert \<Rightarrow> bool" where
  "alert_ok a \<longleftrightarrow> isKnownMetric (al_metric a) \<and> in_range 60 86400 (al_cooldownSeconds a) \<and>
     is_object (al_thresholdParams a) \<and> channels_ok (al_channelsJson a)"

definition alerts_ok :: "db \<Rightarrow> bool" where
  "alerts_ok s \<longleftrightarrow> list_all alert_ok (alerts s)"

lemma in_range_cooldown [simp]: "in_range 60 86400 3600"
  by (simp add: in_range_def)

lemma new_alert_ok:
  "valid_create_alert dto \<Longrightarrow> isKnownMetric (ca_metric dto) \<Longrightarrow> alert_ok (new_alert fresh now w dto)"
  by (auto simp: alert_ok_def new_alert_def valid_create_alert_def channels_ok_def nullish_in)

lemma alert_changes_ok:
  "valid_update_alert dto \<Longrightarrow> alert_ok a \<Longrightarrow> alert_ok (alert_changes now dto a)"
  by (auto simp: alert_ok_def alert_changes_def valid_update_alert_def channels_ok_def
      write_field_in split: opt_field.split)

lemma keeps_alert_create:
  "valid_create_alert dto \<Longrightarrow> keeps alerts_ok (alert_create fresh now w dto)"
  by (simp add: keeps_def alerts_ok_def alert_create_eq new_alert_ok)

lemma keeps_alert_update:
  "valid_update_alert dto \<Longrightarrow> keeps alerts_ok (alert_update now w i dto)"
  by (auto simp: keeps_def alerts_ok_def alert_update_eq alert_changes_ok
      intro: list_all_update_where split: sum.split)

lemma keeps_alert_delete: "keeps alerts_ok (alert_delete w i)"
  by (auto simp: keeps_def alerts_ok_def alert_delete_eq list_all_delete_where split: sum.split)

section \<open>Properties\<close>

text \<open>
  Whatever bodies clients send, the routes keep every stored rule well formed: its
  metric is one of the allowlist, its cool-down lies between 60 and 86400 seconds, its
  parameters are an object, its channels a list of at most four known channels.
\<close>

theorem alert_rules_invariant:
  "keeps alerts_ok (alert_create_route fresh now uid p c) \<and>
   keeps alerts_ok (alert_update_route is_uuid now uid p i u) \<and>
   keeps alerts_ok (alert_delete_route is_uuid uid p i)"
  unfolding alert_create_route_def alert_update_route_def alert_delete_route_def
proof (intro conjI keeps_guarded)
  fix w
  show "keeps alerts_ok (andThen (validation_pipe (valid_create_alert c)) (\<lambda>_.
      andThen (require_role w uid [Owner, Member]) (\<lambda>_. alert_create fresh now w c)))"
    by (intro validated keeps_andThen [OF keeps_require_role] keeps_alert_create)
  show "keeps alerts_ok (andThen (uuid_pipe is_uuid i) (\<lambda>_.
      andThen (validation_pipe (valid_update_alert u)) (\<lambda>_.
      andThen (require_role w uid [Owner, Member]) (\<lambda>_. alert_update now w i u))))"
    by (intro keeps_andThen [OF keeps_uuid_pipe] validated keeps_andThen [OF keeps_require_role]
        keeps_alert_update)
  show "keeps alerts_ok (andThen (uuid_pipe is_uuid i) (\<lambda>_.
      andThen (require_role w uid [Owner]) (\<lambda>_. alert_delete w i)))"
    by (intro keeps_andThen [OF keeps_uuid_pipe] keeps_andThen [OF keeps_require_role]
        keeps_alert_delete)
qed

end
