(* ===== verification/Notifier.thy ===== *)
theory Notifier
  imports Json
begin

text \<open>
  Delivery of a fired alert to its channels (\<open>notifier.service.ts\<close>). A delivery is the list of
  requests it sends and how it ended; the network (status of a response, or \<open>None\<close> for a
  rejected \<open>fetch\<close>) and the HMAC are arguments. Dashes that are no ASCII are written \<open>-\<close>.
\<close>

record fire_payload =
  fp_alertId :: string
  fp_alertName :: string
  fp_workspaceId :: string
  fp_metric :: string
  fp_method :: string
  fp_value :: rat
  fp_expected :: "rat option"
  fp_firedAt :: string

record http_request =
  hr_url :: string
  hr_headers :: "(string \<times> string) list"
  hr_body :: string

record notifier_env =
  nt_resendKey :: string
  nt_fromEmail :: string
  nt_hmacHex :: "string \<Rightarrow> string \<Rightarrow> string"
  nt_fraction :: "rat \<Rightarrow> string"
  nt_string_of :: "json \<Rightarrow> string"
  nt_fetch :: "http_request \<Rightarrow> (int \<times> string) option"

section \<open>Values as JavaScript reads them\<close>

text \<open>\<open>String(v)\<close>; for an array or an object it is the argument of the environment.\<close>

definition js_string :: "notifier_env \<Rightarrow> json option \<Rightarrow> string" where
  "js_string env v =
     (case v of
        None \<Rightarrow> ''undefined''
      | Some JNull \<Rightarrow> ''null''
      | Some (JBool b) \<Rightarrow> if b then ''true'' else ''false''
      | Some (JNum q) \<Rightarrow> json_number (nt_fraction env) q
      | Some (JStr t) \<Rightarrow> t
      | Some j \<Rightarrow> nt_string_of env j)"

definition expected_json :: "rat option \<Rightarrow> json" where
  "expected_json e = (case e of None \<Rightarrow> JNull | Some q \<Rightarrow> JNum q)"

definition payload_json :: "fire_payload \<Rightarrow> json" where
  "payload_json p = JObj
     [(''alertId'', JStr (fp_alertId p)), (''alertName'', JStr (fp_alertName p)),
      (''workspaceId'', JStr (fp_workspaceId p)), (''metric'', JStr (fp_metric p)),
      (''method'', JStr (fp_method p)), (''value'', JNum (fp_value p)),
      (''expected'', expected_json (fp_expected p)), (''firedAt'', JStr (fp_firedAt p))]"

section \<open>Channels\<close>

datatype delivery = Delivered | Skipped | DeliveryFailed string

definition number_text :: "notifier_env \<Rightarrow> rat \<Rightarrow> string" where
  "number_text env q = json_number (nt_fraction env) q"

definition expected_text :: "notifier_env \<Rightarrow> rat option \<Rightarrow> string" where
  "expected_text env e = (case e of None \<Rightarrow> ''-'' | Some q \<Rightarrow> number_text env q)"

definition nl :: string where
  "nl = [CHR 0x0A]"

definition email_html :: "notifier_env \<Rightarrow> fire_payload \<Rightarrow> string" where
  "email_html env p =
     nl @ ''      <h2>'' @ fp_alertName p @ ''</h2>'' @
     nl @ ''      <p>Metric <code>'' @ fp_metric p @ ''</code> fired '' @ fp_method p @ '' detection.</p>'' @
     nl @ ''      <ul>'' @
     nl @ ''        <li>Value: '' @ number_text env (fp_value p) @ ''</li>'' @
     nl @ ''        <li>Expected: '' @ expected_text env (fp_expected p) @ ''</li>'' @
     nl @ ''        <li>Time: '' @ fp_firedAt p @ ''</li>'' @
     nl @ ''      </ul>''"

definition post :: "notifier_env \<Rightarrow> (int \<Rightarrow> string \<Rightarrow> string) \<Rightarrow> http_request \<Rightarrow> http_request list \<times> delivery" where
  "post env failure req =
     ([req], case nt_fetch env req of
        None \<Rightarrow> DeliveryFailed ''fetch failed''
      | Some (status, text) \<Rightarrow>
          if 200 \<le> status \<and> status \<le> 299 then Delivered
          else DeliveryFailed (failure status text))"

definition email :: "notifier_env \<Rightarrow> json option \<Rightarrow> fire_payload \<Rightarrow> http_request list \<times> delivery" where
  "email env cfg p =
     (if nt_resendKey env = [] then ([], Skipped)
      else case cfg of
        None \<Rightarrow> ([], DeliveryFailed ''TypeError'')
      | Some JNull \<Rightarrow> ([], DeliveryFailed ''TypeError'')
      | Some c \<Rightarrow>
          (let subject = (if truthy (json_get ''subject'' c) then json_get ''subject'' c
                          else Some (JStr (''[InsightFlow] '' @ fp_alertName p @ '' fired''))) in
           post env (\<lambda>status text. ''resend '' @ int_str status @ '': '' @ text)
             \<lparr>hr_url = ''https://api.resend.com/emails'',
              hr_headers = [(''authorization'', ''Bearer '' @ nt_resendKey env),
                            (''content-type'', ''application/json'')],
              hr_body = stringify (nt_fraction env) (defined_members
                [(''from'', Some (JStr (nt_fromEmail env))), (''to'', json_get ''to'' c),
                 (''subject'', subject), (''html'', Some (JStr (email_html env p)))])\<rparr>))"

definition slack :: "notifier_env \<Rightarrow> json option \<Rightarrow> fire_payload \<Rightarrow> http_request list \<times> delivery" where
  "slack env cfg p =
     (case cfg of
        None \<Rightarrow> ([], DeliveryFailed ''TypeError'')
      | Some JNull \<Rightarrow> ([], DeliveryFailed ''TypeError'')
      | Some c \<Rightarrow>
          (let text = ''*'' @ fp_alertName p @ ''* fired - '' @ fp_metric p @ '' '' @ fp_method p @ nl @
                      ''value='' @ number_text env (fp_value p) @ '', expected='' @
                      expected_text env (fp_expected p) @ '' ('' @ fp_firedAt p @ '')'' in
           post env (\<lambda>status _. ''slack '' @ int_str status)
             \<lparr>hr_url = js_string env (json_get ''webhookUrl'' c),
              hr_headers = [(''content-type'', ''application/json'')],
              hr_body = stringify (nt_fraction env) (JObj [(''text'', JStr text)])\<rparr>))"

text \<open>\<open>createHmac\<close> throws on a secret that is truthy and no string.\<close>

definition webhook :: "notifier_env \<Rightarrow> json option \<Rightarrow> fire_payload \<Rightarrow> http_request list \<times> delivery" where
  "webhook env cfg p =
     (case cfg of
        None \<Rightarrow> ([], DeliveryFailed ''TypeError'')
      | Some JNull \<Rightarrow> ([], DeliveryFailed ''TypeError'')
      | Some c \<Rightarrow>
          (let body = stringify (nt_fraction env) (payload_json p);
               send = (\<lambda>headers. post env (\<lambda>status _. ''webhook '' @ int_str status)
                         \<lparr>hr_url = js_string env (json_get ''url'' c), hr_headers = headers,
                          hr_body = body\<rparr>);
               content = (''content-type'', ''application/json'') in
           if \<not> truthy (json_get ''secret'' c) then send [content]
           else case json_get ''secret'' c of
             Some (JStr secret) \<Rightarrow>
               send [content, (''x-insightflow-signature'', ''sha256='' @ nt_hmacHex env secret body)]
           | _ \<Rightarrow> ([], DeliveryFailed ''TypeError'')))"

definition deliver :: "notifier_env \<Rightarrow> fire_payload \<Rightarrow> json \<Rightarrow> http_request list \<times> delivery" where
  "deliver env p ch =
     (if ch = JNull then ([], DeliveryFailed ''TypeError'')
      else if json_get ''type'' ch = Some (JStr ''email'') then email env (json_get ''config'' ch) p
      else if json_get ''type'' ch = Some (JStr ''slack'') then slack env (json_get ''config'' ch) p
      else if json_get ''type'' ch = Some (JStr ''webhook'') then webhook env (json_get ''config'' ch) p
      else ([], Delivered))"

text \<open>
  \<open>fanout\<close> settles every delivery on its own; only a value without \<open>map\<close> makes it throw.
\<close>

definition fanout :: "notifier_env \<Rightarrow> json \<Rightarrow> fire_payload \<Rightarrow> string + (http_request list \<times> delivery) list" where
  "fanout env channels p =
     (case channels of JArr cs \<Rightarrow> Inr (map (deliver env p) cs) | _ \<Rightarrow> Inl ''TypeError'')"

section \<open>Facts\<close>

lemma fanout_JArr [simp]: "fanout env (JArr cs) p = Inr (map (deliver env p) cs)"
  by (simp add: fanout_def)

lemma json_get_two [simp]:
  "json_get ''type'' (JObj [(''type'', t), (''config'', c)]) = Some t"
  "json_get ''config'' (JObj [(''type'', t), (''config'', c)]) = Some c"
  by simp_all

lemma post_requests [simp]: "fst (post env f req) = [req]"
  by (simp add: post_def)

text \<open>A channel sends at most one request.\<close>

lemma deliver_one: "length (fst (deliver env p ch)) \<le> 1"
proof -
  have "length (fst (email env c p)) \<le> 1" "length (fst (slack env c p)) \<le> 1"
    "length (fst (webhook env c p)) \<le> 1" for c
    by (simp_all add: email_def slack_def webhook_def Let_def split: option.splits json.splits)
  then show ?thesis by (simp add: deliver_def)
qed

section \<open>Properties\<close>

text \<open>
  A webhook channel with a secret posts exactly one request, to the configured
  address, whose signature header is \<open>sha256=\<close> and the HMAC of exactly the bytes of the body
  it posts; parsing that body gives back the payload of the fired alert, provided the two
  numbers in it are integers.
\<close>

theorem webhook_signed:
  assumes "json_get ''secret'' (JObj c) = Some (JStr secret)" and "secret \<noteq> []"
    and "fp_value p = of_int n"
    and "\<forall>q. fp_expected p = Some q \<longrightarrow> q = of_int \<lfloor>q\<rfloor>"
  shows "\<exists>req. fst (deliver env p (JObj [(''type'', JStr ''webhook''), (''config'', JObj c)])) = [req] \<and>
     hr_url req = js_string env (json_get ''url'' (JObj c)) \<and>
     map_of (hr_headers req) ''x-insightflow-signature'' =
       Some (''sha256='' @ nt_hmacHex env secret (hr_body req)) \<and>
     json_parse (hr_body req) = Some (payload_json p)"
proof -
  have "integral (expected_json (fp_expected p))"
    using assms(4) by (simp add: expected_json_def split: option.split)
  then have "json_parse (stringify (nt_fraction env) (payload_json p)) = Some (payload_json p)"
    using assms(3) by (intro json_parse_stringify) (simp add: payload_json_def)
  moreover have "truthy (json_get ''secret'' (JObj c))"
    using assms(1,2) by (simp add: truthy_def)
  ultimately show ?thesis
    using assms(1) by (simp add: deliver_def webhook_def Let_def del: json_get.simps)
qed

definition sample_notifier :: notifier_env where
  "sample_notifier = \<lparr>nt_resendKey = [], nt_fromEmail = ''alerts@insightflow.local'',
     nt_hmacHex = (\<lambda>k m. k), nt_fraction = (\<lambda>_. ''0.5''), nt_string_of = (\<lambda>_. []),
     nt_fetch = (\<lambda>_. Some (200, []))\<rparr>"

definition sample_fire :: fire_payload where
  "sample_fire = \<lparr>fp_alertId = ''a1'', fp_alertName = ''Revenue'', fp_workspaceId = ''w1'',
     fp_metric = ''mrr'', fp_method = ''zscore'', fp_value = 7, fp_expected = Some 5,
     fp_firedAt = ''2026-01-01T00:00:00.000Z''\<rparr>"

theorem webhook_signed_witness:
  "\<exists>req. fst (deliver sample_notifier sample_fire (JObj [(''type'', JStr ''webhook''),
       (''config'', JObj [(''url'', JStr ''https://x''), (''secret'', JStr ''s3'')])])) = [req] \<and>
     map_of (hr_headers req) ''x-insightflow-signature'' = Some ''sha256=s3'' \<and>
     json_parse (hr_body req) = Some (payload_json sample_fire)"
proof -
  have "nt_hmacHex sample_notifier k m = k" for k m by (simp add: sample_notifier_def)
  moreover have "fp_value sample_fire = of_int 7"
    and "\<forall>q. fp_expected sample_fire = Some q \<longrightarrow> q = of_int \<lfloor>q\<rfloor>"
    by (simp_all add: sample_fire_def)
  ultimately show ?thesis
    using webhook_signed [where c = "[(''url'', JStr ''https://x''), (''secret'', JStr ''s3'')]"
        and secret = "''s3''" and p = sample_fire and n = 7 and env = sample_notifier]
    by fastforce
qed

end
