(* ===== verification/JsDate.thy ===== *)
theory JsDate
  imports JsText
begin

text \<open>
  \<open>Date.prototype.toISOString\<close> on a time value in milliseconds since the epoch, on the
  proleptic Gregorian calendar: days are counted from 1 March of year 0 in cycles of 400
  years. Years outside 0 to 9999 are written with a sign and six digits.
\<close>

text \<open>Year, month and day of a day number (day 0 is 1970-01-01).\<close>

definition civil_of_days :: "int \<Rightarrow> int \<times> int \<times> int" where
  "civil_of_days days =
     (let z = days + 719468;
          era = z div 146097;
          doe = z mod 146097;
          yoe = (doe - doe div 1460 + doe div 36524 - doe div 146096) div 365;
          doy = doe - (365 * yoe + yoe div 4 - yoe div 100);
          mp = (5 * doy + 2) div 153;
          d = doy - (153 * mp + 2) div 5 + 1;
          m = (if mp < 10 then mp + 3 else mp - 9);
          y = yoe + era * 400 + (if m \<le> 2 then 1 else 0)
      in (y, m, d))"

definition pad0 :: "nat \<Rightarrow> int \<Rightarrow> string" where
  "pad0 n i = (let t = nat_str (nat i) in replicate (n - length t) (CHR ''0'') @ t)"

definition year_str :: "int \<Rightarrow> string" where
  "year_str y =
     (if 0 \<le> y \<and> y \<le> 9999 then pad0 4 y
      else if y < 0 then ''-'' @ pad0 6 (- y) else ''+'' @ pad0 6 y)"

definition toISOString :: "int \<Rightarrow> string" where
  "toISOString ms =
     (let (y, m, d) = civil_of_days (ms div 86400000);
          r = ms mod 86400000
      in year_str y @ ''-'' @ pad0 2 m @ ''-'' @ pad0 2 d @ ''T'' @
         pad0 2 (r div 3600000) @ '':'' @ pad0 2 (r div 60000 mod 60) @ '':'' @
         pad0 2 (r div 1000 mod 60) @ ''.'' @ pad0 3 (r mod 1000) @ ''Z'')"

lemma iso_epoch: "toISOString 0 = ''1970-01-01T00:00:00.000Z''"
  by code_simp

lemma iso_leap_day: "toISOString 1709210096789 = ''2024-02-29T12:34:56.789Z''"
  by code_simp

lemma iso_year_end: "toISOString 1798761599999 = ''2026-12-31T23:59:59.999Z''"
  by code_simp

section \<open>The separators of an ISO text\<close>

lemma pad0_no_char: "\<not> is_digit c \<Longrightarrow> c \<notin> set (pad0 n i)"
proof -
  assume "\<not> is_digit c"
  moreover have "is_digit (CHR ''0'')" by (simp add: is_digit_def between_def)
  ultimately show ?thesis by (auto simp: pad0_def Let_def nat_str_no_char)
qed

lemma year_no_colon: "CHR '':'' \<notin> set (year_str y)"
proof -
  have "\<not> is_digit (CHR '':'')" by (simp add: is_digit_def between_def)
  then show ?thesis by (simp add: year_str_def pad0_no_char)
qed

lemma split_on_append_sep: "split_on c (a @ c # b) = split_on c a @ split_on c b"
proof (induction a)
  case Nil
  show ?case by simp
next
  case (Cons x a)
  then show ?case by (cases "split_on c a") auto
qed

text \<open>An ISO text has exactly two colons.\<close>

lemma iso_pieces: "length (split_on (CHR '':'') (toISOString ms)) = 3"
proof -
  obtain y m d where "civil_of_days (ms div 86400000) = (y, m, d)"
    by (cases "civil_of_days (ms div 86400000)") auto
  then have "\<exists>a b c. toISOString ms = a @ CHR '':'' # b @ CHR '':'' # c \<and>
      CHR '':'' \<notin> set a \<and> CHR '':'' \<notin> set b \<and> CHR '':'' \<notin> set c"
    using year_no_colon [of y] pad0_no_char [of "CHR '':''"]
    by (intro exI [of _ "year_str y @ ''-'' @ pad0 2 m @ ''-'' @ pad0 2 d @ ''T'' @
            pad0 2 ((ms mod 86400000) div 3600000)"]
          exI [of _ "pad0 2 ((ms mod 86400000) div 60000 mod 60)"]
          exI [of _ "pad0 2 ((ms mod 86400000) div 1000 mod 60) @ ''.'' @
            pad0 3 ((ms mod 86400000) mod 1000) @ ''Z''"])
       (simp add: toISOString_def Let_def is_digit_def between_def)
  then show ?thesis by (auto simp: split_on_append split_on_no_sep)
qed

text \<open>Texts joined by colons in front of two ISO texts are read back piece by piece.\<close>

lemma iso_key_inject:
  assumes "a @ CHR '':'' # toISOString f @ CHR '':'' # toISOString t =
           a' @ CHR '':'' # toISOString f' @ CHR '':'' # toISOString t'"
  shows "a = a' \<and> toISOString f = toISOString f' \<and> toISOString t = toISOString t'"
proof -
  let ?S = "split_on (CHR '':'')"
  have "?S a @ ?S (toISOString f) @ ?S (toISOString t) = ?S a' @ ?S (toISOString f') @ ?S (toISOString t')"
    using arg_cong [OF assms, of ?S] by (simp add: split_on_append_sep)
  then have "?S a = ?S a' \<and> ?S (toISOString f) = ?S (toISOString f') \<and>
      ?S (toISOString t) = ?S (toISOString t')"
    by (simp add: iso_pieces append_eq_append_conv)
  then show ?thesis by (metis join_split)
qed

section \<open>The time of day is in the text\<close>

lemma digit_char_inject: "d < 10 \<Longrightarrow> e < 10 \<Longrightarrow> digit_char d = digit_char e \<longleftrightarrow> d = e"
  by (metis digit_val_digit_char)

lemma str_nat_zeros: "str_nat (replicate n (CHR ''0'') @ s) = str_nat s"
  by (induction n) (simp_all add: str_nat_def digit_val_def)

lemma pad0_inject: "0 \<le> i \<Longrightarrow> 0 \<le> j \<Longrightarrow> pad0 n i = pad0 n j \<Longrightarrow> i = j"
proof -
  have "str_nat (pad0 n k) = nat k" for k by (simp add: pad0_def Let_def str_nat_zeros str_nat_nat_str)
  then show "0 \<le> i \<Longrightarrow> 0 \<le> j \<Longrightarrow> pad0 n i = pad0 n j \<Longrightarrow> i = j" by (metis nat_eq_iff2)
qed

lemma nat_str_two: "n < 100 \<Longrightarrow> length (nat_str n) \<le> 2"
  by (cases "n < 10") (simp_all add: nat_str.simps [of n] nat_str.simps [of "n div 10"] less_mult_imp_div_less)

lemma nat_str_three: "n < 1000 \<Longrightarrow> length (nat_str n) \<le> 3"
  using nat_str_two [of "n div 10"] by (simp add: nat_str.simps [of n])

lemma pad0_two: "0 \<le> i \<Longrightarrow> i < 100 \<Longrightarrow> length (pad0 2 i) = 2"
  using nat_str_two [of "nat i"] by (simp add: pad0_def Let_def nat_less_iff)

lemma pad0_three: "0 \<le> i \<Longrightarrow> i < 1000 \<Longrightarrow> length (pad0 3 i) = 3"
  using nat_str_three [of "nat i"] by (simp add: pad0_def Let_def nat_less_iff)

lemma div_mod_unique: "(x :: int) div n = y div n \<Longrightarrow> x mod n = y mod n \<Longrightarrow> x = y"
  by (metis mult_div_mod_eq)

lemma digits_of_day:
  assumes "(r :: int) div 3600000 = s div 3600000" "r div 60000 mod 60 = s div 60000 mod 60"
    and "r div 1000 mod 60 = s div 1000 mod 60" "r mod 1000 = s mod 1000"
  shows "r = s"
proof -
  have split: "x div 60000 div 60 = x div 3600000" "x div 1000 div 60 = x div 60000" for x :: int
    using zdiv_zmult2_eq [of 60 x 60000] zdiv_zmult2_eq [of 60 x 1000] by simp_all
  have "r div 60000 = s div 60000"
    by (rule div_mod_unique [of _ 60]) (simp_all only: split assms)
  then have "r div 1000 = s div 1000"
    by (intro div_mod_unique [of "r div 1000" 60]) (simp_all only: split assms)
  then show ?thesis using assms(4) by (rule div_mod_unique)
qed

lemma iso_time_of_day:
  assumes "toISOString a = toISOString b"
  shows "a mod 86400000 = b mod 86400000"
proof -
  let ?tail = "\<lambda>r. pad0 2 (r div 3600000) @ '':'' @ pad0 2 (r div 60000 mod 60) @ '':'' @
      pad0 2 (r div 1000 mod 60) @ ''.'' @ pad0 3 (r mod 1000) @ ''Z''"
  define r s where "r = a mod 86400000" and "s = b mod 86400000"
  have range: "0 \<le> r" "r < 86400000" "0 \<le> s" "s < 86400000" by (simp_all add: r_def s_def)
  then have hours: "0 \<le> r div 3600000" "r div 3600000 < 100" "0 \<le> s div 3600000" "s div 3600000 < 100"
    by (simp_all add: pos_imp_zdiv_nonneg_iff)
  have "\<exists>h. toISOString a = h @ ?tail r" "\<exists>h. toISOString b = h @ ?tail s"
    unfolding toISOString_def r_def s_def Let_def by (auto split: prod.split)
  then obtain h k where hk: "h @ ?tail r = k @ ?tail s" using assms by metis
  have len: "length (pad0 2 i) = 2" if "0 \<le> i" "i < 100" for i using that by (rule pad0_two)
  have len3: "length (pad0 3 i) = 3" if "0 \<le> i" "i < 1000" for i using that by (rule pad0_three)
  have "?tail r = ?tail s"
    using hk by (rule append_eq_append_conv [THEN iffD1, THEN conjunct2, rotated]) (simp add: len len3 hours)
  then have "pad0 2 (r div 3600000) = pad0 2 (s div 3600000)"
      "pad0 2 (r div 60000 mod 60) = pad0 2 (s div 60000 mod 60)"
      "pad0 2 (r div 1000 mod 60) = pad0 2 (s div 1000 mod 60)"
      "pad0 3 (r mod 1000) = pad0 3 (s mod 1000)"
    by (auto simp: append_eq_append_conv len len3 hours)
  then have "r div 3600000 = s div 3600000" "r div 60000 mod 60 = s div 60000 mod 60"
      "r div 1000 mod 60 = s div 1000 mod 60" "r mod 1000 = s mod 1000"
    using pad0_inject [OF hours(1,3)] pad0_inject [of "_ mod 60" "_ mod 60"] pad0_inject [of "_ mod 1000" "_ mod 1000"]
    by (simp_all)
  have "r = s"
    by (rule digits_of_day) fact+
  then show ?thesis by (simp add: r_def s_def)
qed

end
