(* ===== verification/AlertEvaluator.thy ===== *)
theory AlertEvaluator
  imports Alerts Notifier JsDate
begin

text \<open>
  The periodic evaluation of alert rules (\<open>alert-evaluator.service.ts\<close>). A cron tick takes a
  snapshot of the enabled rules and evaluates them one after the other: it asks the forecast
  service for anomalies, records an event, stamps the rule, notifies the channels and
  publishes on Redis. Between two rules the event loop may serve API requests and further
  ticks, so the same code is given twice: \<open>evaluate\<close> runs a tick to its end, \<open>eval_step\<close> is
  the step relation with the other activities in between.
\<close>

section \<open>World\<close>

record anomaly_point =
  ap_ds :: string
  ap_value :: rat
  ap_expected :: "rat option"
  ap_is_anomaly :: bool

text \<open>
  What the call of \<open>/anomaly\<close> ends in: a rejected \<open>fetch\<close> or an unreadable body, a response
  that is not ok, or the points with the method the service names.
\<close>

datatype anomaly_reply =
    FetchError string
  | HttpError int string
  | Reply "anomaly_point list" string

datatype effect =
    AskForecast string json
  | Notified "(http_request list \<times> delivery) list"
  | Publish string json
  | Warn string

record world =
  w_db :: db
  w_running :: bool
  w_queue :: "alert list"
  w_clock :: int
  w_trace :: "effect list"

record eval_env =
  ee_forecastUrl :: string
  ee_anomaly :: "string \<Rightarrow> json \<Rightarrow> anomaly_reply"
  ee_notifier :: notifier_env
  ee_number :: "json \<Rightarrow> rat option"

definition emit :: "effect \<Rightarrow> (world, unit) app" where
  "emit e w = (Inr (), w\<lparr>w_trace := w_trace w @ [e]\<rparr>)"

definition on_db :: "(db, 'a) app \<Rightarrow> (world, 'a) app" where
  "on_db m w = (let (a, s) = m (w_db w) in (a, w\<lparr>w_db := s\<rparr>))"

section \<open>One rule\<close>

definition forecast_base :: "string \<Rightarrow> string" where
  "forecast_base url = strip_trailing (CHR ''/'') url"

definition method_str :: "alert_method \<Rightarrow> string" where
  "method_str m = (case m of Zscore \<Rightarrow> ''zscore'' | Iqr \<Rightarrow> ''iqr'' | Threshold \<Rightarrow> ''threshold'')"

text \<open>\<open>Number(params.f ?? d)\<close>; a \<open>NaN\<close> is written as \<open>null\<close> by \<open>JSON.stringify\<close>.\<close>

definition number_param :: "eval_env \<Rightarrow> json option \<Rightarrow> rat \<Rightarrow> json" where
  "number_param env v d =
     (case v of
        None \<Rightarrow> JNum d
      | Some JNull \<Rightarrow> JNum d
      | Some (JNum q) \<Rightarrow> JNum q
      | Some (JBool b) \<Rightarrow> JNum (if b then 1 else 0)
      | Some j \<Rightarrow> (case ee_number env j of None \<Rightarrow> JNull | Some q \<Rightarrow> JNum q))"

definition anomaly_body :: "eval_env \<Rightarrow> alert \<Rightarrow> json" where
  "anomaly_body env a =
     (let params = al_thresholdParams a in JObj
       [(''workspace_id'', JStr (al_workspaceId a)), (''metric'', JStr (al_metric a)),
        (''method'', JStr (method_str (al_method a))),
        (''window_days'', number_param env (json_get ''windowDays'' params)
                            (if al_method a = Iqr then 14 else 7)),
        (''threshold'', number_param env (json_get ''threshold'' params)
                          (if al_method a = Iqr then 3 / 2 else 3))])"

definition lastFlagged :: "anomaly_point list \<Rightarrow> anomaly_point option" where
  "lastFlagged points = List.find ap_is_anomaly (rev points)"

definition cooling :: "alert \<Rightarrow> int \<Rightarrow> bool" where
  "cooling a now =
     (case al_lastFiredAt a of
        None \<Rightarrow> False
      | Some t \<Rightarrow> now - t < al_cooldownSeconds a * 1000)"

definition set_last_fired :: "string \<Rightarrow> int \<Rightarrow> (db, unit) app" where
  "set_last_fired i t s =
     (if \<exists>a \<in> set (alerts s). al_id a = i
      then (Inr (), s\<lparr>alerts := update_where (\<lambda>a. al_id a = i)
                        (\<lambda>a. a\<lparr>al_lastFiredAt := Some t, al_updatedAt := t\<rparr>) (alerts s)\<rparr>)
      else (Inl (Crash ''Record to update not found''), s))"

definition fire_payload_of :: "alert \<Rightarrow> anomaly_point \<Rightarrow> int \<Rightarrow> fire_payload" where
  "fire_payload_of a p firedAt =
     \<lparr>fp_alertId = al_id a, fp_alertName = al_name a, fp_workspaceId = al_workspaceId a,
      fp_metric = al_metric a, fp_method = method_str (al_method a), fp_value = ap_value p,
      fp_expected = ap_expected p, fp_firedAt = toISOString firedAt\<rparr>"

definition publish_body :: "fire_payload \<Rightarrow> string \<Rightarrow> json" where
  "publish_body p eventId =
     (case payload_json p of JObj kvs \<Rightarrow> JObj (kvs @ [(''eventId'', JStr eventId)]) | j \<Rightarrow> j)"

text \<open>
  \<open>evaluateOne\<close>. The three clock readings: \<open>now\<close> for the cool-down, \<open>fired\<close> for the stamp,
  \<open>stored\<close> by the database for the event row.
\<close>

definition fire :: "eval_env \<Rightarrow> int \<times> int \<times> int \<Rightarrow> string \<Rightarrow> alert \<Rightarrow> anomaly_point \<Rightarrow> string
    \<Rightarrow> (world, unit) app" where
  "fire env clock fresh a p method =
     (let (now, fired, stored) = clock; payload = fire_payload_of a p fired in
      andThen (on_db (recordFire fresh stored (al_workspaceId a) (al_id a) (ap_value p)
                 (ap_expected p) (JObj [(''ds'', JStr (ap_ds p)), (''method'', JStr method)]))) (\<lambda>event.
      andThen (on_db (set_last_fired (al_id a) fired)) (\<lambda>_.
        case fanout (ee_notifier env) (al_channelsJson a) payload of
          Inl m \<Rightarrow> throw (Crash m)
        | Inr deliveries \<Rightarrow>
            andThen (emit (Notified deliveries)) (\<lambda>_.
            emit (Publish (''alerts:fired:'' @ al_workspaceId a)
                    (publish_body payload (ev_id event)))))))"

definition evaluateOne :: "eval_env \<Rightarrow> int \<times> int \<times> int \<Rightarrow> string \<Rightarrow> alert \<Rightarrow> (world, unit) app" where
  "evaluateOne env clock fresh a =
     (if al_method a = Threshold then ok ()
      else
        let url = forecast_base (ee_forecastUrl env) @ ''/anomaly''; body = anomaly_body env a in
        andThen (emit (AskForecast url body)) (\<lambda>_.
          case ee_anomaly env url body of
            FetchError m \<Rightarrow> throw (Crash m)
          | HttpError status text \<Rightarrow>
              throw (Crash (''forecast /anomaly '' @ int_str status @ '': '' @ text))
          | Reply points method \<Rightarrow>
             (case lastFlagged points of
                None \<Rightarrow> ok ()
              | Some p \<Rightarrow>
                  if cooling a (fst clock) then ok () else fire env clock fresh a p method)))"

text \<open>The error of one rule is logged and goes no further.\<close>

definition evaluate_caught ::
  "eval_env \<Rightarrow> int \<times> int \<times> int \<Rightarrow> string \<Rightarrow> alert \<Rightarrow> (world, unit) app" where
  "evaluate_caught env clock fresh a w =
     (case evaluateOne env clock fresh a w of
        (Inl e, w') \<Rightarrow>
          emit (Warn (''alert '' @ al_id a @ '' eval failed: '' @ err_message e)) w'
      | (Inr x, w') \<Rightarrow> (Inr x, w'))"

section \<open>A tick\<close>

text \<open>Clock readings and generated ids by the position of the rule in the snapshot.\<close>

fun evaluate_all ::
  "eval_env \<Rightarrow> (nat \<Rightarrow> int \<times> int \<times> int) \<Rightarrow> (nat \<Rightarrow> string) \<Rightarrow> nat \<Rightarrow> alert list \<Rightarrow> (world, unit) app" where
  "evaluate_all env clocks ids n [] = ok ()"
| "evaluate_all env clocks ids n (a # as) =
     andThen (evaluate_caught env (clocks n) (ids n) a) (\<lambda>_.
       evaluate_all env clocks ids (Suc n) as)"

definition enabled_alerts :: "db \<Rightarrow> alert list" where
  "enabled_alerts s = filter al_enabled (alerts s)"

definition evaluate ::
  "eval_env \<Rightarrow> (nat \<Rightarrow> int \<times> int \<times> int) \<Rightarrow> (nat \<Rightarrow> string) \<Rightarrow> world \<Rightarrow> world" where
  "evaluate env clocks ids w =
     (if w_running w
      then after (emit (Warn ''alert evaluation already in progress - skipping tick'')) w
      else let w1 = w\<lparr>w_running := True\<rparr>;
               w2 = after (evaluate_all env clocks ids 0 (enabled_alerts (w_db w1))) w1
           in w2\<lparr>w_running := False\<rparr>)"

section \<open>Steps\<close>

text \<open>
  The alert requests a client may send between two rules, as the routes run them, and the
  evaluator's own steps. The clock only moves forward; the id of a new rule is one that no
  rule of the table or of the snapshot has.
\<close>

inductive eval_step :: "eval_env \<Rightarrow> world \<Rightarrow> world \<Rightarrow> bool" for env where
  skip: "w_running w \<Longrightarrow>
    eval_step env w (after (emit (Warn ''alert evaluation already in progress - skipping tick'')) w)"
| start: "\<not> w_running w \<Longrightarrow>
    eval_step env w (w\<lparr>w_running := True, w_queue := enabled_alerts (w_db w)\<rparr>)"
| one: "w_running w \<Longrightarrow> w_queue w = a # as \<Longrightarrow> w_clock w \<le> now \<Longrightarrow> now \<le> fired \<Longrightarrow>
    eval_step env w
      ((after (evaluate_caught env (now, fired, stored) fresh a) w)\<lparr>w_queue := as, w_clock := fired\<rparr>)"
| finish: "w_running w \<Longrightarrow> w_queue w = [] \<Longrightarrow> eval_step env w (w\<lparr>w_running := False\<rparr>)"
| api_create: "fresh \<notin> al_id ` (set (alerts (w_db w)) \<union> set (w_queue w)) \<Longrightarrow>
    eval_step env w (after (on_db (alert_create_route fresh t uid p c)) w)"
| api_update: "eval_step env w (after (on_db (alert_update_route is_uuid t uid p i u)) w)"
| api_delete: "eval_step env w (after (on_db (alert_delete_route is_uuid uid p i)) w)"
| wait: "w_clock w \<le> t \<Longrightarrow> eval_step env w (w\<lparr>w_clock := t\<rparr>)"

section \<open>What an evaluation does to the database\<close>

text \<open>The point and the method an evaluation of \<open>a\<close> at \<open>now\<close> fires with, if it fires.\<close>

definition firing :: "eval_env \<Rightarrow> alert \<Rightarrow> int \<Rightarrow> (anomaly_point \<times> string) option" where
  "firing env a now =
     (if al_method a = Threshold then None
      else case ee_anomaly env (forecast_base (ee_forecastUrl env) @ ''/anomaly'') (anomaly_body env a) of
        Reply points method \<Rightarrow>
          (case lastFlagged points of
             None \<Rightarrow> None
           | Some p \<Rightarrow> if cooling a now then None else Some (p, method))
      | _ \<Rightarrow> None)"

definition fire_event :: "alert \<Rightarrow> anomaly_point \<Rightarrow> string \<Rightarrow> int \<Rightarrow> string \<Rightarrow> alert_event" where
  "fire_event a p method stored fresh =
     \<lparr>ev_id = fresh, ev_alertId = al_id a, ev_workspaceId = al_workspaceId a, ev_firedAt = stored,
      ev_value = ap_value p, ev_expected = ap_expected p,
      ev_payload = JObj [(''ds'', JStr (ap_ds p)), (''method'', JStr method)]\<rparr>"

definition stamp :: "string \<Rightarrow> int \<Rightarrow> alert list \<Rightarrow> alert list" where
  "stamp i t = update_where (\<lambda>a. al_id a = i) (\<lambda>a. a\<lparr>al_lastFiredAt := Some t, al_updatedAt := t\<rparr>)"

definition fired_db :: "alert \<Rightarrow> anomaly_point \<Rightarrow> string \<Rightarrow> int \<Rightarrow> int \<Rightarrow> string \<Rightarrow> db \<Rightarrow> db" where
  "fired_db a p method fired stored fresh s =
     (if \<exists>r \<in> set (alerts s). al_id r = al_id a
      then s\<lparr>alert_events := alert_events s @ [fire_event a p method stored fresh],
             alerts := stamp (al_id a) fired (alerts s)\<rparr>
      else s)"

lemma on_db_eq:
  "on_db m w = (answer m (w_db w), w\<lparr>w_db := after m (w_db w)\<rparr>)"
  by (simp add: on_db_def split: prod.split)

lemma emit_eq [simp]: "emit e w = (Inr (), w\<lparr>w_trace := w_trace w @ [e]\<rparr>)"
  by (simp add: emit_def)

lemma recordFire_eq:
  "recordFire fresh stored (al_workspaceId a) (al_id a) (ap_value p) (ap_expected p)
     (JObj [(''ds'', JStr (ap_ds p)), (''method'', JStr method)]) s =
   (if \<exists>r \<in> set (alerts s). al_id r = al_id a
    then (Inr (fire_event a p method stored fresh),
          s\<lparr>alert_events := alert_events s @ [fire_event a p method stored fresh]\<rparr>)
    else (Inl (Crash ''Foreign key constraint failed on the field: alert_id''), s))"
  by (simp add: recordFire_def fire_event_def Let_def)

lemma set_last_fired_eq:
  "set_last_fired i t s =
     (if \<exists>r \<in> set (alerts s). al_id r = i then (Inr (), s\<lparr>alerts := stamp i t (alerts s)\<rparr>)
      else (Inl (Crash ''Record to update not found''), s))"
  by (simp add: set_last_fired_def stamp_def)

text \<open>The effects of a firing after the two writes.\<close>

lemma fire_eq:
  "fire env (now, fired, stored) fresh a p method w =
     (if \<exists>r \<in> set (alerts (w_db w)). al_id r = al_id a then
        let w' = w\<lparr>w_db := fired_db a p method fired stored fresh (w_db w)\<rparr>;
            payload = fire_payload_of a p fired in
        case fanout (ee_notifier env) (al_channelsJson a) payload of
          Inl m \<Rightarrow> (Inl (Crash m), w')
        | Inr ds \<Rightarrow> (Inr (), w'\<lparr>w_trace := w_trace w @
            [Notified ds, Publish (''alerts:fired:'' @ al_workspaceId a) (publish_body payload fresh)]\<rparr>)
      else (Inl (Crash ''Foreign key constraint failed on the field: alert_id''), w))"
  by (auto simp: fire_def Let_def andThen_def on_db_eq recordFire_eq set_last_fired_eq
      fired_db_def fire_event_def split: sum.split)

lemma fire_frame:
  "w_db (after (fire env (now, fired, stored) fresh a p method) w) =
     fired_db a p method fired stored fresh (w_db w)"
  "w_running (after (fire env (now, fired, stored) fresh a p method) w) = w_running w"
  "w_queue (after (fire env (now, fired, stored) fresh a p method) w) = w_queue w"
  "w_clock (after (fire env (now, fired, stored) fresh a p method) w) = w_clock w"
  by (simp_all add: fire_eq Let_def fired_db_def split: sum.split)

lemma evaluateOne_eq:
  "evaluateOne env clock fresh a w =
     (if al_method a = Threshold then (Inr (), w)
      else let url = forecast_base (ee_forecastUrl env) @ ''/anomaly''; body = anomaly_body env a;
               w1 = w\<lparr>w_trace := w_trace w @ [AskForecast url body]\<rparr> in
        case ee_anomaly env url body of
          FetchError m \<Rightarrow> (Inl (Crash m), w1)
        | HttpError status text \<Rightarrow>
            (Inl (Crash (''forecast /anomaly '' @ int_str status @ '': '' @ text)), w1)
        | Reply points method \<Rightarrow>
           (case lastFlagged points of
              None \<Rightarrow> (Inr (), w1)
            | Some p \<Rightarrow> if cooling a (fst clock) then (Inr (), w1)
                        else fire env clock fresh a p method w1))"
  by (simp add: evaluateOne_def Let_def andThen_def split: anomaly_reply.split option.split)

lemma evaluateOne_frame:
  "w_db (after (evaluateOne env (now, fired, stored) fresh a) w) =
     (case firing env a now of None \<Rightarrow> w_db w
      | Some (p, method) \<Rightarrow> fired_db a p method fired stored fresh (w_db w))"
  "w_running (after (evaluateOne env (now, fired, stored) fresh a) w) = w_running w"
  "w_queue (after (evaluateOne env (now, fired, stored) fresh a) w) = w_queue w"
  "w_clock (after (evaluateOne env (now, fired, stored) fresh a) w) = w_clock w"
  by (simp_all add: evaluateOne_eq firing_def Let_def fire_frame
      split: anomaly_reply.split option.split)

lemma evaluate_caught_frame:
  "answer (evaluate_caught env c fresh a) w = Inr ()"
  "w_db (after (evaluate_caught env c fresh a) w) = w_db (after (evaluateOne env c fresh a) w)"
  "w_running (after (evaluate_caught env c fresh a) w) = w_running (after (evaluateOne env c fresh a) w)"
  "w_queue (after (evaluate_caught env c fresh a) w) = w_queue (after (evaluateOne env c fresh a) w)"
  "w_clock (after (evaluate_caught env c fresh a) w) = w_clock (after (evaluateOne env c fresh a) w)"
  by (simp_all add: evaluate_caught_def split: prod.split sum.split)

lemmas caught_frame = evaluate_caught_frame [where c = "(now, fired, stored)" for now fired stored,
    unfolded evaluateOne_frame]

section \<open>The invariant of the evaluator\<close>

text \<open>
  The rules are well formed with unique ids; the snapshot is well formed, has no rule twice,
  and is empty outside a tick; while a rule of the snapshot still exists its stamp is the one
  the snapshot shows; and no stamp lies in the future.
\<close>

definition snapshot_current :: "alert list \<Rightarrow> alert list \<Rightarrow> bool" where
  "snapshot_current queue rows \<longleftrightarrow>
     (\<forall>a \<in> set queue. \<forall>r \<in> set rows. al_id r = al_id a \<longrightarrow> al_lastFiredAt r = al_lastFiredAt a)"

definition stamps_past :: "int \<Rightarrow> alert list \<Rightarrow> bool" where
  "stamps_past t rows \<longleftrightarrow> (\<forall>r \<in> set rows. \<forall>u. al_lastFiredAt r = Some u \<longrightarrow> u \<le> t)"

definition ev_inv :: "world \<Rightarrow> bool" where
  "ev_inv w \<longleftrightarrow> alerts_ok (w_db w) \<and> distinct (map al_id (alerts (w_db w))) \<and>
     list_all alert_ok (w_queue w) \<and> distinct (map al_id (w_queue w)) \<and>
     (\<not> w_running w \<longrightarrow> w_queue w = []) \<and>
     snapshot_current (w_queue w) (alerts (w_db w)) \<and> stamps_past (w_clock w) (alerts (w_db w))"

lemma same_id: "distinct (map al_id xs) \<Longrightarrow> a \<in> set xs \<Longrightarrow> b \<in> set xs \<Longrightarrow> al_id a = al_id b \<Longrightarrow> a = b"
  by (auto simp: distinct_map inj_on_def)

lemma in_stamp:
  "r \<in> set (stamp i t rows) \<Longrightarrow>
     \<exists>r0 \<in> set rows. r = (if al_id r0 = i then r0\<lparr>al_lastFiredAt := Some t, al_updatedAt := t\<rparr> else r0)"
  by (auto simp: stamp_def set_update_where)

lemma stamp_ids [simp]: "map al_id (stamp i t rows) = map al_id rows"
  by (simp add: stamp_def)

lemma alert_ok_stamp [simp]:
  "alert_ok (a\<lparr>al_lastFiredAt := x, al_updatedAt := y\<rparr>) = alert_ok a"
  by (simp add: alert_ok_def)

lemma alerts_fired_db:
  "alerts (fired_db a p m fired stored fresh s) =
     (if \<exists>r \<in> set (alerts s). al_id r = al_id a then stamp (al_id a) fired (alerts s) else alerts s)"
  by (simp add: fired_db_def)

lemma stampE:
  assumes "r \<in> set (stamp i t rows)"
  obtains (stamped) r0 where "r0 \<in> set rows" "al_id r0 = i" "al_id r = i"
      "al_lastFiredAt r = Some t"
    | (other) "r \<in> set rows" "al_id r \<noteq> i"
proof -
  obtain r0 where r0: "r0 \<in> set rows"
    "r = (if al_id r0 = i then r0\<lparr>al_lastFiredAt := Some t, al_updatedAt := t\<rparr> else r0)"
    using in_stamp [OF assms] by blast
  show thesis
  proof (cases "al_id r0 = i")
    case True
    with r0 have "al_id r = i" "al_lastFiredAt r = Some t" by simp_all
    with r0(1) True show thesis by (rule stamped)
  next
    case False
    with r0 show thesis using other by simp
  qed
qed

lemma stamp_keeps_snapshot:
  assumes "distinct (map al_id (a # as))" and "snapshot_current (a # as) rows"
  shows "snapshot_current as (stamp (al_id a) fired rows)"
  unfolding snapshot_current_def
proof (intro ballI impI)
  fix b r assume b: "b \<in> set as" and r: "r \<in> set (stamp (al_id a) fired rows)"
    and id: "al_id r = al_id b"
  have "al_id b \<noteq> al_id a" using assms(1) imageI [OF b, of al_id] by auto
  with r id have "r \<in> set rows" by (cases rule: stampE) simp_all
  with assms(2) b id show "al_lastFiredAt r = al_lastFiredAt b"
    by (simp add: snapshot_current_def)
qed

lemma stamp_keeps_past:
  assumes "stamps_past c rows" and "c \<le> fired"
  shows "stamps_past fired (stamp i fired rows)"
  unfolding stamps_past_def
proof (intro ballI allI impI)
  fix r u assume "r \<in> set (stamp i fired rows)" and "al_lastFiredAt r = Some u"
  then show "u \<le> fired"
    using assms by (cases rule: stampE) (auto simp: stamps_past_def)
qed

lemma stamp_keeps_ok: "list_all alert_ok rows \<Longrightarrow> list_all alert_ok (stamp i t rows)"
  unfolding stamp_def by (rule list_all_update_where) simp_all

lemmas stamp_keeps = stamp_keeps_snapshot stamp_keeps_past stamp_keeps_ok

lemma ev_inv_one:
  assumes inv: "ev_inv w" and q: "w_queue w = a # as" and t: "w_clock w \<le> now" "now \<le> fired"
  shows "ev_inv ((after (evaluate_caught env (now, fired, stored) fresh a) w)
           \<lparr>w_queue := as, w_clock := fired\<rparr>)"
proof -
  let ?s = "w_db (after (evaluate_caught env (now, fired, stored) fresh a) w)"
  let ?rows = "alerts (w_db w)"
  have c: "w_clock w \<le> fired" using t by simp
  have parts: "distinct (map al_id (a # as))" "snapshot_current (a # as) ?rows"
    "stamps_past (w_clock w) ?rows" "list_all alert_ok ?rows" "distinct (map al_id ?rows)"
    "list_all alert_ok as" "w_running w"
    using inv q by (auto simp: ev_inv_def alerts_ok_def)
  have "alerts ?s = ?rows \<or> alerts ?s = stamp (al_id a) fired ?rows"
    by (simp add: caught_frame alerts_fired_db split: option.split prod.split)
  then have "snapshot_current as (alerts ?s) \<and> stamps_past fired (alerts ?s) \<and>
      list_all alert_ok (alerts ?s) \<and> distinct (map al_id (alerts ?s))"
  proof
    assume "alerts ?s = ?rows"
    with parts c show ?thesis by (fastforce simp: snapshot_current_def stamps_past_def)
  next
    assume "alerts ?s = stamp (al_id a) fired ?rows"
    with stamp_keeps_snapshot [OF parts(1,2)] stamp_keeps_past [OF parts(3) c]
      stamp_keeps_ok [OF parts(4)] parts(5) show ?thesis by simp
  qed
  with parts show ?thesis
    by (simp add: ev_inv_def alerts_ok_def caught_frame)
qed

text \<open>Requests on the alert routes leave the stamps of the rules alone.\<close>

definition stamps_kept :: "string set \<Rightarrow> alert list \<Rightarrow> alert list \<Rightarrow> bool" where
  "stamps_kept new rows rows' \<longleftrightarrow> (\<forall>r' \<in> set rows'.
     (\<exists>r \<in> set rows. al_id r = al_id r' \<and> al_lastFiredAt r = al_lastFiredAt r') \<or>
     (al_id r' \<in> new \<and> al_lastFiredAt r' = None))"

lemma stamps_kept_refl: "stamps_kept new rows rows"
  by (auto simp: stamps_kept_def)

lemma stamps_kept_inv:
  assumes "ev_inv w" and "stamps_kept new (alerts (w_db w)) (alerts s)" and "alerts_ok s"
    and "distinct (map al_id (alerts s))" and "new \<inter> al_id ` set (w_queue w) = {}"
  shows "ev_inv (w\<lparr>w_db := s\<rparr>)"
proof -
  have "snapshot_current (w_queue w) (alerts s)"
    unfolding snapshot_current_def
  proof (intro ballI impI)
    fix a r' assume a: "a \<in> set (w_queue w)" and r': "r' \<in> set (alerts s)" and "al_id r' = al_id a"
    with assms(5) have "al_id r' \<notin> new" by auto
    with assms(2) r' obtain r where "r \<in> set (alerts (w_db w))" "al_id r = al_id r'"
      "al_lastFiredAt r = al_lastFiredAt r'" unfolding stamps_kept_def by blast
    with assms(1) a \<open>al_id r' = al_id a\<close> show "al_lastFiredAt r' = al_lastFiredAt a"
      by (auto simp: ev_inv_def snapshot_current_def)
  qed
  moreover have "stamps_past (w_clock w) (alerts s)"
    unfolding stamps_past_def
  proof (intro ballI allI impI)
    fix r' u assume r': "r' \<in> set (alerts s)" "al_lastFiredAt r' = Some u"
    with assms(2) obtain r where "r \<in> set (alerts (w_db w))" "al_lastFiredAt r = Some u"
      unfolding stamps_kept_def by fastforce
    with assms(1) show "u \<le> w_clock w" by (auto simp: ev_inv_def stamps_past_def)
  qed
  ultimately show ?thesis using assms by (simp add: ev_inv_def)
qed

lemma create_route_db:
  "after (alert_create_route fresh t uid p c) s = s \<or>
   (valid_create_alert c \<and> isKnownMetric (ca_metric c) \<and>
    (\<exists>w. after (alert_create_route fresh t uid p c) s =
       s\<lparr>alerts := alerts s @ [new_alert fresh t w c]\<rparr>))"
  by (simp add: alert_create_route_def guarded_eq andThen_def validation_pipe_def require_role_eq
      alert_create_eq split: option.split) blast

lemma update_route_db:
  "after (alert_update_route is_uuid t uid p i u) s = s \<or>
   (valid_update_alert u \<and> after (alert_update_route is_uuid t uid p i u) s =
      s\<lparr>alerts := update_where (\<lambda>a. al_id a = i) (alert_changes t u) (alerts s)\<rparr>)"
  by (simp add: alert_update_route_def guarded_eq andThen_def uuid_pipe_def validation_pipe_def
      require_role_eq alert_update_eq split: option.split sum.split)

lemma delete_route_db:
  "after (alert_delete_route is_uuid uid p i) s = s \<or>
   after (alert_delete_route is_uuid uid p i) s =
     s\<lparr>alerts := delete_where (\<lambda>a. al_id a = i) (alerts s),
       alert_events := delete_where (\<lambda>e. ev_alertId e = i) (alert_events s)\<rparr>"
  by (simp add: alert_delete_route_def guarded_eq andThen_def uuid_pipe_def require_role_eq
      alert_delete_eq split: option.split sum.split)

lemma create_route_stamps:
  "stamps_kept {fresh} (alerts s) (alerts (after (alert_create_route fresh t uid p c) s))"
  using create_route_db [of fresh t uid p c s] by (auto simp: stamps_kept_def)

lemma update_route_stamps:
  "stamps_kept {} (alerts s) (alerts (after (alert_update_route is_uuid t uid p i u) s))"
  using update_route_db [of is_uuid t uid p i u s] by (auto simp: stamps_kept_def set_update_where) blast+

lemma delete_route_stamps:
  "stamps_kept {} (alerts s) (alerts (after (alert_delete_route is_uuid uid p i) s))"
  using delete_route_db [of is_uuid uid p i s] by (auto simp: stamps_kept_def)

lemma alert_routes_ok:
  assumes "alerts_ok s"
  shows "alerts_ok (after (alert_create_route fresh t uid p c) s)"
    and "alerts_ok (after (alert_update_route is_uuid t uid p i u) s)"
    and "alerts_ok (after (alert_delete_route is_uuid uid p i) s)"
  using create_route_db [of fresh t uid p c s] update_route_db [of is_uuid t uid p i u s]
    delete_route_db [of is_uuid uid p i s] assms
  by (auto simp: alerts_ok_def new_alert_ok alert_changes_ok list_all_update_where list_all_delete_where)

lemma alert_routes_ids:
  assumes "distinct (map al_id (alerts s))"
  shows "fresh \<notin> al_id ` set (alerts s) \<Longrightarrow>
      distinct (map al_id (alerts (after (alert_create_route fresh t uid p c) s)))"
    and "distinct (map al_id (alerts (after (alert_update_route is_uuid t uid p i u) s)))"
    and "distinct (map al_id (alerts (after (alert_delete_route is_uuid uid p i) s)))"
  using create_route_db [of fresh t uid p c s] update_route_db [of is_uuid t uid p i u s]
    delete_route_db [of is_uuid uid p i s] assms by auto

lemma ev_inv_step: "eval_step env w w' \<Longrightarrow> ev_inv w \<Longrightarrow> ev_inv w'"
proof (induction rule: eval_step.induct)
  case (start w)
  then show ?case
    by (auto simp: ev_inv_def enabled_alerts_def snapshot_current_def alerts_ok_def list_all_iff
        distinct_map_filter dest: same_id)
next
  case (one w a as now fired stored fresh)
  then show ?case by (intro ev_inv_one)
next
  case (api_create fresh w t uid p c)
  then have "fresh \<notin> al_id ` set (alerts (w_db w))" and "alerts_ok (w_db w)"
    and "distinct (map al_id (alerts (w_db w)))" by (auto simp: ev_inv_def)
  with api_create show ?case
    by (simp add: on_db_eq, intro stamps_kept_inv [OF _ create_route_stamps] alert_routes_ok
        alert_routes_ids) auto
next
  case (api_update w is_uuid t uid p i u)
  then show ?case
    by (simp add: on_db_eq, intro stamps_kept_inv [OF _ update_route_stamps] alert_routes_ok
        alert_routes_ids) (auto simp: ev_inv_def)
next
  case (api_delete w is_uuid uid p i)
  then show ?case
    by (simp add: on_db_eq, intro stamps_kept_inv [OF _ delete_route_stamps] alert_routes_ok
        alert_routes_ids) (auto simp: ev_inv_def)
next
  case (wait w t)
  then show ?case by (fastforce simp: ev_inv_def stamps_past_def)
qed (auto simp: ev_inv_def)

interpretation evaluator: inductive_invariant "eval_step env" ev_inv for env
  by unfold_locales (rule ev_inv_step)

section \<open>Spacing of the fires\<close>

lemma stamps_kept_same:
  assumes "stamps_kept new rows rows'" and "distinct (map al_id rows)"
    and "new \<inter> al_id ` set rows = {}"
    and "r \<in> set rows" and "r' \<in> set rows'" and "al_id r = al_id r'"
  shows "al_lastFiredAt r' = al_lastFiredAt r"
proof -
  have "al_id r' \<notin> new" using assms(3,6) imageI [OF assms(4), of al_id] by auto
  with assms(1,5) obtain r1 where "r1 \<in> set rows" "al_id r1 = al_id r'"
    "al_lastFiredAt r1 = al_lastFiredAt r'" unfolding stamps_kept_def by blast
  with assms(2,4,6) same_id show ?thesis by metis
qed

lemma stamps_moved_by_one:
  assumes "eval_step env w w'" and "ev_inv w"
    and "r \<in> set (alerts (w_db w))" and "r' \<in> set (alerts (w_db w'))" and "al_id r = al_id r'"
    and "al_lastFiredAt r' \<noteq> al_lastFiredAt r"
  obtains a as now fired stored fresh where "w_queue w = a # as" "w_clock w \<le> now" "now \<le> fired"
    "w_db w' = w_db (after (evaluate_caught env (now, fired, stored) fresh a) w)"
proof -
  have ids: "distinct (map al_id (alerts (w_db w)))" using assms(2) by (simp add: ev_inv_def)
  have same: "alerts (w_db w') \<noteq> alerts (w_db w)"
    using same_id [OF ids assms(3) _ assms(5)] assms(4,6) by auto
  have kept: "\<not> stamps_kept new (alerts (w_db w)) (alerts (w_db w'))"
    if "new \<inter> al_id ` set (alerts (w_db w)) = {}" for new
    using stamps_kept_same [OF _ ids that assms(3-5)] assms(6) by blast
  from assms(1) show thesis
  proof (cases rule: eval_step.cases)
    case (one a as now fired stored fresh)
    then show thesis using that by simp
  next
    case (api_create fresh t uid p c)
    then show thesis using kept [of "{fresh}"] create_route_stamps by (auto simp: on_db_eq)
  next
    case (api_update is_uuid t uid p i u)
    then show thesis using kept [of "{}"] update_route_stamps by (auto simp: on_db_eq)
  next
    case (api_delete is_uuid uid p i)
    then show thesis using kept [of "{}"] delete_route_stamps by (auto simp: on_db_eq)
  qed (use same in simp_all)
qed

lemma firing_not_cooling: "firing env a now = Some pm \<Longrightarrow> \<not> cooling a now"
  by (auto simp: firing_def split: if_splits anomaly_reply.splits option.splits)

lemma fire_spacing:
  assumes "eval_step env w w'" and "ev_inv w"
    and r: "r \<in> set (alerts (w_db w))" and r': "r' \<in> set (alerts (w_db w'))" and id: "al_id r = al_id r'"
    and moved: "al_lastFiredAt r' \<noteq> al_lastFiredAt r"
  shows "\<exists>a as t'. w_queue w = a # as \<and> al_id a = al_id r \<and> 60 \<le> al_cooldownSeconds a \<and>
    al_lastFiredAt r' = Some t' \<and> w_clock w \<le> t' \<and>
    (\<forall>t. al_lastFiredAt r = Some t \<longrightarrow> t + al_cooldownSeconds a * 1000 \<le> t')"
proof -
  obtain a as now fired stored fresh where q: "w_queue w = a # as"
    and clock: "w_clock w \<le> now" "now \<le> fired"
    and db: "w_db w' = w_db (after (evaluate_caught env (now, fired, stored) fresh a) w)"
    by (rule stamps_moved_by_one [OF assms])
  have ids: "distinct (map al_id (alerts (w_db w)))" and snap: "snapshot_current (a # as) (alerts (w_db w))"
    and ok: "alert_ok a" using assms(2) q by (auto simp: ev_inv_def)
  have ne: "alerts (w_db w') \<noteq> alerts (w_db w)" using same_id [OF ids r _ id] r' moved by auto
  then obtain pm where pm: "firing env a now = Some pm"
    unfolding db caught_frame by (cases "firing env a now") auto
  have "alerts (w_db w') = stamp (al_id a) fired (alerts (w_db w))"
    using ne pm unfolding db caught_frame by (simp add: alerts_fired_db split: prod.splits if_splits)
  with r' have "r' \<in> set (stamp (al_id a) fired (alerts (w_db w)))" by simp
  then show ?thesis
  proof (cases rule: stampE)
    case (stamped r0)
    have last: "al_lastFiredAt r = al_lastFiredAt a"
      using snap r id stamped(3) by (simp add: snapshot_current_def)
    have spaced: "t + al_cooldownSeconds a * 1000 \<le> fired" if "al_lastFiredAt r = Some t" for t
    proof -
      from that last firing_not_cooling [OF pm] have "al_cooldownSeconds a * 1000 \<le> now - t"
        by (simp add: cooling_def)
      with clock show ?thesis by simp
    qed
    have "60 \<le> al_cooldownSeconds a" using ok by (simp add: alert_ok_def in_range_def)
    with q spaced stamped(3,4) id clock show ?thesis by auto
  next
    case other
    with same_id [OF ids r _ id] moved show ?thesis by auto
  qed
qed

text \<open>A rule of the snapshot was read from the table when its tick started.\<close>

lemma snapshot_origin:
  assumes "reaches (eval_step env) w0 w" and "w_queue w0 = []" and "a \<in> set (w_queue w)"
  shows "\<exists>v. reaches (eval_step env) w0 v \<and> reaches (eval_step env) v w \<and> a \<in> set (enabled_alerts (w_db v))"
  using assms(1,3)
proof (induction rule: rtranclp_induct)
  case base
  then show ?case using assms(2) by simp
next
  case (step w w')
  have "a \<in> set (w_queue w) \<or> a \<in> set (enabled_alerts (w_db w))"
    using step.hyps(2) step.prems by (cases rule: eval_step.cases) (auto simp: on_db_eq)
  then show ?case
  proof
    assume "a \<in> set (w_queue w)"
    with step.IH step.hyps(2) show ?thesis by (meson rtranclp.rtrancl_into_rtrancl)
  next
    assume "a \<in> set (enabled_alerts (w_db w))"
    with step.hyps show ?thesis by blast
  qed
qed

section \<open>A whole tick\<close>

definition asks :: "effect list \<Rightarrow> (string \<times> json) list" where
  "asks tr = List.map_filter (\<lambda>e. case e of AskForecast u b \<Rightarrow> Some (u, b) | _ \<Rightarrow> None) tr"

lemma asks_append [simp]: "asks (xs @ ys) = asks xs @ asks ys"
  by (simp add: asks_def List.map_filter_def)

lemma asks_simps [simp]:
  "asks [] = []" "asks (AskForecast u b # tr) = (u, b) # asks tr"
  "asks (Notified d # tr) = asks tr" "asks (Publish c m # tr) = asks tr" "asks (Warn t # tr) = asks tr"
  by (simp_all add: asks_def List.map_filter_def)

definition question :: "eval_env \<Rightarrow> alert \<Rightarrow> string \<times> json" where
  "question env a = (forecast_base (ee_forecastUrl env) @ ''/anomaly'', anomaly_body env a)"

lemma fire_asks: "asks (w_trace (after (fire env c fresh a p m) w)) = asks (w_trace w)"
  by (cases c) (simp add: fire_eq Let_def split: sum.split)

lemma caught_asks:
  "asks (w_trace (after (evaluate_caught env c fresh a) w)) =
     asks (w_trace w) @ (if al_method a = Threshold then [] else [question env a])"
proof -
  have "asks (w_trace (after (evaluateOne env c fresh a) w)) =
      asks (w_trace w) @ (if al_method a = Threshold then [] else [question env a])"
    by (simp add: evaluateOne_eq Let_def question_def fire_asks
        split: anomaly_reply.split option.split)
  then show ?thesis by (auto simp: evaluate_caught_def split: prod.split sum.split)
qed

lemma evaluate_caught_Inr: "evaluate_caught env c fresh a w = (Inr (), after (evaluate_caught env c fresh a) w)"
  using evaluate_caught_frame(1) [of env c fresh a w] by (metis prod.collapse)

lemma evaluate_all_Cons:
  "after (evaluate_all env clocks ids n (a # as)) w =
     after (evaluate_all env clocks ids (Suc n) as) (after (evaluate_caught env (clocks n) (ids n) a) w)"
  by (simp add: andThen_Inr [OF evaluate_caught_Inr])

lemma evaluate_all_asks:
  "asks (w_trace (after (evaluate_all env clocks ids n as) w)) =
     asks (w_trace w) @ map (question env) (filter (\<lambda>a. al_method a \<noteq> Threshold) as)"
  by (induction as arbitrary: n w) (simp_all add: evaluate_all_Cons caught_asks del: evaluate_all.simps(2))

lemma caught_running: "w_running (after (evaluate_caught env c fresh a) w) = w_running w"
  by (cases c) (simp add: caught_frame)

lemma evaluate_all_running: "w_running (after (evaluate_all env clocks ids n as) w) = w_running w"
  by (induction as arbitrary: n w)
     (simp_all add: evaluate_all_Cons caught_running del: evaluate_all.simps(2))

text \<open>The evaluation of a rule neither reads nor writes the queue and the clock.\<close>

lemma fire_bystanders:
  "fire env c fresh a p m (w\<lparr>w_queue := q, w_clock := t\<rparr>) =
     (answer (fire env c fresh a p m) w, (after (fire env c fresh a p m) w)\<lparr>w_queue := q, w_clock := t\<rparr>)"
  by (cases c) (simp add: fire_eq Let_def split: sum.split)

lemma evaluateOne_bystanders:
  "evaluateOne env c fresh a (w\<lparr>w_queue := q, w_clock := t\<rparr>) =
     (answer (evaluateOne env c fresh a) w,
      (after (evaluateOne env c fresh a) w)\<lparr>w_queue := q, w_clock := t\<rparr>)"
proof -
  have traced: "fire env c fresh a p m (w\<lparr>w_queue := q, w_clock := t, w_trace := tr\<rparr>) =
     (answer (fire env c fresh a p m) (w\<lparr>w_trace := tr\<rparr>),
      (after (fire env c fresh a p m) (w\<lparr>w_trace := tr\<rparr>))\<lparr>w_queue := q, w_clock := t\<rparr>)" for p m tr
  proof -
    have "w\<lparr>w_queue := q, w_clock := t, w_trace := tr\<rparr> = w\<lparr>w_trace := tr, w_queue := q, w_clock := t\<rparr>"
      by (cases w) simp
    then show ?thesis by (simp only: fire_bystanders)
  qed
  show ?thesis
    by (simp add: evaluateOne_eq Let_def traced split: anomaly_reply.split option.split)
qed

lemma caught_bystanders:
  "after (evaluate_caught env c fresh a) (w\<lparr>w_queue := q, w_clock := t\<rparr>) =
     (after (evaluate_caught env c fresh a) w)\<lparr>w_queue := q, w_clock := t\<rparr>"
  by (cases "evaluateOne env c fresh a w")
     (simp add: evaluate_caught_def evaluateOne_bystanders split: sum.split)

text \<open>Clock readings of a tick: within a rule and from rule to rule they only grow.\<close>

definition clocks_forward :: "(nat \<Rightarrow> int \<times> int \<times> int) \<Rightarrow> bool" where
  "clocks_forward clocks \<longleftrightarrow> (\<forall>n. fst (clocks n) \<le> fst (snd (clocks n)) \<and>
     fst (snd (clocks n)) \<le> fst (clocks (Suc n)))"

lemma unlock_last:
  "(v :: world)\<lparr>w_queue := q, w_clock := t, w_running := b\<rparr> =
     v\<lparr>w_running := b, w_queue := q, w_clock := t\<rparr>"
  by (cases v) simp

lemma run_all:
  assumes "clocks_forward clocks" and "w_running w" and "t \<le> fst (clocks n)"
    and "reaches (eval_step env) w0 (w\<lparr>w_queue := as, w_clock := t\<rparr>)"
  shows "\<exists>t'. reaches (eval_step env) w0
    ((after (evaluate_all env clocks ids n as) w)\<lparr>w_queue := [], w_clock := t'\<rparr>)"
  using assms(2-)
proof (induction as arbitrary: n w t)
  case Nil
  then show ?case by auto
next
  case (Cons a as)
  obtain now fired stored where c: "clocks n = (now, fired, stored)" by (cases "clocks n")
  with assms(1) have mono: "now \<le> fired" "fired \<le> fst (clocks (Suc n))"
    by (force simp: clocks_forward_def dest: spec [of _ n])+
  let ?w = "w\<lparr>w_queue := a # as, w_clock := t\<rparr>"
  let ?v = "after (evaluate_caught env (clocks n) (ids n) a) w"
  have "eval_step env ?w ((after (evaluate_caught env (now, fired, stored) (ids n) a) ?w)
      \<lparr>w_queue := as, w_clock := fired\<rparr>)"
    using Cons.prems(1,2) c mono by (intro eval_step.one) auto
  then have "eval_step env ?w (?v\<lparr>w_queue := as, w_clock := fired\<rparr>)"
    by (simp add: caught_bystanders c)
  with Cons.prems(3) have reach: "reaches (eval_step env) w0 (?v\<lparr>w_queue := as, w_clock := fired\<rparr>)"
    by (rule reaches_step)
  have "w_running ?v" using Cons.prems(1) by (simp add: c caught_frame)
  from Cons.IH [OF this mono(2) reach] show ?case by (simp only: evaluate_all_Cons)
qed

section \<open>Properties\<close>

definition sample_eval :: eval_env where
  "sample_eval = \<lparr>ee_forecastUrl = ''http://forecast:8000/'',
     ee_anomaly = (\<lambda>u b. Reply [\<lparr>ap_ds = ''d'', ap_value = 9, ap_expected = Some 4, ap_is_anomaly = True\<rparr>,
        \<lparr>ap_ds = ''e'', ap_value = 4, ap_expected = Some 4, ap_is_anomaly = False\<rparr>] ''zscore''),
     ee_notifier = sample_notifier, ee_number = (\<lambda>_. None)\<rparr>"

definition sample_world :: world where
  "sample_world = \<lparr>w_db = sample_db, w_running = False, w_queue = [], w_clock = 0, w_trace = []\<rparr>"

lemma channels_ok_Nil: "channels_ok (JArr [])"
  unfolding channels_ok_def by (rule exI [of _ "[]"]) (simp add: valid_channels_def)

lemma sample_world_inv: "ev_inv sample_world"
  by (simp add: ev_inv_def sample_world_def sample_defs alerts_ok_def alert_ok_def channels_ok_Nil
      isKnownMetric_iff snapshot_current_def stamps_past_def)

text \<open>
  Claim C9: the cool-down holds whatever happens between the rules of a tick. In every state
  reachable from a consistent one through ticks, overlapping ticks, creations, edits and
  deletions of rules by clients, a step that moves the \<open>lastFiredAt\<close> of a stored rule is the
  evaluation of that rule, which is next in the snapshot of the running tick, and moves it to a time
  at or after the current one that lies at least the rule's own cool-down after the previous value.
  The cool-down is the one the rule had in the table when the tick started (an edit during the tick
  counts from the next one) and never less than 60 seconds.
\<close>

theorem alert_fire_spacing:
  assumes "ev_inv w0" and "\<not> w_running w0" and "reaches (eval_step env) w0 w" and "eval_step env w w'"
    and "r \<in> set (alerts (w_db w))" and "r' \<in> set (alerts (w_db w'))" and "al_id r = al_id r'"
    and "al_lastFiredAt r' \<noteq> al_lastFiredAt r"
  shows "\<exists>v a as t'. reaches (eval_step env) w0 v \<and> reaches (eval_step env) v w \<and>
    a \<in> set (enabled_alerts (w_db v)) \<and> w_queue w = a # as \<and> al_id a = al_id r \<and>
    60 \<le> al_cooldownSeconds a \<and> al_lastFiredAt r' = Some t' \<and> w_clock w \<le> t' \<and>
    (\<forall>t. al_lastFiredAt r = Some t \<longrightarrow> t + al_cooldownSeconds a * 1000 \<le> t')"
proof -
  obtain a as t' where fired: "w_queue w = a # as" "al_id a = al_id r" "60 \<le> al_cooldownSeconds a"
    "al_lastFiredAt r' = Some t'" "w_clock w \<le> t'"
    "\<forall>t. al_lastFiredAt r = Some t \<longrightarrow> t + al_cooldownSeconds a * 1000 \<le> t'"
    using fire_spacing [OF assms(4) evaluator.inv_reaches [OF assms(3,1)] assms(5-8)] by blast
  have "w_queue w0 = []" using assms(1,2) by (simp add: ev_inv_def)
  then obtain v where "reaches (eval_step env) w0 v" "reaches (eval_step env) v w" "a \<in> set (enabled_alerts (w_db v))"
    using snapshot_origin [OF assms(3), of a] fired(1) by auto
  with fired show ?thesis by blast
qed

text \<open>A rule with a cool-down of an hour that fired at 5 fires again at 3600005.\<close>

definition fired_rule :: alert where
  "fired_rule = (sample_alert ''a1'' ''w1'')\<lparr>al_lastFiredAt := Some 5\<rparr>"

definition fired_world :: world where
  "fired_world = sample_world\<lparr>w_db := sample_db\<lparr>alerts := [fired_rule]\<rparr>, w_clock := 5\<rparr>"

lemmas fired_defs = fired_world_def fired_rule_def sample_world_def sample_defs

lemma fired_world_inv: "ev_inv fired_world"
  by (simp add: ev_inv_def fired_defs alerts_ok_def alert_ok_def channels_ok_Nil
      isKnownMetric_iff snapshot_current_def stamps_past_def)

theorem alert_fire_spacing_witness:
  "\<exists>w w' r' t'. reaches (eval_step sample_eval) fired_world w \<and> eval_step sample_eval w w' \<and>
     fired_rule \<in> set (alerts (w_db w)) \<and> r' \<in> set (alerts (w_db w')) \<and> al_id r' = ''a1'' \<and>
     al_lastFiredAt r' = Some t' \<and> 5 + 3600 * 1000 \<le> t'"
proof -
  let ?w = "fired_world\<lparr>w_running := True, w_queue := enabled_alerts (w_db fired_world)\<rparr>"
  let ?w' = "(after (evaluate_caught sample_eval (3600005, 3600005, 3600005) ''e1'' fired_rule) ?w)
    \<lparr>w_queue := [], w_clock := 3600005\<rparr>"
  let ?r' = "fired_rule\<lparr>al_lastFiredAt := Some 3600005, al_updatedAt := 3600005\<rparr>"
  have q: "w_queue ?w = [fired_rule]" by (simp add: enabled_alerts_def fired_defs)
  have idle: "\<not> w_running fired_world" by (simp add: fired_defs)
  have reach: "reaches (eval_step sample_eval) fired_world ?w"
    by (rule reaches_one) (rule eval_step.start [OF idle])
  have step: "eval_step sample_eval ?w ?w'"
    by (rule eval_step.one) (use q in \<open>auto simp: fired_world_def\<close>)
  have fires: "firing sample_eval fired_rule 3600005 =
      Some (\<lparr>ap_ds = ''d'', ap_value = 9, ap_expected = Some 4, ap_is_anomaly = True\<rparr>, ''zscore'')"
    by (simp add: firing_def sample_eval_def lastFlagged_def cooling_def fired_defs)
  have rows: "alerts (w_db ?w) = [fired_rule]" by (simp add: fired_world_def)
  have "alerts (w_db ?w') = stamp ''a1'' 3600005 [fired_rule]"
    by (simp add: caught_frame fires alerts_fired_db fired_world_def) (simp add: fired_rule_def sample_alert_def)
  then have new: "?r' \<in> set (alerts (w_db ?w'))"
    by (simp add: stamp_def update_where_def) (simp add: fired_rule_def sample_alert_def)
  have old: "fired_rule \<in> set (alerts (w_db ?w))" unfolding rows by simp
  have same: "al_id fired_rule = al_id ?r'" and moved: "al_lastFiredAt ?r' \<noteq> al_lastFiredAt fired_rule"
    by (simp_all add: fired_rule_def)
  from alert_fire_spacing [OF fired_world_inv idle reach step old new same moved]
  obtain a as t' where "w_queue ?w = a # as" "al_lastFiredAt ?r' = Some t'"
    "\<forall>t. al_lastFiredAt fired_rule = Some t \<longrightarrow> t + al_cooldownSeconds a * 1000 \<le> t'" by blast
  moreover from this(1) have "a = fired_rule" unfolding q by simp
  ultimately have "5 + 3600 * 1000 \<le> t'" "al_lastFiredAt ?r' = Some t'"
    by (simp_all add: fired_rule_def sample_alert_def)
  moreover have "al_id ?r' = ''a1''" by (simp add: fired_rule_def sample_alert_def)
  ultimately show ?thesis using reach step old new by blast
qed

text \<open>
  Claim C10: the evaluation of a rule, branch by branch and for every answer of the forecast service.
  A threshold rule is left alone, without a question. A rejected request, a status that is not ok, a
  rule that was deleted meanwhile and channels that are no list end in one logged line; no failure
  escapes. Otherwise the rule fires exactly when some point of the window is flagged and it is not
  cooling down: one event with the last flagged point is stored (which need not be the newest one, as
  docs/architecture.md has it), the rule is stamped, each channel is served, and the message is
  published for the rule's workspace. With channels that are no list the event and the stamp stay,
  and nobody is told.
\<close>

theorem evaluate_rule_outcome:
  "evaluate_caught env (now, fired, stored) fresh a w =
    (Inr (),
     if al_method a = Threshold then w
     else let url = forecast_base (ee_forecastUrl env) @ ''/anomaly'';
              asked = w_trace w @ [AskForecast url (anomaly_body env a)];
              failed = (\<lambda>m. Warn (''alert '' @ al_id a @ '' eval failed: '' @ m))
       in case ee_anomaly env url (anomaly_body env a) of
         FetchError m \<Rightarrow> w\<lparr>w_trace := asked @ [failed m]\<rparr>
       | HttpError status body \<Rightarrow>
           w\<lparr>w_trace := asked @ [failed (''forecast /anomaly '' @ int_str status @ '': '' @ body)]\<rparr>
       | Reply points method \<Rightarrow>
           if filter ap_is_anomaly points = [] \<or>
              (\<exists>t. al_lastFiredAt a = Some t \<and> now < t + al_cooldownSeconds a * 1000)
           then w\<lparr>w_trace := asked\<rparr>
           else if al_id a \<notin> al_id ` set (alerts (w_db w))
           then w\<lparr>w_trace := asked @ [failed ''Foreign key constraint failed on the field: alert_id'']\<rparr>
           else let p = last (filter ap_is_anomaly points);
                    payload = fire_payload_of a p fired;
                    db = (w_db w)\<lparr>alert_events := alert_events (w_db w) @ [fire_event a p method stored fresh],
                                  alerts := stamp (al_id a) fired (alerts (w_db w))\<rparr>
             in w\<lparr>w_db := db, w_trace := asked @
                  (case al_channelsJson a of
                     JArr cs \<Rightarrow> [Notified (map (deliver (ee_notifier env) payload) cs),
                       Publish (''alerts:fired:'' @ al_workspaceId a) (publish_body payload fresh)]
                   | _ \<Rightarrow> [failed ''TypeError''])\<rparr>)"
proof -
  have flagged: "lastFlagged points =
      (if filter ap_is_anomaly points = [] then None else Some (last (filter ap_is_anomaly points)))" for points
    by (induction points rule: rev_induct) (auto simp: lastFlagged_def)
  have cool: "cooling a now \<longleftrightarrow> (\<exists>t. al_lastFiredAt a = Some t \<and> now < t + al_cooldownSeconds a * 1000)"
    by (auto simp: cooling_def split: option.split)
  have row: "(\<exists>r \<in> set (alerts s). al_id r = al_id a) \<longleftrightarrow> al_id a \<in> al_id ` set (alerts s)" for s
    by (simp add: image_iff) metis
  show ?thesis
    unfolding evaluate_caught_def evaluateOne_eq flagged cool [symmetric]
    by (simp add: fire_eq Let_def fired_db_def fanout_def row err_message_def
        split: anomaly_reply.split json.split)
qed

theorem evaluate_rule_outcome_witness:
  "w_db (after (evaluate_caught sample_eval (5, 5, 5) ''e1'' (sample_alert ''a1'' ''w1'')) sample_world) =
     fired_db (sample_alert ''a1'' ''w1'')
       \<lparr>ap_ds = ''d'', ap_value = 9, ap_expected = Some 4, ap_is_anomaly = True\<rparr> ''zscore'' 5 5 ''e1'' sample_db"
  unfolding evaluate_rule_outcome
  by (simp add: Let_def fired_db_def sample_eval_def sample_world_def) (simp add: sample_defs)

text \<open>
  Claim C28: a tick that starts asks the forecast service once for every enabled rule with a
  statistical method, in table order, whatever the earlier rules ended in (a refused request,
  an HTTP error, a failed write), never for a threshold rule, and ends with the lock released; a
  tick that finds the lock taken asks nothing and leaves the database alone. The service is sent the
  rule's workspace, metric, method and parameters.
\<close>

theorem tick_covers_all_rules:
  "asks (w_trace (evaluate env clocks ids w)) = asks (w_trace w) @
     (if w_running w then []
      else map (question env) (filter (\<lambda>a. al_method a \<noteq> Threshold) (enabled_alerts (w_db w)))) \<and>
   w_running (evaluate env clocks ids w) = w_running w \<and>
   (w_running w \<longrightarrow> w_db (evaluate env clocks ids w) = w_db w)"
  by (simp add: evaluate_def Let_def evaluate_all_asks)

text \<open>A tick on a service that is down, over two statistical rules, a threshold rule and a disabled one.\<close>

definition four_rules :: "alert list" where
  "four_rules = [sample_alert ''a1'' ''w1'', (sample_alert ''a2'' ''w2'')\<lparr>al_enabled := False\<rparr>,
     (sample_alert ''a3'' ''w2'')\<lparr>al_method := Threshold\<rparr>, (sample_alert ''a4'' ''w2'')\<lparr>al_method := Iqr\<rparr>]"

theorem tick_covers_all_rules_witness:
  "asks (w_trace (evaluate (sample_eval\<lparr>ee_anomaly := \<lambda>u b. FetchError ''down''\<rparr>) (\<lambda>n. (0, 0, 0)) (\<lambda>n. ''e'')
     (sample_world\<lparr>w_db := sample_db\<lparr>alerts := four_rules\<rparr>\<rparr>))) =
   [(''http://forecast:8000/anomaly'', JObj [(''workspace_id'', JStr ''w1''), (''metric'', JStr ''mrr''),
       (''method'', JStr ''zscore''), (''window_days'', JNum 7), (''threshold'', JNum 3)]),
    (''http://forecast:8000/anomaly'', JObj [(''workspace_id'', JStr ''w2''), (''metric'', JStr ''mrr''),
       (''method'', JStr ''iqr''), (''window_days'', JNum 14), (''threshold'', JNum (3 / 2))])]"
proof -
  have base: "forecast_base ''http://forecast:8000/'' = ''http://forecast:8000''" by code_simp
  show ?thesis
    using tick_covers_all_rules [of "sample_eval\<lparr>ee_anomaly := \<lambda>u b. FetchError ''down''\<rparr>" "\<lambda>n. (0, 0, 0)" "\<lambda>n. ''e''"
        "sample_world\<lparr>w_db := sample_db\<lparr>alerts := four_rules\<rparr>\<rparr>"]
    by (simp add: sample_world_def four_rules_def enabled_alerts_def question_def sample_alert_def sample_eval_def
        base anomaly_body_def method_str_def number_param_def)
qed

text \<open>
  The executable tick refines the step relation: with clock readings that only move
  forward, the state in which \<open>evaluate\<close> leaves the world is reached by the steps \<open>start\<close>,
  \<open>one\<close> for each rule and \<open>finish\<close>, so every fact about reachable states holds after it.
\<close>

theorem tick_is_a_run:
  assumes "clocks_forward clocks" and "\<not> w_running w" and "w_clock w \<le> fst (clocks 0)"
  shows "\<exists>t. reaches (eval_step env) w ((evaluate env clocks ids w)\<lparr>w_queue := [], w_clock := t\<rparr>)"
proof -
  let ?w1 = "w\<lparr>w_running := True\<rparr>" and ?q = "enabled_alerts (w_db w)"
  have "eval_step env w (w\<lparr>w_running := True, w_queue := ?q\<rparr>)" by (rule eval_step.start) fact
  then have "reaches (eval_step env) w (?w1\<lparr>w_queue := ?q, w_clock := w_clock w\<rparr>)"
    using reaches_one [of "eval_step env" w] by simp
  with run_all [OF assms(1) _ assms(3), where w = ?w1 and as = ?q and env = env and ?w0.0 = w and ids = ids]
  obtain t where reach: "reaches (eval_step env) w
      ((after (evaluate_all env clocks ids 0 ?q) ?w1)\<lparr>w_queue := [], w_clock := t\<rparr>)" by auto
  let ?w2 = "(after (evaluate_all env clocks ids 0 ?q) ?w1)\<lparr>w_queue := [], w_clock := t\<rparr>"
  have "w_running ?w2" by (simp add: evaluate_all_running)
  then have "eval_step env ?w2 (?w2\<lparr>w_running := False\<rparr>)" by (intro eval_step.finish) simp_all
  with reach have "reaches (eval_step env) w (?w2\<lparr>w_running := False\<rparr>)" by (rule reaches_step)
  then have "reaches (eval_step env) w ((evaluate env clocks ids w)\<lparr>w_queue := [], w_clock := t\<rparr>)"
    using assms(2) by (simp add: evaluate_def Let_def unlock_last)
  then show ?thesis by blast
qed

theorem tick_is_a_run_witness:
  "\<exists>t. reaches (eval_step sample_eval) sample_world
     ((evaluate sample_eval (\<lambda>n. (0, 0, 0)) (\<lambda>n. ''e1'') sample_world)\<lparr>w_queue := [], w_clock := t\<rparr>)"
  using tick_is_a_run [where clocks = "\<lambda>n. (0, 0, 0)" and w = sample_world]
  by (simp add: clocks_forward_def sample_world_def)

end
