(* ===== verification/Auth.thy ===== *)
theory Auth
  imports Workspaces Sample
begin

text \<open>
  Sign-up, login, refresh and the bearer token check: \<open>auth.service.ts\<close>, \<open>token.service.ts\<close>,
  \<open>jwt.strategy.ts\<close>, \<open>auth.controller.ts\<close> and the DTOs. The JWT library and bcrypt are the
  environment (\<open>verify\<close> answers the payload, or \<open>None\<close> when it throws). Sign-up is split where
  the code awaits between its reads and its transaction, so that two sign-ups can interleave.
\<close>

record auth_env =
  au_sign :: "string \<Rightarrow> json \<Rightarrow> int \<Rightarrow> int \<Rightarrow> string"
  au_verify :: "string \<Rightarrow> int \<Rightarrow> string \<Rightarrow> json option"
  au_accessSecret :: string
  au_refreshSecret :: string
  au_accessTtl :: int
  au_refreshTtl :: int
  au_bcrypt_hash :: "string \<Rightarrow> string"
  au_bcrypt_compare :: "string \<Rightarrow> string \<Rightarrow> bool"

section \<open>Tokens\<close>

record token_pair =
  tp_accessToken :: string
  tp_refreshToken :: string
  tp_accessExpiresIn :: int
  tp_refreshExpiresIn :: int

definition access_payload :: "string \<Rightarrow> string \<Rightarrow> json" where
  "access_payload sub email =
     JObj [(''sub'', JStr sub), (''email'', JStr email), (''type'', JStr ''access'')]"

definition refresh_payload :: "string \<Rightarrow> string \<Rightarrow> json" where
  "refresh_payload sub jti =
     JObj [(''sub'', JStr sub), (''jti'', JStr jti), (''type'', JStr ''refresh'')]"

text \<open>\<open>rnd\<close> is \<open>Math.random().toString(36).slice(2)\<close>.\<close>

definition issue_tokens :: "auth_env \<Rightarrow> int \<Rightarrow> string \<Rightarrow> string \<Rightarrow> string \<Rightarrow> token_pair" where
  "issue_tokens env now rnd userId email =
     (let jti = userId @ ''.'' @ int_str now @ ''.'' @ rnd in
      \<lparr>tp_accessToken = au_sign env (au_accessSecret env) (access_payload userId email) (au_accessTtl env) now,
       tp_refreshToken = au_sign env (au_refreshSecret env) (refresh_payload userId jti) (au_refreshTtl env) now,
       tp_accessExpiresIn = au_accessTtl env, tp_refreshExpiresIn = au_refreshTtl env\<rparr>)"

definition verifyAccess :: "auth_env \<Rightarrow> int \<Rightarrow> string \<Rightarrow> json option" where
  "verifyAccess env now token = au_verify env (au_accessSecret env) now token"

definition verifyRefresh :: "auth_env \<Rightarrow> int \<Rightarrow> string \<Rightarrow> json option" where
  "verifyRefresh env now token = au_verify env (au_refreshSecret env) now token"

text \<open>\<open>JwtStrategy.validate\<close>, behind passport's own verification of the bearer token.\<close>

record auth_user =
  usr_id :: "json option"
  usr_email :: "json option"

definition validate :: "json \<Rightarrow> http_error + auth_user" where
  "validate payload =
     (if json_get ''type'' payload \<noteq> Some (JStr ''access'')
      then Inl (Unauthorized ''wrong token type'')
      else Inr \<lparr>usr_id = json_get ''sub'' payload, usr_email = json_get ''email'' payload\<rparr>)"

definition authenticate :: "auth_env \<Rightarrow> int \<Rightarrow> string option \<Rightarrow> http_error + auth_user" where
  "authenticate env now bearer =
     (case Option.bind bearer (verifyAccess env now) of
        None \<Rightarrow> Inl (Unauthorized ''Unauthorized'')
      | Some payload \<Rightarrow> validate payload)"

definition me_route :: "auth_env \<Rightarrow> int \<Rightarrow> string option \<Rightarrow> http_error + auth_user" where
  "me_route env now bearer = authenticate env now bearer"

section \<open>Slugs\<close>

definition slug_char :: "char \<Rightarrow> bool" where
  "slug_char c \<longleftrightarrow> between 97 122 c \<or> between 48 57 c"

text \<open>\<open>replace(/[^a-z0-9]+/g, '-')\<close>; the flag says that a run is being replaced.\<close>

fun dash_runs :: "bool \<Rightarrow> string \<Rightarrow> string" where
  "dash_runs in_run [] = []"
| "dash_runs in_run (c # s) =
     (if slug_char c then c # dash_runs False s
      else if in_run then dash_runs True s
      else CHR ''-'' # dash_runs True s)"

definition slugify :: "string \<Rightarrow> string" where
  "slugify input =
     (let t = take 40 (strip_trailing (CHR ''-'') (strip_leading (CHR ''-'')
                (dash_runs False (js_trim (to_lower input)))))
      in if t = [] then ''workspace'' else t)"

definition slug_taken :: "db \<Rightarrow> string \<Rightarrow> bool" where
  "slug_taken s slug \<longleftrightarrow> (\<exists>w \<in> set (workspaces s). ws_slug w = slug)"

text \<open>
  \<open>uniqueSlug\<close>: the base and four candidates with a random suffix (\<open>draw\<close>), then the clock in
  base 36 (\<open>stamp\<close>), which is not looked up.
\<close>

definition slug_candidate :: "(nat \<Rightarrow> string) \<Rightarrow> string \<Rightarrow> nat \<Rightarrow> string" where
  "slug_candidate draw base i = (if i = 0 then base else base @ ''-'' @ draw i)"

definition uniqueSlug :: "(nat \<Rightarrow> string) \<Rightarrow> string \<Rightarrow> string \<Rightarrow> db \<Rightarrow> string" where
  "uniqueSlug draw stamp base s =
     (case List.find (\<lambda>c. \<not> slug_taken s c) (map (slug_candidate draw base) [0..<5]) of
        Some c \<Rightarrow> c
      | None \<Rightarrow> base @ ''-'' @ stamp)"

section \<open>Sign-up\<close>

record signup_dto =
  su_email :: string
  su_password :: string
  su_displayName :: "string opt_field"
  su_workspaceName :: "string opt_field"

definition valid_signup :: "(string \<Rightarrow> bool) \<Rightarrow> signup_dto \<Rightarrow> bool" where
  "valid_signup is_email d \<longleftrightarrow>
     is_email (su_email d) \<and> length (su_email d) \<le> 254 \<and>
     8 \<le> length (su_password d) \<and> length (su_password d) \<le> 72 \<and>
     optional (\<lambda>t. length t \<le> 120) (su_displayName d) \<and>
     optional (\<lambda>t. length t \<le> 80) (su_workspaceName d)"

definition ws_name_of :: "signup_dto \<Rightarrow> string" where
  "ws_name_of d =
     (let default = nullish (su_displayName d) (hd (split_on (CHR ''@'') (su_email d))) @
                    [CHR 0x27] @ ''s workspace'' in
      case su_workspaceName d of
        Val w \<Rightarrow> if js_trim w \<noteq> [] then js_trim w else default
      | _ \<Rightarrow> default)"

record auth_workspace =
  aw_id :: string
  aw_name :: string
  aw_slug :: string

record auth_result =
  ar_userId :: string
  ar_email :: string
  ar_displayName :: "string option"
  ar_workspace :: auth_workspace
  ar_tokens :: token_pair

text \<open>The part before the transaction: reads only. The result is what the closure captured.\<close>

definition signup_prepare ::
  "auth_env \<Rightarrow> (nat \<Rightarrow> string) \<Rightarrow> string \<Rightarrow> signup_dto \<Rightarrow> (db, string \<times> string \<times> string) app" where
  "signup_prepare env draw stamp d s =
     (case List.find (\<lambda>u. user_email u = su_email d) (users s) of
        Some _ \<Rightarrow> (Inl (Conflict ''email already in use''), s)
      | None \<Rightarrow>
          (let wsName = ws_name_of d in
           (Inr (au_bcrypt_hash env (su_password d), wsName, uniqueSlug draw stamp (slugify wsName) s), s)))"

text \<open>Generated ids: of the user, the workspace and the membership.\<close>

type_synonym new_ids = "string \<times> string \<times> string"

text \<open>The transaction: the unique columns are checked by the database; all rows or none.\<close>

definition signup_commit ::
  "new_ids \<Rightarrow> int \<Rightarrow> signup_dto \<Rightarrow> string \<times> string \<times> string \<Rightarrow> (db, user \<times> workspace) app" where
  "signup_commit ids now d prepared s =
     (let (uid, wid, mid) = ids; (hash, wsName, slug) = prepared in
      if \<exists>u \<in> set (users s). user_email u = su_email d
      then (Inl (Crash ''Unique constraint failed on the fields: (email)''), s)
      else if slug_taken s slug
      then (Inl (Crash ''Unique constraint failed on the fields: (slug)''), s)
      else
        let u = \<lparr>user_id = uid, user_email = su_email d, user_passwordHash = hash,
                 user_displayName = write_nullable (su_displayName d) None,
                 user_emailVerified = False, user_createdAt = now\<rparr>;
            w = \<lparr>ws_id = wid, ws_name = wsName, ws_slug = slug, ws_ownerId = uid, ws_createdAt = now\<rparr>;
            m = \<lparr>mem_id = mid, mem_workspaceId = wid, mem_userId = uid, mem_role = Owner,
                 mem_invitedAt = now, mem_joinedAt = Some now\<rparr>
        in (Inr (u, w), s\<lparr>users := users s @ [u], workspaces := workspaces s @ [w],
                          members := members s @ [m]\<rparr>))"

definition signup_answer :: "auth_env \<Rightarrow> int \<Rightarrow> string \<Rightarrow> user \<times> workspace \<Rightarrow> auth_result" where
  "signup_answer env now rnd result =
     (let (u, w) = result in
      \<lparr>ar_userId = user_id u, ar_email = user_email u, ar_displayName = user_displayName u,
       ar_workspace = \<lparr>aw_id = ws_id w, aw_name = ws_name w, aw_slug = ws_slug w\<rparr>,
       ar_tokens = issue_tokens env now rnd (user_id u) (user_email u)\<rparr>)"

definition signup ::
  "auth_env \<Rightarrow> (nat \<Rightarrow> string) \<Rightarrow> string \<Rightarrow> string \<Rightarrow> new_ids \<Rightarrow> int \<Rightarrow> signup_dto \<Rightarrow> (db, auth_result) app" where
  "signup env draw stamp rnd ids now d =
     andThen (signup_prepare env draw stamp d) (\<lambda>prepared.
     andThen (signup_commit ids now d prepared) (\<lambda>result.
     ok (signup_answer env now rnd result)))"

section \<open>Login and refresh\<close>

record login_dto =
  li_email :: string
  li_password :: string

definition valid_login :: "(string \<Rightarrow> bool) \<Rightarrow> login_dto \<Rightarrow> bool" where
  "valid_login is_email d \<longleftrightarrow> is_email (li_email d) \<and> length (li_email d) \<le> 254 \<and>
     1 \<le> length (li_password d) \<and> length (li_password d) \<le> 72"

definition login :: "auth_env \<Rightarrow> string \<Rightarrow> int \<Rightarrow> login_dto \<Rightarrow> (db, auth_result) app" where
  "login env rnd now d s =
     (case List.find (\<lambda>u. user_email u = li_email d) (users s) of
        None \<Rightarrow> (Inl (Unauthorized ''invalid credentials''), s)
      | Some u \<Rightarrow>
          if \<not> au_bcrypt_compare env (li_password d) (user_passwordHash u)
          then (Inl (Unauthorized ''invalid credentials''), s)
          else case order_asc ws_createdAt
              (filter (\<lambda>w. ws_ownerId w = user_id u \<or> is_member s (ws_id w) (user_id u)) (workspaces s)) of
            [] \<Rightarrow> (Inl (Unauthorized ''no workspace''), s)
          | w # _ \<Rightarrow>
              (Inr \<lparr>ar_userId = user_id u, ar_email = user_email u, ar_displayName = user_displayName u,
                    ar_workspace = \<lparr>aw_id = ws_id w, aw_name = ws_name w, aw_slug = ws_slug w\<rparr>,
                    ar_tokens = issue_tokens env now rnd (user_id u) (user_email u)\<rparr>, s))"

text \<open>A \<open>sub\<close> that is no string makes the lookup by id throw.\<close>

definition refresh :: "auth_env \<Rightarrow> string \<Rightarrow> int \<Rightarrow> string \<Rightarrow> (db, token_pair) app" where
  "refresh env rnd now token s =
     (case verifyRefresh env now token of
        None \<Rightarrow> (Inl (Unauthorized ''invalid refresh token''), s)
      | Some payload \<Rightarrow>
          if json_get ''type'' payload \<noteq> Some (JStr ''refresh'')
          then (Inl (Unauthorized ''wrong token type''), s)
          else case json_get ''sub'' payload of
            Some (JStr sub) \<Rightarrow>
              (case List.find (\<lambda>u. user_id u = sub) (users s) of
                 None \<Rightarrow> (Inl (Unauthorized ''user gone''), s)
               | Some u \<Rightarrow> (Inr (issue_tokens env now rnd (user_id u) (user_email u)), s))
          | _ \<Rightarrow> (Inl (Crash ''PrismaClientValidationError''), s))"

section \<open>Controller\<close>

definition signup_route ::
  "(string \<Rightarrow> bool) \<Rightarrow> auth_env \<Rightarrow> (nat \<Rightarrow> string) \<Rightarrow> string \<Rightarrow> string \<Rightarrow> new_ids \<Rightarrow> int \<Rightarrow> signup_dto
     \<Rightarrow> (db, auth_result) app" where
  "signup_route is_email env draw stamp rnd ids now d =
     andThen (validation_pipe (valid_signup is_email d)) (\<lambda>_. signup env draw stamp rnd ids now d)"

definition login_route ::
  "(string \<Rightarrow> bool) \<Rightarrow> auth_env \<Rightarrow> string \<Rightarrow> int \<Rightarrow> login_dto \<Rightarrow> (db, auth_result) app" where
  "login_route is_email env rnd now d =
     andThen (validation_pipe (valid_login is_email d)) (\<lambda>_. login env rnd now d)"

definition refresh_route :: "auth_env \<Rightarrow> string \<Rightarrow> int \<Rightarrow> string \<Rightarrow> (db, token_pair) app" where
  "refresh_route env rnd now token =
     andThen (validation_pipe (10 \<le> length token)) (\<lambda>_. refresh env rnd now token)"

section \<open>Facts about slugs\<close>

definition no_double_dash :: "string \<Rightarrow> bool" where
  "no_double_dash t \<longleftrightarrow> \<not> (\<exists>a b. t = a @ ''--'' @ b)"

lemma no_double_dash_factor: "no_double_dash (a @ t @ b) \<Longrightarrow> no_double_dash t"
  unfolding no_double_dash_def by (metis append_assoc)

lemma no_double_dash_Cons:
  assumes "no_double_dash t" and "c = CHR ''-'' \<longrightarrow> t = [] \<or> hd t \<noteq> CHR ''-''"
  shows "no_double_dash (c # t)"
proof -
  have False if "c # t = a @ ''--'' @ b" for a b
    using that assms by (cases a) (auto simp: no_double_dash_def)
  then show ?thesis by (auto simp: no_double_dash_def)
qed

lemma not_slug_dash [simp]: "\<not> slug_char (CHR ''-'')"
  by (simp add: slug_char_def between_def)

lemma dash_runs_shape:
  "no_double_dash (dash_runs r t) \<and>
   list_all (\<lambda>c. slug_char c \<or> c = CHR ''-'') (dash_runs r t) \<and>
   (r \<longrightarrow> dash_runs r t = [] \<or> hd (dash_runs r t) \<noteq> CHR ''-'')"
proof (induction r t rule: dash_runs.induct)
  case (1 r)
  show ?case by (simp add: no_double_dash_def)
next
  case (2 r c t)
  then show ?case by (auto intro: no_double_dash_Cons)
qed

lemma strip_trailing_prefix: "\<exists>b. t = strip_trailing c t @ b"
  unfolding strip_trailing_def
  by (metis rev_append rev_rev_ident takeWhile_dropWhile_id)

lemma strip_leading_suffix: "\<exists>a. t = a @ strip_leading c t"
  unfolding strip_leading_def by (metis takeWhile_dropWhile_id)

lemma strip_trailing_hd: "strip_trailing c t \<noteq> [] \<Longrightarrow> hd (strip_trailing c t) = hd t"
  by (metis strip_trailing_prefix hd_append2)

text \<open>The text before the cut, and its shape.\<close>

definition slug_core :: "string \<Rightarrow> string" where
  "slug_core input = strip_trailing (CHR ''-'') (strip_leading (CHR ''-'')
     (dash_runs False (js_trim (to_lower input))))"

lemma slug_core_shape:
  "no_double_dash (slug_core t)" "list_all (\<lambda>c. slug_char c \<or> c = CHR ''-'') (slug_core t)"
  "slug_core t = [] \<or> hd (slug_core t) \<noteq> CHR ''-''"
proof -
  let ?d = "dash_runs False (js_trim (to_lower t))"
  let ?l = "strip_leading (CHR ''-'') ?d"
  obtain a b where ab: "?d = a @ slug_core t @ b"
    using strip_leading_suffix strip_trailing_prefix unfolding slug_core_def by metis
  then show "no_double_dash (slug_core t)"
    using dash_runs_shape no_double_dash_factor by metis
  show "list_all (\<lambda>c. slug_char c \<or> c = CHR ''-'') (slug_core t)"
    using dash_runs_shape [of False "js_trim (to_lower t)"] unfolding ab by simp
  show "slug_core t = [] \<or> hd (slug_core t) \<noteq> CHR ''-''"
    using strip_leading_hd [of "CHR ''-''" ?d] strip_trailing_hd [of "CHR ''-''" ?l]
    unfolding slug_core_def by (metis strip_trailing_prefix append_is_Nil_conv)
qed

lemma slugify_eq: "slugify t = (if take 40 (slug_core t) = [] then ''workspace'' else take 40 (slug_core t))"
  by (simp add: slugify_def slug_core_def Let_def)

section \<open>Facts about sign-up\<close>

definition new_user :: "new_ids \<Rightarrow> int \<Rightarrow> signup_dto \<Rightarrow> string \<Rightarrow> user" where
  "new_user ids now d h = \<lparr>user_id = fst ids, user_email = su_email d, user_passwordHash = h,
     user_displayName = write_nullable (su_displayName d) None,
     user_emailVerified = False, user_createdAt = now\<rparr>"

definition new_workspace :: "new_ids \<Rightarrow> int \<Rightarrow> string \<Rightarrow> string \<Rightarrow> workspace" where
  "new_workspace ids now n slug = \<lparr>ws_id = fst (snd ids), ws_name = n, ws_slug = slug,
     ws_ownerId = fst ids, ws_createdAt = now\<rparr>"

definition new_owner :: "new_ids \<Rightarrow> int \<Rightarrow> member" where
  "new_owner ids now = \<lparr>mem_id = snd (snd ids), mem_workspaceId = fst (snd ids),
     mem_userId = fst ids, mem_role = Owner, mem_invitedAt = now, mem_joinedAt = Some now\<rparr>"

lemma new_row_keys [simp]:
  "user_id (new_user ids now d h) = fst ids" "user_email (new_user ids now d h) = su_email d"
  "user_passwordHash (new_user ids now d h) = h"
  "ws_ownerId (new_workspace ids now n g) = fst ids" "ws_id (new_workspace ids now n g) = fst (snd ids)"
  "ws_slug (new_workspace ids now n g) = g"
  by (simp_all add: new_user_def new_workspace_def)

lemma signup_commit_eq:
  "signup_commit ids now d (h, n, slug) s =
     (if su_email d \<in> user_email ` set (users s)
      then (Inl (Crash ''Unique constraint failed on the fields: (email)''), s)
      else if slug_taken s slug
      then (Inl (Crash ''Unique constraint failed on the fields: (slug)''), s)
      else (Inr (new_user ids now d h, new_workspace ids now n slug),
            s\<lparr>users := users s @ [new_user ids now d h],
              workspaces := workspaces s @ [new_workspace ids now n slug],
              members := members s @ [new_owner ids now]\<rparr>))"
  by (cases ids)
     (simp add: signup_commit_def Let_def ex_image new_user_def new_workspace_def new_owner_def)

lemma signup_prepare_Inr:
  "signup_prepare env draw stamp d s = (Inr p, t) \<Longrightarrow>
     t = s \<and> su_email d \<notin> user_email ` set (users s) \<and>
     p = (au_bcrypt_hash env (su_password d), ws_name_of d, uniqueSlug draw stamp (slugify (ws_name_of d)) s)"
  by (auto simp: signup_prepare_def Let_def find_None split: option.splits)

lemma signup_prepare_state [simp]: "after (signup_prepare env draw stamp d) s = s"
  by (simp add: signup_prepare_def Let_def split: option.split)

lemma uniqueSlug_cases:
  "\<not> slug_taken s (uniqueSlug draw stamp base s) \<or>
   (uniqueSlug draw stamp base s = base @ ''-'' @ stamp \<and>
    (\<forall>i < 5. slug_taken s (slug_candidate draw base i)))"
  by (auto simp: uniqueSlug_def find_None atLeast0LessThan split: option.split dest: find_SomeD)

section \<open>Properties\<close>

text \<open>
  Every slug is non-empty, at most 40 characters long, made of lower-case letters,
  digits and dashes, does not start with a dash and has no two dashes in a row; but the cut at
  40 characters comes after the dashes are trimmed, so it may end with one.
\<close>

theorem slug_shape:
  "slugify t \<noteq> [] \<and> length (slugify t) \<le> 40 \<and>
   list_all (\<lambda>c. slug_char c \<or> c = CHR ''-'') (slugify t) \<and>
   hd (slugify t) \<noteq> CHR ''-'' \<and> no_double_dash (slugify t) \<and>
   last (slugify (replicate 39 (CHR ''a'') @ '' b'')) = CHR ''-''"
proof -
  have "last (slugify (replicate 39 (CHR ''a'') @ '' b'')) = CHR ''-''" by code_simp
  moreover have "slugify t \<noteq> [] \<and> length (slugify t) \<le> 40 \<and>
     list_all (\<lambda>c. slug_char c \<or> c = CHR ''-'') (slugify t) \<and>
     hd (slugify t) \<noteq> CHR ''-'' \<and> no_double_dash (slugify t)"
  proof (cases "take 40 (slug_core t) = []")
    case True
    have "list_all (\<lambda>c. slug_char c \<or> c = CHR ''-'') ''workspace''"
      by (simp add: slug_char_def between_def)
    moreover have "no_double_dash ''workspace''" unfolding no_double_dash_def
      by (auto simp: Cons_eq_append_conv)
    ultimately show ?thesis using True by (simp add: slugify_eq)
  next
    case False
    have "slug_core t = [] @ take 40 (slug_core t) @ drop 40 (slug_core t)" by simp
    then have "no_double_dash (take 40 (slug_core t))"
      using slug_core_shape(1) no_double_dash_factor by metis
    moreover have "list_all (\<lambda>c. slug_char c \<or> c = CHR ''-'') (take 40 (slug_core t))"
      using slug_core_shape(2) by (auto simp: list_all_iff dest: in_set_takeD)
    ultimately show ?thesis using False slug_core_shape(3) [of t] by (auto simp: slugify_eq)
  qed
  ultimately show ?thesis by blast
qed

definition sample_auth :: auth_env where
  "sample_auth = \<lparr>au_sign = (\<lambda>k p ttl t. stringify (\<lambda>_. []) p), au_verify = (\<lambda>k t tok. json_parse tok),
     au_accessSecret = ''change_me'', au_refreshSecret = ''change_me'', au_accessTtl = 900,
     au_refreshTtl = 604800, au_bcrypt_hash = (\<lambda>p. ''h'' @ p), au_bcrypt_compare = (\<lambda>p h. h = ''h'' @ p)\<rparr>"

definition sample_signup :: signup_dto where
  "sample_signup = \<lparr>su_email = ''n@x'', su_password = ''password'', su_displayName = Undefined,
     su_workspaceName = Val ''My Shop''\<rparr>"

text \<open>A sign-up fails with nothing changed, or appends one row to each of the three tables.\<close>

definition signed_up :: "new_ids \<Rightarrow> int \<Rightarrow> signup_dto \<Rightarrow> string \<Rightarrow> string \<Rightarrow> db \<Rightarrow> db" where
  "signed_up ids now d hash slug s =
     s\<lparr>users := users s @ [new_user ids now d hash],
       workspaces := workspaces s @ [new_workspace ids now (ws_name_of d) slug],
       members := members s @ [new_owner ids now]\<rparr>"

lemma signup_cases:
  obtains (refused) e where "signup env draw stamp rnd ids now d s = (Inl e, s)"
  | (created) slug where "List.find (\<lambda>u. user_email u = su_email d) (users s) = None"
      and "signup env draw stamp rnd ids now d s =
        (Inr (signup_answer env now rnd (new_user ids now d (au_bcrypt_hash env (su_password d)),
           new_workspace ids now (ws_name_of d) slug)),
         signed_up ids now d (au_bcrypt_hash env (su_password d)) slug s)"
proof (cases "su_email d \<in> user_email ` set (users s) \<or> slug_taken s (uniqueSlug draw stamp (slugify (ws_name_of d)) s)")
  case True
  then have "after (signup env draw stamp rnd ids now d) s = s"
    and "\<exists>e. answer (signup env draw stamp rnd ids now d) s = Inl e"
    by (auto simp: signup_def signup_prepare_def andThen_def signup_commit_eq Let_def split: option.split)
  then show thesis using refused by (metis prod.collapse)
next
  case False
  then have none: "List.find (\<lambda>u. user_email u = su_email d) (users s) = None"
    unfolding find_None by (metis image_eqI)
  then show thesis
    using False by (intro created) (simp_all add: signup_def signup_prepare_def andThen_def signup_commit_eq
        signed_up_def Let_def)
qed

lemma signed_up_role:
  assumes "\<forall>m \<in> set (members s). mem_userId m \<noteq> fst ids \<and> mem_workspaceId m \<noteq> fst (snd ids)"
  shows "role_of (signed_up ids now d hash slug s) (fst (snd ids)) (fst ids) = Some Owner"
  using assms
  by (auto simp: signed_up_def role_of_def find_append new_owner_def find_None split: option.split dest!: find_SomeD)

lemma signed_up_login:
  assumes "au_bcrypt_compare env (su_password d) hash"
    and "\<forall>w \<in> set (workspaces s). ws_ownerId w \<noteq> fst ids \<and> ws_id w \<noteq> fst (snd ids)"
    and "\<forall>m \<in> set (members s). mem_userId m \<noteq> fst ids \<and> mem_workspaceId m \<noteq> fst (snd ids)"
    and none: "List.find (\<lambda>u. user_email u = su_email d) (users s) = None"
  shows "login env rnd' now' \<lparr>li_email = su_email d, li_password = su_password d\<rparr> (signed_up ids now d hash slug s) =
    (Inr ((signup_answer env now rnd (new_user ids now d hash, new_workspace ids now (ws_name_of d) slug))
        \<lparr>ar_tokens := issue_tokens env now' rnd' (fst ids) (su_email d)\<rparr>), signed_up ids now d hash slug s)"
proof -
  define t where "t = signed_up ids now d hash slug s"
  let ?u = "new_user ids now d hash" and ?w = "new_workspace ids now (ws_name_of d) slug"
  have t: "users t = users s @ [?u]" "workspaces t = workspaces s @ [?w]" "members t = members s @ [new_owner ids now]"
    by (simp_all add: t_def signed_up_def)
  have user: "List.find (\<lambda>u. user_email u = su_email d) (users t) = Some ?u"
    using none by (simp add: t find_append)
  have "filter (\<lambda>w. ws_ownerId w = fst ids \<or> is_member t (ws_id w) (fst ids)) (workspaces s) = []"
    using assms(2,3) by (auto simp: filter_empty_conv is_member_def t new_owner_def)
  then have "filter (\<lambda>w. ws_ownerId w = fst ids \<or> is_member t (ws_id w) (fst ids)) (workspaces t) = [?w]"
    by (simp add: t)
  then have "login env rnd' now' \<lparr>li_email = su_email d, li_password = su_password d\<rparr> t =
      (Inr ((signup_answer env now rnd (?u, ?w))\<lparr>ar_tokens := issue_tokens env now' rnd' (fst ids) (su_email d)\<rparr>), t)"
    using user assms(1) by (simp add: login_def signup_answer_def order_asc_def)
  then show ?thesis by (simp only: t_def)
qed

text \<open>
  Claim C36: a sign-up that succeeds adds exactly one user, one workspace and one membership,
  makes the user the workspace's owner, and the same credentials then log in to the same user
  and workspace; a sign-up that fails changes nothing. The hypotheses: bcrypt accepts the
  password it hashed, and the generated ids are new.
\<close>

theorem signup_then_login:
  assumes "au_bcrypt_compare env (su_password d) (au_bcrypt_hash env (su_password d))"
    and "\<forall>w \<in> set (workspaces s). ws_ownerId w \<noteq> fst ids \<and> ws_id w \<noteq> fst (snd ids)"
    and "\<forall>m \<in> set (members s). mem_userId m \<noteq> fst ids \<and> mem_workspaceId m \<noteq> fst (snd ids)"
  shows "case signup env draw stamp rnd ids now d s of
     (Inl e, t) \<Rightarrow> t = s
   | (Inr r, t) \<Rightarrow>
       (\<exists>u w m. users t = users s @ [u] \<and> workspaces t = workspaces s @ [w] \<and> members t = members s @ [m]) \<and>
       role_of t (aw_id (ar_workspace r)) (ar_userId r) = Some Owner \<and>
       (\<exists>tokens. login env rnd' now' \<lparr>li_email = su_email d, li_password = su_password d\<rparr> t =
          (Inr (r\<lparr>ar_tokens := tokens\<rparr>), t))"
proof (cases rule: signup_cases [of env draw stamp rnd ids now d s])
  case (created slug)
  then show ?thesis
    using signed_up_role [OF assms(3)] signed_up_login [OF assms created(1), of rnd' now' now slug rnd]
    by (auto simp: signup_answer_def) (simp_all add: signed_up_def)
qed simp

theorem signup_then_login_witness:
  "\<exists>r t. signup sample_auth (\<lambda>_. ''x'') ''y'' ''r'' (''u9'', ''w9'', ''m9'') 5 sample_signup sample_db = (Inr r, t) \<and>
     role_of t (aw_id (ar_workspace r)) (ar_userId r) = Some Owner"
proof -
  have none: "List.find (\<lambda>u. user_email u = su_email sample_signup) (users sample_db) = None"
    by (simp add: sample_signup_def sample_defs)
  have "ws_name_of sample_signup = ''My Shop''" by code_simp
  moreover have "slugify ''My Shop'' = ''my-shop''" by code_simp
  ultimately have "uniqueSlug (\<lambda>_. ''x'') ''y'' (slugify (ws_name_of sample_signup)) sample_db = ''my-shop''"
    by (simp add: uniqueSlug_def slug_candidate_def slug_taken_def sample_defs upt_rec)
  then have "\<exists>r. answer (signup sample_auth (\<lambda>_. ''x'') ''y'' ''r'' (''u9'', ''w9'', ''m9'') 5 sample_signup) sample_db = Inr r"
    using none by (simp add: signup_def signup_prepare_def andThen_def signup_commit_eq Let_def)
      (simp add: slug_taken_def sample_signup_def sample_defs)
  then obtain r t where r: "signup sample_auth (\<lambda>_. ''x'') ''y'' ''r'' (''u9'', ''w9'', ''m9'') 5 sample_signup sample_db = (Inr r, t)"
    by (metis prod.collapse)
  have "au_bcrypt_compare sample_auth (su_password sample_signup)
      (au_bcrypt_hash sample_auth (su_password sample_signup))"
    and "\<forall>w \<in> set (workspaces sample_db). ws_ownerId w \<noteq> fst (''u9'', ''w9'', ''m9'') \<and> ws_id w \<noteq> fst (snd (''u9'', ''w9'', ''m9''))"
    and "\<forall>m \<in> set (members sample_db). mem_userId m \<noteq> fst (''u9'', ''w9'', ''m9'') \<and>
      mem_workspaceId m \<noteq> fst (snd (''u9'', ''w9'', ''m9''))"
    by (simp_all add: sample_auth_def sample_defs)
  from signup_then_login [OF this, where draw = "\<lambda>_. ''x''" and stamp = "''y''" and rnd = "''r''" and now = 5] r show ?thesis by auto
qed

text \<open>
  Claim C11: at the HTTP routes access and refresh tokens cannot stand in for each other, even if
  both secrets are the same: with a JWT library that answers the claims it signed, the guard never
  accepts the refresh token of an issued pair as a bearer, and the refresh route never accepts the
  access token. (The handshake of the web socket makes no such test; see \<open>Realtime\<close>.)
\<close>

definition jwt_reads :: "auth_env \<Rightarrow> bool" where
  "jwt_reads env \<longleftrightarrow> (\<forall>k k' p ttl t t' j c. integral p \<longrightarrow>
     au_verify env k' t' (au_sign env k p ttl t) = Some j \<longrightarrow> c \<in> {''type'', ''sub'', ''email''} \<longrightarrow>
     json_get c j = json_get c p)"

theorem token_kinds_apart:
  assumes "jwt_reads env"
  shows "let pair = issue_tokens env now rnd uid email in
     (\<exists>m. authenticate env now' (Some (tp_refreshToken pair)) = Inl (Unauthorized m)) \<and>
     (\<exists>m. refresh env rnd' now' (tp_accessToken pair) s = (Inl (Unauthorized m), s))"
proof -
  let ?pair = "issue_tokens env now rnd uid email"
  have "json_get ''type'' j = Some (JStr ''refresh'')"
    if "verifyAccess env now' (tp_refreshToken ?pair) = Some j" for j
  proof -
    let ?p = "refresh_payload uid (uid @ ''.'' @ int_str now @ ''.'' @ rnd)"
    have "integral ?p" by (simp add: refresh_payload_def)
    with assms that have "json_get ''type'' j = json_get ''type'' ?p"
      unfolding jwt_reads_def issue_tokens_def verifyAccess_def Let_def by simp
    then show ?thesis by (simp add: refresh_payload_def)
  qed
  moreover have "json_get ''type'' j = Some (JStr ''access'')"
    if "verifyRefresh env now' (tp_accessToken ?pair) = Some j" for j
  proof -
    have "integral (access_payload uid email)" by (simp add: access_payload_def)
    with assms that have "json_get ''type'' j = json_get ''type'' (access_payload uid email)"
      unfolding jwt_reads_def issue_tokens_def verifyRefresh_def Let_def by simp
    then show ?thesis by (simp add: access_payload_def)
  qed
  ultimately show ?thesis
    by (simp add: Let_def authenticate_def validate_def refresh_def split: option.split)
qed

theorem token_kinds_apart_witness:
  "\<exists>m. authenticate sample_auth 0 (Some (tp_refreshToken (issue_tokens sample_auth 0 ''r'' ''u1'' ''a@x''))) =
     Inl (Unauthorized m)"
proof -
  have "jwt_reads sample_auth"
    by (simp add: jwt_reads_def sample_auth_def json_parse_stringify)
  from token_kinds_apart [OF this] show ?thesis by (simp add: Let_def)
qed

text \<open>
  The comment that sign-up is race tolerant is wrong. Two sign-ups that both chose
  their slug before either transaction ran, and chose the same one, do not both succeed: the
  second transaction fails with an uncaught unique violation (a 500), and likewise when both
  use the same e-mail, where the sequential code would answer a conflict. Nothing of the
  second sign-up is stored.
\<close>

theorem signup_race:
  assumes "signup_prepare env draw1 stamp1 d1 s = (Inr p1, s)"
    and "signup_prepare env draw2 stamp2 d2 s = (Inr p2, s)"
    and "signup_commit ids1 now1 d1 p1 s = (Inr r1, t)"
    and "snd (snd p1) = snd (snd p2) \<or> su_email d1 = su_email d2"
  shows "\<exists>m. signup_commit ids2 now2 d2 p2 t = (Inl (Crash m), t)"
proof -
  obtain h1 n1 g1 h2 n2 g2 where p: "p1 = (h1, n1, g1)" "p2 = (h2, n2, g2)" by (cases p1; cases p2)
  then have "users t = users s @ [new_user ids1 now1 d1 h1]"
    and "workspaces t = workspaces s @ [new_workspace ids1 now1 n1 g1]"
    using assms(3) by (auto simp: signup_commit_eq split: if_splits)
  then have "su_email d2 \<in> user_email ` set (users t) \<or> slug_taken t g2"
    using assms(4) p by (auto simp: slug_taken_def new_user_def new_workspace_def)
  then show ?thesis by (auto simp: p signup_commit_eq)
qed

theorem signup_race_witness:
  "\<exists>p s t m. signup_prepare sample_auth (\<lambda>_. ''x'') ''y'' sample_signup s = (Inr p, s) \<and>
     signup_commit (''u8'', ''w8'', ''m8'') 7 (sample_signup\<lparr>su_email := ''o@x''\<rparr>) p t = (Inl (Crash m), t)"
proof -
  let ?d2 = "sample_signup\<lparr>su_email := ''o@x''\<rparr>"
  let ?p = "(''hpassword'', ''My Shop'', ''my-shop'')"
  have n: "ws_name_of sample_signup = ''My Shop''" "ws_name_of ?d2 = ''My Shop''" "slugify ''My Shop'' = ''my-shop''"
    by code_simp+
  have u: "uniqueSlug (\<lambda>_. ''x'') ''y'' ''my-shop'' empty_db = ''my-shop''"
    by (simp add: uniqueSlug_def slug_candidate_def slug_taken_def empty_db_def upt_rec)
  have p1: "signup_prepare sample_auth (\<lambda>_. ''x'') ''y'' sample_signup empty_db = (Inr ?p, empty_db)"
    using n u by (simp add: signup_prepare_def Let_def) (simp add: empty_db_def sample_auth_def sample_signup_def)
  have p2: "signup_prepare sample_auth (\<lambda>_. ''x'') ''y'' ?d2 empty_db = (Inr ?p, empty_db)"
    using n u by (simp add: signup_prepare_def Let_def) (simp add: empty_db_def sample_auth_def sample_signup_def)
  obtain r t where c: "signup_commit (''u9'', ''w9'', ''m9'') 5 sample_signup ?p empty_db = (Inr r, t)"
    by (simp add: signup_commit_eq slug_taken_def empty_db_def)
  from signup_race [OF p1 p2 c] have "\<exists>m. signup_commit (''u8'', ''w8'', ''m8'') 7 ?d2 ?p t = (Inl (Crash m), t)"
    by simp
  with p1 show ?thesis by blast
qed

end
