(* ===== verification/TenantGuard.thy ===== *)
theory TenantGuard
  imports JsText
begin

text \<open>
  The chokepoint of every ClickHouse query (\<open>with-workspace.ts\<close>): a query whose text does not
  contain \<open>workspace_id = {workspace_id:UUID}\<close> is refused before it is sent, and the
  \<open>workspace_id\<close> parameter of a query that is sent is the caller's workspace.
\<close>

record ch_query =
  q_sql :: string
  q_params :: "(string \<times> string) list"
  q_format :: string

section \<open>The regular expression\<close>

text \<open>\<open>/workspace_id\s*=\s*{workspace_id:UUID}/i\<close>, tried at every position.\<close>

definition match_lit :: "string \<Rightarrow> string \<Rightarrow> string option" where
  "match_lit p s =
     (if to_lower (take (length p) s) = to_lower p then Some (drop (length p) s) else None)"

definition match_guard_at :: "string \<Rightarrow> bool" where
  "match_guard_at s =
     (case match_lit ''workspace_id'' s of
        None \<Rightarrow> False
      | Some s1 \<Rightarrow>
         (case match_lit ''='' (dropWhile is_space s1) of
            None \<Rightarrow> False
          | Some s2 \<Rightarrow> match_lit ''{workspace_id:UUID}'' (dropWhile is_space s2) \<noteq> None))"

fun matches_guard :: "string \<Rightarrow> bool" where
  "matches_guard [] = match_guard_at []"
| "matches_guard (c # s) = (match_guard_at (c # s) \<or> matches_guard s)"

section \<open>withWorkspace\<close>

text \<open>\<open>{ ...bag, k: v }\<close>\<close>

fun spread_set :: "string \<Rightarrow> string \<Rightarrow> (string \<times> string) list \<Rightarrow> (string \<times> string) list" where
  "spread_set k v [] = [(k, v)]"
| "spread_set k v ((k', v') # kvs) =
     (if k' = k then (k, v) # kvs else (k', v') # spread_set k v kvs)"

datatype 'a guarded_result = TenantIsolationError string | Sent ch_query 'a

text \<open>
  The two wrappers: \<open>send\<close> is the client's own method. Nothing is sent when the text is refused.
\<close>

definition wrappedQuery :: "string \<Rightarrow> (ch_query \<Rightarrow> 'a) \<Rightarrow> ch_query \<Rightarrow> 'a guarded_result" where
  "wrappedQuery workspaceId send q =
     (if \<not> matches_guard (q_sql q)
      then TenantIsolationError (''every ClickHouse query must filter `workspace_id = {workspace_id:UUID}` - '' @
        ''this is enforced to prevent cross-tenant leaks (ADR-005).'')
      else let q' = q\<lparr>q_params := spread_set ''workspace_id'' workspaceId (q_params q)\<rparr>
           in Sent q' (send q'))"

definition wrappedCommand :: "string \<Rightarrow> (ch_query \<Rightarrow> 'a) \<Rightarrow> ch_query \<Rightarrow> 'a guarded_result" where
  "wrappedCommand workspaceId send q =
     (if \<not> matches_guard (q_sql q)
      then TenantIsolationError ''every ClickHouse command must filter `workspace_id = {workspace_id:UUID}`''
      else let q' = q\<lparr>q_params := spread_set ''workspace_id'' workspaceId (q_params q)\<rparr>
           in Sent q' (send q'))"

text \<open>
  \<open>withWorkspace(ch, workspaceId, fn)\<close>: the callback gets the two wrappers and the workspace, and
  may run any number of queries and commands with them; \<open>Inl\<close> when it is not called at all.
\<close>

definition withWorkspace ::
  "(ch_query \<Rightarrow> 'a) \<Rightarrow> (ch_query \<Rightarrow> 'b) \<Rightarrow> string
     \<Rightarrow> ((ch_query \<Rightarrow> 'a guarded_result) \<Rightarrow> (ch_query \<Rightarrow> 'b guarded_result) \<Rightarrow> string \<Rightarrow> 'r) \<Rightarrow> string + 'r" where
  "withWorkspace query command workspaceId fn =
     (if workspaceId = [] then Inl ''workspaceId required''
      else Inr (fn (wrappedQuery workspaceId query) (wrappedCommand workspaceId command) workspaceId))"

section \<open>Facts\<close>

lemma to_lower_append [simp]: "to_lower (a @ b) = to_lower a @ to_lower b"
  by (simp add: to_lower_def)

lemma length_to_lower [simp]: "length (to_lower s) = length s"
  by (simp add: to_lower_def)

lemma code_of_to_lower_char:
  "code_of (to_lower_char c) = (if between 65 90 c then code_of c + 32 else code_of c)"
  by (simp add: to_lower_char_def between_def)

lemma match_lit_Some:
  "match_lit p s = Some t \<longleftrightarrow> (\<exists>p'. s = p' @ t \<and> length p' = length p \<and> to_lower p' = to_lower p)"
proof
  assume "match_lit p s = Some t"
  then have low: "to_lower (take (length p) s) = to_lower p" and t: "t = drop (length p) s"
    by (auto simp: match_lit_def split: if_splits)
  have "length (to_lower (take (length p) s)) = length p" unfolding low by simp
  then have "length (take (length p) s) = length p" by simp
  with low t show "\<exists>p'. s = p' @ t \<and> length p' = length p \<and> to_lower p' = to_lower p"
    by (intro exI [of _ "take (length p) s"]) simp
qed (auto simp: match_lit_def)

lemma matches_guard_iff: "matches_guard s \<longleftrightarrow> (\<exists>a b. s = a @ b \<and> match_guard_at b)"
proof (induction s)
  case Nil
  show ?case by simp
next
  case (Cons c s)
  show ?case
  proof
    assume "matches_guard (c # s)"
    then have "match_guard_at (c # s) \<or> matches_guard s" by simp
    then show "\<exists>a b. c # s = a @ b \<and> match_guard_at b"
    proof
      assume "match_guard_at (c # s)"
      then show ?thesis by (metis append_Nil)
    next
      assume "matches_guard s"
      with Cons.IH obtain a b where "s = a @ b" "match_guard_at b" by blast
      then show ?thesis by (metis append_Cons)
    qed
  next
    assume "\<exists>a b. c # s = a @ b \<and> match_guard_at b"
    then obtain a b where ab: "c # s = a @ b" "match_guard_at b" by blast
    with Cons.IH show "matches_guard (c # s)" by (cases a) auto
  qed
qed

lemma matches_guard_append: "match_guard_at (b @ c) \<Longrightarrow> matches_guard (a @ b @ c)"
  using matches_guard_iff by blast

lemma map_of_spread_set [simp]:
  "map_of (spread_set k v kvs) = (map_of kvs)(k \<mapsto> v)"
  by (induction k v kvs rule: spread_set.induct) (auto simp: fun_eq_iff)

text \<open>The regular expression, read as a language: the two literals in any case, white space between.\<close>

definition guard_text :: "string \<Rightarrow> bool" where
  "guard_text s \<longleftrightarrow> (\<exists>p1 w1 w2 p2 b. s = p1 @ w1 @ ''='' @ w2 @ p2 @ b \<and>
     to_lower p1 = ''workspace_id'' \<and> to_lower p2 = to_lower ''{workspace_id:UUID}'' \<and>
     (\<forall>c \<in> set (w1 @ w2). is_space c))"

lemma lower_lits: "to_lower ''workspace_id'' = ''workspace_id''" "to_lower ''='' = ''=''"
  by code_simp+

lemma lower_equals_sign:
  assumes "length p = length ''=''" and "to_lower p = ''=''"
  shows "p = ''=''"
proof -
  obtain c where p: "p = [c]" using assms(1) by (cases p) auto
  have "code_of (to_lower_char c) = code_of (CHR ''='')"
    using assms(2) by (simp add: p to_lower_def)
  then have "code_of c = 61" by (simp add: code_of_to_lower_char between_def split: if_splits)
  then have "code_of c = code_of (CHR ''='')" by simp
  then have "c = CHR ''=''" by (simp only: of_char_eq_iff)
  then show ?thesis by (simp add: p)
qed

lemma match_guard_sound:
  assumes "match_guard_at s"
  shows "guard_text s"
proof -
  from assms obtain s1 s2 s3 where m: "match_lit ''workspace_id'' s = Some s1"
    "match_lit ''='' (dropWhile is_space s1) = Some s2"
    "match_lit ''{workspace_id:UUID}'' (dropWhile is_space s2) = Some s3"
    by (auto simp: match_guard_at_def split: option.splits)
  from m(1) lower_lits obtain p1 where p1: "s = p1 @ s1" "to_lower p1 = ''workspace_id''"
    unfolding match_lit_Some by auto
  from m(2) lower_lits lower_equals_sign have s2: "dropWhile is_space s1 = ''='' @ s2"
    unfolding match_lit_Some by metis
  from m(3) obtain p2 where p2: "dropWhile is_space s2 = p2 @ s3"
    "to_lower p2 = to_lower ''{workspace_id:UUID}''" unfolding match_lit_Some by auto
  have "s1 = takeWhile is_space s1 @ ''='' @ s2"
    using s2 by (metis takeWhile_dropWhile_id)
  moreover have "s2 = takeWhile is_space s2 @ p2 @ s3"
    using p2(1) by (metis takeWhile_dropWhile_id)
  ultimately have "s = p1 @ takeWhile is_space s1 @ ''='' @ takeWhile is_space s2 @ p2 @ s3"
    using p1(1) by metis
  moreover have "\<forall>c \<in> set (takeWhile is_space s1 @ takeWhile is_space s2). is_space c"
    by (auto dest: set_takeWhileD)
  ultimately show ?thesis unfolding guard_text_def using p1(2) p2(2) by blast
qed

lemma match_guard_complete:
  assumes "guard_text s"
  shows "match_guard_at s"
proof -
  from assms obtain p1 w1 w2 p2 b where s: "s = p1 @ w1 @ ''='' @ w2 @ p2 @ b"
    and p1: "to_lower p1 = ''workspace_id''" and p2: "to_lower p2 = to_lower ''{workspace_id:UUID}''"
    and w: "\<forall>c \<in> set w1. is_space c" "\<forall>c \<in> set w2. is_space c" by (auto simp: guard_text_def)
  have len: "length p1 = length ''workspace_id''" "length p2 = length ''{workspace_id:UUID}''"
    using arg_cong [OF p1, of length] arg_cong [OF p2, of length] by simp_all
  obtain c p where c: "p2 = c # p" using len(2) by (cases p2) auto
  have "to_lower_char c = CHR ''{''"
    using p2 by (simp add: c to_lower_def to_lower_char_def between_def)
  then have nsp: "\<not> is_space c" "\<not> is_space (CHR ''='')"
    by (auto simp: is_space_def to_lower_char_def between_def)
  have "match_lit ''workspace_id'' s = Some (w1 @ ''='' @ w2 @ p2 @ b)"
    unfolding match_lit_Some using s p1 len(1) lower_lits(1) by auto
  moreover have "dropWhile is_space (w1 @ ''='' @ w2 @ p2 @ b) = ''='' @ w2 @ p2 @ b"
    using w(1) nsp(2) by (simp add: dropWhile_append)
  moreover have "match_lit ''='' (''='' @ w2 @ p2 @ b) = Some (w2 @ p2 @ b)"
    by (simp add: match_lit_def)
  moreover have "dropWhile is_space (w2 @ p2 @ b) = p2 @ b"
    using w(2) nsp(1) by (simp add: dropWhile_append c)
  moreover have "match_lit ''{workspace_id:UUID}'' (p2 @ b) = Some b"
    unfolding match_lit_Some using p2 len(2) by auto
  ultimately show ?thesis by (simp add: match_guard_at_def)
qed

lemma match_guard_at_iff:
  "match_guard_at s \<longleftrightarrow> (\<exists>p1 w1 w2 p2 b. s = p1 @ w1 @ ''='' @ w2 @ p2 @ b \<and>
     to_lower p1 = ''workspace_id'' \<and> to_lower p2 = to_lower ''{workspace_id:UUID}'' \<and>
     (\<forall>c \<in> set (w1 @ w2). is_space c))"
  unfolding guard_text_def [symmetric] using match_guard_sound match_guard_complete by blast

section \<open>Properties\<close>

text \<open>What became of one query or command of a callback.\<close>

definition guarded_by :: "string \<Rightarrow> (ch_query \<Rightarrow> 'a) \<Rightarrow> ch_query \<Rightarrow> 'a guarded_result \<Rightarrow> bool" where
  "guarded_by w send q r =
     (case r of
        TenantIsolationError m \<Rightarrow> \<not> matches_guard (q_sql q)
      | Sent q' x \<Rightarrow> matches_guard (q_sql q') \<and> x = send q' \<and> q_sql q' = q_sql q \<and> q_format q' = q_format q \<and>
          map_of (q_params q') = (map_of (q_params q))(''workspace_id'' \<mapsto> w))"

text \<open>
  Claim C4: no query or command leaves the wrapper unless its text contains the tenant filter, and
  then its \<open>workspace_id\<close> parameter is the caller's workspace even if the caller passed another
  one; every other parameter, the text and the format are passed on unchanged. This holds for each
  of any number of queries and commands that a callback runs, and the callback is run for every
  workspace id but the empty one.
\<close>

theorem tenant_guard:
  "case withWorkspace query command w (\<lambda>query' command' w'. (map query' qs, map command' cs, w')) of
     Inl m \<Rightarrow> w = []
   | Inr (rs, ss, w') \<Rightarrow> w \<noteq> [] \<and> w' = w \<and> list_all2 (guarded_by w query) qs rs \<and> list_all2 (guarded_by w command) cs ss"
  by (simp add: withWorkspace_def list_all2_conv_all_nth guarded_by_def wrappedQuery_def wrappedCommand_def Let_def)

text \<open>A query for another workspace, a command without the filter.\<close>

theorem tenant_guard_witness:
  "withWorkspace q_sql q_format ''w1'' (\<lambda>query command w.
     (map query [\<lparr>q_sql = ''SELECT 1 WHERE Workspace_ID= {workspace_id:uuid}'',
        q_params = [(''workspace_id'', ''w2''), (''x'', ''y'')], q_format = ''JSON''\<rparr>],
      map command [\<lparr>q_sql = ''OPTIMIZE TABLE events'', q_params = [], q_format = ''JSON''\<rparr>], w)) =
   Inr ([Sent \<lparr>q_sql = ''SELECT 1 WHERE Workspace_ID= {workspace_id:uuid}'',
        q_params = [(''workspace_id'', ''w1''), (''x'', ''y'')], q_format = ''JSON''\<rparr>
        ''SELECT 1 WHERE Workspace_ID= {workspace_id:uuid}''],
     [TenantIsolationError ''every ClickHouse command must filter `workspace_id = {workspace_id:UUID}`''], ''w1'') \<and>
   map_of [(''workspace_id'', ''w1''), (''x'', ''y'')] =
     (map_of [(''workspace_id'', ''w2''), (''x'', ''y'')])(''workspace_id'' \<mapsto> ''w1'')"
proof -
  let ?q = "\<lparr>q_sql = ''SELECT 1 WHERE Workspace_ID= {workspace_id:uuid}'',
       q_params = [(''workspace_id'', ''w2''), (''x'', ''y'')], q_format = ''JSON''\<rparr>"
  let ?c = "\<lparr>q_sql = ''OPTIMIZE TABLE events'', q_params = [], q_format = ''JSON''\<rparr>"
  have "matches_guard ''SELECT 1 WHERE Workspace_ID= {workspace_id:uuid}''"
    "\<not> matches_guard ''OPTIMIZE TABLE events''" by code_simp+
  then have sent: "withWorkspace q_sql q_format ''w1'' (\<lambda>query command w. (map query [?q], map command [?c], w)) =
     Inr ([Sent \<lparr>q_sql = ''SELECT 1 WHERE Workspace_ID= {workspace_id:uuid}'',
       q_params = [(''workspace_id'', ''w1''), (''x'', ''y'')], q_format = ''JSON''\<rparr>
       ''SELECT 1 WHERE Workspace_ID= {workspace_id:uuid}''],
       [TenantIsolationError ''every ClickHouse command must filter `workspace_id = {workspace_id:UUID}`''], ''w1'')"
    by (simp add: withWorkspace_def wrappedQuery_def wrappedCommand_def del: matches_guard.simps)
  with tenant_guard [where w = "''w1''" and query = q_sql and command = q_format and qs = "[?q]" and cs = "[?c]"]
  show ?thesis by (simp add: guarded_by_def)
qed

text \<open>
  Claim C32: the tests of the regular expression, as a language: a text passes exactly when it
  contains the name \<open>workspace_id\<close>, an equals sign and the placeholder, in any letter case,
  with any white space around the sign. It is a test of the text alone: a filter inside an SQL
  comment passes as well.
\<close>

theorem guard_language:
  "(matches_guard s \<longleftrightarrow> (\<exists>a p1 w1 w2 p2 b. s = a @ p1 @ w1 @ ''='' @ w2 @ p2 @ b \<and>
     to_lower p1 = ''workspace_id'' \<and> to_lower p2 = to_lower ''{workspace_id:UUID}'' \<and>
     (\<forall>c \<in> set (w1 @ w2). is_space c))) \<and>
   matches_guard ''SELECT * FROM events -- workspace_id = {workspace_id:UUID}''"
proof -
  have "matches_guard ''SELECT * FROM events -- workspace_id = {workspace_id:UUID}''" by code_simp
  moreover have "matches_guard s \<longleftrightarrow> (\<exists>a p1 w1 w2 p2 b. s = a @ p1 @ w1 @ ''='' @ w2 @ p2 @ b \<and>
     to_lower p1 = ''workspace_id'' \<and> to_lower p2 = to_lower ''{workspace_id:UUID}'' \<and>
     (\<forall>c \<in> set (w1 @ w2). is_space c))"
    unfolding matches_guard_iff match_guard_at_iff by blast
  ultimately show ?thesis by blast
qed

theorem guard_language_witness:
  "matches_guard ''x workspace_id = {workspace_id:UUID} y'' \<and> \<not> matches_guard ''workspace_id''"
proof -
  have "\<exists>a p1 w1 w2 p2 b. ''x workspace_id = {workspace_id:UUID} y'' = a @ p1 @ w1 @ ''='' @ w2 @ p2 @ b \<and>
     to_lower p1 = ''workspace_id'' \<and> to_lower p2 = to_lower ''{workspace_id:UUID}'' \<and>
     (\<forall>c \<in> set (w1 @ w2). is_space c)"
  proof (intro exI conjI)
    show "''x workspace_id = {workspace_id:UUID} y'' =
      ''x '' @ ''workspace_id'' @ '' '' @ ''='' @ '' '' @ ''{workspace_id:UUID}'' @ '' y''" by simp
    show "to_lower ''workspace_id'' = ''workspace_id''" by code_simp
    show "to_lower ''{workspace_id:UUID}'' = to_lower ''{workspace_id:UUID}''" by (rule refl)
    show "\<forall>c \<in> set ('' '' @ '' ''). is_space c" by (simp add: is_space_def)
  qed
  moreover have "\<not> matches_guard ''workspace_id''" by code_simp
  ultimately show ?thesis using guard_language by blast
qed

end
