(* ===== verification/Cache.thy ===== *)
theory Cache
  imports Json
begin

text \<open>
  The Redis commands the services use as a cache: \<open>GET key\<close> and \<open>SET key value EX seconds\<close>,
  on a store of values with their expiry time in milliseconds. The locale states what a
  cached service relies on; the read-through pattern of \<open>events.service.ts\<close> follows.
\<close>

section \<open>The contract\<close>

locale kv_cache =
  fixes get :: "int \<Rightarrow> string \<Rightarrow> 's \<Rightarrow> string option"
    and put :: "int \<Rightarrow> string \<Rightarrow> string \<Rightarrow> int \<Rightarrow> 's \<Rightarrow> 's"
  assumes get_put_live: "t' < t + ttl * 1000 \<Longrightarrow> get t' k (put t k v ttl s) = Some v"
    and get_put_expired: "t + ttl * 1000 \<le> t' \<Longrightarrow> get t' k (put t k v ttl s) = None"
    and get_put_other: "k' \<noteq> k \<Longrightarrow> get t' k' (put t k v ttl s) = get t' k' s"
begin

lemma get_put:
  "get t' k' (put t k v ttl s) =
     (if k' = k then (if t' < t + ttl * 1000 then Some v else None) else get t' k' s)"
  using get_put_live get_put_expired get_put_other by auto

text \<open>Writes to keys outside a set leave every key of the set alone.\<close>

definition agree :: "string set \<Rightarrow> 's \<Rightarrow> 's \<Rightarrow> bool" where
  "agree K s s' \<longleftrightarrow> (\<forall>k \<in> K. \<forall>t. get t k s = get t k s')"

lemma agree_refl: "agree K s s"
  by (simp add: agree_def)

lemma agree_put: "k \<notin> K \<Longrightarrow> agree K s s' \<Longrightarrow> agree K s (put t k v ttl s')"
  by (auto simp: agree_def get_put)

end

section \<open>Redis\<close>

type_synonym redis = "(string \<times> string \<times> int) list"

definition redis_get :: "int \<Rightarrow> string \<Rightarrow> redis \<Rightarrow> string option" where
  "redis_get now k s =
     (case map_of s k of
        None \<Rightarrow> None
      | Some (v, expires) \<Rightarrow> if now < expires then Some v else None)"

definition redis_setex :: "int \<Rightarrow> string \<Rightarrow> string \<Rightarrow> int \<Rightarrow> redis \<Rightarrow> redis" where
  "redis_setex now k v ttl s = (k, v, now + ttl * 1000) # filter (\<lambda>(k', _). k' \<noteq> k) s"

lemma map_of_filter_key: "k' \<noteq> k \<Longrightarrow> map_of (filter (\<lambda>(k', _). k' \<noteq> k) s) k' = map_of s k'"
  by (induction s) auto

interpretation redis: kv_cache redis_get redis_setex
  by unfold_locales (auto simp: redis_get_def redis_setex_def map_of_filter_key)

section \<open>Read through\<close>

text \<open>Assignment of a member on a parsed object (\<open>parsed.cache = v\<close>).\<close>

fun members_set :: "string \<Rightarrow> json \<Rightarrow> (string \<times> json) list \<Rightarrow> (string \<times> json) list" where
  "members_set k v [] = [(k, v)]"
| "members_set k v ((k', v') # kvs) =
     (if k' = k then (k, v) # filter (\<lambda>(x, _). x \<noteq> k) kvs
      else (k', v') # members_set k v kvs)"

fun json_set :: "string \<Rightarrow> json \<Rightarrow> json \<Rightarrow> json option" where
  "json_set k v (JObj kvs) = Some (JObj (members_set k v kvs))"
| "json_set k v (JArr xs) = Some (JArr xs)"
| "json_set k v _ = None"

definition cache_member :: "bool \<Rightarrow> int \<Rightarrow> json" where
  "cache_member hit ttl = JObj [(''hit'', JBool hit), (''ttlSeconds'', JNum (of_int ttl))]"

end
