(* ===== verification/Events.thy ===== *)
theory Events
  imports Workspaces Dashboards Metrics TenantGuard Cache JsDate
begin

text \<open>
  The analytics queries: \<open>events.service.ts\<close>, \<open>events.controller.ts\<close> and their DTOs. KPI,
  funnel and cohort each validate their input, look into Redis under a key of the request,
  and otherwise send one ClickHouse query through \<open>withWorkspace\<close>, post-process the rows and
  cache the answer. What a driver returns for a query (numbers already read by \<open>Number\<close>), the
  reading of a timestamp (\<open>new Date(s)\<close>, \<open>None\<close> when invalid), \<open>localeCompare\<close> and the text of
  a fraction are the environment.
\<close>

record events_env =
  en_date :: "string \<Rightarrow> int option"
  en_kpi_rows :: "ch_query \<Rightarrow> (string \<times> rat) list option"
  en_funnel_rows :: "ch_query \<Rightarrow> (int \<times> rat) list option"
  en_cohort_rows :: "ch_query \<Rightarrow> (string \<times> int \<times> rat) list option"
  en_locale_le :: "string \<Rightarrow> string \<Rightarrow> bool"
  en_fraction :: "rat \<Rightarrow> string"

text \<open>The two stores a query touches: Redis, and the queries sent to ClickHouse so far.\<close>

record events_state =
  es_redis :: redis
  es_sent :: "ch_query list"

section \<open>Shared steps\<close>

definition coerceTimestamp :: "events_env \<Rightarrow> string \<Rightarrow> string \<Rightarrow> ('s, int) app" where
  "coerceTimestamp env input label =
     (if input = [] then throw (BadRequest (label @ '' required''))
      else case en_date env input of
        None \<Rightarrow> throw (BadRequest (label @ '' is not a valid ISO timestamp''))
      | Some ms \<Rightarrow> ok ms)"

definition coerce_range :: "events_env \<Rightarrow> string \<Rightarrow> string \<Rightarrow> ('s, int \<times> int) app" where
  "coerce_range env fromIso toIso =
     andThen (coerceTimestamp env fromIso ''from'') (\<lambda>from_ms.
     andThen (coerceTimestamp env toIso ''to'') (\<lambda>to_ms.
       if to_ms \<le> from_ms then throw (BadRequest ''from must be earlier than to'')
       else ok (from_ms, to_ms)))"

text \<open>\<open>d.toISOString().replace('T', ' ').slice(0, 19)\<close>\<close>

fun replace_first :: "char \<Rightarrow> char \<Rightarrow> string \<Rightarrow> string" where
  "replace_first a b [] = []"
| "replace_first a b (c # s) = (if c = a then b # s else c # replace_first a b s)"

definition ch_datetime :: "int \<Rightarrow> string" where
  "ch_datetime ms = take 19 (replace_first (CHR ''T'') (CHR '' '') (toISOString ms))"

definition run_query ::
  "string \<Rightarrow> (ch_query \<Rightarrow> 'r list option) \<Rightarrow> ch_query \<Rightarrow> (events_state, 'r list) app" where
  "run_query wid rows q s =
     (case withWorkspace rows (\<lambda>_. ()) wid (\<lambda>query command w. query q) of
        Inl m \<Rightarrow> (Inl (Crash m), s)
      | Inr (TenantIsolationError m) \<Rightarrow> (Inl (Crash m), s)
      | Inr (Sent q' result) \<Rightarrow>
          (case result of
             None \<Rightarrow> (Inl (Crash ''ClickHouse query failed''), s\<lparr>es_sent := es_sent s @ [q']\<rparr>)
           | Some rs \<Rightarrow> (Inr rs, s\<lparr>es_sent := es_sent s @ [q']\<rparr>)))"

text \<open>
  The read-through of the three queries; \<open>t1\<close> is the time of the \<open>GET\<close>, \<open>t2\<close> of the \<open>SET\<close>.
\<close>

definition cache_miss ::
  "events_env \<Rightarrow> string \<Rightarrow> int \<Rightarrow> int \<Rightarrow> (events_state, json) app \<Rightarrow> (events_state, json) app" where
  "cache_miss env key ttl t2 compute =
     andThen compute (\<lambda>j s. (Inr j,
       s\<lparr>es_redis := redis_setex t2 key (stringify (en_fraction env) j) ttl (es_redis s)\<rparr>))"

definition through_cache ::
  "events_env \<Rightarrow> string \<Rightarrow> int \<Rightarrow> int \<Rightarrow> int \<Rightarrow> (events_state, json) app \<Rightarrow> (events_state, json) app" where
  "through_cache env key ttl t1 t2 compute s =
     (case redis_get t1 key (es_redis s) of
        None \<Rightarrow> cache_miss env key ttl t2 compute s
      | Some cached \<Rightarrow>
          if cached = [] then cache_miss env key ttl t2 compute s
          else case json_parse cached of
            None \<Rightarrow> (Inl (Crash ''SyntaxError''), s)
          | Some parsed \<Rightarrow>
             (case json_set ''cache'' (cache_member True ttl) parsed of
                None \<Rightarrow> (Inl (Crash ''TypeError''), s)
              | Some j \<Rightarrow> (Inr j, s)))"

definition nl :: string where
  "nl = [CHR 0x0A]"

definition sql_lines :: "string list \<Rightarrow> string" where
  "sql_lines ls = nl @ js_join nl ls @ nl @ ''    ''"

section \<open>KPI series\<close>

definition KPI_CACHE_TTL_SECONDS :: int where
  "KPI_CACHE_TTL_SECONDS = 5"

definition unitFor :: "aggregation \<Rightarrow> string" where
  "unitFor agg = (case agg of Sum_revenue \<Rightarrow> ''cents'' | Unique_users \<Rightarrow> ''users'' | Count_events \<Rightarrow> ''count'')"

definition aggSelectExpr :: "aggregation \<Rightarrow> string" where
  "aggSelectExpr agg = (case agg of
     Sum_revenue \<Rightarrow> ''toFloat64(sumMerge(revenue_cents))''
   | Count_events \<Rightarrow> ''toFloat64(countMerge(event_count))''
   | Unique_users \<Rightarrow> ''toFloat64(uniqMerge(unique_users))'')"

definition bucketExpr :: "string \<Rightarrow> string" where
  "bucketExpr granularity = (if granularity = ''hour'' then ''toStartOfHour(hour)'' else ''toDate(hour)'')"

definition kpi_sql :: "aggregation \<Rightarrow> string \<Rightarrow> string" where
  "kpi_sql agg granularity = sql_lines
     [''      SELECT'',
      ''        '' @ bucketExpr granularity @ '' AS ts,'',
      ''        '' @ aggSelectExpr agg @ '' AS value'',
      ''      FROM kpi_hourly'',
      ''      WHERE workspace_id = {workspace_id:UUID}'',
      ''        AND event_name   = {event_name:String}'',
      ''        AND hour >= {from:DateTime}'',
      ''        AND hour <  {to:DateTime}'',
      ''      GROUP BY ts'',
      ''      ORDER BY ts'']"

definition kpi_query :: "metric_def \<Rightarrow> int \<Rightarrow> int \<Rightarrow> string \<Rightarrow> ch_query" where
  "kpi_query d from_ms to_ms granularity =
     \<lparr>q_sql = kpi_sql (md_agg d) granularity,
      q_params = [(''event_name'', md_eventName d), (''from'', ch_datetime from_ms), (''to'', ch_datetime to_ms)],
      q_format = ''JSONEachRow''\<rparr>"

definition runAggregation ::
  "events_env \<Rightarrow> string \<Rightarrow> metric_def \<Rightarrow> int \<Rightarrow> int \<Rightarrow> string \<Rightarrow> (events_state, (string \<times> rat) list) app" where
  "runAggregation env wid d from_ms to_ms granularity =
     run_query wid (en_kpi_rows env) (kpi_query d from_ms to_ms granularity)"

definition kpi_series :: "string \<Rightarrow> metric_def \<Rightarrow> string \<Rightarrow> (string \<times> rat) list \<Rightarrow> json" where
  "kpi_series metric d granularity points = JObj
     [(''metric'', JStr metric), (''label'', JStr (md_label d)), (''granularity'', JStr granularity),
      (''unit'', JStr (unitFor (md_agg d))),
      (''points'', JArr (map (\<lambda>(ts, v). JObj [(''ts'', JStr ts), (''value'', JNum v)]) points)),
      (''cache'', cache_member False KPI_CACHE_TTL_SECONDS)]"

definition kpi_key :: "string \<Rightarrow> string \<Rightarrow> string \<Rightarrow> int \<Rightarrow> int \<Rightarrow> string" where
  "kpi_key wid metric granularity from_ms to_ms =
     ''kpi:'' @ wid @ '':'' @ metric @ '':'' @ granularity @ '':'' @ toISOString from_ms @ '':'' @
     toISOString to_ms"

definition kpi ::
  "events_env \<Rightarrow> int \<Rightarrow> int \<Rightarrow> string \<Rightarrow> string \<Rightarrow> string \<Rightarrow> string \<Rightarrow> string \<Rightarrow> (events_state, json) app" where
  "kpi env t1 t2 wid metric fromIso toIso granularity =
     (case map_of METRICS metric of
        None \<Rightarrow> throw (BadRequest (''unknown metric '' @ [CHR 0x22] @ metric @ [CHR 0x22]))
      | Some d \<Rightarrow>
          if granularity \<notin> {''hour'', ''day''}
          then throw (BadRequest ''granularity must be hour|day'')
          else andThen (coerce_range env fromIso toIso) (\<lambda>(from_ms, to_ms).
            through_cache env (kpi_key wid metric granularity from_ms to_ms) KPI_CACHE_TTL_SECONDS t1 t2
              (andThen (runAggregation env wid d from_ms to_ms granularity) (\<lambda>points.
                ok (kpi_series metric d granularity points)))))"

section \<open>Funnels\<close>

definition funnel_steps :: "string \<Rightarrow> string list" where
  "funnel_steps csv = filter (\<lambda>t. t \<noteq> []) (map js_trim (split_on (CHR '','') csv))"

text \<open>\<open>/^[a-zA-Z0-9_.:-]{1,128}$/\<close>\<close>

definition step_char :: "char \<Rightarrow> bool" where
  "step_char c \<longleftrightarrow> between 97 122 c \<or> between 65 90 c \<or> between 48 57 c \<or>
     c \<in> {CHR ''_'', CHR ''.'', CHR '':'', CHR ''-''}"

definition valid_step :: "string \<Rightarrow> bool" where
  "valid_step t \<longleftrightarrow> 1 \<le> length t \<and> length t \<le> 128 \<and> list_all step_char t"

definition funnel_key :: "string \<Rightarrow> int \<Rightarrow> string list \<Rightarrow> int \<Rightarrow> int \<Rightarrow> string" where
  "funnel_key wid windowHours steps from_ms to_ms =
     ''funnel:'' @ wid @ '':'' @ int_str windowHours @ '':'' @ js_join '','' steps @ '':'' @
     toISOString from_ms @ '':'' @ toISOString to_ms"

definition step_param :: "nat \<Rightarrow> string" where
  "step_param i = ''step'' @ nat_str i"

definition funnel_sql :: "int \<Rightarrow> nat \<Rightarrow> string" where
  "funnel_sql windowHours n =
     (let stepConds = js_join '', '' (map (\<lambda>i. ''event_name = {'' @ step_param i @ '':String}'') [0..<n]);
          windowSeconds = windowHours * 3600
      in sql_lines
     [''      SELECT'',
      ''        funnel_level,'',
      ''        count() AS users'',
      ''      FROM ('',
      ''        SELECT'',
      ''          user_id,'',
      ''          windowFunnel('' @ int_str windowSeconds @ '')(occurred_at, '' @ stepConds @ '') AS funnel_level'',
      ''        FROM events'',
      ''        WHERE workspace_id = {workspace_id:UUID}'',
      ''          AND occurred_at >= {from:DateTime}'',
      ''          AND occurred_at <  {to:DateTime}'',
      ''          AND user_id != '' @ [CHR 0x27, CHR 0x27],
      ''        GROUP BY workspace_id, user_id'',
      ''      )'',
      ''      GROUP BY funnel_level'',
      ''      ORDER BY funnel_level''])"

definition funnel_query :: "int \<Rightarrow> string list \<Rightarrow> int \<Rightarrow> int \<Rightarrow> ch_query" where
  "funnel_query windowHours steps from_ms to_ms =
     \<lparr>q_sql = funnel_sql windowHours (length steps),
      q_params = zip (map step_param [0..<length steps]) steps @
        [(''from'', ch_datetime from_ms), (''to'', ch_datetime to_ms)],
      q_format = ''JSONEachRow''\<rparr>"

definition level_counts :: "nat \<Rightarrow> (int \<times> rat) list \<Rightarrow> rat list" where
  "level_counts n rows =
     foldl (\<lambda>counts (lvl, u). if 0 \<le> lvl \<and> lvl \<le> int n then counts[nat lvl := u] else counts)
       (replicate (n + 1) 0) rows"

text \<open>\<open>for (let i = n; i >= 1; i -= 1) reached[i - 1] = levelCounts[i] + (i < n ? reached[i] : 0)\<close>\<close>

fun reached_loop :: "rat list \<Rightarrow> nat \<Rightarrow> nat \<Rightarrow> rat list \<Rightarrow> rat list" where
  "reached_loop levels n 0 reached = reached"
| "reached_loop levels n (Suc i) reached =
     reached_loop levels n i
       (reached[i := levels ! Suc i + (if Suc i < n then reached ! Suc i else 0)])"

definition funnel_reached :: "nat \<Rightarrow> (int \<times> rat) list \<Rightarrow> rat list" where
  "funnel_reached n rows = reached_loop (level_counts n rows) n n (replicate n 0)"

text \<open>Each step with the users that reached it and the share of the first step's users.\<close>

definition conversion :: "rat list \<Rightarrow> rat \<Rightarrow> rat" where
  "conversion reached r = (let first = hd reached in if first > 0 then r / first else 0)"

definition funnel_out :: "string list \<Rightarrow> rat list \<Rightarrow> json" where
  "funnel_out steps reached = JObj
     [(''steps'', JArr (map (\<lambda>(name, r). JObj [(''name'', JStr name), (''reached'', JNum r),
         (''conversion'', JNum (conversion reached r))]) (zip steps reached))),
      (''cache'', cache_member False 60)]"

definition funnel ::
  "events_env \<Rightarrow> int \<Rightarrow> int \<Rightarrow> string \<Rightarrow> string \<Rightarrow> string \<Rightarrow> string \<Rightarrow> int \<Rightarrow> (events_state, json) app" where
  "funnel env t1 t2 wid stepsCsv fromIso toIso windowHours =
     andThen (coerce_range env fromIso toIso) (\<lambda>(from_ms, to_ms).
       let steps = funnel_steps stepsCsv in
       if length steps < 2 \<or> length steps > 8
       then throw (BadRequest ''steps must be 2..8 event names'')
       else case List.find (\<lambda>t. \<not> valid_step t) steps of
         Some t \<Rightarrow> throw (BadRequest (''invalid step name: '' @ t))
       | None \<Rightarrow>
           if windowHours < 1 \<or> windowHours > 30 * 24
           then throw (BadRequest ''window_hours must be 1..720'')
           else through_cache env (funnel_key wid windowHours steps from_ms to_ms) 60 t1 t2
             (andThen (run_query wid (en_funnel_rows env) (funnel_query windowHours steps from_ms to_ms))
               (\<lambda>rows. ok (funnel_out steps (funnel_reached (length steps) rows)))))"

section \<open>Cohorts\<close>

definition cohort_key :: "string \<Rightarrow> int \<Rightarrow> int \<Rightarrow> string" where
  "cohort_key wid from_ms to_ms = ''cohort:'' @ wid @ '':'' @ toISOString from_ms @ '':'' @ toISOString to_ms"

definition cohort_sql :: string where
  "cohort_sql = sql_lines
     [''      SELECT'',
      ''        toStartOfWeek(signup_day) AS cohort_week,'',
      ''        floor(dateDiff('' @ [CHR 0x27] @ ''day'' @ [CHR 0x27] @ '', signup_day, activity_day) / 7) AS week_offset,'',
      ''        uniqMerge(active_users) AS users'',
      ''      FROM cohort_daily'',
      ''      WHERE workspace_id = {workspace_id:UUID}'',
      ''        AND signup_day >= {from:DateTime}'',
      ''        AND signup_day <  {to:DateTime}'',
      ''        AND activity_day >= signup_day'',
      ''      GROUP BY cohort_week, week_offset'',
      ''      ORDER BY cohort_week, week_offset'']"

definition cohort_query :: "int \<Rightarrow> int \<Rightarrow> ch_query" where
  "cohort_query from_ms to_ms =
     \<lparr>q_sql = cohort_sql, q_params = [(''from'', ch_datetime from_ms), (''to'', ch_datetime to_ms)],
      q_format = ''JSONEachRow''\<rparr>"

text \<open>The two maps of the loop, in insertion order: the weeks of a cohort, the cohort's size.\<close>

fun map_upd :: "('v option \<Rightarrow> 'v) \<Rightarrow> string \<Rightarrow> (string \<times> 'v) list \<Rightarrow> (string \<times> 'v) list" where
  "map_upd f k [] = [(k, f None)]"
| "map_upd f k ((k', v) # kvs) = (if k' = k then (k, f (Some v)) # kvs else (k', v) # map_upd f k kvs)"

definition cohort_row ::
  "(string \<times> rat list) list \<times> (string \<times> rat) list \<Rightarrow> string \<times> int \<times> rat
     \<Rightarrow> (string \<times> rat list) list \<times> (string \<times> rat) list" where
  "cohort_row maps row =
     (let (byWeek, sizes) = maps; (wk, off, u) = row in
      if off < 0 \<or> off > 12 then (byWeek, sizes)
      else (map_upd (\<lambda>old. (case old of None \<Rightarrow> replicate 13 0 | Some ws \<Rightarrow> ws)[nat off := u]) wk byWeek,
            if off = 0 then map_upd (\<lambda>_. u) wk sizes else sizes))"

text \<open>\<open>sort\<close> with a comparison function is stable: an insertion sort.\<close>

fun insert_by :: "('a \<Rightarrow> 'a \<Rightarrow> bool) \<Rightarrow> 'a \<Rightarrow> 'a list \<Rightarrow> 'a list" where
  "insert_by le x [] = [x]"
| "insert_by le x (y # ys) = (if le x y then x # y # ys else y # insert_by le x ys)"

definition sort_by :: "('a \<Rightarrow> 'a \<Rightarrow> bool) \<Rightarrow> 'a list \<Rightarrow> 'a list" where
  "sort_by le xs = foldr (insert_by le) xs []"

definition cohort_table ::
  "events_env \<Rightarrow> (string \<times> int \<times> rat) list \<Rightarrow> (string \<times> rat \<times> rat list) list" where
  "cohort_table env rows =
     (let (byWeek, sizes) = foldl cohort_row ([], []) rows in
      map (\<lambda>(wk, weeks). (wk, case map_of sizes wk of Some n \<Rightarrow> n | None \<Rightarrow>
              (case weeks of [] \<Rightarrow> 0 | n # _ \<Rightarrow> n), weeks))
        (sort_by (\<lambda>a b. en_locale_le env (fst a) (fst b)) byWeek))"

definition cohort_out :: "(string \<times> rat \<times> rat list) list \<Rightarrow> json" where
  "cohort_out cohorts = JObj
     [(''cohorts'', JArr (map (\<lambda>(wk, n, weeks). JObj [(''signup_day'', JStr wk), (''cohort_size'', JNum n),
         (''weeks'', JArr (map JNum weeks))]) cohorts)),
      (''cache'', cache_member False 60)]"

definition cohort ::
  "events_env \<Rightarrow> int \<Rightarrow> int \<Rightarrow> string \<Rightarrow> string \<Rightarrow> string \<Rightarrow> (events_state, json) app" where
  "cohort env t1 t2 wid fromIso toIso =
     andThen (coerce_range env fromIso toIso) (\<lambda>(from_ms, to_ms).
       through_cache env (cohort_key wid from_ms to_ms) 60 t1 t2
         (andThen (run_query wid (en_cohort_rows env) (cohort_query from_ms to_ms)) (\<lambda>rows.
           ok (cohort_out (cohort_table env rows)))))"

section \<open>Controller\<close>

text \<open>
  The routes read the membership in Postgres for the guard and then work on the other stores.
\<close>

definition events_route ::
  "string \<Rightarrow> string \<Rightarrow> (string \<Rightarrow> (events_state, 'a) app) \<Rightarrow> (db \<times> events_state, 'a) app" where
  "events_route uid p handler st =
     (let (s, e) = st in
      case can_activate (Some uid) (Some p) None s of
        (Inl err, s') \<Rightarrow> (Inl err, (s', e))
      | (Inr (w, r), s') \<Rightarrow> (let (a, e') = handler w e in (a, (s', e'))))"

record metric_row =
  mr_key :: string
  mr_label :: string
  mr_event_name :: string
  mr_agg :: aggregation
  mr_currency :: "string option"

definition metrics_route :: "string \<Rightarrow> string \<Rightarrow> (db \<times> events_state, metric_row list) app" where
  "metrics_route uid p = events_route uid p (\<lambda>w.
     ok (map (\<lambda>(key, d). \<lparr>mr_key = key, mr_label = md_label d, mr_event_name = md_eventName d,
                mr_agg = md_agg d, mr_currency = md_currency d\<rparr>) METRICS))"

record kpi_dto =
  kq_metric :: string
  kq_from :: string
  kq_to :: string
  kq_granularity :: "string opt_field"

definition valid_kpi :: "(string \<Rightarrow> bool) \<Rightarrow> kpi_dto \<Rightarrow> bool" where
  "valid_kpi is_date q \<longleftrightarrow> length (kq_metric q) \<le> 64 \<and> is_date (kq_from q) \<and> is_date (kq_to q) \<and>
     optional (\<lambda>g. g \<in> {''hour'', ''day''}) (kq_granularity q)"

definition kpi_route ::
  "(string \<Rightarrow> bool) \<Rightarrow> events_env \<Rightarrow> int \<Rightarrow> int \<Rightarrow> string \<Rightarrow> string \<Rightarrow> kpi_dto
     \<Rightarrow> (db \<times> events_state, json) app" where
  "kpi_route is_date env t1 t2 uid p q = events_route uid p (\<lambda>w.
     andThen (validation_pipe (valid_kpi is_date q)) (\<lambda>_.
       kpi env t1 t2 w (kq_metric q) (kq_from q) (kq_to q) (nullish (kq_granularity q) ''day'')))"

record cohort_dto =
  cq_from :: string
  cq_to :: string

definition valid_cohort :: "(string \<Rightarrow> bool) \<Rightarrow> cohort_dto \<Rightarrow> bool" where
  "valid_cohort is_date q \<longleftrightarrow> is_date (cq_from q) \<and> is_date (cq_to q)"

definition cohort_route ::
  "(string \<Rightarrow> bool) \<Rightarrow> events_env \<Rightarrow> int \<Rightarrow> int \<Rightarrow> string \<Rightarrow> string \<Rightarrow> cohort_dto
     \<Rightarrow> (db \<times> events_state, json) app" where
  "cohort_route is_date env t1 t2 uid p q = events_route uid p (\<lambda>w.
     andThen (validation_pipe (valid_cohort is_date q)) (\<lambda>_.
       cohort env t1 t2 w (cq_from q) (cq_to q)))"

record funnel_dto =
  fq_from :: string
  fq_to :: string
  fq_steps :: string
  fq_windowHours :: "int opt_field"

definition valid_funnel :: "(string \<Rightarrow> bool) \<Rightarrow> funnel_dto \<Rightarrow> bool" where
  "valid_funnel is_date q \<longleftrightarrow> is_date (fq_from q) \<and> is_date (fq_to q) \<and> length (fq_steps q) \<le> 512 \<and>
     optional (\<lambda>n. 1 \<le> n) (fq_windowHours q)"

definition funnel_route ::
  "(string \<Rightarrow> bool) \<Rightarrow> events_env \<Rightarrow> int \<Rightarrow> int \<Rightarrow> string \<Rightarrow> string \<Rightarrow> funnel_dto
     \<Rightarrow> (db \<times> events_state, json) app" where
  "funnel_route is_date env t1 t2 uid p q = events_route uid p (\<lambda>w.
     andThen (validation_pipe (valid_funnel is_date q)) (\<lambda>_.
       funnel env t1 t2 w (fq_steps q) (fq_from q) (fq_to q) (nullish (fq_windowHours q) (24 * 7))))"

section \<open>Facts about the queries\<close>

definition bound :: "string \<Rightarrow> ch_query \<Rightarrow> ch_query" where
  "bound w q = q\<lparr>q_params := spread_set ''workspace_id'' w (q_params q)\<rparr>"

lemma bound_simps [simp]:
  "q_sql (bound w q) = q_sql q" "q_format (bound w q) = q_format q"
  "map_of (q_params (bound w q)) = (map_of (q_params q))(''workspace_id'' \<mapsto> w)"
  by (simp_all add: bound_def)

lemma run_query_eq:
  "w \<noteq> [] \<Longrightarrow> matches_guard (q_sql q) \<Longrightarrow>
   run_query w rows q s =
     (case rows (bound w q) of
        None \<Rightarrow> (Inl (Crash ''ClickHouse query failed''), s\<lparr>es_sent := es_sent s @ [bound w q]\<rparr>)
      | Some rs \<Rightarrow> (Inr rs, s\<lparr>es_sent := es_sent s @ [bound w q]\<rparr>))"
  by (simp add: run_query_def withWorkspace_def wrappedQuery_def bound_def Let_def
      split: option.split)

lemma guard_text: "match_guard_at (''workspace_id = {workspace_id:UUID}'' @ b)"
  unfolding match_guard_at_iff
proof (intro exI conjI)
  show "''workspace_id = {workspace_id:UUID}'' @ b =
    ''workspace_id'' @ '' '' @ ''='' @ '' '' @ ''{workspace_id:UUID}'' @ b" by simp
  show "to_lower ''workspace_id'' = ''workspace_id''" by code_simp
  show "to_lower ''{workspace_id:UUID}'' = to_lower ''{workspace_id:UUID}''" by (rule refl)
  show "\<forall>c \<in> set ('' '' @ '' ''). is_space c" by (simp add: is_space_def)
qed

lemma js_join_in:
  "x \<in> set ls \<Longrightarrow> \<exists>a b. js_join sep ls = a @ x @ b"
proof (induction ls rule: induct_list012)
  case 1
  then show ?case by simp
next
  case (2 y)
  then show ?case by (intro exI [of _ "[]"]) simp
next
  case (3 y z zs)
  show ?case
  proof (cases "x = y")
    case True
    then have "js_join sep (y # z # zs) = [] @ x @ (sep @ js_join sep (z # zs))" by simp
    then show ?thesis by blast
  next
    case False
    with 3 obtain a b where "js_join sep (z # zs) = a @ x @ b" by auto
    then have "js_join sep (y # z # zs) = (y @ sep @ a) @ x @ b" by simp
    then show ?thesis by blast
  qed
qed

lemma sql_lines_guard:
  assumes "p @ ''workspace_id = {workspace_id:UUID}'' \<in> set ls"
  shows "matches_guard (sql_lines ls)"
proof -
  obtain a b where "js_join nl ls = a @ (p @ ''workspace_id = {workspace_id:UUID}'') @ b"
    using js_join_in [OF assms] by blast
  then have "sql_lines ls = (nl @ a @ p) @ (''workspace_id = {workspace_id:UUID}'' @ b @ nl @ ''    '')"
    by (simp only: sql_lines_def append_assoc)
  then show ?thesis using guard_text matches_guard_iff by metis
qed

lemma kpi_sql_guard: "matches_guard (kpi_sql agg g)"
  unfolding kpi_sql_def by (rule sql_lines_guard [of "''      WHERE ''"]) simp

lemma funnel_sql_guard: "matches_guard (funnel_sql h n)"
  unfolding funnel_sql_def Let_def by (rule sql_lines_guard [of "''        WHERE ''"]) simp

lemma cohort_sql_guard: "matches_guard cohort_sql"
  unfolding cohort_sql_def by (rule sql_lines_guard [of "''      WHERE ''"]) simp

section \<open>Cache keys\<close>

lemma kpi_key_inject:
  assumes "kpi_key w m g f t = kpi_key w' m' g' f' t'"
    and "CHR '':'' \<notin> set w" "CHR '':'' \<notin> set w'" "CHR '':'' \<notin> set m" "CHR '':'' \<notin> set m'"
  shows "w = w' \<and> m = m' \<and> g = g' \<and> toISOString f = toISOString f' \<and> toISOString t = toISOString t'"
proof -
  have "w @ CHR '':'' # m @ CHR '':'' # g = w' @ CHR '':'' # m' @ CHR '':'' # g' \<and>
      toISOString f = toISOString f' \<and> toISOString t = toISOString t'"
    using assms(1) iso_key_inject [of "w @ CHR '':'' # m @ CHR '':'' # g" f t
        "w' @ CHR '':'' # m' @ CHR '':'' # g'" f' t'] by (simp add: kpi_key_def)
  with assms(2-) show ?thesis
    using append_sep_inject [of w "CHR '':''" "m @ CHR '':'' # g" w' "m' @ CHR '':'' # g'"]
      append_sep_inject [of m "CHR '':''" g m' g'] by simp
qed

lemma cohort_key_inject:
  assumes "cohort_key w f t = cohort_key w' f' t'"
  shows "w = w' \<and> toISOString f = toISOString f' \<and> toISOString t = toISOString t'"
  using assms iso_key_inject [of w f t w' f' t'] by (simp add: cohort_key_def)

lemma valid_step_no_comma: "valid_step x \<Longrightarrow> CHR '','' \<notin> set x"
  by (auto simp: valid_step_def list_all_iff step_char_def between_def dest!: bspec)

lemma funnel_key_inject:
  assumes "funnel_key w h ss f t = funnel_key w' h' ss' f' t'"
    and "CHR '':'' \<notin> set w" "CHR '':'' \<notin> set w'"
    and "ss \<noteq> []" "ss' \<noteq> []" "\<forall>x \<in> set ss. valid_step x" "\<forall>x \<in> set ss'. valid_step x"
  shows "w = w' \<and> h = h' \<and> ss = ss' \<and> toISOString f = toISOString f' \<and> toISOString t = toISOString t'"
proof -
  let ?J = "js_join '','' ss" and ?J' = "js_join '','' ss'"
  have num: "CHR '':'' \<notin> set (int_str i)" for i
    by (rule int_str_no_char) (simp_all add: is_digit_def between_def)
  have "w @ CHR '':'' # int_str h @ CHR '':'' # ?J = w' @ CHR '':'' # int_str h' @ CHR '':'' # ?J' \<and>
      toISOString f = toISOString f' \<and> toISOString t = toISOString t'"
    using assms(1) iso_key_inject [of "w @ CHR '':'' # int_str h @ CHR '':'' # ?J" f t
        "w' @ CHR '':'' # int_str h' @ CHR '':'' # ?J'" f' t'] by (simp add: funnel_key_def)
  moreover from this have "w = w'" and rest: "int_str h @ CHR '':'' # ?J = int_str h' @ CHR '':'' # ?J'"
    using append_sep_inject [OF _ assms(2,3)] by blast+
  moreover from append_sep_inject [OF rest num num] have "h = h'" "?J = ?J'" by simp_all
  moreover have "ss = ss'"
    using \<open>?J = ?J'\<close> assms(4-7) valid_step_no_comma by (intro js_join_inj [of "CHR '',''"]) auto
  ultimately show ?thesis by simp
qed

lemma ch_datetime_iso: "toISOString f = toISOString f' \<Longrightarrow> ch_datetime f = ch_datetime f'"
  by (simp add: ch_datetime_def)

text \<open>Keys of different kinds never meet.\<close>

lemma keys_disjoint:
  "kpi_key w m g f t \<noteq> funnel_key w' h ss f' t'" "kpi_key w m g f t \<noteq> cohort_key w' f' t'"
  "funnel_key w h ss f t \<noteq> cohort_key w' f' t'"
  by (simp_all add: kpi_key_def funnel_key_def cohort_key_def)

section \<open>Funnel arithmetic\<close>

lemma length_level_counts [simp]: "length (level_counts n rows) = n + 1"
proof -
  have "length (foldl (\<lambda>counts (lvl, u). if 0 \<le> lvl \<and> lvl \<le> int n then counts[nat lvl := u] else counts) cs rows) =
      length cs" for cs
    by (induction rows arbitrary: cs) (auto split: prod.splits)
  then show ?thesis by (simp add: level_counts_def)
qed

lemma level_counts_nonneg:
  assumes "\<forall>(l, u) \<in> set rows. 0 \<le> u" and "c \<in> set (level_counts n rows)"
  shows "0 \<le> c"
proof -
  have "\<forall>c \<in> set (foldl (\<lambda>counts (lvl, u). if 0 \<le> lvl \<and> lvl \<le> int n then counts[nat lvl := u] else counts) cs rows).
      0 \<le> c" if "\<forall>c \<in> set cs. (0 :: rat) \<le> c" for cs
    using assms(1) that
  proof (induction rows arbitrary: cs)
    case Nil
    then show ?case by simp
  next
    case (Cons r rows)
    obtain l u where r: "r = (l, u)" by fastforce
    have "\<forall>c \<in> set (if 0 \<le> l \<and> l \<le> int n then cs[nat l := u] else cs). 0 \<le> c"
      using Cons.prems r set_update_subset_insert [of cs "nat l" u] by auto
    from Cons.IH [OF _ this] Cons.prems r show ?case by simp
  qed
  from this [of "replicate (n + 1) 0"] assms(2) show ?thesis by (simp add: level_counts_def)
qed

text \<open>After the iterations \<open>n .. i + 1\<close> the entries from \<open>i\<close> on are suffix sums.\<close>

lemma reached_loop_spec:
  assumes "length r = n" and "i \<le> n" and "length levels = n + 1"
    and "\<forall>k. i \<le> k \<longrightarrow> k < n \<longrightarrow> r ! k = sum_list (drop (Suc k) levels)"
  shows "length (reached_loop levels n i r) = n \<and>
    (\<forall>k < n. reached_loop levels n i r ! k = sum_list (drop (Suc k) levels))"
  using assms
proof (induction i arbitrary: r)
  case 0
  then show ?case by simp
next
  case (Suc i)
  let ?v = "levels ! Suc i + (if Suc i < n then r ! Suc i else 0)"
  have v: "?v = sum_list (drop (Suc i) levels)"
  proof -
    have "drop (Suc i) levels = levels ! Suc i # drop (Suc (Suc i)) levels"
      using Suc.prems by (intro Cons_nth_drop_Suc [symmetric]) simp
    moreover have "(if Suc i < n then r ! Suc i else 0) = sum_list (drop (Suc (Suc i)) levels)"
      using Suc.prems by simp
    ultimately show ?thesis by simp
  qed
  have "\<forall>k. i \<le> k \<longrightarrow> k < n \<longrightarrow> r[i := ?v] ! k = sum_list (drop (Suc k) levels)"
  proof (intro allI impI)
    fix k assume "i \<le> k" "k < n"
    then show "r[i := ?v] ! k = sum_list (drop (Suc k) levels)"
      using v Suc.prems by (cases "k = i") auto
  qed
  then show ?case using Suc.IH [of "r[i := ?v]"] Suc.prems by simp
qed

lemma funnel_reached_eq:
  "length (funnel_reached n rows) = n"
  "k < n \<Longrightarrow> funnel_reached n rows ! k = sum_list (drop (Suc k) (level_counts n rows))"
  using reached_loop_spec [of "replicate n 0" n n "level_counts n rows"]
  by (simp_all add: funnel_reached_def)

section \<open>What the cache holds\<close>

text \<open>
  The answers a key may stand for: the answer computed from the rows ClickHouse returns for
  the query of that key, bound to the workspace of that key.
\<close>

definition kpi_entry :: "events_env \<Rightarrow> string \<Rightarrow> json \<Rightarrow> bool" where
  "kpi_entry env k j \<longleftrightarrow> (\<exists>w m d g f t rows. CHR '':'' \<notin> set w \<and> map_of METRICS m = Some d \<and>
     k = kpi_key w m g f t \<and> en_kpi_rows env (bound w (kpi_query d f t g)) = Some rows \<and>
     j = kpi_series m d g rows)"

definition funnel_entry :: "events_env \<Rightarrow> string \<Rightarrow> json \<Rightarrow> bool" where
  "funnel_entry env k j \<longleftrightarrow> (\<exists>w h ss f t rows. CHR '':'' \<notin> set w \<and> ss \<noteq> [] \<and>
     (\<forall>x \<in> set ss. valid_step x) \<and> k = funnel_key w h ss f t \<and>
     en_funnel_rows env (bound w (funnel_query h ss f t)) = Some rows \<and>
     j = funnel_out ss (funnel_reached (length ss) rows))"

definition cohort_entry :: "events_env \<Rightarrow> string \<Rightarrow> json \<Rightarrow> bool" where
  "cohort_entry env k j \<longleftrightarrow> (\<exists>w f t rows. k = cohort_key w f t \<and>
     en_cohort_rows env (bound w (cohort_query f t)) = Some rows \<and>
     j = cohort_out (cohort_table env rows))"

definition entry :: "events_env \<Rightarrow> string \<Rightarrow> json \<Rightarrow> bool" where
  "entry env k j \<longleftrightarrow> kpi_entry env k j \<or> funnel_entry env k j \<or> cohort_entry env k j"

definition cache_sound :: "events_env \<Rightarrow> redis \<Rightarrow> bool" where
  "cache_sound env r \<longleftrightarrow> (\<forall>k text t. redis_get t k r = Some text \<longrightarrow>
     (\<exists>j. text = stringify (en_fraction env) j \<and> entry env k j))"

lemma cache_sound_empty: "cache_sound env []"
  by (simp add: cache_sound_def redis_get_def)

lemma cache_sound_put:
  "cache_sound env r \<Longrightarrow> entry env k j \<Longrightarrow>
     cache_sound env (redis_setex t k (stringify (en_fraction env) j) ttl r)"
  unfolding cache_sound_def redis.get_put by (metis option.distinct(1) option.inject)

text \<open>The functions of the service with their checks done: what runs behind the cache.\<close>

lemma through_cache_sound:
  assumes "cache_sound env (es_redis s)"
    and "\<And>s' j. answer compute s' = Inr j \<Longrightarrow> entry env k j"
    and "\<And>s'. es_redis (after compute s') = es_redis s'"
  shows "cache_sound env (es_redis (after (through_cache env k ttl t1 t2 compute) s))"
proof -
  have "cache_sound env (es_redis (after (cache_miss env k ttl t2 compute) s))"
  proof (cases "compute s")
    case (Pair a s')
    have "es_redis s' = es_redis s" using assms(3) [of s] by (simp add: Pair)
    moreover have "a = Inr j \<Longrightarrow> entry env k j" for j using assms(2) [of s] by (simp add: Pair)
    ultimately show ?thesis
      using assms(1) by (cases a) (simp_all add: cache_miss_def andThen_def Pair cache_sound_put)
  qed
  then show ?thesis
    using assms(1) by (simp add: through_cache_def split: option.split)
qed

lemma through_cache_answer:
  assumes "cache_sound env (es_redis s)"
    and "\<And>j. entry env k j \<Longrightarrow> json_parse (stringify (en_fraction env) j) = Some j"
    and "answer (through_cache env k ttl t1 t2 compute) s = Inr j"
  shows "answer compute s = Inr j \<or>
    (\<exists>j0. entry env k j0 \<and> json_set ''cache'' (cache_member True ttl) j0 = Some j)"
proof (cases "redis_get t1 k (es_redis s)")
  case None
  with assms(3) show ?thesis
    by (auto simp: through_cache_def cache_miss_def answer_andThen_Inr)
next
  case (Some cached)
  then obtain j0 where j0: "cached = stringify (en_fraction env) j0" "entry env k j0"
    using assms(1) unfolding cache_sound_def by blast
  show ?thesis
  proof (cases "cached = []")
    case True
    with assms(3) Some show ?thesis
      by (auto simp: through_cache_def cache_miss_def answer_andThen_Inr)
  next
    case False
    with assms(3) Some assms(2) [OF j0(2)] j0 show ?thesis
      by (auto simp: through_cache_def split: option.splits)
  qed
qed

lemma run_query_redis [simp]: "es_redis (after (run_query w rows q) s) = es_redis s"
  by (simp add: run_query_def split: sum.split guarded_result.split option.split)

lemma run_query_answer:
  "answer (run_query w rows q) s = Inr rs \<Longrightarrow> rows (bound w q) = Some rs"
  by (auto simp: run_query_def withWorkspace_def wrappedQuery_def bound_def Let_def
      split: guarded_result.splits option.splits if_splits)

lemma computed_redis:
  "es_redis (after (andThen (run_query w rows q) (\<lambda>rs. ok (f rs))) s) = es_redis s"
  by (simp add: after_andThen split: sum.split)

lemma computed_answer:
  "answer (andThen (run_query w rows q) (\<lambda>rs. ok (f rs))) s = Inr j \<Longrightarrow>
     \<exists>rs. rows (bound w q) = Some rs \<and> j = f rs"
  by (auto simp: answer_andThen_Inr dest: run_query_answer)

lemma coerce_range_state [simp]: "after (coerce_range env a b) s = s"
  by (simp add: coerce_range_def coerceTimestamp_def andThen_def split: option.split)

lemma coerce_range_answer:
  "answer (coerce_range env a b) s = Inr (f, t) \<longleftrightarrow>
     a \<noteq> [] \<and> b \<noteq> [] \<and> en_date env a = Some f \<and> en_date env b = Some t \<and> f < t"
  by (auto simp: coerce_range_def coerceTimestamp_def andThen_def split: option.splits if_splits)

lemma coerced:
  "andThen (coerce_range env a b) h s =
     (case answer (coerce_range env a b) s of Inl e \<Rightarrow> (Inl e, s) | Inr ft \<Rightarrow> h ft s)"
  using coerce_range_state [of env a b s]
  by (cases "coerce_range env a b s") (simp add: andThen_def split: sum.split)

text \<open>The three requests after their checks.\<close>

lemma kpi_eq:
  "kpi env t1 t2 w m a b g s =
     (case map_of METRICS m of
        None \<Rightarrow> (Inl (BadRequest (''unknown metric '' @ [CHR 0x22] @ m @ [CHR 0x22])), s)
      | Some d \<Rightarrow>
          if g \<notin> {''hour'', ''day''} then (Inl (BadRequest ''granularity must be hour|day''), s)
          else case answer (coerce_range env a b) s of
            Inl e \<Rightarrow> (Inl e, s)
          | Inr (f, t) \<Rightarrow> through_cache env (kpi_key w m g f t) KPI_CACHE_TTL_SECONDS t1 t2
              (andThen (run_query w (en_kpi_rows env) (kpi_query d f t g))
                (\<lambda>points. ok (kpi_series m d g points))) s)"
  by (simp add: kpi_def coerced runAggregation_def split: option.split sum.split)

lemma cohort_eq:
  "cohort env t1 t2 w a b s =
     (case answer (coerce_range env a b) s of
        Inl e \<Rightarrow> (Inl e, s)
      | Inr (f, t) \<Rightarrow> through_cache env (cohort_key w f t) 60 t1 t2
          (andThen (run_query w (en_cohort_rows env) (cohort_query f t))
            (\<lambda>rows. ok (cohort_out (cohort_table env rows)))) s)"
  by (simp add: cohort_def coerced split: sum.split)

definition funnel_checked :: "string list \<Rightarrow> int \<Rightarrow> bool" where
  "funnel_checked ss h \<longleftrightarrow> 2 \<le> length ss \<and> length ss \<le> 8 \<and> (\<forall>x \<in> set ss. valid_step x) \<and>
     1 \<le> h \<and> h \<le> 720"

lemma funnel_eq:
  "\<exists>err. funnel env t1 t2 w csv a b h s =
     (case answer (coerce_range env a b) s of
        Inl e \<Rightarrow> (Inl e, s)
      | Inr (f, t) \<Rightarrow>
          if funnel_checked (funnel_steps csv) h
          then through_cache env (funnel_key w h (funnel_steps csv) f t) 60 t1 t2
            (andThen (run_query w (en_funnel_rows env) (funnel_query h (funnel_steps csv) f t))
              (\<lambda>rows. ok (funnel_out (funnel_steps csv)
                          (funnel_reached (length (funnel_steps csv)) rows)))) s
          else (Inl err, s))"
proof (cases "answer (coerce_range env a b) s")
  case (Inl e)
  then show ?thesis by (simp add: funnel_def coerced)
next
  case (Inr ft)
  obtain f t where ft: "ft = (f, t)" by fastforce
  show ?thesis
  proof (cases "List.find (\<lambda>t. \<not> valid_step t) (funnel_steps csv)")
    case None
    then have "\<forall>x \<in> set (funnel_steps csv). valid_step x" by (auto simp: find_None)
    with None Inr ft show ?thesis
      by (auto simp: funnel_def coerced Let_def funnel_checked_def not_less)
  next
    case (Some x)
    then have "\<not> (\<forall>x \<in> set (funnel_steps csv). valid_step x)" by (auto dest: find_SomeD)
    with Some Inr ft show ?thesis
      by (auto simp: funnel_def coerced Let_def funnel_checked_def)
  qed
qed

lemma kpi_sound:
  assumes "CHR '':'' \<notin> set w" and "cache_sound env (es_redis s)"
  shows "cache_sound env (es_redis (after (kpi env t1 t2 w m a b g) s))"
proof -
  have "cache_sound env (es_redis (after (through_cache env (kpi_key w m g f t) KPI_CACHE_TTL_SECONDS t1 t2
      (andThen (run_query w (en_kpi_rows env) (kpi_query d f t g))
        (\<lambda>points. ok (kpi_series m d g points)))) s))" if "map_of METRICS m = Some d" for d f t
  proof (rule through_cache_sound [OF assms(2) _ computed_redis])
    fix s' j
    assume "answer (andThen (run_query w (en_kpi_rows env) (kpi_query d f t g))
        (\<lambda>points. ok (kpi_series m d g points))) s' = Inr j"
    from computed_answer [OF this] that assms(1) show "entry env (kpi_key w m g f t) j"
      unfolding entry_def kpi_entry_def by blast
  qed
  then show ?thesis using assms(2) by (auto simp: kpi_eq split: option.split sum.split prod.split)
qed

lemma cohort_sound:
  assumes "cache_sound env (es_redis s)"
  shows "cache_sound env (es_redis (after (cohort env t1 t2 w a b) s))"
proof -
  have "cache_sound env (es_redis (after (through_cache env (cohort_key w f t) 60 t1 t2
      (andThen (run_query w (en_cohort_rows env) (cohort_query f t))
        (\<lambda>rows. ok (cohort_out (cohort_table env rows))))) s))" for f t
  proof (rule through_cache_sound [OF assms _ computed_redis])
    fix s' j
    assume "answer (andThen (run_query w (en_cohort_rows env) (cohort_query f t))
        (\<lambda>rows. ok (cohort_out (cohort_table env rows)))) s' = Inr j"
    from computed_answer [OF this] show "entry env (cohort_key w f t) j"
      unfolding entry_def cohort_entry_def by blast
  qed
  then show ?thesis using assms by (simp add: cohort_eq split: sum.split prod.split)
qed

lemma funnel_sound:
  assumes "CHR '':'' \<notin> set w" and "cache_sound env (es_redis s)"
  shows "cache_sound env (es_redis (after (funnel env t1 t2 w csv a b h) s))"
proof -
  let ?ss = "funnel_steps csv"
  have hit: "cache_sound env (es_redis (after (through_cache env (funnel_key w h ?ss f t) 60 t1 t2
      (andThen (run_query w (en_funnel_rows env) (funnel_query h ?ss f t))
        (\<lambda>rows. ok (funnel_out ?ss (funnel_reached (length ?ss) rows))))) s))"
    if "funnel_checked ?ss h" for f t
  proof (rule through_cache_sound [OF assms(2) _ computed_redis])
    fix s' j
    assume "answer (andThen (run_query w (en_funnel_rows env) (funnel_query h ?ss f t))
        (\<lambda>rows. ok (funnel_out ?ss (funnel_reached (length ?ss) rows)))) s' = Inr j"
    from computed_answer [OF this] obtain rows
      where "en_funnel_rows env (bound w (funnel_query h ?ss f t)) = Some rows"
        and "j = funnel_out ?ss (funnel_reached (length ?ss) rows)" by auto
    moreover have "?ss \<noteq> []" "\<forall>x \<in> set ?ss. valid_step x"
      using that by (auto simp: funnel_checked_def)
    ultimately have "funnel_entry env (funnel_key w h ?ss f t) j"
      unfolding funnel_entry_def using assms(1) by blast
    then show "entry env (funnel_key w h ?ss f t) j" by (simp add: entry_def)
  qed
  obtain err where "funnel env t1 t2 w csv a b h s =
     (case answer (coerce_range env a b) s of
        Inl e \<Rightarrow> (Inl e, s)
      | Inr (f, t) \<Rightarrow>
          if funnel_checked ?ss h
          then through_cache env (funnel_key w h ?ss f t) 60 t1 t2
            (andThen (run_query w (en_funnel_rows env) (funnel_query h ?ss f t))
              (\<lambda>rows. ok (funnel_out ?ss (funnel_reached (length ?ss) rows)))) s
          else (Inl err, s))" using funnel_eq by blast
  with hit assms(2) show ?thesis by (simp split: sum.split prod.split)
qed

section \<open>Requests of all tenants\<close>

text \<open>A workspace id is a UUID: not empty and without a colon.\<close>

definition tenant_id :: "string \<Rightarrow> bool" where
  "tenant_id w \<longleftrightarrow> w \<noteq> [] \<and> CHR '':'' \<notin> set w"

inductive events_step :: "events_env \<Rightarrow> events_state \<Rightarrow> events_state \<Rightarrow> bool" for env where
  "tenant_id w \<Longrightarrow> events_step env s (after (kpi env t1 t2 w m a b g) s)"
| "tenant_id w \<Longrightarrow> events_step env s (after (funnel env t1 t2 w csv a b h) s)"
| "tenant_id w \<Longrightarrow> events_step env s (after (cohort env t1 t2 w a b) s)"

lemma events_step_sound:
  "events_step env s s' \<Longrightarrow> cache_sound env (es_redis s) \<Longrightarrow> cache_sound env (es_redis s')"
  by (induction rule: events_step.induct)
     (simp_all add: tenant_id_def kpi_sound funnel_sound cohort_sound)

interpretation cached: inductive_invariant "events_step env" "\<lambda>s. cache_sound env (es_redis s)" for env
  by unfold_locales (rule events_step_sound)

lemma events_reach_sound:
  "reaches (events_step env) s0 s \<Longrightarrow> es_redis s0 = [] \<Longrightarrow> cache_sound env (es_redis s)"
  by (erule cached.inv_reaches) (simp add: cache_sound_empty)

section \<open>Cohort table\<close>

text \<open>The value of a cell: that of the last row of the cohort with this offset, or 0.\<close>

definition cell :: "(string \<times> int \<times> rat) list \<Rightarrow> string \<Rightarrow> nat \<Rightarrow> rat" where
  "cell rows wk off =
     (case List.find (\<lambda>(w, o', u). w = wk \<and> o' = int off) (rev rows) of
        None \<Rightarrow> 0 | Some (_, _, u) \<Rightarrow> u)"

definition in_window :: "string \<times> int \<times> rat \<Rightarrow> bool" where
  "in_window row \<longleftrightarrow> (case row of (_, off, _) \<Rightarrow> 0 \<le> off \<and> off \<le> 12)"

lemma cell_Nil [simp]: "cell [] wk off = 0"
  by (simp add: cell_def)

lemma cell_snoc [simp]:
  "cell (rows @ [(w, o', u)]) wk off = (if w = wk \<and> o' = int off then u else cell rows wk off)"
  by (simp add: cell_def)

lemma map_of_map_upd [simp]:
  "map_of (map_upd f k kvs) = (map_of kvs)(k \<mapsto> f (map_of kvs k))"
  by (induction f k kvs rule: map_upd.induct) (auto simp: fun_eq_iff)

lemma keys_map_upd [simp]:
  "fst ` set (map_upd f k kvs) = insert k (fst ` set kvs)"
  by (induction f k kvs rule: map_upd.induct) auto

lemma distinct_map_upd: "distinct (map fst kvs) \<Longrightarrow> distinct (map fst (map_upd f k kvs))"
  by (induction f k kvs rule: map_upd.induct) auto

definition weeks_of :: "(string \<times> int \<times> rat) list \<Rightarrow> string \<Rightarrow> rat list" where
  "weeks_of rows wk = map (cell rows wk) [0..<13]"

lemma weeks_of_snoc:
  "0 \<le> off \<Longrightarrow> off \<le> 12 \<Longrightarrow>
   weeks_of (rows @ [(w, off, u)]) wk = (if w = wk then (weeks_of rows wk)[nat off := u] else weeks_of rows wk)"
  by (auto simp: weeks_of_def nth_list_update intro!: nth_equalityI)

lemma weeks_of_snoc_out:
  "\<not> (0 \<le> off \<and> off \<le> 12) \<Longrightarrow> weeks_of (rows @ [(w, off, u)]) wk = weeks_of rows wk"
  by (auto simp: weeks_of_def)

lemma weeks_of_none:
  "wk \<notin> fst ` {r \<in> set rows. in_window r} \<Longrightarrow> weeks_of rows wk = replicate 13 0"
proof (induction rows rule: rev_induct)
  case Nil
  show ?case by (intro nth_equalityI) (simp_all add: weeks_of_def)
next
  case (snoc r rows)
  obtain w off u where r: "r = (w, off, u)" by (cases r) auto
  have IH: "weeks_of rows wk = replicate 13 0" using snoc by force
  show ?case
  proof (cases "0 \<le> off \<and> off \<le> 12")
    case True
    then have "w \<noteq> wk" using snoc.prems by (force simp: r in_window_def)
    with True IH show ?thesis by (simp add: r weeks_of_snoc)
  next
    case False
    with IH show ?thesis by (simp add: r weeks_of_snoc_out)
  qed
qed

definition fold_ok :: "(string \<times> int \<times> rat) list \<Rightarrow> (string \<times> rat list) list \<times> (string \<times> rat) list \<Rightarrow> bool" where
  "fold_ok rows maps \<longleftrightarrow> distinct (map fst (fst maps)) \<and>
     (\<forall>wk. map_of (fst maps) wk =
        (if wk \<in> fst ` {r \<in> set rows. in_window r} then Some (weeks_of rows wk) else None)) \<and>
     (\<forall>wk n. map_of (snd maps) wk = Some n \<longrightarrow> n = cell rows wk 0)"

lemma cohort_row_out:
  "\<not> (0 \<le> off \<and> off \<le> 12) \<Longrightarrow> cohort_row maps (w, off, u) = maps"
  by (cases maps) (auto simp: cohort_row_def)

lemma cohort_row_in:
  "0 \<le> off \<and> off \<le> 12 \<Longrightarrow> cohort_row (byWeek, sizes) (w, off, u) =
     (map_upd (\<lambda>old. (case old of None \<Rightarrow> replicate 13 0 | Some ws \<Rightarrow> ws)[nat off := u]) w byWeek,
      if off = 0 then map_upd (\<lambda>_. u) w sizes else sizes)"
  by (auto simp: cohort_row_def)

lemma fold_ok_row:
  assumes "fold_ok rows maps"
  shows "fold_ok (rows @ [(w, off, u)]) (cohort_row maps (w, off, u))"
proof (cases "0 \<le> off \<and> off \<le> 12")
  case False
  then have "{x \<in> set (rows @ [(w, off, u)]). in_window x} = {x \<in> set rows. in_window x}"
    by (auto simp: in_window_def)
  moreover have "cell (rows @ [(w, off, u)]) wk 0 = cell rows wk 0" for wk using False by auto
  ultimately show ?thesis
    using assms unfolding fold_ok_def cohort_row_out [OF False] weeks_of_snoc_out [OF False] by presburger
next
  case True
  obtain byWeek sizes where maps: "maps = (byWeek, sizes)" by fastforce
  with assms have IH: "distinct (map fst byWeek)"
    "\<And>wk. map_of byWeek wk = (if wk \<in> fst ` {r \<in> set rows. in_window r} then Some (weeks_of rows wk) else None)"
    "\<And>wk n. map_of sizes wk = Some n \<Longrightarrow> n = cell rows wk 0" by (simp_all add: fold_ok_def)
  have keys: "{x \<in> set (rows @ [(w, off, u)]). in_window x} = insert (w, off, u) {x \<in> set rows. in_window x}"
    using True by (auto simp: in_window_def)
  have old: "(case map_of byWeek w of None \<Rightarrow> replicate 13 0 | Some ws \<Rightarrow> ws) = weeks_of rows w"
    using IH(2) [of w] weeks_of_none [of w rows] by auto
  have "map_of sizes wk = Some n \<Longrightarrow> off \<noteq> 0 \<or> wk \<noteq> w \<Longrightarrow> n = cell (rows @ [(w, off, u)]) wk 0" for wk n
    using IH(3) by auto
  then show ?thesis
    unfolding fold_ok_def keys maps cohort_row_in [OF True]
    using IH(1,2) old True by (auto simp: weeks_of_snoc distinct_map_upd)
qed

lemma cohort_fold: "fold_ok rows (foldl cohort_row ([], []) rows)"
proof (induction rows rule: rev_induct)
  case Nil
  show ?case by (simp add: fold_ok_def)
next
  case (snoc r rows)
  then show ?case by (cases r) (simp add: fold_ok_row)
qed

lemma set_insert_by [simp]: "set (insert_by le x xs) = insert x (set xs)"
  by (induction xs) auto

lemma set_sort_by [simp]: "set (sort_by le xs) = set xs"
  by (induction xs) (auto simp: sort_by_def)

section \<open>Queries sent\<close>

definition sends :: "string \<Rightarrow> (ch_query \<Rightarrow> bool) \<Rightarrow> events_state \<Rightarrow> events_state \<Rightarrow> bool" where
  "sends w Q s s' \<longleftrightarrow> (\<exists>qs. es_sent s' = es_sent s @ map (bound w) qs \<and> length qs \<le> 1 \<and>
     (\<forall>q \<in> set qs. matches_guard (q_sql q) \<and> Q q))"

lemma sends_none: "es_sent s' = es_sent s \<Longrightarrow> sends w Q s s'"
  unfolding sends_def by (rule exI [of _ "[]"]) simp

lemma sends_one:
  "matches_guard (q_sql q) \<Longrightarrow> Q q \<Longrightarrow> es_sent s' = es_sent s @ [bound w q] \<Longrightarrow> sends w Q s s'"
  unfolding sends_def by (rule exI [of _ "[q]"]) simp

lemma run_query_sends:
  assumes "w \<noteq> []" and "matches_guard (q_sql q)" and "Q q"
  shows "sends w Q s (after (run_query w rows q) s)"
  using assms sends_one [of q Q _ s w] by (simp add: run_query_eq split: option.split)

lemma through_cache_sends:
  assumes "w \<noteq> []" and "matches_guard (q_sql q)" and "Q q"
  shows "sends w Q s (after (through_cache env k ttl t1 t2
           (andThen (run_query w rows q) (\<lambda>rs. ok (f rs)))) s)"
proof -
  have "sends w Q s (after (cache_miss env k ttl t2
      (andThen (run_query w rows q) (\<lambda>rs. ok (f rs)))) s)"
    using sends_one [where q = q and Q = Q and s = s and w = w] assms(2,3)
    by (simp add: cache_miss_def after_andThen andThen_def run_query_eq [OF assms(1,2)] split: option.split)
  then show ?thesis by (simp add: through_cache_def sends_none split: option.split)
qed

section \<open>Properties\<close>

definition sample_events :: events_env where
  "sample_events = \<lparr>en_date = (\<lambda>t. if t = ''a'' then Some 0 else Some 86400000),
     en_kpi_rows = (\<lambda>q. Some [(''1970-01-01'', 42)]), en_funnel_rows = (\<lambda>q. None),
     en_cohort_rows = (\<lambda>q. None), en_locale_le = (\<lambda>_ _. True), en_fraction = (\<lambda>_. [])\<rparr>"

definition sample_store :: events_state where
  "sample_store = \<lparr>es_redis = [], es_sent = []\<rparr>"

lemma sample_events_readable:
  "entry sample_events k j \<Longrightarrow> json_parse (stringify (en_fraction sample_events) j) = Some j"
  by (rule json_parse_stringify)
     (auto simp: entry_def kpi_entry_def funnel_entry_def cohort_entry_def sample_events_def
       kpi_series_def cache_member_def KPI_CACHE_TTL_SECONDS_def)

lemma kpi_query_iso:
  "toISOString f = toISOString f' \<Longrightarrow> toISOString t = toISOString t' \<Longrightarrow>
     kpi_query d f t g = kpi_query d f' t' g"
  by (simp add: kpi_query_def ch_datetime_def)

text \<open>
  Claim C5: a KPI answer never shows another tenant's data, whatever requests of whatever
  tenants have filled the cache. In every state reached from an empty cache, an answer for
  workspace \<open>w\<close> is the series of the rows ClickHouse returns for the query of this metric,
  range and granularity bound to \<open>w\<close>, either fresh or with its cache member replaced. The
  assumption on numbers is that the text of every computed answer parses back.
\<close>

theorem kpi_tenant_safe:
  assumes "(events_step env)\<^sup>*\<^sup>* s0 s" and "es_redis s0 = []" and "tenant_id w"
    and "\<forall>k j. entry env k j \<longrightarrow> json_parse (stringify (en_fraction env) j) = Some j"
    and "answer (kpi env t1 t2 w m a b g) s = Inr j"
  shows "\<exists>d f t rows. map_of METRICS m = Some d \<and> en_date env a = Some f \<and> en_date env b = Some t \<and>
     f < t \<and> en_kpi_rows env (bound w (kpi_query d f t g)) = Some rows \<and>
     (j = kpi_series m d g rows \<or>
      json_set ''cache'' (cache_member True KPI_CACHE_TTL_SECONDS) (kpi_series m d g rows) = Some j)"
proof -
  obtain d f t where d: "map_of METRICS m = Some d" and r: "answer (coerce_range env a b) s = Inr (f, t)"
    and ans: "answer (through_cache env (kpi_key w m g f t) KPI_CACHE_TTL_SECONDS t1 t2
      (andThen (run_query w (en_kpi_rows env) (kpi_query d f t g))
        (\<lambda>points. ok (kpi_series m d g points)))) s = Inr j"
    using assms(5) by (auto simp: kpi_eq split: option.splits if_splits sum.splits)
  have sound: "cache_sound env (es_redis s)" using events_reach_sound assms(1,2) by blast
  have m: "CHR '':'' \<notin> set m" using d known_metric_no_colon by (simp add: isKnownMetric_def)
  have range: "en_date env a = Some f" "en_date env b = Some t" "f < t"
    using r by (simp_all add: coerce_range_answer)
  from through_cache_answer [OF sound _ ans] assms(4) consider
    (fresh) "answer (andThen (run_query w (en_kpi_rows env) (kpi_query d f t g))
        (\<lambda>points. ok (kpi_series m d g points))) s = Inr j"
    | (hit) j0 where "entry env (kpi_key w m g f t) j0"
        "json_set ''cache'' (cache_member True KPI_CACHE_TTL_SECONDS) j0 = Some j" by blast
  then show ?thesis
  proof cases
    case fresh
    from computed_answer [OF this] d range show ?thesis by blast
  next
    case hit
    then have "kpi_entry env (kpi_key w m g f t) j0"
      by (auto simp: entry_def funnel_entry_def cohort_entry_def keys_disjoint)
    then obtain w' m' d' g' f' t' rows where e: "CHR '':'' \<notin> set w'" "map_of METRICS m' = Some d'"
      "kpi_key w m g f t = kpi_key w' m' g' f' t'"
      "en_kpi_rows env (bound w' (kpi_query d' f' t' g')) = Some rows" "j0 = kpi_series m' d' g' rows"
      unfolding kpi_entry_def by blast
    have "CHR '':'' \<notin> set m'" using e(2) known_metric_no_colon by (simp add: isKnownMetric_def)
    with kpi_key_inject [OF e(3)] assms(3) e(1) m have same: "w = w'" "m = m'" "g = g'"
      "toISOString f = toISOString f'" "toISOString t = toISOString t'" by (auto simp: tenant_id_def)
    with e(2) d have "d' = d" by simp
    with same e hit(2) kpi_query_iso [OF same(4,5), of d g] d range show ?thesis by auto
  qed
qed

theorem kpi_tenant_safe_witness:
  "\<exists>j. answer (kpi sample_events 0 0 ''w1'' ''mrr'' ''a'' ''b'' ''day'') sample_store = Inr j \<and>
     (\<exists>d f t rows. en_kpi_rows sample_events (bound ''w1'' (kpi_query d f t ''day'')) = Some rows)"
proof -
  have ans: "\<exists>j. answer (kpi sample_events 0 0 ''w1'' ''mrr'' ''a'' ''b'' ''day'') sample_store = Inr j"
  proof -
    have range: "answer (coerce_range sample_events ''a'' ''b'') sample_store = Inr (0, 86400000)"
      by (simp add: coerce_range_answer sample_events_def)
    obtain d where d: "map_of METRICS ''mrr'' = Some d" by (simp add: METRICS_def)
    have rows: "en_kpi_rows sample_events q = Some [(''1970-01-01'', 42)]" for q
      by (simp add: sample_events_def)
    have empty: "redis_get t k (es_redis sample_store) = None" for t k
      by (simp add: sample_store_def redis_get_def)
    show ?thesis
      by (simp add: kpi_eq range d rows empty through_cache_def cache_miss_def andThen_def
          run_query_eq kpi_query_def kpi_sql_guard)
  qed
  then obtain j where "answer (kpi sample_events 0 0 ''w1'' ''mrr'' ''a'' ''b'' ''day'') sample_store = Inr j" ..
  moreover have "es_redis sample_store = []" "tenant_id ''w1''"
    by (simp_all add: sample_store_def tenant_id_def)
  ultimately show ?thesis
    using kpi_tenant_safe [OF rtranclp.rtrancl_refl [of "events_step sample_events" sample_store],
        of "''w1''" 0 0 "''mrr''" "''a''" "''b''" "''day''" j] sample_events_readable by blast
qed

text \<open>
  All texts a request may send, whoever sends it: the six of the KPI series, one for each window and
  number of steps of a funnel, and the one of the cohorts.
\<close>

definition query_texts :: "string set" where
  "query_texts =
     (\<lambda>(agg, g). kpi_sql agg g) ` ({Sum_revenue, Count_events, Unique_users} \<times> {''hour'', ''day''}) \<union>
     (\<lambda>(h, n). funnel_sql h n) ` ({1..720} \<times> {2..8}) \<union> {cohort_sql}"

lemma query_texts:
  "finite query_texts" "g \<in> {''hour'', ''day''} \<Longrightarrow> kpi_sql agg g \<in> query_texts"
  "1 \<le> h \<Longrightarrow> h \<le> 720 \<Longrightarrow> 2 \<le> n \<Longrightarrow> n \<le> 8 \<Longrightarrow> funnel_sql h n \<in> query_texts" "cohort_sql \<in> query_texts"
proof -
  show "kpi_sql agg g \<in> query_texts" if "g \<in> {''hour'', ''day''}"
    using that unfolding query_texts_def
    by (intro UnI1 rev_image_eqI [of "(agg, g)"]) (cases agg; simp)+
  show "funnel_sql h n \<in> query_texts" if "1 \<le> h" "h \<le> 720" "2 \<le> n" "n \<le> 8"
    using that unfolding query_texts_def by (intro UnI1 UnI2 rev_image_eqI [of "(h, n)"]) simp_all
qed (simp_all add: query_texts_def)

lemma kpi_sends:
  assumes "w \<noteq> []"
  shows "sends w (\<lambda>q. q_sql q \<in> query_texts) s (after (kpi env t1 t2 w m a b g) s)"
proof (cases "g \<in> {''hour'', ''day''}")
  case True
  have k: "matches_guard (q_sql (kpi_query d f t g))" "q_sql (kpi_query d f t g) \<in> query_texts" for d f t
    using query_texts(2) [OF True] by (simp_all add: kpi_query_def kpi_sql_guard)
  have "sends w (\<lambda>q. q_sql q \<in> query_texts) s
      (after (through_cache env (kpi_key w m g f t) KPI_CACHE_TTL_SECONDS t1 t2
        (andThen (run_query w (en_kpi_rows env) (kpi_query d f t g))
          (\<lambda>points. ok (kpi_series m d g points)))) s)" for d f t
    using k by (intro through_cache_sends [OF assms])
  then show ?thesis by (auto simp: kpi_eq sends_none split: option.split sum.split prod.split)
qed (auto simp: kpi_eq sends_none split: option.split)

lemma funnel_sends:
  assumes "w \<noteq> []"
  shows "sends w (\<lambda>q. q_sql q \<in> query_texts) s (after (funnel env t1 t2 w csv a b h) s)"
proof -
  let ?ss = "funnel_steps csv"
  let ?run = "\<lambda>f t. through_cache env (funnel_key w h ?ss f t) 60 t1 t2
    (andThen (run_query w (en_funnel_rows env) (funnel_query h ?ss f t))
      (\<lambda>rows. ok (funnel_out ?ss (funnel_reached (length ?ss) rows))))"
  have q: "q_sql (funnel_query h ?ss f t) = funnel_sql h (length ?ss)" for f t
    by (simp add: funnel_query_def)
  have through: "sends w (\<lambda>q. q_sql q \<in> query_texts) s (after (?run f t) s)"
    if "funnel_checked ?ss h" for f t
  proof (rule through_cache_sends [OF assms])
    show "matches_guard (q_sql (funnel_query h ?ss f t))" by (simp add: q funnel_sql_guard)
    show "q_sql (funnel_query h ?ss f t) \<in> query_texts"
      using that query_texts(3) unfolding q funnel_checked_def by auto
  qed
  obtain err where "funnel env t1 t2 w csv a b h s =
     (case answer (coerce_range env a b) s of
        Inl e \<Rightarrow> (Inl e, s)
      | Inr (f, t) \<Rightarrow> if funnel_checked ?ss h then ?run f t s else (Inl err, s))" using funnel_eq by blast
  with through show ?thesis by (simp add: sends_none split: sum.split prod.split)
qed

lemma cohort_sends:
  assumes "w \<noteq> []"
  shows "sends w (\<lambda>q. q_sql q \<in> query_texts) s (after (cohort env t1 t2 w a b) s)"
proof -
  have "sends w (\<lambda>q. q_sql q \<in> query_texts) s
      (after (through_cache env (cohort_key w f t) 60 t1 t2
        (andThen (run_query w (en_cohort_rows env) (cohort_query f t))
          (\<lambda>rows. ok (cohort_out (cohort_table env rows))))) s)" for f t
    by (rule through_cache_sends [OF assms]) (simp_all add: cohort_query_def cohort_sql_guard query_texts(4))
  then show ?thesis by (simp add: cohort_eq sends_none split: sum.split prod.split)
qed

text \<open>The guard lets only members of a workspace through to the handler.\<close>

lemma route_sends:
  assumes "\<And>w. w \<noteq> [] \<Longrightarrow> sends w Q e (after (handler w) e)"
  shows "sends p Q e (snd (after (events_route uid p handler) (s, e)))"
  using assms [of p]
  by (auto simp: events_route_def can_activate_eq sends_none split: option.split prod.split)

lemma route_refuses: "role_of s p uid = None \<Longrightarrow> snd (after (events_route uid p handler) (s, e)) = e"
  by (simp add: events_route_def can_activate_eq split: prod.split)

lemma piped_sends: "sends w Q e (after h e) \<Longrightarrow> sends w Q e (after (andThen (validation_pipe b) (\<lambda>_. h)) e)"
  by (simp add: after_andThen validation_pipe_def sends_none)

text \<open>
  Claim C21: a request sends at most one query to ClickHouse, none unless its user has a role in the
  workspace, always bound to that workspace and always with the tenant filter in its text (so the
  guard never refuses the service's own queries). The text is one of a finite set that depends on
  nothing in the request: two texts for each aggregation, one for each window and number of steps of
  a funnel, one for the cohorts. So no metric, granularity, step name or timestamp a client sends
  ever becomes part of a text.
\<close>

theorem queries_bound_and_fixed:
  "finite query_texts \<and>
   sends p (\<lambda>q. q_sql q \<in> query_texts) e (snd (after (kpi_route is_date env t1 t2 uid p kq) (s, e))) \<and>
   sends p (\<lambda>q. q_sql q \<in> query_texts) e (snd (after (funnel_route is_date env t1 t2 uid p fq) (s, e))) \<and>
   sends p (\<lambda>q. q_sql q \<in> query_texts) e (snd (after (cohort_route is_date env t1 t2 uid p cq) (s, e))) \<and>
   (role_of s p uid = None \<longrightarrow>
      snd (after (kpi_route is_date env t1 t2 uid p kq) (s, e)) = e \<and>
      snd (after (funnel_route is_date env t1 t2 uid p fq) (s, e)) = e \<and>
      snd (after (cohort_route is_date env t1 t2 uid p cq) (s, e)) = e)"
  unfolding kpi_route_def funnel_route_def cohort_route_def
  by (intro conjI impI query_texts(1) route_sends route_refuses piped_sends kpi_sends funnel_sends cohort_sends)

text \<open>A stranger's request sends nothing; a member's one query, with a fixed text.\<close>

theorem queries_bound_and_fixed_witness:
  "snd (after (cohort_route (\<lambda>_. True) sample_events 0 0 ''u2'' ''w1'' \<lparr>cq_from = ''a'', cq_to = ''b''\<rparr>)
     (sample_db, sample_store)) = sample_store \<and>
   (\<exists>qs. es_sent (snd (after (cohort_route (\<lambda>_. True) sample_events 0 0 ''u1'' ''w1'' \<lparr>cq_from = ''a'', cq_to = ''b''\<rparr>)
      (sample_db, sample_store))) = map (bound ''w1'') qs \<and> length qs \<le> 1 \<and> q_sql ` set qs \<subseteq> query_texts)"
proof
  have "role_of sample_db ''w1'' ''u2'' = None" by (simp add: role_of_def sample_defs)
  then show "snd (after (cohort_route (\<lambda>_. True) sample_events 0 0 ''u2'' ''w1'' \<lparr>cq_from = ''a'', cq_to = ''b''\<rparr>)
      (sample_db, sample_store)) = sample_store"
    using queries_bound_and_fixed by blast
  have "es_sent sample_store = []" by (simp add: sample_store_def)
  moreover have "sends ''w1'' (\<lambda>q. q_sql q \<in> query_texts) sample_store
      (snd (after (cohort_route (\<lambda>_. True) sample_events 0 0 ''u1'' ''w1'' \<lparr>cq_from = ''a'', cq_to = ''b''\<rparr>)
        (sample_db, sample_store)))"
    using queries_bound_and_fixed by blast
  ultimately show "\<exists>qs. es_sent (snd (after (cohort_route (\<lambda>_. True) sample_events 0 0 ''u1'' ''w1'' \<lparr>cq_from = ''a'', cq_to = ''b''\<rparr>)
      (sample_db, sample_store))) = map (bound ''w1'') qs \<and> length qs \<le> 1 \<and> q_sql ` set qs \<subseteq> query_texts"
    unfolding sends_def by auto
qed

text \<open>
  Claim C33: the numbers of a funnel. With non-negative user counts, step \<open>k\<close> is reached by
  the sum of the users whose furthest level is \<open>k\<close> or later; the counts never grow from one
  step to the next, and every conversion lies between 0 and 1.
\<close>

theorem funnel_shape:
  assumes "\<forall>(l, u) \<in> set rows. 0 \<le> u" and "0 < n"
  shows "let r = funnel_reached n rows in length r = n \<and>
    (\<forall>k < n. r ! k = sum_list (drop (Suc k) (level_counts n rows))) \<and>
    (\<forall>k. Suc k < n \<longrightarrow> r ! Suc k \<le> r ! k) \<and>
    (\<forall>k < n. 0 \<le> conversion r (r ! k) \<and> conversion r (r ! k) \<le> 1)"
proof -
  define r where "r = funnel_reached n rows"
  have eq: "r ! k = sum_list (drop (Suc k) (level_counts n rows))" if "k < n" for k
    using funnel_reached_eq(2) that by (simp add: r_def)
  have len: "length r = n" by (simp add: r_def funnel_reached_eq)
  have nonneg: "0 \<le> sum_list (drop j (level_counts n rows))" for j
    using level_counts_nonneg [OF assms(1)] by (intro sum_list_nonneg) (meson in_set_dropD)
  have step: "r ! Suc k \<le> r ! k" if "Suc k < n" for k
  proof -
    have "drop (Suc k) (level_counts n rows) =
        level_counts n rows ! Suc k # drop (Suc (Suc k)) (level_counts n rows)"
      using that by (intro Cons_nth_drop_Suc [symmetric]) simp
    moreover have "0 \<le> level_counts n rows ! Suc k"
      using that by (intro level_counts_nonneg [OF assms(1), where n = n] nth_mem) simp
    ultimately show ?thesis using eq that by simp
  qed
  have le: "r ! k \<le> r ! 0" if "k < n" for k
    using that by (induction k) (auto intro: order_trans step)
  have "hd r = r ! 0" using len assms(2) by (intro hd_conv_nth) auto
  then have "0 \<le> conversion r (r ! k) \<and> conversion r (r ! k) \<le> 1" if "k < n" for k
    using le [OF that] nonneg eq that assms(2) by (simp add: conversion_def Let_def)
  with len eq step show ?thesis by (simp add: r_def [symmetric])
qed

theorem funnel_shape_witness:
  "funnel_reached 3 [(1, 5), (3, 2), (2, 4)] = [11, 6, 2]"
proof -
  have v: "level_counts 3 [(1, 5), (3, 2), (2, 4)] = [0, 5, 4, 2]"
    by (simp add: level_counts_def numeral_3_eq_3)
  have "let r = funnel_reached 3 [(1, 5), (3, 2), (2, 4)] in length r = 3 \<and>
      (\<forall>k < 3. r ! k = sum_list (drop (Suc k) (level_counts 3 [(1, 5), (3, 2), (2, 4)])))"
    using funnel_shape [of "[(1, 5), (3, 2), (2, 4)]" 3] by (simp add: Let_def)
  then show ?thesis
    unfolding v by (intro nth_equalityI) (auto simp: Let_def less_Suc_eq numeral_3_eq_3)
qed

text \<open>
  The cohort table lists exactly the cohorts that have a row with an offset of 0 to
  12 weeks; each has 13 weeks, each cell is the value of the last row for it or 0, and the
  cohort size is the cell of week 0.
\<close>

theorem cohort_table_cells:
  "(wk, n, weeks) \<in> set (cohort_table env rows) \<longleftrightarrow>
     (\<exists>off u. (wk, off, u) \<in> set rows \<and> 0 \<le> off \<and> off \<le> 12) \<and>
     weeks = map (cell rows wk) [0..<13] \<and> n = cell rows wk 0"
proof -
  obtain byWeek sizes where f: "foldl cohort_row ([], []) rows = (byWeek, sizes)" by fastforce
  have "fold_ok rows (byWeek, sizes)" using cohort_fold [of rows] by (simp only: f)
  then have d: "distinct (map fst byWeek)"
    and bw: "map_of byWeek wk = (if wk \<in> fst ` {r \<in> set rows. in_window r} then Some (weeks_of rows wk) else None)"
    and sz: "map_of sizes wk = Some m \<Longrightarrow> m = cell rows wk 0" for wk m
    by (simp_all add: fold_ok_def)
  have member: "(wk, ws) \<in> set byWeek \<longleftrightarrow> wk \<in> fst ` {r \<in> set rows. in_window r} \<and> ws = weeks_of rows wk" for wk ws
  proof -
    have "(wk, ws) \<in> set byWeek \<longleftrightarrow> map_of byWeek wk = Some ws"
      using d by (rule map_of_eq_Some_iff [symmetric])
    then show ?thesis by (simp add: bw) blast
  qed
  have size: "(case map_of sizes wk of Some n \<Rightarrow> n | None \<Rightarrow> (case weeks_of rows wk of [] \<Rightarrow> 0 | n # _ \<Rightarrow> n))
      = cell rows wk 0"
  proof (cases "map_of sizes wk")
    case None
    have "weeks_of rows wk = cell rows wk 0 # map (cell rows wk) [1..<13]"
      by (simp add: weeks_of_def upt_conv_Cons)
    with None show ?thesis by simp
  next
    case (Some m)
    with sz [of wk m] show ?thesis by simp
  qed
  have "(wk, n, weeks) \<in> set (cohort_table env rows) \<longleftrightarrow> (wk, weeks) \<in> set byWeek \<and>
      n = (case map_of sizes wk of Some n \<Rightarrow> n | None \<Rightarrow> (case weeks of [] \<Rightarrow> 0 | n # _ \<Rightarrow> n))"
    by (auto simp: cohort_table_def f image_iff intro!: bexI [of _ "(wk, weeks)"])
  then have "(wk, n, weeks) \<in> set (cohort_table env rows) \<longleftrightarrow>
      wk \<in> fst ` {r \<in> set rows. in_window r} \<and> weeks = weeks_of rows wk \<and> n = cell rows wk 0"
    unfolding member by (cases "weeks = weeks_of rows wk") (simp_all only: size simp_thms)
  then show ?thesis by (force simp: in_window_def weeks_of_def)
qed

end
