(* ===== verification/SdkClient.thy ===== *)
theory SdkClient
  imports Json "HOL-Library.Multiset"
begin

text \<open>
  The browser and Node client (\<open>sdk/src/client.ts\<close>): events are queued with the resolvers of
  their promises, a full queue or a timer starts a batch, a batch is posted with retries, and
  the promises of a batch are settled together. Promises are numbered in the order of the
  calls. The state is what the object holds plus the batches in flight; the steps are the
  calls of the user and the callbacks of the event loop.
\<close>

section \<open>Events and options\<close>

text \<open>An event as the object the code builds: members in order, an absent value is undefined.\<close>

type_synonym event = "(string \<times> json option) list"

record options =
  so_endpoint :: string
  so_apiKey :: string
  so_batchSize :: "int option"
  so_flushIntervalMs :: "int option"
  so_maxRetries :: "int option"
  so_retryBaseMs :: "int option"
  so_has_fetch :: bool

record config =
  sc_endpoint :: string
  sc_apiKey :: string
  sc_batchSize :: int
  sc_flushIntervalMs :: int
  sc_maxRetries :: int
  sc_retryBaseMs :: int

definition or_default :: "'a option \<Rightarrow> 'a \<Rightarrow> 'a" where
  "or_default x d = (case x of None \<Rightarrow> d | Some y \<Rightarrow> y)"

definition client_config :: "options \<Rightarrow> string + config" where
  "client_config opts =
     (if so_endpoint opts = [] then Inl ''insightflow: endpoint is required''
      else if so_apiKey opts = [] then Inl ''insightflow: apiKey is required''
      else if \<not> so_has_fetch opts
      then Inl ''insightflow: no fetch implementation available; pass options.fetch on Node < 18''
      else Inr \<lparr>sc_endpoint = strip_trailing (CHR ''/'') (so_endpoint opts), sc_apiKey = so_apiKey opts,
                sc_batchSize = or_default (so_batchSize opts) 20,
                sc_flushIntervalMs = or_default (so_flushIntervalMs opts) 2000,
                sc_maxRetries = or_default (so_maxRetries opts) 3,
                sc_retryBaseMs = or_default (so_retryBaseMs opts) 250\<rparr>)"

text \<open>\<open>{ ...base, ...overrides }\<close> on objects.\<close>

fun member_put :: "string \<Rightarrow> 'v \<Rightarrow> (string \<times> 'v) list \<Rightarrow> (string \<times> 'v) list" where
  "member_put k v [] = [(k, v)]"
| "member_put k v ((k', v') # kvs) = (if k' = k then (k, v) # kvs else (k', v') # member_put k v kvs)"

definition spread :: "(string \<times> 'v) list \<Rightarrow> (string \<times> 'v) list \<Rightarrow> (string \<times> 'v) list" where
  "spread base overrides = foldl (\<lambda>kvs (k, v). member_put k v kvs) base overrides"

definition track_event :: "string \<Rightarrow> json \<Rightarrow> event \<Rightarrow> event" where
  "track_event name properties overrides =
     spread [(''event_name'', Some (JStr name)), (''properties'', Some properties)] overrides"

definition identify_event :: "string \<Rightarrow> json \<Rightarrow> event" where
  "identify_event userId traits =
     [(''event_name'', Some (JStr ''$identify'')), (''user_id'', Some (JStr userId)),
      (''properties'', Some traits)]"

definition page_event :: "string option \<Rightarrow> event \<Rightarrow> event" where
  "page_event name properties =
     [(''event_name'', Some (JStr ''$page_view'')),
      (''properties'', Some (defined_members
         (case name of
            Some n \<Rightarrow> if n \<noteq> [] then spread properties [(''page'', Some (JStr n))] else properties
          | None \<Rightarrow> properties)))]"

section \<open>Responses\<close>

text \<open>
  The outcome of one \<open>fetch\<close>: rejected, or a status with the body text (\<open>res.text()\<close>) and the
  parsed body (\<open>res.json()\<close>, \<open>None\<close> when it rejects).
\<close>

datatype response = Rejected string | Response int string "json option"

definition request_body :: "(rat \<Rightarrow> string) \<Rightarrow> event list \<Rightarrow> string" where
  "request_body fr events =
     stringify fr (case events of [e] \<Rightarrow> defined_members e
                   | _ \<Rightarrow> JObj [(''events'', JArr (map defined_members events))])"

text \<open>What the \<open>try\<close> block makes of a response: the acknowledgement or an error.\<close>

definition attempt_result :: "response \<Rightarrow> string + json" where
  "attempt_result r =
     (case r of
        Rejected m \<Rightarrow> Inl m
      | Response status body parsed \<Rightarrow>
          if status = 429 \<or> status \<ge> 500 then Inl (''insightflow: server returned '' @ int_str status)
          else if \<not> (200 \<le> status \<and> status \<le> 299)
          then Inl (''insightflow: '' @ int_str status @ '' '' @ body)
          else case parsed of None \<Rightarrow> Inl ''SyntaxError'' | Some ack \<Rightarrow> Inr ack)"

text \<open>The delay before attempt \<open>attempt + 1\<close>; \<open>jitter\<close> is \<open>Math.floor(Math.random() * base)\<close>.\<close>

definition retry_delay :: "config \<Rightarrow> nat \<Rightarrow> int \<Rightarrow> int" where
  "retry_delay cfg attempt jitter = sc_retryBaseMs cfg * 2 ^ (attempt - 1) + jitter"

section \<open>send, run to its end\<close>

text \<open>
  The loop of \<open>send\<close> against a network whose \<open>n\<close>-th answer is \<open>net n\<close>: the result with the
  number of requests made. \<open>attempt\<close> counts the failures, \<open>lastErr\<close> is undefined at first.
\<close>

function send_loop ::
  "int \<Rightarrow> (nat \<Rightarrow> response) \<Rightarrow> nat \<Rightarrow> string option \<Rightarrow> (string option + json) \<times> nat" where
  "send_loop maxRetries net attempt lastErr =
     (if int attempt \<le> maxRetries then
        case attempt_result (net attempt) of
          Inr ack \<Rightarrow> (Inr ack, Suc attempt)
        | Inl err \<Rightarrow> send_loop maxRetries net (Suc attempt) (Some err)
      else (Inl lastErr, attempt))"
  by pat_completeness auto
termination
  by (relation "measure (\<lambda>(m, _, attempt, _). nat (m + 1 - int attempt))") auto

declare send_loop.simps [simp del]

definition send :: "config \<Rightarrow> (nat \<Rightarrow> response) \<Rightarrow> (string option + json) \<times> nat" where
  "send cfg net = send_loop (sc_maxRetries cfg) net 0 None"

section \<open>The client as a state machine\<close>

record flight =
  fl_events :: "event list"
  fl_waiters :: "nat list"
  fl_attempt :: nat
  fl_delayed :: bool

record http_post =
  hp_url :: string
  hp_key :: string
  hp_body :: string

text \<open>
  \<open>sd_tracked\<close> is the history of the calls: the event of promise \<open>i\<close> is its \<open>i\<close>-th element.
\<close>

record sdk =
  sd_queue :: "event list"
  sd_waiters :: "nat list"
  sd_timer :: bool
  sd_flights :: "flight list"
  sd_settled :: "(nat \<times> (string option + json)) list"
  sd_posts :: "http_post list"
  sd_errors :: "string option list"
  sd_tracked :: "event list"

definition new_client :: sdk where
  "new_client = \<lparr>sd_queue = [], sd_waiters = [], sd_timer = False, sd_flights = [], sd_settled = [],
     sd_posts = [], sd_errors = [], sd_tracked = []\<rparr>"

definition post_of :: "config \<Rightarrow> (rat \<Rightarrow> string) \<Rightarrow> event list \<Rightarrow> http_post" where
  "post_of cfg fr events = \<lparr>hp_url = sc_endpoint cfg @ ''/v1/events'', hp_key = sc_apiKey cfg,
     hp_body = request_body fr events\<rparr>"

text \<open>
  The end of a batch: \<open>resolve\<close> for every waiter, or \<open>onError\<close> and \<open>reject\<close>. The option \<open>onError\<close> is
  taken to return, as the default does: one that throws would leave \<open>flush\<close> before its second loop,
  and the promises of that batch would never be settled.
\<close>

definition settle :: "nat list \<Rightarrow> string option + json \<Rightarrow> sdk \<Rightarrow> sdk" where
  "settle ws result s =
     s\<lparr>sd_settled := sd_settled s @ map (\<lambda>w. (w, result)) ws,
       sd_errors := sd_errors s @ (case result of Inl err \<Rightarrow> [err] | Inr _ \<Rightarrow> [])\<rparr>"

definition flush :: "config \<Rightarrow> (rat \<Rightarrow> string) \<Rightarrow> sdk \<Rightarrow> sdk" where
  "flush cfg fr s =
     (if sd_queue s = [] then s
      else
        let events = sd_queue s; ws = sd_waiters s;
            s1 = s\<lparr>sd_queue := [], sd_waiters := [], sd_timer := False\<rparr>
        in if 0 \<le> sc_maxRetries cfg
           then s1\<lparr>sd_flights := sd_flights s @
                     [\<lparr>fl_events = events, fl_waiters = ws, fl_attempt = 0, fl_delayed = False\<rparr>],
                   sd_posts := sd_posts s @ [post_of cfg fr events]\<rparr>
           else settle ws (Inl None) s1)"

definition scheduleFlush :: "sdk \<Rightarrow> sdk" where
  "scheduleFlush s = (if sd_timer s then s else s\<lparr>sd_timer := True\<rparr>)"

definition enqueue :: "config \<Rightarrow> (rat \<Rightarrow> string) \<Rightarrow> event \<Rightarrow> sdk \<Rightarrow> sdk" where
  "enqueue cfg fr evt s =
     (let s1 = s\<lparr>sd_queue := sd_queue s @ [evt], sd_waiters := sd_waiters s @ [length (sd_tracked s)],
                sd_tracked := sd_tracked s @ [evt]\<rparr>
      in if int (length (sd_queue s1)) \<ge> sc_batchSize cfg then flush cfg fr s1 else scheduleFlush s1)"

definition timer_fires :: "config \<Rightarrow> (rat \<Rightarrow> string) \<Rightarrow> sdk \<Rightarrow> sdk" where
  "timer_fires cfg fr s = flush cfg fr (s\<lparr>sd_timer := False\<rparr>)"

definition close :: "config \<Rightarrow> (rat \<Rightarrow> string) \<Rightarrow> sdk \<Rightarrow> sdk" where
  "close cfg fr s = flush cfg fr (s\<lparr>sd_timer := False\<rparr>)"

text \<open>An answer to the request of flight \<open>i\<close>, and the end of the delay before its next one.\<close>

definition drop_nth :: "nat \<Rightarrow> 'a list \<Rightarrow> 'a list" where
  "drop_nth i xs = take i xs @ drop (Suc i) xs"

definition answered :: "config \<Rightarrow> nat \<Rightarrow> response \<Rightarrow> sdk \<Rightarrow> sdk" where
  "answered cfg i r s =
     (let f = sd_flights s ! i; rest = s\<lparr>sd_flights := drop_nth i (sd_flights s)\<rparr> in
      case attempt_result r of
        Inr ack \<Rightarrow> settle (fl_waiters f) (Inr ack) rest
      | Inl err \<Rightarrow>
          if int (Suc (fl_attempt f)) > sc_maxRetries cfg then settle (fl_waiters f) (Inl (Some err)) rest
          else s\<lparr>sd_flights := (sd_flights s)[i := f\<lparr>fl_attempt := Suc (fl_attempt f), fl_delayed := True\<rparr>]\<rparr>)"

definition retry_due :: "config \<Rightarrow> (rat \<Rightarrow> string) \<Rightarrow> nat \<Rightarrow> sdk \<Rightarrow> sdk" where
  "retry_due cfg fr i s =
     (let f = sd_flights s ! i in
      s\<lparr>sd_flights := (sd_flights s)[i := f\<lparr>fl_delayed := False\<rparr>],
        sd_posts := sd_posts s @ [post_of cfg fr (fl_events f)]\<rparr>)"

inductive sdk_step :: "config \<Rightarrow> (rat \<Rightarrow> string) \<Rightarrow> sdk \<Rightarrow> sdk \<Rightarrow> bool" for cfg fr where
  track: "sdk_step cfg fr s (enqueue cfg fr evt s)"
| flush: "sdk_step cfg fr s (flush cfg fr s)"
| close: "sdk_step cfg fr s (close cfg fr s)"
| timer: "sd_timer s \<Longrightarrow> sdk_step cfg fr s (timer_fires cfg fr s)"
| answer: "i < length (sd_flights s) \<Longrightarrow> \<not> fl_delayed (sd_flights s ! i) \<Longrightarrow>
    sdk_step cfg fr s (answered cfg i r s)"
| retry: "i < length (sd_flights s) \<Longrightarrow> fl_delayed (sd_flights s ! i) \<Longrightarrow>
    sdk_step cfg fr s (retry_due cfg fr i s)"

section \<open>The invariant of the client\<close>

definition places :: "sdk \<Rightarrow> nat multiset" where
  "places s = mset (sd_waiters s) + (\<Sum>f \<in># mset (sd_flights s). mset (fl_waiters f)) +
     mset (map fst (sd_settled s))"

definition batch_of :: "event list \<Rightarrow> nat list \<Rightarrow> event list \<Rightarrow> bool" where
  "batch_of tracked ws evs \<longleftrightarrow> evs = map (\<lambda>w. tracked ! w) ws \<and> (\<forall>w \<in> set ws. w < length tracked)"

definition flight_ok :: "config \<Rightarrow> (rat \<Rightarrow> string) \<Rightarrow> sdk \<Rightarrow> flight \<Rightarrow> bool" where
  "flight_ok cfg fr s f \<longleftrightarrow> batch_of (sd_tracked s) (fl_waiters f) (fl_events f) \<and>
     post_of cfg fr (fl_events f) \<in> set (sd_posts s) \<and> int (fl_attempt f) \<le> sc_maxRetries cfg"

definition acked_ok :: "config \<Rightarrow> (rat \<Rightarrow> string) \<Rightarrow> sdk \<Rightarrow> bool" where
  "acked_ok cfg fr s \<longleftrightarrow> (\<forall>(w, r) \<in> set (sd_settled s). \<forall>ack. r = Inr ack \<longrightarrow>
     (\<exists>evs. post_of cfg fr evs \<in> set (sd_posts s) \<and> sd_tracked s ! w \<in> set evs))"

definition settled_ids :: "sdk \<Rightarrow> bool" where
  "settled_ids s \<longleftrightarrow> (\<forall>(w, r) \<in> set (sd_settled s). w < length (sd_tracked s))"

definition sdk_inv :: "config \<Rightarrow> (rat \<Rightarrow> string) \<Rightarrow> sdk \<Rightarrow> bool" where
  "sdk_inv cfg fr s \<longleftrightarrow> places s = mset [0..<length (sd_tracked s)] \<and>
     batch_of (sd_tracked s) (sd_waiters s) (sd_queue s) \<and>
     (\<forall>f \<in> set (sd_flights s). flight_ok cfg fr s f) \<and> acked_ok cfg fr s \<and>
     (sd_queue s \<noteq> [] \<longrightarrow> sd_timer s \<and> int (length (sd_queue s)) < sc_batchSize cfg)"

lemma batch_of_snoc:
  "batch_of tr ws evs \<Longrightarrow> batch_of (tr @ [e]) (ws @ [length tr]) (evs @ [e])"
  by (auto simp: batch_of_def nth_append)

lemma batch_of_grow: "batch_of tr ws evs \<Longrightarrow> batch_of (tr @ [e]) ws evs"
  by (auto simp: batch_of_def nth_append)

lemma places_simps:
  "places (s\<lparr>sd_timer := b\<rparr>) = places s" by (simp add: places_def)

lemma timer_irrelevant [simp]:
  "flight_ok cfg fr (s\<lparr>sd_timer := b\<rparr>) f = flight_ok cfg fr s f"
  "acked_ok cfg fr (s\<lparr>sd_timer := b\<rparr>) = acked_ok cfg fr s"
  by (simp_all add: flight_ok_def acked_ok_def)

lemma image_mset_drop_nth:
  "i < length xs \<Longrightarrow> mset xs = add_mset (xs ! i) (mset (drop_nth i xs))"
  by (metis drop_nth_def id_take_nth_drop mset.simps(2) mset_append union_mset_add_mset_right)

lemma set_drop_nth: "set (drop_nth i xs) \<subseteq> set xs"
  by (auto simp: drop_nth_def dest: in_set_takeD in_set_dropD)

lemma sum_update:
  assumes "i < length xs" and "g y = g (xs ! i)"
  shows "(\<Sum>x \<in># mset (xs[i := y]). g x) = (\<Sum>x \<in># mset xs. (g x :: nat multiset))"
proof -
  have "map g (xs[i := y]) = map g xs"
    using assms by (metis list_update_id map_update)
  then show ?thesis by (metis mset_map)
qed

text \<open>What the client has just before a flush: everything but the armed timer.\<close>

definition flushable :: "config \<Rightarrow> (rat \<Rightarrow> string) \<Rightarrow> sdk \<Rightarrow> bool" where
  "flushable cfg fr s \<longleftrightarrow> places s = mset [0..<length (sd_tracked s)] \<and>
     batch_of (sd_tracked s) (sd_waiters s) (sd_queue s) \<and>
     (\<forall>f \<in> set (sd_flights s). flight_ok cfg fr s f) \<and> acked_ok cfg fr s"

lemma inv_flushable: "sdk_inv cfg fr s \<Longrightarrow> flushable cfg fr (s\<lparr>sd_timer := b\<rparr>)"
  by (simp add: sdk_inv_def flushable_def places_simps)

lemma acked_grow:
  assumes "acked_ok cfg fr s" and "\<forall>(w, r) \<in> set (sd_settled s). w < length (sd_tracked s)"
  shows "acked_ok cfg fr (s\<lparr>sd_tracked := sd_tracked s @ [e]\<rparr>)"
  using assms unfolding acked_ok_def by (fastforce simp: nth_append)

lemma settled_in_range:
  assumes "places s = mset [0..<length (sd_tracked s)]"
  shows "\<forall>(w, r) \<in> set (sd_settled s). w < length (sd_tracked s)"
proof -
  have "set (map fst (sd_settled s)) \<subseteq> set_mset (places s)"
    by (auto simp: places_def)
  then show ?thesis using assms by fastforce
qed

lemma flush_inv:
  assumes "flushable cfg fr s"
  shows "sdk_inv cfg fr (flush cfg fr s)"
proof (cases "sd_queue s = []")
  case True
  then show ?thesis using assms by (simp add: flush_def sdk_inv_def flushable_def)
next
  case False
  let ?f = "\<lparr>fl_events = sd_queue s, fl_waiters = sd_waiters s, fl_attempt = 0, fl_delayed = False\<rparr>"
  show ?thesis
  proof (cases "0 \<le> sc_maxRetries cfg")
    case True
    have "flight_ok cfg fr (flush cfg fr s) ?f"
      using False True assms by (simp add: flush_def flight_ok_def flushable_def Let_def)
    moreover have "flight_ok cfg fr (flush cfg fr s) f" if "f \<in> set (sd_flights s)" for f
      using that False True assms by (auto simp: flush_def flight_ok_def flushable_def Let_def)
    moreover have "acked_ok cfg fr (flush cfg fr s)"
      using False True assms by (fastforce simp: flush_def acked_ok_def flushable_def Let_def)
    ultimately show ?thesis
      using False True assms
      by (auto simp: flush_def sdk_inv_def flushable_def places_def batch_of_def Let_def)
  next
    case neg: False
    have "acked_ok cfg fr (flush cfg fr s)"
      using False neg assms by (fastforce simp: flush_def settle_def acked_ok_def flushable_def Let_def)
    then show ?thesis
      using False neg assms
      by (auto simp: flush_def settle_def sdk_inv_def flushable_def flight_ok_def places_def
          batch_of_def Let_def comp_def ac_simps)
  qed
qed

lemma enqueue_inv:
  assumes "sdk_inv cfg fr s"
  shows "sdk_inv cfg fr (enqueue cfg fr e s)"
proof -
  let ?s1 = "s\<lparr>sd_queue := sd_queue s @ [e], sd_waiters := sd_waiters s @ [length (sd_tracked s)],
                sd_tracked := sd_tracked s @ [e]\<rparr>"
  have "acked_ok cfg fr (s\<lparr>sd_tracked := sd_tracked s @ [e]\<rparr>)"
    using assms settled_in_range by (intro acked_grow) (auto simp: sdk_inv_def)
  then have acked: "acked_ok cfg fr ?s1" by (simp add: acked_ok_def)
  have flights: "flight_ok cfg fr ?s1 f" if "flight_ok cfg fr s f" for f
    using that batch_of_grow by (simp add: flight_ok_def)
  have base: "flushable cfg fr ?s1"
    using assms acked flights batch_of_snoc
    by (simp add: sdk_inv_def flushable_def places_def)
  show ?thesis
  proof (cases "int (length (sd_queue ?s1)) \<ge> sc_batchSize cfg")
    case True
    then show ?thesis using flush_inv [OF base] by (simp add: enqueue_def Let_def)
  next
    case False
    then have "enqueue cfg fr e s = ?s1\<lparr>sd_timer := True\<rparr>"
      by (simp add: enqueue_def scheduleFlush_def Let_def)
    then show ?thesis
      using base False by (simp add: flushable_def sdk_inv_def places_simps)
  qed
qed

lemma settle_flight_inv:
  assumes "sdk_inv cfg fr s" and "i < length (sd_flights s)"
  shows "sdk_inv cfg fr (settle (fl_waiters (sd_flights s ! i)) r (s\<lparr>sd_flights := drop_nth i (sd_flights s)\<rparr>))"
proof -
  let ?f = "sd_flights s ! i"
  let ?s' = "settle (fl_waiters ?f) r (s\<lparr>sd_flights := drop_nth i (sd_flights s)\<rparr>)"
  have f: "flight_ok cfg fr s ?f" using assms by (simp add: sdk_inv_def)
  have "places ?s' = places s"
    using image_mset_drop_nth [OF assms(2)]
    by (simp add: places_def settle_def comp_def ac_simps)
  moreover have "\<forall>g \<in> set (sd_flights ?s'). flight_ok cfg fr ?s' g"
  proof
    fix g assume "g \<in> set (sd_flights ?s')"
    then have "g \<in> set (sd_flights s)" using set_drop_nth by (fastforce simp: settle_def)
    with assms(1) show "flight_ok cfg fr ?s' g" by (simp add: sdk_inv_def settle_def flight_ok_def)
  qed
  moreover have "acked_ok cfg fr ?s'"
    unfolding acked_ok_def
  proof (clarify)
    fix w r' ack assume "(w, Inr ack) \<in> set (sd_settled ?s')"
    then consider "(w, Inr ack) \<in> set (sd_settled s)" | "w \<in> set (fl_waiters ?f)"
      by (auto simp: settle_def)
    then show "\<exists>evs. post_of cfg fr evs \<in> set (sd_posts ?s') \<and> sd_tracked ?s' ! w \<in> set evs"
    proof cases
      case 1
      then show ?thesis using assms(1) by (fastforce simp: sdk_inv_def acked_ok_def settle_def)
    next
      case 2
      then have "sd_tracked s ! w \<in> set (fl_events ?f)"
        using f by (auto simp: flight_ok_def batch_of_def)
      then show ?thesis using f by (auto simp: flight_ok_def settle_def)
    qed
  qed
  ultimately show ?thesis using assms(1) by (simp add: sdk_inv_def) (simp add: settle_def)
qed

lemma change_flight_inv:
  assumes inv: "sdk_inv cfg fr s" and i: "i < length (sd_flights s)"
    and f: "fl_events f = fl_events (sd_flights s ! i)" "fl_waiters f = fl_waiters (sd_flights s ! i)"
      "int (fl_attempt f) \<le> sc_maxRetries cfg" and ps: "set (sd_posts s) \<subseteq> set ps"
  shows "sdk_inv cfg fr (s\<lparr>sd_flights := (sd_flights s)[i := f], sd_posts := ps\<rparr>)"
proof -
  let ?s' = "s\<lparr>sd_flights := (sd_flights s)[i := f], sd_posts := ps\<rparr>"
  have "places ?s' = places s"
    using sum_update [OF i, of "\<lambda>f. mset (fl_waiters f)" f] f(2) by (simp add: places_def)
  moreover have "flight_ok cfg fr ?s' g" if "g \<in> set ((sd_flights s)[i := f])" for g
  proof -
    from that set_update_subset_insert [of "sd_flights s" i f] have "g = f \<or> g \<in> set (sd_flights s)"
      by blast
    moreover have "flight_ok cfg fr s (sd_flights s ! i)" using inv i by (simp add: sdk_inv_def)
    ultimately show ?thesis
      using inv f ps by (auto simp: sdk_inv_def flight_ok_def dest: subsetD)
  qed
  moreover have "acked_ok cfg fr ?s'"
    using inv ps by (fastforce simp: sdk_inv_def acked_ok_def)
  ultimately show ?thesis using inv by (simp add: sdk_inv_def)
qed

lemma answered_inv:
  assumes "sdk_inv cfg fr s" and "i < length (sd_flights s)"
  shows "sdk_inv cfg fr (answered cfg i r s)"
proof (cases "attempt_result r")
  case (Inr ack)
  then show ?thesis using settle_flight_inv [OF assms] by (simp add: answered_def Let_def)
next
  case (Inl err)
  let ?f = "sd_flights s ! i"
  show ?thesis
  proof (cases "int (Suc (fl_attempt ?f)) > sc_maxRetries cfg")
    case True
    then show ?thesis using settle_flight_inv [OF assms] Inl by (simp add: answered_def Let_def)
  next
    case False
    have "sdk_inv cfg fr (s\<lparr>sd_flights := (sd_flights s)[i := ?f\<lparr>fl_attempt := Suc (fl_attempt ?f), fl_delayed := True\<rparr>],
        sd_posts := sd_posts s\<rparr>)"
      using False by (intro change_flight_inv [OF assms]) simp_all
    then show ?thesis using False Inl by (simp add: answered_def Let_def)
  qed
qed

lemma retry_due_inv:
  assumes "sdk_inv cfg fr s" and "i < length (sd_flights s)"
  shows "sdk_inv cfg fr (retry_due cfg fr i s)"
proof -
  let ?f = "sd_flights s ! i"
  have "int (fl_attempt ?f) \<le> sc_maxRetries cfg"
    using assms by (simp add: sdk_inv_def flight_ok_def)
  then have "sdk_inv cfg fr (s\<lparr>sd_flights := (sd_flights s)[i := ?f\<lparr>fl_delayed := False\<rparr>],
      sd_posts := sd_posts s @ [post_of cfg fr (fl_events ?f)]\<rparr>)"
    by (intro change_flight_inv [OF assms]) auto
  then show ?thesis by (simp add: retry_due_def Let_def)
qed

lemma sdk_step_inv: "sdk_step cfg fr s s' \<Longrightarrow> sdk_inv cfg fr s \<Longrightarrow> sdk_inv cfg fr s'"
proof (induction rule: sdk_step.induct)
  case (flush s)
  then show ?case using flush_inv inv_flushable [of cfg fr s "sd_timer s"] by simp
qed (simp_all add: enqueue_inv close_def timer_fires_def flush_inv inv_flushable answered_inv
    retry_due_inv)

lemma new_client_inv: "sdk_inv cfg fr new_client"
  by (simp add: new_client_def sdk_inv_def places_def batch_of_def acked_ok_def)

interpretation sdk: inductive_invariant "sdk_step cfg fr" "sdk_inv cfg fr" for cfg fr
  by unfold_locales (rule sdk_step_inv)

lemma sdk_reach_inv: "reaches (sdk_step cfg fr) new_client s \<Longrightarrow> sdk_inv cfg fr s"
  by (rule sdk.inv_reaches [OF _ new_client_inv])

section \<open>Retries\<close>

lemma send_loop_spec:
  "send_loop m net a e =
     (if \<forall>k \<ge> a. int k \<le> m \<longrightarrow> (\<forall>ack. attempt_result (net k) \<noteq> Inr ack)
      then (Inl (if int a \<le> m then Some (projl (attempt_result (net (nat m)))) else e),
            if int a \<le> m then Suc (nat m) else a)
      else let k = (LEAST k. a \<le> k \<and> (\<exists>ack. attempt_result (net k) = Inr ack))
           in (Inr (projr (attempt_result (net k))), Suc k))"
proof (induction m net a e rule: send_loop.induct)
  case (1 m net a e)
  show ?case
  proof (cases "int a \<le> m")
    case False
    then have "\<forall>k \<ge> a. int k \<le> m \<longrightarrow> (\<forall>ack. attempt_result (net k) \<noteq> Inr ack)" by auto
    with False show ?thesis by (simp add: send_loop.simps [of m net a e])
  next
    case le: True
    show ?thesis
    proof (cases "attempt_result (net a)")
      case (Inr ack)
      then have "(LEAST k. a \<le> k \<and> (\<exists>ack. attempt_result (net k) = Inr ack)) = a"
        by (intro Least_equality) auto
      with Inr le show ?thesis by (auto simp: send_loop.simps [of m net a e])
    next
      case (Inl err)
      have shift: "a \<le> k \<and> (\<exists>ack. attempt_result (net k) = Inr ack) \<longleftrightarrow>
          Suc a \<le> k \<and> (\<exists>ack. attempt_result (net k) = Inr ack)" for k
        using Inl by (cases "k = a") auto
      have all: "(\<forall>k \<ge> a. int k \<le> m \<longrightarrow> (\<forall>ack. attempt_result (net k) \<noteq> Inr ack)) \<longleftrightarrow>
          (\<forall>k \<ge> Suc a. int k \<le> m \<longrightarrow> (\<forall>ack. attempt_result (net k) \<noteq> Inr ack))"
        using shift by blast
      have last: "\<not> int (Suc a) \<le> m \<Longrightarrow> nat m = a" using le by linarith
      have step: "send_loop m net a e = send_loop m net (Suc a) (Some err)"
        using Inl le by (simp add: send_loop.simps [of m net a e])
      show ?thesis
        unfolding step 1 [OF le Inl] all shift using Inl le last by auto
    qed
  qed
qed

lemma send_all_fail:
  assumes "0 \<le> sc_maxRetries cfg"
    and "\<forall>k. int k \<le> sc_maxRetries cfg \<longrightarrow> attempt_result (net k) = Inl (err k)"
  shows "send cfg net = (Inl (Some (err (nat (sc_maxRetries cfg)))), Suc (nat (sc_maxRetries cfg)))"
  using assms by (simp add: send_def send_loop_spec)

lemma send_first_success:
  assumes "\<forall>k < n. attempt_result (net k) = Inl (err k)" and "attempt_result (net n) = Inr ack"
    and "int n \<le> sc_maxRetries cfg"
  shows "send cfg net = (Inr ack, Suc n)"
proof -
  have "(LEAST k. 0 \<le> k \<and> (\<exists>ack. attempt_result (net k) = Inr ack)) = n"
  proof (rule Least_equality)
    fix k assume "0 \<le> k \<and> (\<exists>ack. attempt_result (net k) = Inr ack)"
    then show "n \<le> k" using assms(1) by (metis Inl_Inr_False leI)
  qed (use assms(2) in simp)
  with assms show ?thesis by (auto simp: send_def send_loop_spec)
qed

section \<open>Properties\<close>

text \<open>
  Claim C6: no event is lost, duplicated or settled twice. In every state the client can reach
  by calls, timers and answers, each promise it has handed out is in exactly one place (the
  queue, one batch in flight, or settled), the queue and every batch hold exactly the events
  of their promises in call order, and a waiting queue is below the batch size with the timer
  armed, so it will be sent.
\<close>

theorem sdk_no_loss:
  assumes "(sdk_step cfg fr)\<^sup>*\<^sup>* new_client s"
  shows "mset (sd_waiters s) + (\<Sum>f \<in># mset (sd_flights s). mset (fl_waiters f)) +
       mset (map fst (sd_settled s)) = mset [0..<length (sd_tracked s)] \<and>
     sd_queue s = map (\<lambda>w. sd_tracked s ! w) (sd_waiters s) \<and>
     (\<forall>f \<in> set (sd_flights s). fl_events f = map (\<lambda>w. sd_tracked s ! w) (fl_waiters f)) \<and>
     (sd_queue s \<noteq> [] \<longrightarrow> sd_timer s \<and> int (length (sd_queue s)) < sc_batchSize cfg)"
  using sdk_reach_inv [OF assms]
  unfolding sdk_inv_def places_def batch_of_def flight_ok_def by blast

definition sample_config :: config where
  "sample_config = \<lparr>sc_endpoint = ''http://x'', sc_apiKey = ''k'', sc_batchSize = 2,
     sc_flushIntervalMs = 2000, sc_maxRetries = 3, sc_retryBaseMs = 250\<rparr>"

theorem sdk_no_loss_witness:
  "\<exists>s. length (sd_queue s) = 1 \<and> sd_timer s \<and> (sdk_step sample_config (\<lambda>_. []))\<^sup>*\<^sup>* new_client s"
proof -
  let ?s = "enqueue sample_config (\<lambda>_. []) [] new_client"
  have reach: "(sdk_step sample_config (\<lambda>_. []))\<^sup>*\<^sup>* new_client ?s"
    by (rule r_into_rtranclp) (rule sdk_step.track)
  have q: "length (sd_queue ?s) = 1"
    by (simp add: enqueue_def scheduleFlush_def new_client_def sample_config_def)
  then have "sd_queue ?s \<noteq> []" by auto
  with sdk_no_loss [OF reach] have "sd_timer ?s" by blast
  with q reach show ?thesis by blast
qed

text \<open>
  An acknowledged promise was really sent: whenever a promise is settled with an
  acknowledgement, a request was posted to the ingest endpoint with the API key whose batch
  contains the event of that promise.
\<close>

theorem sdk_acked_was_sent:
  assumes "(sdk_step cfg fr)\<^sup>*\<^sup>* new_client s" and "(w, Inr ack) \<in> set (sd_settled s)"
  shows "w < length (sd_tracked s) \<and>
     (\<exists>evs. sd_tracked s ! w \<in> set evs \<and>
        \<lparr>hp_url = sc_endpoint cfg @ ''/v1/events'', hp_key = sc_apiKey cfg,
         hp_body = request_body fr evs\<rparr> \<in> set (sd_posts s))"
proof -
  have inv: "sdk_inv cfg fr s" by (rule sdk_reach_inv) fact
  then have "\<forall>(w, r) \<in> set (sd_settled s). w < length (sd_tracked s)"
    by (intro settled_in_range) (simp add: sdk_inv_def)
  with assms(2) have "w < length (sd_tracked s)" by auto
  moreover have "\<exists>evs. post_of cfg fr evs \<in> set (sd_posts s) \<and> sd_tracked s ! w \<in> set evs"
    using inv assms(2) by (fastforce simp: sdk_inv_def acked_ok_def)
  ultimately show ?thesis unfolding post_of_def by blast
qed

theorem sdk_acked_was_sent_witness:
  "\<exists>s evs. (0, Inr (JObj [])) \<in> set (sd_settled s) \<and> sd_tracked s ! 0 \<in> set evs \<and>
     (sdk_step sample_config (\<lambda>_. []))\<^sup>*\<^sup>* new_client s"
proof -
  let ?s1 = "enqueue sample_config (\<lambda>_. []) [] new_client"
  let ?s2 = "flush sample_config (\<lambda>_. []) ?s1"
  let ?s3 = "answered sample_config 0 (Response 202 [] (Some (JObj []))) ?s2"
  have one: "(sdk_step sample_config (\<lambda>_. []))\<^sup>*\<^sup>* new_client ?s1"
    by (rule r_into_rtranclp) (rule sdk_step.track)
  have two: "(sdk_step sample_config (\<lambda>_. []))\<^sup>*\<^sup>* new_client ?s2"
    using one sdk_step.flush by (rule rtranclp.rtrancl_into_rtrancl)
  have "sdk_step sample_config (\<lambda>_. []) ?s2 ?s3"
    by (rule sdk_step.answer) (simp_all add: flush_def enqueue_def scheduleFlush_def new_client_def
        sample_config_def Let_def)
  with two have reach: "(sdk_step sample_config (\<lambda>_. []))\<^sup>*\<^sup>* new_client ?s3"
    by (rule rtranclp.rtrancl_into_rtrancl)
  have acked: "(0, Inr (JObj [])) \<in> set (sd_settled ?s3)"
    by (simp add: answered_def attempt_result_def settle_def flush_def enqueue_def scheduleFlush_def
        new_client_def sample_config_def Let_def)
  from sdk_acked_was_sent [OF reach acked] acked reach show ?thesis by blast
qed

text \<open>
  Claim C34: how often \<open>send\<close> posts. The first acknowledged attempt ends the loop; if every
  attempt fails, it posts \<open>maxRetries + 1\<close> times and rejects with the last error. A 4xx answer
  is a failure like any other: it is retried to the end. The comment of the option and the README
  of the package speak of retries on 5xx only, and the test "rejects 4xx without retry"
  (\<open>client.test.ts\<close>) expects a single call with the default of three retries.
\<close>

theorem send_attempts:
  assumes "0 \<le> sc_maxRetries cfg"
  shows "(\<forall>n ack err. int n \<le> sc_maxRetries cfg \<longrightarrow> (\<forall>k < n. attempt_result (net k) = Inl (err k)) \<longrightarrow>
        attempt_result (net n) = Inr ack \<longrightarrow> send cfg net = (Inr ack, Suc n)) \<and>
     (\<forall>err. (\<forall>k. int k \<le> sc_maxRetries cfg \<longrightarrow> attempt_result (net k) = Inl (err k)) \<longrightarrow>
        send cfg net = (Inl (Some (err (nat (sc_maxRetries cfg)))), Suc (nat (sc_maxRetries cfg)))) \<and>
     (\<forall>status body parsed. 400 \<le> status \<longrightarrow> status < 500 \<longrightarrow>
        snd (send cfg (\<lambda>_. Response status body parsed)) = Suc (nat (sc_maxRetries cfg)))"
proof (intro conjI allI impI)
  fix status :: int and body parsed assume "400 \<le> status" "status < 500"
  then have "attempt_result (Response status body parsed) =
      Inl (if status = 429 then ''insightflow: server returned '' @ int_str status
           else ''insightflow: '' @ int_str status @ '' '' @ body)"
    by (simp add: attempt_result_def)
  with send_all_fail [OF assms, where net = "\<lambda>_. Response status body parsed" and
      err = "\<lambda>_. if status = 429 then ''insightflow: server returned '' @ int_str status
        else ''insightflow: '' @ int_str status @ '' '' @ body"]
  show "snd (send cfg (\<lambda>_. Response status body parsed)) = Suc (nat (sc_maxRetries cfg))" by simp
qed (use send_first_success send_all_fail [OF assms] in blast)+

theorem send_attempts_witness:
  "snd (send sample_config (\<lambda>_. Response 400 ''bad'' None)) = 4"
  using send_attempts [of sample_config] by (simp add: sample_config_def)

end
