(* ===== verification/S3.thy ===== *)
theory S3
  imports Bytes JsDate
begin

text \<open>
  The S3 client (\<open>s3.service.ts\<close>): AWS signature version 4 for a PUT with headers and for a
  presigned GET. SHA-256 and HMAC-SHA256 (hexadecimal and raw) and the host part of the
  endpoint's URL are the environment. \<open>localeCompare\<close> is used on fixed ASCII names only, where
  it is the order of the code units.
\<close>

record s3_env =
  s3_endpoint :: string
  s3_host :: string
  s3_region :: string
  s3_accessKey :: string
  s3_secretKey :: string
  s3_bucket :: string
  s3_sha256Hex :: "byte list \<Rightarrow> string"
  s3_hmacBuf :: "byte list \<Rightarrow> byte list \<Rightarrow> byte list"
  s3_hmacHex :: "byte list \<Rightarrow> byte list \<Rightarrow> string"

section \<open>Text\<close>

definition nl :: string where
  "nl = [CHR 0x0A]"

text \<open>\<open>sha256Hex(input)\<close>: a string is hashed as its UTF-8 bytes.\<close>

definition sha256Hex :: "s3_env \<Rightarrow> string \<Rightarrow> string" where
  "sha256Hex env input = s3_sha256Hex env (utf8_encode input)"

definition hmacBuf :: "s3_env \<Rightarrow> byte list \<Rightarrow> string \<Rightarrow> byte list" where
  "hmacBuf env key data = s3_hmacBuf env key (utf8_encode data)"

definition hmacHex :: "s3_env \<Rightarrow> byte list \<Rightarrow> string \<Rightarrow> string" where
  "hmacHex env key data = s3_hmacHex env key (utf8_encode data)"

text \<open>\<open>now.toISOString().replace(/[-:]|\.\d{3}/g, '')\<close>\<close>

fun compact_date :: "string \<Rightarrow> string" where
  "compact_date [] = []"
| "compact_date (c # cs) =
     (if c = CHR ''-'' \<or> c = CHR '':'' then compact_date cs
      else if c = CHR ''.'' \<and> 3 \<le> length cs \<and> list_all is_digit (take 3 cs)
      then compact_date (drop 3 cs)
      else c # compact_date cs)"

definition hex_upper :: "nat \<Rightarrow> char" where
  "hex_upper d = ''0123456789ABCDEF'' ! d"

text \<open>\<open>encodeURIComponent\<close>\<close>

definition uri_unreserved :: "char \<Rightarrow> bool" where
  "uri_unreserved c \<longleftrightarrow> between 65 90 c \<or> between 97 122 c \<or> between 48 57 c \<or>
     c \<in> {CHR ''-'', CHR ''_'', CHR ''.'', CHR ''!'', CHR ''~'', CHR ''*'', CHR 0x27, CHR ''('', CHR '')''}"

definition percent :: "byte \<Rightarrow> string" where
  "percent b = [CHR ''%'', hex_upper (unat b div 16), hex_upper (unat b mod 16)]"

definition uri_char :: "char \<Rightarrow> string" where
  "uri_char c = (if uri_unreserved c then [c] else concat (map percent (utf8_char c)))"

definition encodeURIComponent :: "string \<Rightarrow> string" where
  "encodeURIComponent t = concat (map uri_char t)"

text \<open>The order of code units, and a stable sort by the first component.\<close>

fun str_le :: "string \<Rightarrow> string \<Rightarrow> bool" where
  "str_le [] t = True"
| "str_le (c # cs) [] = False"
| "str_le (c # cs) (d # ds) =
     (code_of c < code_of d \<or> (code_of c = code_of d \<and> str_le cs ds))"

fun insert_key :: "string \<times> string \<Rightarrow> (string \<times> string) list \<Rightarrow> (string \<times> string) list" where
  "insert_key x [] = [x]"
| "insert_key x (y # ys) = (if str_le (fst x) (fst y) then x # y # ys else y # insert_key x ys)"

definition sort_entries :: "(string \<times> string) list \<Rightarrow> (string \<times> string) list" where
  "sort_entries kvs = foldr insert_key kvs []"

section \<open>Signing\<close>

definition deriveSigningKey :: "s3_env \<Rightarrow> string \<Rightarrow> byte list" where
  "deriveSigningKey env dateStamp =
     (let kDate = hmacBuf env (utf8_encode (''AWS4'' @ s3_secretKey env)) dateStamp;
          kRegion = hmacBuf env kDate (s3_region env);
          kService = hmacBuf env kRegion ''s3''
      in hmacBuf env kService ''aws4_request'')"

definition credential_scope :: "s3_env \<Rightarrow> string \<Rightarrow> string" where
  "credential_scope env dateStamp = dateStamp @ ''/'' @ s3_region env @ ''/s3/aws4_request''"

definition canonical_uri :: "s3_env \<Rightarrow> string \<Rightarrow> string" where
  "canonical_uri env key = ''/'' @ s3_bucket env @ ''/'' @ encodeURIComponent key"

definition string_to_sign :: "s3_env \<Rightarrow> string \<Rightarrow> string \<Rightarrow> string" where
  "string_to_sign env amzDate canonicalRequest =
     js_join nl [''AWS4-HMAC-SHA256'', amzDate, credential_scope env (take 8 amzDate),
                 sha256Hex env canonicalRequest]"

text \<open>The bytes hashed for the payload: \<open>body.toString('binary')\<close>, then UTF-8.\<close>

definition payload_hash :: "s3_env \<Rightarrow> byte list \<Rightarrow> string" where
  "payload_hash env body = sha256Hex env (latin1_decode body)"

record signed_request =
  sr_url :: string
  sr_headers :: "(string \<times> string) list"

definition signedRequest ::
  "s3_env \<Rightarrow> int \<Rightarrow> string \<Rightarrow> string \<Rightarrow> byte list \<Rightarrow> string \<Rightarrow> signed_request" where
  "signedRequest env now meth key body contentType =
     (let amzDate = compact_date (toISOString now);
          dateStamp = take 8 amzDate;
          headers = [(''host'', s3_host env), (''x-amz-content-sha256'', payload_hash env body),
                     (''x-amz-date'', amzDate), (''content-type'', contentType)];
          canonicalHeaders = concat (map (\<lambda>(k, v). k @ '':'' @ v @ nl) (sort_entries headers));
          signedHeaders = js_join '';'' (map fst (sort_entries headers));
          canonicalRequest = js_join nl
            [meth, canonical_uri env key, [], canonicalHeaders, signedHeaders, payload_hash env body];
          signature = hmacHex env (deriveSigningKey env dateStamp) (string_to_sign env amzDate canonicalRequest);
          authHeader = ''AWS4-HMAC-SHA256 Credential='' @ s3_accessKey env @ ''/'' @
            credential_scope env dateStamp @ '', SignedHeaders='' @ signedHeaders @
            '', Signature='' @ signature
      in \<lparr>sr_url = s3_endpoint env @ canonical_uri env key,
          sr_headers = headers @ [(''authorization'', authHeader)]\<rparr>)"

text \<open>\<open>upload\<close>: \<open>put\<close> is the \<open>fetch\<close> of the request with its body (status, text), or \<open>None\<close>.\<close>

definition upload ::
  "s3_env \<Rightarrow> (signed_request \<Rightarrow> byte list \<Rightarrow> (int \<times> string) option) \<Rightarrow> int \<Rightarrow> string \<Rightarrow> byte list
     \<Rightarrow> string + string" where
  "upload env put now key body =
     (case put (signedRequest env now ''PUT'' key body ''application/pdf'') body of
        None \<Rightarrow> Inl ''fetch failed''
      | Some (status, reply) \<Rightarrow>
          if 200 \<le> status \<and> status \<le> 299 then Inr key
          else Inl (''s3 upload failed: '' @ int_str status @ '' '' @ reply))"

definition presignGet :: "s3_env \<Rightarrow> int \<Rightarrow> string \<Rightarrow> int \<Rightarrow> string" where
  "presignGet env now key ttlSeconds =
     (let amzDate = compact_date (toISOString now);
          dateStamp = take 8 amzDate;
          credential = s3_accessKey env @ ''/'' @ credential_scope env dateStamp;
          params = [(''X-Amz-Algorithm'', ''AWS4-HMAC-SHA256''), (''X-Amz-Credential'', credential),
                    (''X-Amz-Date'', amzDate), (''X-Amz-Expires'', int_str ttlSeconds),
                    (''X-Amz-SignedHeaders'', ''host'')];
          canonicalQuery = js_join ''&''
            (map (\<lambda>(k, v). encodeURIComponent k @ ''='' @ encodeURIComponent v) (sort_entries params));
          canonicalRequest = js_join nl
            [''GET'', canonical_uri env key, canonicalQuery, ''host:'' @ s3_host env, [], ''host'',
             ''UNSIGNED-PAYLOAD''];
          signature = hmacHex env (deriveSigningKey env dateStamp) (string_to_sign env amzDate canonicalRequest)
      in s3_endpoint env @ canonical_uri env key @ ''?'' @ canonicalQuery @
         ''&X-Amz-Signature='' @ signature)"

section \<open>Facts\<close>

lemma utf8_char_high: "\<not> code_of c < 128 \<Longrightarrow> length (utf8_char c) = 2"
  by (simp add: utf8_char_def Let_def)

lemma utf8_char_length: "length (utf8_char c) = (if code_of c < 128 then 1 else 2)"
  by (simp add: utf8_char_def Let_def)

lemma utf8_latin1_length:
  "length (utf8_encode (latin1_decode bs)) = length bs + length (filter (\<lambda>b. 128 \<le> unat b) bs)"
proof (induction bs)
  case Nil
  show ?case by (simp add: utf8_encode_def latin1_decode_def)
next
  case (Cons b bs)
  have "unat b < 256" using unsigned_less [of b] by simp
  then have "code_of (char_of (unat b)) = unat b" by simp
  then have "length (utf8_char (char_of (unat b))) = (if unat b < 128 then 1 else 2)"
    by (simp only: utf8_char_length)
  with Cons show ?case by (auto simp: utf8_encode_def latin1_decode_def)
qed

lemma uri_char_unreserved: "uri_unreserved c \<Longrightarrow> uri_char c = [c]"
  by (simp add: uri_char_def)

definition uri_safe :: "char \<Rightarrow> bool" where
  "uri_safe c \<longleftrightarrow> uri_unreserved c \<or> c = CHR ''%''"

lemma hex_upper_all: "list_all (\<lambda>d. uri_unreserved (hex_upper d)) [0..<16]"
  by code_simp

lemma hex_upper_unreserved: "d < 16 \<Longrightarrow> uri_unreserved (hex_upper d)"
  using hex_upper_all by (simp add: list_all_iff)

lemma percent_safe: "list_all uri_safe (percent b)"
proof -
  have "unat b < 256" using unsigned_less [of b] by simp
  then have "unat b div 16 < 16" "unat b mod 16 < 16" by simp_all
  then show ?thesis by (simp add: percent_def uri_safe_def hex_upper_unreserved)
qed

lemma uri_char_safe: "list_all uri_safe (uri_char c)"
  using percent_safe by (auto simp: uri_char_def list_all_iff uri_safe_def)

lemma encode_safe: "list_all uri_safe (encodeURIComponent t)"
  using uri_char_safe by (auto simp: encodeURIComponent_def list_all_iff)

text \<open>Reading an encoded text back to bytes.\<close>

definition hex_value :: "char \<Rightarrow> nat" where
  "hex_value c = (if is_digit c then code_of c - 48 else code_of c - 55)"

fun uri_bytes :: "string \<Rightarrow> byte list option" where
  "uri_bytes [] = Some []"
| "uri_bytes (c # cs) =
     (if c = CHR ''%'' then
        (case cs of
           h # l # rest \<Rightarrow> map_option (Cons (of_nat (hex_value h * 16 + hex_value l))) (uri_bytes rest)
         | _ \<Rightarrow> None)
      else map_option (Cons (of_nat (code_of c))) (uri_bytes cs))"

lemma hex_value_all: "list_all (\<lambda>d. hex_value (hex_upper d) = d) [0..<16]"
  by code_simp

lemma hex_value_upper [simp]: "d < 16 \<Longrightarrow> hex_value (hex_upper d) = d"
  using hex_value_all by (simp add: list_all_iff)

lemma uri_bytes_percent: "uri_bytes (percent b @ t) = map_option (Cons b) (uri_bytes t)"
proof -
  have "unat b < 256" using unsigned_less [of b] by simp
  then have "unat b div 16 < 16" "unat b mod 16 < 16" by simp_all
  moreover have "of_nat (unat b div 16 * 16 + unat b mod 16) = b" 
    using word_unat_eq_iff by (simp only: div_mult_mod_eq) simp
  ultimately show ?thesis by (simp add: percent_def del: of_nat_add of_nat_mult)
qed

lemma uri_bytes_percents:
  "uri_bytes (concat (map percent bs) @ t) = map_option ((@) bs) (uri_bytes t)"
  by (induction bs) (auto simp: uri_bytes_percent option.map_comp comp_def option.map_ident)

lemma unreserved_ascii: "uri_unreserved c \<Longrightarrow> code_of c < 128 \<and> c \<noteq> CHR ''%''"
  by (auto simp: uri_unreserved_def between_def)

lemma uri_bytes_char: "uri_bytes (uri_char c @ t) = map_option ((@) (utf8_char c)) (uri_bytes t)"
proof (cases "uri_unreserved c")
  case True
  with unreserved_ascii [OF True] show ?thesis
    by (cases "uri_bytes t") (simp_all add: uri_char_def utf8_char_def)
next
  case False
  then show ?thesis by (simp add: uri_char_def uri_bytes_percents)
qed

lemma uri_bytes_encode: "uri_bytes (encodeURIComponent t) = Some (utf8_encode t)"
proof (induction t)
  case Nil
  show ?case by (simp add: encodeURIComponent_def utf8_encode_def)
next
  case (Cons c t)
  then show ?case
    using uri_bytes_char [of c "encodeURIComponent t"]
    by (simp add: encodeURIComponent_def utf8_encode_def)
qed

section \<open>Properties\<close>

text \<open>
  The payload hash that \<open>upload\<close> signs is the hash of other bytes than it sends. The
  hashed bytes equal the body exactly when every byte is below 128; each byte from 128 on (a
  PDF file has such bytes in its header comment) adds one more hashed byte.
\<close>

theorem upload_hashes_other_bytes:
  "payload_hash env body = s3_sha256Hex env (utf8_encode (latin1_decode body)) \<and>
   (utf8_encode (latin1_decode body) = body \<longleftrightarrow> list_all (\<lambda>b. unat b < 128) body) \<and>
   length (utf8_encode (latin1_decode body)) = length body + length (filter (\<lambda>b. 128 \<le> unat b) body)"
proof -
  have "list_all (\<lambda>b. unat b < 128) body" if "utf8_encode (latin1_decode body) = body"
  proof -
    have "filter (\<lambda>b. 128 \<le> unat b) body = []"
      using utf8_latin1_length [of body] that by simp
    then show ?thesis by (auto simp: filter_empty_conv list_all_iff not_le)
  qed
  moreover have "utf8_encode (latin1_decode body) = body" if "list_all (\<lambda>b. unat b < 128) body"
    using that by (intro latin1_ascii) (simp add: list_all_iff)
  ultimately show ?thesis using utf8_latin1_length [of body]
    by (auto simp: payload_hash_def sha256Hex_def)
qed

text \<open>
  An object key cannot break out of the URL it is put into. Its encoding consists of
  unreserved characters and percent signs only (no slash, question mark, ampersand or equals
  sign), and decoding it gives the bytes of the key back, so different keys never share a URL.
\<close>

theorem key_encoding_safe:
  "list_all (\<lambda>c. c \<notin> {CHR ''/'', CHR ''?'', CHR ''&'', CHR ''='', CHR ''#''}) (encodeURIComponent key) \<and>
   Option.bind (uri_bytes (encodeURIComponent key)) utf8_decode = Some key"
proof -
  have "uri_safe c \<Longrightarrow> c \<notin> {CHR ''/'', CHR ''?'', CHR ''&'', CHR ''='', CHR ''#''}" for c
    by (auto simp: uri_safe_def uri_unreserved_def between_def)
  then show ?thesis
    using encode_safe [of key] by (simp add: list_all_iff uri_bytes_encode utf8_round_trip)
qed

end
