(* ===== verification/Pdf.thy ===== *)
theory Pdf
  imports Auth S3
begin

text \<open>
  PDF exports: \<open>pdf.service.ts\<close>, \<open>pdf.controller.ts\<close> and \<open>pdf-render.processor.ts\<close>. A request
  stores a job row and adds a BullMQ entry with two attempts; the worker marks the row as
  running, renders the page in a headless browser under an access token minted for the
  dashboard's creator, uploads the file and settles the row. The browser (\<open>pe_render\<close>: the file,
  or the message of what it threw), the upload's \<open>fetch\<close> and the queue's availability are
  parameters. BullMQ's re-delivery of stalled jobs is not modelled.
\<close>

record pdf_data =
  pd_jobId :: string
  pd_workspaceId :: string
  pd_dashboardId :: string

record queue_entry =
  qe_data :: pdf_data
  qe_attempts :: nat

record pdf_env =
  pe_frontendUrl :: string
  pe_auth :: auth_env
  pe_s3 :: s3_env
  pe_render :: "string \<Rightarrow> string \<Rightarrow> string + byte list"
  pe_put :: "signed_request \<Rightarrow> byte list \<Rightarrow> (int \<times> string) option"

text \<open>The database, the entries that wait, and the entries a worker is rendering.\<close>

record pdf_world =
  pw_db :: db
  pw_waiting :: "queue_entry list"
  pw_active :: "queue_entry list"

section \<open>Service\<close>

definition new_job :: "string \<Rightarrow> int \<Rightarrow> string \<Rightarrow> string \<Rightarrow> string \<Rightarrow> pdf_job" where
  "new_job fresh now wid did uid =
     \<lparr>job_id = fresh, job_workspaceId = wid, job_dashboardId = did, job_requestedBy = uid,
      job_status = Queued, job_s3Key = None, job_errorMessage = None, job_createdAt = now,
      job_completedAt = None\<rparr>"

text \<open>\<open>enqueue\<close>: the row first, then \<open>queue.add\<close>, which fails when Redis is away.\<close>

definition pdf_enqueue ::
  "bool \<Rightarrow> string \<Rightarrow> int \<Rightarrow> string \<Rightarrow> string \<Rightarrow> string \<Rightarrow> (pdf_world, pdf_job) app" where
  "pdf_enqueue queue_up fresh now wid did uid w =
     (let job = new_job fresh now wid did uid;
          entry = \<lparr>qe_data = \<lparr>pd_jobId = job_id job, pd_workspaceId = wid, pd_dashboardId = did\<rparr>,
                   qe_attempts = 0\<rparr>;
          w1 = w\<lparr>pw_db := (pw_db w)\<lparr>pdf_jobs := pdf_jobs (pw_db w) @ [job]\<rparr>\<rparr>
      in if queue_up then (Inr job, w1\<lparr>pw_waiting := pw_waiting w1 @ [entry]\<rparr>)
         else (Inl (Crash ''queue unavailable''), w1))"

definition pdf_get :: "string \<Rightarrow> string \<Rightarrow> (db, pdf_job) app" where
  "pdf_get = scoped_find pdf_jobs job_id job_workspaceId ''pdf job not found''"

interpretation pdf: tenant_table pdf_jobs job_id job_workspaceId pdf_get
  unfolding pdf_get_def by (rule scoped_find_tenant_table)

definition pdf_download :: "s3_env \<Rightarrow> int \<Rightarrow> string \<Rightarrow> string \<Rightarrow> (db, string) app" where
  "pdf_download env now wid jid =
     andThen (pdf_get wid jid) (\<lambda>job.
       case job_s3Key job of
         None \<Rightarrow> throw (NotFound ''pdf not ready'')
       | Some key \<Rightarrow>
           if job_status job \<noteq> Done \<or> key = [] then throw (NotFound ''pdf not ready'')
           else ok (presignGet env now key 3600))"

section \<open>Worker\<close>

text \<open>\<open>pdfJob.update({ where: { id } })\<close> throws when there is no such row.\<close>

definition job_update :: "string \<Rightarrow> (pdf_job \<Rightarrow> pdf_job) \<Rightarrow> (db, unit) app" where
  "job_update jid f s =
     (if \<exists>j \<in> set (pdf_jobs s). job_id j = jid
      then (Inr (), s\<lparr>pdf_jobs := update_where (\<lambda>j. job_id j = jid) f (pdf_jobs s)\<rparr>)
      else (Inl (Crash ''Record to update not found''), s))"

text \<open>The body of the \<open>try\<close> up to the upload; \<open>rnd\<close> is the random part of the refresh token's id.\<close>

definition pdf_key :: "pdf_data \<Rightarrow> string" where
  "pdf_key d = pd_workspaceId d @ ''/'' @ pd_dashboardId d @ ''/'' @ pd_jobId d @ ''.pdf''"

definition print_url :: "pdf_env \<Rightarrow> string \<Rightarrow> string" where
  "print_url env did = strip_trailing (CHR ''/'') (pe_frontendUrl env) @ ''/dashboards/'' @ did @ ''?print=1''"

definition render_and_upload :: "pdf_env \<Rightarrow> int \<Rightarrow> string \<Rightarrow> pdf_data \<Rightarrow> (db, string) app" where
  "render_and_upload env now rnd d s =
     (case List.find (\<lambda>x. dash_id x = pd_dashboardId d) (dashboards s) of
        None \<Rightarrow> (Inl (Crash ''dashboard gone''), s)
      | Some dashboard \<Rightarrow>
         (case List.find (\<lambda>u. user_id u = dash_createdById dashboard) (users s) of
            None \<Rightarrow> (Inl (Crash ''dashboard owner gone''), s)
          | Some owner \<Rightarrow>
              let tokens = issue_tokens (pe_auth env) now rnd (user_id owner) (user_email owner) in
             (case pe_render env (print_url env (pd_dashboardId d)) (tp_accessToken tokens) of
                Inl m \<Rightarrow> (Inl (Crash m), s)
              | Inr buffer \<Rightarrow>
                 (case upload (pe_s3 env) (pe_put env) now (pdf_key d) buffer of
                    Inl m \<Rightarrow> (Inl (Crash m), s)
                  | Inr key \<Rightarrow> (Inr key, s)))))"

definition pdf_begin :: "pdf_data \<Rightarrow> (db, unit) app" where
  "pdf_begin d = job_update (pd_jobId d) (\<lambda>j. j\<lparr>job_status := Running\<rparr>)"

definition pdf_finish :: "pdf_env \<Rightarrow> int \<Rightarrow> string \<Rightarrow> pdf_data \<Rightarrow> (db, unit) app" where
  "pdf_finish env now rnd d =
     catching
       (andThen (render_and_upload env now rnd d) (\<lambda>key.
          job_update (pd_jobId d)
            (\<lambda>j. j\<lparr>job_status := Done, job_s3Key := Some key, job_completedAt := Some now\<rparr>)))
       (\<lambda>err.
          andThen (job_update (pd_jobId d)
            (\<lambda>j. j\<lparr>job_status := Failed, job_errorMessage := Some (err_message err),
                   job_completedAt := Some now\<rparr>))
          (\<lambda>_. throw err))"

definition pdf_process :: "pdf_env \<Rightarrow> int \<Rightarrow> string \<Rightarrow> pdf_data \<Rightarrow> (db, unit) app" where
  "pdf_process env now rnd d = andThen (pdf_begin d) (\<lambda>_. pdf_finish env now rnd d)"

section \<open>Routes\<close>

definition on_pw :: "(db, 'a) app \<Rightarrow> (pdf_world, 'a) app" where
  "on_pw m w = (let (a, s) = m (pw_db w) in (a, w\<lparr>pw_db := s\<rparr>))"

definition pdf_enqueue_route ::
  "(string \<Rightarrow> bool) \<Rightarrow> bool \<Rightarrow> string \<Rightarrow> int \<Rightarrow> string \<Rightarrow> string \<Rightarrow> string \<Rightarrow> (pdf_world, pdf_job) app" where
  "pdf_enqueue_route is_uuid queue_up fresh now uid wid did =
     andThen (on_pw (can_activate (Some uid) (Some wid) None)) (\<lambda>(w, r).
     andThen (uuid_pipe is_uuid did) (\<lambda>_.
     andThen (on_pw (require_role w uid [Owner, Member])) (\<lambda>_.
       pdf_enqueue queue_up fresh now w did uid)))"

definition pdf_status_route ::
  "(string \<Rightarrow> bool) \<Rightarrow> string \<Rightarrow> string \<Rightarrow> string \<Rightarrow> (db, pdf_job) app" where
  "pdf_status_route is_uuid uid wid jid =
     guarded uid wid (\<lambda>w. andThen (uuid_pipe is_uuid jid) (\<lambda>_. pdf_get w jid))"

definition pdf_download_route ::
  "(string \<Rightarrow> bool) \<Rightarrow> s3_env \<Rightarrow> int \<Rightarrow> string \<Rightarrow> string \<Rightarrow> string \<Rightarrow> (db, string \<times> int) app" where
  "pdf_download_route is_uuid env now uid wid jid =
     guarded uid wid (\<lambda>w. andThen (uuid_pipe is_uuid jid) (\<lambda>_.
       andThen (pdf_download env now w jid) (\<lambda>url. ok (url, 3600))))"

section \<open>The worker and the requests together\<close>

text \<open>
  Steps of the system: a client asks for an export, any other handler changes the rest of the
  database, a worker takes a waiting entry, a worker finishes one. A failed attempt puts the
  entry back while it has attempts left (\<open>attempts: 2\<close>).
\<close>

inductive pdf_step :: "pdf_env \<Rightarrow> pdf_world \<Rightarrow> pdf_world \<Rightarrow> bool" for env where
  request: "fresh \<notin> job_id ` set (pdf_jobs (pw_db w)) \<Longrightarrow>
     pdf_step env w (after (pdf_enqueue_route is_uuid queue_up fresh now uid wid did) w)"
| elsewhere: "pdf_jobs s = pdf_jobs (pw_db w) \<Longrightarrow> pdf_step env w (w\<lparr>pw_db := s\<rparr>)"
| start: "pw_waiting w = q1 @ e # q2 \<Longrightarrow> answer (pdf_begin (qe_data e)) (pw_db w) = Inr () \<Longrightarrow>
     pdf_step env w (w\<lparr>pw_db := after (pdf_begin (qe_data e)) (pw_db w), pw_waiting := q1 @ q2,
       pw_active := pw_active w @ [e\<lparr>qe_attempts := Suc (qe_attempts e)\<rparr>]\<rparr>)"
| finish: "pw_active w = a1 @ e # a2 \<Longrightarrow>
     pdf_step env w (w\<lparr>pw_db := after (pdf_finish env now rnd (qe_data e)) (pw_db w),
       pw_active := a1 @ a2,
       pw_waiting := pw_waiting w @
         (case answer (pdf_finish env now rnd (qe_data e)) (pw_db w) of
            Inl _ \<Rightarrow> if qe_attempts e < 2 then [e] else [] | Inr _ \<Rightarrow> [])\<rparr>)"

definition qe_job :: "queue_entry \<Rightarrow> string" where
  "qe_job e = pd_jobId (qe_data e)"

definition data_of :: "pdf_job \<Rightarrow> pdf_data" where
  "data_of j = \<lparr>pd_jobId = job_id j, pd_workspaceId = job_workspaceId j, pd_dashboardId = job_dashboardId j\<rparr>"

text \<open>What a row says, given whether its entry waits (with how many attempts behind it) or is active.\<close>

definition job_ok :: "pdf_world \<Rightarrow> pdf_job \<Rightarrow> bool" where
  "job_ok w j \<longleftrightarrow>
     (job_status j = Running \<longleftrightarrow> job_id j \<in> qe_job ` set (pw_active w)) \<and>
     job_s3Key j = (if job_status j = Done then Some (pdf_key (data_of j)) else None) \<and>
     (job_status j = Done \<longrightarrow> job_id j \<notin> qe_job ` set (pw_waiting w) \<and> job_completedAt j \<noteq> None) \<and>
     (job_status j = Failed \<longrightarrow> job_errorMessage j \<noteq> None \<and> job_completedAt j \<noteq> None) \<and>
     (job_status j = Queued \<longrightarrow> job_errorMessage j = None \<and> job_completedAt j = None) \<and>
     (\<forall>e \<in> set (pw_waiting w). qe_job e = job_id j \<longrightarrow> qe_data e = data_of j \<and>
        (qe_attempts e = 0 \<and> job_status j = Queued \<or> qe_attempts e = 1 \<and> job_status j = Failed)) \<and>
     (\<forall>e \<in> set (pw_active w). qe_job e = job_id j \<longrightarrow> qe_data e = data_of j \<and>
        1 \<le> qe_attempts e \<and> qe_attempts e \<le> 2)"

definition pdf_inv :: "pdf_world \<Rightarrow> bool" where
  "pdf_inv w \<longleftrightarrow>
     distinct (map job_id (pdf_jobs (pw_db w))) \<and>
     distinct (map qe_job (pw_waiting w @ pw_active w)) \<and>
     qe_job ` set (pw_waiting w @ pw_active w) \<subseteq> job_id ` set (pdf_jobs (pw_db w)) \<and>
     (\<forall>j \<in> set (pdf_jobs (pw_db w)). job_ok w j)"

lemma job_update_eq:
  "jid \<in> job_id ` set (pdf_jobs s) \<Longrightarrow>
     job_update jid f s = (Inr (), s\<lparr>pdf_jobs := update_where (\<lambda>j. job_id j = jid) f (pdf_jobs s)\<rparr>)"
  by (auto simp: job_update_def image_iff)

lemma render_and_upload_answer:
  "(\<exists>m. render_and_upload env now rnd d s = (Inl (Crash m), s)) \<or>
   render_and_upload env now rnd d s = (Inr (pdf_key d), s)"
  by (auto simp: render_and_upload_def upload_def Let_def split: option.splits sum.splits prod.splits if_splits)

text \<open>How a job that is on record finishes: done with its key, or failed with a message.\<close>

lemma pdf_finish_cases:
  assumes "pd_jobId d \<in> job_id ` set (pdf_jobs s)"
  obtains (stored) "pdf_finish env now rnd d s = (Inr (), s\<lparr>pdf_jobs := update_where (\<lambda>j. job_id j = pd_jobId d)
      (\<lambda>j. j\<lparr>job_status := Done, job_s3Key := Some (pdf_key d), job_completedAt := Some now\<rparr>) (pdf_jobs s)\<rparr>)"
    and "answer (render_and_upload env now rnd d) s = Inr (pdf_key d)"
  | (failed) m where "pdf_finish env now rnd d s = (Inl (Crash m), s\<lparr>pdf_jobs :=
      update_where (\<lambda>j. job_id j = pd_jobId d)
      (\<lambda>j. j\<lparr>job_status := Failed, job_errorMessage := Some m, job_completedAt := Some now\<rparr>) (pdf_jobs s)\<rparr>)"
    and "answer (render_and_upload env now rnd d) s = Inl (Crash m)"
proof -
  consider m where "render_and_upload env now rnd d s = (Inl (Crash m), s)"
    | "render_and_upload env now rnd d s = (Inr (pdf_key d), s)"
    using render_and_upload_answer by blast
  then show thesis
  proof cases
    case (1 m)
    then show thesis
      by (intro failed [of m])
         (simp_all add: pdf_finish_def catching_def andThen_def job_update_eq [OF assms] err_message_def)
  next
    case 2
    then show thesis
      by (intro stored) (simp_all add: pdf_finish_def catching_def andThen_def job_update_eq [OF assms])
  qed
qed

lemma pdf_finish_ids:
  "map job_id (pdf_jobs (after (pdf_finish env now rnd d) s)) = map job_id (pdf_jobs s)"
proof (cases "pd_jobId d \<in> job_id ` set (pdf_jobs s)")
  case True
  then show ?thesis by (cases rule: pdf_finish_cases [of d s env now rnd]) simp_all
next
  case False
  then show ?thesis
    by (simp add: pdf_finish_def catching_def andThen_def job_update_def image_iff
        split: prod.split sum.split) (insert render_and_upload_answer [of env now rnd d s], auto)
qed

lemma pdf_begin_eq:
  "pd_jobId d \<in> job_id ` set (pdf_jobs s) \<Longrightarrow>
     pdf_begin d s = (Inr (), s\<lparr>pdf_jobs := update_where (\<lambda>j. job_id j = pd_jobId d)
       (\<lambda>j. j\<lparr>job_status := Running\<rparr>) (pdf_jobs s)\<rparr>)"
  by (simp add: pdf_begin_def job_update_eq)

lemma pdf_enqueue_route_eq:
  "pdf_enqueue_route is_uuid queue_up fresh now uid wid did w =
     (if wid = [] then (Inl (Forbidden ''missing workspaceId param''), w)
      else case role_of (pw_db w) wid uid of
        None \<Rightarrow> (Inl (Forbidden ''not a member of this workspace''), w)
      | Some r \<Rightarrow>
          if \<not> is_uuid did then (Inl (BadRequest ''Validation failed (uuid is expected)''), w)
          else if r \<in> {Owner, Member} then pdf_enqueue queue_up fresh now wid did uid w
          else (Inl (Forbidden ''insufficient role for this workspace''), w))"
  by (simp add: pdf_enqueue_route_def on_pw_def andThen_def can_activate_eq require_role_eq
      uuid_pipe_def split: option.split)

lemma pdf_enqueue_route_cases:
  obtains (refused) e where
      "pdf_enqueue_route is_uuid queue_up fresh now uid wid did w = (Inl e, w)"
  | (enqueued) "role_of (pw_db w) wid uid \<in> {Some Owner, Some Member}"
      and "pdf_enqueue_route is_uuid queue_up fresh now uid wid did w =
           pdf_enqueue queue_up fresh now wid did uid w"
proof (cases "wid \<noteq> [] \<and> is_uuid did \<and> role_of (pw_db w) wid uid \<in> {Some Owner, Some Member}")
  case True
  then show thesis by (intro enqueued) (auto simp: pdf_enqueue_route_eq)
next
  case False
  then have "\<exists>e. pdf_enqueue_route is_uuid queue_up fresh now uid wid did w = (Inl e, w)"
    by (cases "role_of (pw_db w) wid uid") (auto simp: pdf_enqueue_route_eq)
  then show thesis using refused by blast
qed

text \<open>A row whose id no entry of the change bears is not affected by it.\<close>

lemma job_ok_cong:
  assumes "job_ok w j"
    and "\<And>e. qe_job e = job_id j \<Longrightarrow> e \<in> set (pw_waiting w') \<longleftrightarrow> e \<in> set (pw_waiting w)"
    and "\<And>e. qe_job e = job_id j \<Longrightarrow> e \<in> set (pw_active w') \<longleftrightarrow> e \<in> set (pw_active w)"
  shows "job_ok w' j"
proof -
  have places: "job_id j \<in> qe_job ` set (pw_active w') \<longleftrightarrow> job_id j \<in> qe_job ` set (pw_active w)"
    "job_id j \<in> qe_job ` set (pw_waiting w') \<longleftrightarrow> job_id j \<in> qe_job ` set (pw_waiting w)"
    using assms(2,3) unfolding image_iff by metis+
  have entries:
    "(\<forall>e \<in> set (pw_waiting w'). qe_job e = job_id j \<longrightarrow> P e) \<longleftrightarrow>
       (\<forall>e \<in> set (pw_waiting w). qe_job e = job_id j \<longrightarrow> P e)"
    "(\<forall>e \<in> set (pw_active w'). qe_job e = job_id j \<longrightarrow> P e) \<longleftrightarrow>
       (\<forall>e \<in> set (pw_active w). qe_job e = job_id j \<longrightarrow> P e)" for P
    using assms(2,3) by blast+
  show ?thesis using assms(1) unfolding job_ok_def places entries .
qed

lemma pdf_inv_enqueue:
  assumes inv: "pdf_inv w" and fresh: "fresh \<notin> job_id ` set (pdf_jobs (pw_db w))"
  shows "pdf_inv (after (pdf_enqueue queue_up fresh now wid did uid) w)" (is "pdf_inv ?w")
proof -
  let ?j = "new_job fresh now wid did uid"
  have none: "fresh \<notin> qe_job ` set (pw_waiting w @ pw_active w)"
    using inv fresh unfolding pdf_inv_def by blast
  have "job_ok ?w j" if "j \<in> set (pdf_jobs (pw_db w))" for j
  proof (rule job_ok_cong)
    show "job_ok w j" using inv that by (simp add: pdf_inv_def)
    have "job_id j \<noteq> fresh" using that fresh by blast
    then show "qe_job e = job_id j \<Longrightarrow> e \<in> set (pw_waiting ?w) \<longleftrightarrow> e \<in> set (pw_waiting w)"
      "qe_job e = job_id j \<Longrightarrow> e \<in> set (pw_active ?w) \<longleftrightarrow> e \<in> set (pw_active w)" for e
      by (auto simp: pdf_enqueue_def Let_def qe_job_def new_job_def)
  qed
  moreover have "job_ok ?w ?j"
    using none by (auto simp: job_ok_def pdf_enqueue_def Let_def new_job_def data_of_def qe_job_def)
  moreover have "pdf_jobs (pw_db ?w) = pdf_jobs (pw_db w) @ [?j]" "job_id ?j = fresh"
    "pw_active ?w = pw_active w"
    "map qe_job (pw_waiting ?w) = map qe_job (pw_waiting w) @ (if queue_up then [fresh] else [])"
    by (simp_all add: pdf_enqueue_def Let_def new_job_def qe_job_def)
  ultimately show ?thesis
    using inv fresh none unfolding pdf_inv_def map_append image_Un set_append set_map [symmetric]
    by auto
qed

text \<open>Moving one entry \<open>e\<close> and updating its row: what is left to show is the new row.\<close>

lemma pdf_inv_move:
  assumes inv: "pdf_inv w"
    and rows: "pdf_jobs (pw_db w') = update_where (\<lambda>j. job_id j = i) f (pdf_jobs (pw_db w))"
    and keep: "\<And>j. job_id (f j) = job_id j"
    and ids: "distinct (map qe_job (pw_waiting w' @ pw_active w'))"
      "qe_job ` set (pw_waiting w' @ pw_active w') \<subseteq> qe_job ` set (pw_waiting w @ pw_active w)"
    and others: "\<And>e. qe_job e \<noteq> i \<Longrightarrow> e \<in> set (pw_waiting w') \<longleftrightarrow> e \<in> set (pw_waiting w)"
      "\<And>e. qe_job e \<noteq> i \<Longrightarrow> e \<in> set (pw_active w') \<longleftrightarrow> e \<in> set (pw_active w)"
    and row: "\<And>j. j \<in> set (pdf_jobs (pw_db w)) \<Longrightarrow> job_id j = i \<Longrightarrow> job_ok w j \<Longrightarrow> job_ok w' (f j)"
  shows "pdf_inv w'"
proof -
  have keys: "map job_id (pdf_jobs (pw_db w')) = map job_id (pdf_jobs (pw_db w))"
    unfolding rows using keep by (intro keys_update_where) simp
  have rows_ok: "job_ok w' j'" if "j' \<in> set (pdf_jobs (pw_db w'))" for j'
  proof -
    have "j' \<in> (\<lambda>j. if job_id j = i then f j else j) ` set (pdf_jobs (pw_db w))"
      using that by (simp only: rows update_where_def set_map)
    then obtain j where j: "j \<in> set (pdf_jobs (pw_db w))" "j' = (if job_id j = i then f j else j)"
      by (rule imageE)
    have ok: "job_ok w j" using inv j(1) by (simp add: pdf_inv_def)
    show ?thesis
    proof (cases "job_id j = i")
      case True
      with row [OF j(1) True ok] j(2) show ?thesis by simp
    next
      case False
      with others have "job_ok w' j" by (intro job_ok_cong [OF ok]) auto
      with False j(2) show ?thesis by simp
    qed
  qed
  have "job_id ` set (pdf_jobs (pw_db w')) = job_id ` set (pdf_jobs (pw_db w))"
    using keys by (metis set_map)
  moreover have "qe_job ` set (pw_waiting w @ pw_active w) \<subseteq> job_id ` set (pdf_jobs (pw_db w))"
    using inv unfolding pdf_inv_def by (elim conjE)
  ultimately have listed: "qe_job ` set (pw_waiting w' @ pw_active w') \<subseteq> job_id ` set (pdf_jobs (pw_db w'))"
    using ids(2) by (metis subset_trans)
  have "distinct (map job_id (pdf_jobs (pw_db w')))"
    using inv unfolding keys by (simp add: pdf_inv_def)
  with ids(1) listed rows_ok show ?thesis
    unfolding pdf_inv_def by (intro conjI ballI)
qed

lemma active_row:
  assumes "pdf_inv w" and "e \<in> set (pw_waiting w @ pw_active w)"
  shows "pd_jobId (qe_data e) \<in> job_id ` set (pdf_jobs (pw_db w))"
  using assms unfolding pdf_inv_def qe_job_def by blast

lemma pdf_inv_start:
  assumes inv: "pdf_inv w" and q: "pw_waiting w = q1 @ e # q2"
  shows "pdf_inv (w\<lparr>pw_db := after (pdf_begin (qe_data e)) (pw_db w), pw_waiting := q1 @ q2,
       pw_active := pw_active w @ [e\<lparr>qe_attempts := Suc (qe_attempts e)\<rparr>]\<rparr>)" (is "pdf_inv ?w")
proof (rule pdf_inv_move [OF inv])
  let ?e = "e\<lparr>qe_attempts := Suc (qe_attempts e)\<rparr>"
  have e: "qe_job ?e = qe_job e" by (simp add: qe_job_def)
  have dist: "distinct (map qe_job ((q1 @ e # q2) @ pw_active w))" using inv q by (simp add: pdf_inv_def)
  then have away: "qe_job e \<notin> qe_job ` set (q1 @ q2 @ pw_active w)" by auto
  show "pdf_jobs (pw_db ?w) = update_where (\<lambda>j. job_id j = qe_job e)
      (\<lambda>j. j\<lparr>job_status := Running\<rparr>) (pdf_jobs (pw_db w))"
    using pdf_begin_eq [OF active_row [OF inv, of e]] q by (simp add: qe_job_def)
  show "distinct (map qe_job (pw_waiting ?w @ pw_active ?w))" using dist e by auto
  show "qe_job ` set (pw_waiting ?w @ pw_active ?w) \<subseteq> qe_job ` set (pw_waiting w @ pw_active w)"
    using q e by auto
  show "x \<in> set (pw_waiting ?w) \<longleftrightarrow> x \<in> set (pw_waiting w)"
    "x \<in> set (pw_active ?w) \<longleftrightarrow> x \<in> set (pw_active w)" if "qe_job x \<noteq> qe_job e" for x
    using that q e by auto
  fix j assume id: "job_id j = qe_job e" and ok: "job_ok w j"
  have at: "qe_data e = data_of j" "qe_attempts e \<le> 1" "job_status j \<noteq> Done"
    using ok q id by (auto simp: job_ok_def)
  have "job_s3Key j = None" using ok at(3) by (simp add: job_ok_def)
  moreover have "x \<notin> set (q1 @ q2 @ pw_active w)" if "qe_job x = job_id j" for x
    using away that id by (metis image_eqI)
  ultimately show "job_ok ?w (j\<lparr>job_status := Running\<rparr>)"
    using at(1,2) e id unfolding job_ok_def by (auto simp: data_of_def)
qed simp

lemma job_ok_done:
  assumes "\<And>x. qe_job x = job_id j \<Longrightarrow> x \<notin> set (pw_waiting w) \<and> x \<notin> set (pw_active w)"
    and "job_status j = Done" "job_s3Key j = Some (pdf_key (data_of j))" "job_completedAt j \<noteq> None"
  shows "job_ok w j"
  using assms unfolding job_ok_def image_iff by auto

lemma job_ok_failed:
  assumes "\<And>x. qe_job x = job_id j \<Longrightarrow> x \<notin> set (pw_active w)"
    and "\<And>x. qe_job x = job_id j \<Longrightarrow> x \<in> set (pw_waiting w) \<Longrightarrow> qe_data x = data_of j \<and> qe_attempts x = 1"
    and "job_status j = Failed" "job_s3Key j = None" "job_errorMessage j \<noteq> None" "job_completedAt j \<noteq> None"
  shows "job_ok w j"
  using assms unfolding job_ok_def image_iff by auto

lemma pdf_inv_finish:
  assumes inv: "pdf_inv w" and a: "pw_active w = a1 @ e # a2"
  shows "pdf_inv (w\<lparr>pw_db := after (pdf_finish env now rnd (qe_data e)) (pw_db w),
       pw_active := a1 @ a2,
       pw_waiting := pw_waiting w @
         (case answer (pdf_finish env now rnd (qe_data e)) (pw_db w) of
            Inl _ \<Rightarrow> if qe_attempts e < 2 then [e] else [] | Inr _ \<Rightarrow> [])\<rparr>)" (is "pdf_inv ?w")
proof -
  have dist: "distinct (map qe_job (pw_waiting w @ a1 @ e # a2))" using inv a by (simp add: pdf_inv_def)
  then have "qe_job e \<notin> qe_job ` set (pw_waiting w @ a1 @ a2)" by auto
  then have gone: "x \<notin> set (pw_waiting w) \<and> x \<notin> set a1 \<and> x \<notin> set a2" if "qe_job x = qe_job e" for x
    using that by (metis image_eqI set_append Un_iff)
  have at: "qe_data e = data_of j \<and> 1 \<le> qe_attempts e \<and> job_s3Key j = None"
    if "job_id j = qe_job e" "job_ok w j" for j
  proof -
    have "e \<in> set (pw_active w)" using a by simp
    with that have "job_status j = Running" unfolding job_ok_def by (metis image_eqI)
    with that \<open>e \<in> _\<close> show ?thesis unfolding job_ok_def by simp
  qed
  have row: "pd_jobId (qe_data e) \<in> job_id ` set (pdf_jobs (pw_db w))"
    by (rule active_row [OF inv]) (simp add: a)
  from row show ?thesis
  proof (cases rule: pdf_finish_cases [of _ _ env now rnd])
    case stored
    have w: "?w = w\<lparr>pw_db := after (pdf_finish env now rnd (qe_data e)) (pw_db w), pw_active := a1 @ a2\<rparr>"
      using stored(1) by simp
    show ?thesis
      unfolding w
    proof (rule pdf_inv_move [OF inv, where i = "qe_job e"])
      fix j assume id: "job_id j = qe_job e" and ok: "job_ok w j"
      show "job_ok (w\<lparr>pw_db := after (pdf_finish env now rnd (qe_data e)) (pw_db w), pw_active := a1 @ a2\<rparr>)
          (j\<lparr>job_status := Done, job_s3Key := Some (pdf_key (qe_data e)), job_completedAt := Some now\<rparr>)"
        using gone at [OF id ok] id by (intro job_ok_done) (simp_all add: data_of_def)
    qed (use stored(1) dist a in \<open>auto simp: qe_job_def\<close>)
  next
    case (failed m)
    have w: "?w = w\<lparr>pw_db := after (pdf_finish env now rnd (qe_data e)) (pw_db w), pw_active := a1 @ a2,
        pw_waiting := pw_waiting w @ (if qe_attempts e < 2 then [e] else [])\<rparr>"
      using failed(1) by simp
    show ?thesis
      unfolding w
    proof (rule pdf_inv_move [OF inv, where i = "qe_job e"])
      fix j assume id: "job_id j = qe_job e" and ok: "job_ok w j"
      show "job_ok (w\<lparr>pw_db := after (pdf_finish env now rnd (qe_data e)) (pw_db w), pw_active := a1 @ a2,
            pw_waiting := pw_waiting w @ (if qe_attempts e < 2 then [e] else [])\<rparr>)
          (j\<lparr>job_status := Failed, job_errorMessage := Some m, job_completedAt := Some now\<rparr>)"
        using gone at [OF id ok] id by (intro job_ok_failed) (auto simp: data_of_def split: if_splits)
    qed (use failed(1) dist a in \<open>auto simp: qe_job_def\<close>)
  qed
qed

lemma pdf_inv_step:
  assumes "pdf_step env w w'" and inv: "pdf_inv w"
  shows "pdf_inv w'"
  using assms(1)
proof cases
  case (request fresh is_uuid queue_up now uid wid did)
  show ?thesis
    unfolding request(1)
    by (cases rule: pdf_enqueue_route_cases [of is_uuid queue_up fresh now uid wid did w])
       (use inv pdf_inv_enqueue [OF inv request(2)] in simp_all)
next
  case (elsewhere s)
  have "job_ok w' j" if "job_ok w j" for j
    using that unfolding elsewhere(1) by (rule job_ok_cong) simp_all
  with inv elsewhere show ?thesis by (auto simp: pdf_inv_def)
next
  case start
  then show ?thesis using pdf_inv_start [OF inv] by simp
next
  case finish
  then show ?thesis using pdf_inv_finish [OF inv] by simp
qed

interpretation exports: inductive_invariant "pdf_step env" pdf_inv for env
  by unfold_locales (rule pdf_inv_step)

section \<open>Properties\<close>

text \<open>
  Claim C13: the life of an export job. From a world without jobs, whatever requests, other
  handlers and worker steps happen in whatever order, a row is running exactly while a worker
  holds its entry, it is done exactly when it has an object key, which is then
  \<open>workspace/dashboard/job.pdf\<close> of that row, a failed row has a message, a done row is in no
  queue, and no entry is ever attempted more than twice.
\<close>

theorem pdf_job_lifecycle:
  assumes "reaches (pdf_step env) w0 w" and "pdf_jobs (pw_db w0) = []" "pw_waiting w0 = []" "pw_active w0 = []"
    and "j \<in> set (pdf_jobs (pw_db w))"
  shows "(job_status j = Running \<longleftrightarrow> (\<exists>e \<in> set (pw_active w). pd_jobId (qe_data e) = job_id j))
    \<and> (job_s3Key j \<noteq> None \<longleftrightarrow> job_status j = Done)
    \<and> (\<forall>key. job_s3Key j = Some key \<longrightarrow>
         key = job_workspaceId j @ ''/'' @ job_dashboardId j @ ''/'' @ job_id j @ ''.pdf'')
    \<and> (job_status j = Failed \<longrightarrow> job_errorMessage j \<noteq> None \<and> job_completedAt j \<noteq> None)
    \<and> (job_status j = Done \<longrightarrow>
         (\<forall>e \<in> set (pw_waiting w) \<union> set (pw_active w). pd_jobId (qe_data e) \<noteq> job_id j))
    \<and> (\<forall>e \<in> set (pw_waiting w) \<union> set (pw_active w).
         pd_jobId (qe_data e) = job_id j \<longrightarrow> qe_attempts e \<le> 2)"
proof -
  have "pdf_inv w0" using assms(2-4) by (simp add: pdf_inv_def)
  with assms(1,5) have ok: "job_ok w j" using exports.inv_reaches by (simp add: pdf_inv_def)
  have entries: "job_status j \<noteq> Done \<and> qe_attempts e \<le> 2"
    if "e \<in> set (pw_waiting w) \<union> set (pw_active w)" "pd_jobId (qe_data e) = job_id j" for e
  proof -
    have *: "qe_job e = job_id j" using that(2) by (simp add: qe_job_def)
    from that(1) show ?thesis
    proof
      assume e: "e \<in> set (pw_waiting w)"
      with ok * have "qe_attempts e = 0 \<and> job_status j = Queued \<or> qe_attempts e = 1 \<and> job_status j = Failed"
        unfolding job_ok_def by blast
      then show ?thesis by auto
    next
      assume e: "e \<in> set (pw_active w)"
      with ok * have "qe_attempts e \<le> 2" "job_id j \<in> qe_job ` set (pw_active w)"
        unfolding job_ok_def by (blast, metis image_eqI)
      moreover from this(2) ok have "job_status j = Running" unfolding job_ok_def by blast
      ultimately show ?thesis by simp
    qed
  qed
  have "job_status j = Running \<longleftrightarrow> (\<exists>e \<in> set (pw_active w). pd_jobId (qe_data e) = job_id j)"
    using ok unfolding job_ok_def image_iff qe_job_def by metis
  moreover have "job_s3Key j = (if job_status j = Done
      then Some (job_workspaceId j @ ''/'' @ job_dashboardId j @ ''/'' @ job_id j @ ''.pdf'') else None)"
    using ok unfolding job_ok_def by (simp add: pdf_key_def data_of_def)
  moreover have "job_status j = Failed \<longrightarrow> job_errorMessage j \<noteq> None \<and> job_completedAt j \<noteq> None"
    using ok unfolding job_ok_def by blast
  moreover have "job_status j = Done \<longrightarrow>
      (\<forall>e \<in> set (pw_waiting w) \<union> set (pw_active w). pd_jobId (qe_data e) \<noteq> job_id j)"
    "\<forall>e \<in> set (pw_waiting w) \<union> set (pw_active w). pd_jobId (qe_data e) = job_id j \<longrightarrow> qe_attempts e \<le> 2"
    using entries by blast+
  ultimately show ?thesis by (cases "job_status j = Done") simp_all
qed

definition sample_s3 :: s3_env where
  "sample_s3 = \<lparr>s3_endpoint = ''http://minio:9000'', s3_host = ''minio:9000'', s3_region = ''us-east-1'',
     s3_accessKey = ''minioadmin'', s3_secretKey = ''minioadmin'', s3_bucket = ''insightflow-pdf'',
     s3_sha256Hex = (\<lambda>b. ''00''), s3_hmacBuf = (\<lambda>k d. d), s3_hmacHex = (\<lambda>k d. ''00'')\<rparr>"

text \<open>A browser that prints the token it was given.\<close>

definition sample_pdf :: pdf_env where
  "sample_pdf = \<lparr>pe_frontendUrl = ''http://frontend:3000'', pe_auth = sample_auth, pe_s3 = sample_s3,
     pe_render = (\<lambda>url token. Inr (utf8_encode token)), pe_put = (\<lambda>r b. Some (200, []))\<rparr>"

definition sample_pdf_world :: pdf_world where
  "sample_pdf_world = \<lparr>pw_db = sample_db, pw_waiting = [], pw_active = []\<rparr>"

theorem pdf_job_lifecycle_witness:
  "job_status (new_job ''j1'' 5 ''w1'' ''d1'' ''u1'') \<noteq> Done"
proof -
  let ?w = "after (pdf_enqueue_route (\<lambda>_. True) True ''j1'' 5 ''u1'' ''w1'' ''d1'') sample_pdf_world"
  have "pdf_step sample_pdf sample_pdf_world ?w"
    by (rule pdf_step.request) (simp add: sample_pdf_world_def sample_defs)
  then have "reaches (pdf_step sample_pdf) sample_pdf_world ?w" by (rule reaches_one)
  moreover have "new_job ''j1'' 5 ''w1'' ''d1'' ''u1'' \<in> set (pdf_jobs (pw_db ?w))"
    by (simp add: pdf_enqueue_route_eq sample_pdf_world_def sample_defs role_of_def pdf_enqueue_def Let_def)
  ultimately have "job_s3Key (new_job ''j1'' 5 ''w1'' ''d1'' ''u1'') \<noteq> None \<longleftrightarrow>
      job_status (new_job ''j1'' 5 ''w1'' ''d1'' ''u1'') = Done"
    using pdf_job_lifecycle [of sample_pdf sample_pdf_world ?w "new_job ''j1'' 5 ''w1'' ''d1'' ''u1''"]
    by (simp add: sample_pdf_world_def sample_db_def)
  then show ?thesis by (simp add: new_job_def)
qed

lemma update_where_twice:
  "(\<And>x. P x \<Longrightarrow> P (f x)) \<Longrightarrow>
     update_where P g (update_where P f rows) = update_where P (\<lambda>x. g (f x)) rows"
  by (induction rows) (auto simp: update_where_def)

lemma render_and_upload_jobs [simp]:
  "answer (render_and_upload env now rnd d) (s\<lparr>pdf_jobs := js\<rparr>) = answer (render_and_upload env now rnd d) s"
  by (simp add: render_and_upload_def Let_def split: option.split sum.split)

text \<open>One run of the worker on a job that is on record.\<close>

lemma pdf_process_eq:
  assumes "pd_jobId d \<in> job_id ` set (pdf_jobs s)"
  shows "pdf_process env now rnd d s =
    (case answer (render_and_upload env now rnd d) s of
       Inr key \<Rightarrow> (Inr (), s\<lparr>pdf_jobs := update_where (\<lambda>j. job_id j = pd_jobId d)
         (\<lambda>j. j\<lparr>job_status := Done, job_s3Key := Some key, job_completedAt := Some now\<rparr>) (pdf_jobs s)\<rparr>)
     | Inl e \<Rightarrow> (Inl e, s\<lparr>pdf_jobs := update_where (\<lambda>j. job_id j = pd_jobId d)
         (\<lambda>j. j\<lparr>job_status := Failed, job_errorMessage := Some (err_message e),
                job_completedAt := Some now\<rparr>) (pdf_jobs s)\<rparr>))"
proof -
  let ?s = "s\<lparr>pdf_jobs := update_where (\<lambda>j. job_id j = pd_jobId d) (\<lambda>j. j\<lparr>job_status := Running\<rparr>) (pdf_jobs s)\<rparr>"
  have same: "answer (render_and_upload env now rnd d) ?s = answer (render_and_upload env now rnd d) s"
    by simp
  have row: "pd_jobId d \<in> job_id ` set (pdf_jobs ?s)"
    using assms by (simp flip: set_map)
  from row show ?thesis
  proof (cases rule: pdf_finish_cases [of _ _ env now rnd])
    case stored
    from stored(2) have "answer (render_and_upload env now rnd d) s = Inr (pdf_key d)" unfolding same .
    then show ?thesis
      by (simp add: pdf_process_def andThen_def pdf_begin_eq [OF assms] stored(1) update_where_twice)
  next
    case (failed m)
    from failed(2) have "answer (render_and_upload env now rnd d) s = Inl (Crash m)" unfolding same .
    then show ?thesis
      by (simp add: pdf_process_def andThen_def pdf_begin_eq [OF assms] failed(1) update_where_twice
          err_message_def)
  qed
qed

text \<open>
  A failed attempt followed by a successful one. The row ends up done, with its object
  key and the time of the second attempt, but it keeps the error message of the first one; no
  other row and no other table changes.
\<close>

theorem pdf_retry_keeps_message:
  assumes "pd_jobId d \<in> job_id ` set (pdf_jobs s)"
    and "answer (render_and_upload env t1 r1 d) s = Inl (Crash m)"
    and "answer (render_and_upload env t2 r2 d) s = Inr key"
  shows "after (pdf_process env t2 r2 d) (after (pdf_process env t1 r1 d) s) =
    s\<lparr>pdf_jobs := map (\<lambda>j. if job_id j = pd_jobId d
        then j\<lparr>job_status := Done, job_s3Key := Some key, job_errorMessage := Some m,
               job_completedAt := Some t2\<rparr> else j) (pdf_jobs s)\<rparr>"
proof -
  let ?s = "after (pdf_process env t1 r1 d) s"
  have s1: "?s = s\<lparr>pdf_jobs := update_where (\<lambda>j. job_id j = pd_jobId d)
      (\<lambda>j. j\<lparr>job_status := Failed, job_errorMessage := Some m, job_completedAt := Some t1\<rparr>) (pdf_jobs s)\<rparr>"
    using assms(2) by (simp add: pdf_process_eq [OF assms(1)] err_message_def)
  have "pd_jobId d \<in> job_id ` set (pdf_jobs ?s)"
    using assms(1) unfolding s1 by (simp flip: set_map)
  moreover have "answer (render_and_upload env t2 r2 d) ?s = Inr key"
    unfolding s1 using assms(3) by simp
  ultimately have "after (pdf_process env t2 r2 d) ?s = ?s\<lparr>pdf_jobs := update_where (\<lambda>j. job_id j = pd_jobId d)
      (\<lambda>j. j\<lparr>job_status := Done, job_s3Key := Some key, job_completedAt := Some t2\<rparr>) (pdf_jobs ?s)\<rparr>"
    by (simp add: pdf_process_eq)
  then show ?thesis by (simp add: s1 update_where_twice) (simp add: update_where_def)
qed

text \<open>
  Claim C12: the export routes never ask whether the dashboard belongs to the workspace. Whoever
  may write in some workspace can name a dashboard of a workspace he is no member of: the job is
  accepted, the worker renders that page under an access token minted for the foreign
  dashboard's creator, and the requester downloads the file.
\<close>

theorem pdf_crosses_tenants:
  assumes "role_of (pw_db w) wid uid \<in> {Some Owner, Some Member}" and "wid \<noteq> []"
    and "is_uuid did" and "is_uuid fresh" and "fresh \<notin> job_id ` set (pdf_jobs (pw_db w))"
    and "List.find (\<lambda>x. dash_id x = did) (dashboards (pw_db w)) = Some dash"
    and "role_of (pw_db w) (dash_workspaceId dash) uid = None"
    and "List.find (\<lambda>u. user_id u = dash_createdById dash) (users (pw_db w)) = Some creator"
    and "pe_render env (print_url env did)
           (tp_accessToken (issue_tokens (pe_auth env) t1 rnd (user_id creator) (user_email creator))) = Inr buffer"
    and "upload (pe_s3 env) (pe_put env) t1 (wid @ ''/'' @ did @ ''/'' @ fresh @ ''.pdf'') buffer
           = Inr (wid @ ''/'' @ did @ ''/'' @ fresh @ ''.pdf'')"
  shows "answer (pdf_download_route is_uuid (pe_s3 env) t2 uid wid fresh)
      (after (pdf_process env t1 rnd \<lparr>pd_jobId = fresh, pd_workspaceId = wid, pd_dashboardId = did\<rparr>)
        (pw_db (after (pdf_enqueue_route is_uuid True fresh t0 uid wid did) w)))
    = Inr (presignGet (pe_s3 env) t2 (wid @ ''/'' @ did @ ''/'' @ fresh @ ''.pdf'') 3600, 3600)"
proof -
  let ?d = "\<lparr>pd_jobId = fresh, pd_workspaceId = wid, pd_dashboardId = did\<rparr>"
  let ?key = "wid @ ''/'' @ did @ ''/'' @ fresh @ ''.pdf''"
  let ?s = "(pw_db w)\<lparr>pdf_jobs := pdf_jobs (pw_db w) @ [new_job fresh t0 wid did uid]\<rparr>"
  let ?t = "?s\<lparr>pdf_jobs := update_where (\<lambda>j. job_id j = fresh)
      (\<lambda>j. j\<lparr>job_status := Done, job_s3Key := Some ?key, job_completedAt := Some t1\<rparr>) (pdf_jobs ?s)\<rparr>"
  have s: "pw_db (after (pdf_enqueue_route is_uuid True fresh t0 uid wid did) w) = ?s"
    using assms(1-3) by (auto simp: pdf_enqueue_route_eq pdf_enqueue_def Let_def)
  have "answer (render_and_upload env t1 rnd ?d) ?s = Inr ?key"
    using assms(6,8-10) by (simp add: render_and_upload_def pdf_key_def)
  moreover have "pd_jobId ?d \<in> job_id ` set (pdf_jobs ?s)" by (simp add: new_job_def)
  ultimately have t: "after (pdf_process env t1 rnd ?d) ?s = ?t"
    by (simp add: pdf_process_eq del: append_Cons append_Nil)
  have "List.find (\<lambda>j. job_id j = fresh \<and> job_workspaceId j = wid) (pdf_jobs (pw_db w)) = None"
    using assms(5) by (auto simp: find_None)
  moreover have "pdf_jobs ?t = pdf_jobs (pw_db w) @
      [new_job fresh t0 wid did uid\<lparr>job_status := Done, job_s3Key := Some ?key, job_completedAt := Some t1\<rparr>]"
    using assms(5) by (auto simp: update_where_def new_job_def intro!: map_idI)
  ultimately have "List.find (\<lambda>j. job_id j = fresh \<and> job_workspaceId j = wid) (pdf_jobs ?t) =
      Some (new_job fresh t0 wid did uid\<lparr>job_status := Done, job_s3Key := Some ?key, job_completedAt := Some t1\<rparr>)"
    by (simp add: find_append new_job_def)
  then have "answer (pdf_download (pe_s3 env) t2 wid fresh) ?t = Inr (presignGet (pe_s3 env) t2 ?key 3600)"
    by (simp add: pdf_download_def pdf_get_def scoped_find_def andThen_def)
  moreover have "role_of ?t wid uid = role_of (pw_db w) wid uid" by (simp add: role_of_def)
  ultimately show ?thesis
    unfolding s t using assms(1,2,4)
    by (auto simp: pdf_download_route_def guarded_eq andThen_def uuid_pipe_def split: prod.split)
qed

theorem pdf_crosses_tenants_witness:
  "answer (pdf_download_route (\<lambda>_. True) sample_s3 2 ''u1'' ''w1'' ''j1'')
      (after (pdf_process sample_pdf 1 ''r'' \<lparr>pd_jobId = ''j1'', pd_workspaceId = ''w1'', pd_dashboardId = ''d2''\<rparr>)
        (pw_db (after (pdf_enqueue_route (\<lambda>_. True) True ''j1'' 0 ''u1'' ''w1'' ''d2'') sample_pdf_world)))
    = Inr (presignGet sample_s3 2 ''w1/d2/j1.pdf'' 3600, 3600)"
proof -
  let ?file = "utf8_encode (tp_accessToken (issue_tokens sample_auth 1 ''r'' ''u2'' ''b@x''))"
  have "role_of (pw_db sample_pdf_world) ''w1'' ''u1'' \<in> {Some Owner, Some Member}"
    "''j1'' \<notin> job_id ` set (pdf_jobs (pw_db sample_pdf_world))"
    "List.find (\<lambda>x. dash_id x = ''d2'') (dashboards (pw_db sample_pdf_world)) = Some (sample_dash ''d2'' ''w2'' ''u2'')"
    "role_of (pw_db sample_pdf_world) (dash_workspaceId (sample_dash ''d2'' ''w2'' ''u2'')) ''u1'' = None"
    "List.find (\<lambda>u. user_id u = dash_createdById (sample_dash ''d2'' ''w2'' ''u2'')) (users (pw_db sample_pdf_world))
       = Some (sample_user ''u2'' ''b@x'')"
    by (simp_all add: sample_pdf_world_def sample_defs role_of_def)
  moreover have "pe_render sample_pdf (print_url sample_pdf ''d2'')
      (tp_accessToken (issue_tokens (pe_auth sample_pdf) 1 ''r'' (user_id (sample_user ''u2'' ''b@x''))
         (user_email (sample_user ''u2'' ''b@x'')))) = Inr ?file"
    by (simp add: sample_pdf_def sample_user_def)
  moreover have "upload (pe_s3 sample_pdf) (pe_put sample_pdf) 1 (''w1'' @ ''/'' @ ''d2'' @ ''/'' @ ''j1'' @ ''.pdf'') ?file
      = Inr (''w1'' @ ''/'' @ ''d2'' @ ''/'' @ ''j1'' @ ''.pdf'')"
    by (simp add: upload_def sample_pdf_def)
  ultimately show ?thesis
    using pdf_crosses_tenants [where w = sample_pdf_world and wid = "''w1''" and uid = "''u1''"
        and is_uuid = "\<lambda>_. True" and did = "''d2''" and fresh = "''j1''" and env = sample_pdf and ?t0.0 = 0
        and ?t1.0 = 1 and ?t2.0 = 2 and rnd = "''r''" and buffer = ?file]
    by (simp add: sample_pdf_def)
qed

text \<open>A browser that fails on its first try, told apart by the token's time stamp.\<close>

theorem pdf_retry_keeps_message_witness:
  "\<exists>env key. let d = \<lparr>pd_jobId = ''j1'', pd_workspaceId = ''w1'', pd_dashboardId = ''d1''\<rparr>;
      s = sample_db\<lparr>pdf_jobs := [new_job ''j1'' 0 ''w1'' ''d1'' ''u1'']\<rparr>
    in map job_errorMessage (pdf_jobs (after (pdf_process env 2 ''r'' d) (after (pdf_process env 1 ''r'' d) s))) =
         [Some ''timeout''] \<and>
       map job_status (pdf_jobs (after (pdf_process env 2 ''r'' d) (after (pdf_process env 1 ''r'' d) s))) = [Done]"
proof -
  let ?env = "sample_pdf\<lparr>pe_auth := sample_auth\<lparr>au_sign := \<lambda>k p ttl t. int_str t\<rparr>,
      pe_render := \<lambda>url token. if token = ''1'' then Inl ''timeout'' else Inr []\<rparr>"
  let ?d = "\<lparr>pd_jobId = ''j1'', pd_workspaceId = ''w1'', pd_dashboardId = ''d1''\<rparr>"
  let ?s = "sample_db\<lparr>pdf_jobs := [new_job ''j1'' 0 ''w1'' ''d1'' ''u1'']\<rparr>"
  have "int_str 1 = ''1''" "int_str 2 = ''2''" by code_simp+
  then have "pd_jobId ?d \<in> job_id ` set (pdf_jobs ?s)"
    "answer (render_and_upload ?env 1 ''r'' ?d) ?s = Inl (Crash ''timeout'')"
    "answer (render_and_upload ?env 2 ''r'' ?d) ?s = Inr (pdf_key ?d)"
    by (simp_all add: new_job_def render_and_upload_def sample_defs issue_tokens_def Let_def sample_pdf_def
        sample_auth_def upload_def)
  from pdf_retry_keeps_message [OF this]
  show ?thesis by (intro exI [of _ ?env]) (simp add: new_job_def)
qed

end
