(* ===== verification/Forecast.thy ===== *)
theory Forecast
  imports Workspaces Metrics Sample
begin

text \<open>
  The proxy of the forecast service: \<open>forecast.service.ts\<close> and \<open>forecast.controller.ts\<close>. The
  service itself (Python) is a parameter: what a request of a URL with an optional body ends in.
  The state keeps the requests that were sent.
\<close>

text \<open>A rejected \<open>fetch\<close> with its message, or a response: status and text.\<close>

datatype fetched = FetchRejected string | Fetched int string

record forecast_env =
  fe_baseUrl :: string
  fe_fetch :: "string \<Rightarrow> string option \<Rightarrow> fetched"
  fe_fraction :: "rat \<Rightarrow> string"

record forecast_state =
  fs_db :: db
  fs_sent :: "(string \<times> string option) list"

definition base_url :: "forecast_env \<Rightarrow> string" where
  "base_url env = strip_trailing (CHR ''/'') (fe_baseUrl env)"

definition fetch_logged :: "forecast_env \<Rightarrow> string \<Rightarrow> string option \<Rightarrow> (forecast_state, int \<times> string) app" where
  "fetch_logged env url body s =
     (let s' = s\<lparr>fs_sent := fs_sent s @ [(url, body)]\<rparr> in
      case fe_fetch env url body of
        FetchRejected m \<Rightarrow> (Inl (Crash m), s')
      | Fetched status text \<Rightarrow> (Inr (status, text), s'))"

definition res_ok :: "int \<Rightarrow> bool" where
  "res_ok status \<longleftrightarrow> 200 \<le> status \<and> status \<le> 299"

definition res_json :: "string \<Rightarrow> ('s, json) app" where
  "res_json text = (case json_parse text of None \<Rightarrow> throw (Crash ''SyntaxError'') | Some j \<Rightarrow> ok j)"

section \<open>Service\<close>

definition forecast_body :: "string \<Rightarrow> string \<Rightarrow> int \<Rightarrow> string option \<Rightarrow> json" where
  "forecast_body wid metric horizonDays modelKind = JObj
     ([(''workspace_id'', JStr wid), (''metric'', JStr metric), (''horizon_days'', JNum (of_int horizonDays))] @
      (case modelKind of None \<Rightarrow> [] | Some k \<Rightarrow> if k = [] then [] else [(''model_kind'', JStr k)]))"

definition forecast ::
  "forecast_env \<Rightarrow> string \<Rightarrow> string \<Rightarrow> int \<Rightarrow> string option \<Rightarrow> (forecast_state, json) app" where
  "forecast env wid metric horizonDays modelKind =
     (if \<not> isKnownMetric metric
      then throw (HttpStatus 400 (''unknown metric \"'' @ metric @ ''\"''))
      else if horizonDays < 1 \<or> horizonDays > 365
      then throw (HttpStatus 400 ''horizon_days must be 1..365'')
      else
        andThen (fetch_logged env (base_url env @ ''/forecast'')
                  (Some (stringify (fe_fraction env) (forecast_body wid metric horizonDays modelKind))))
          (\<lambda>(status, text).
             if \<not> res_ok status
             then throw (HttpStatus status
               (if text = [] then ''forecast service '' @ int_str status else text))
             else res_json text))"

text \<open>\<open>all.filter((m) => m.workspace_id === workspaceId)\<close>: only \<open>null\<close> has no members to read.\<close>

fun filter_models :: "string \<Rightarrow> json list \<Rightarrow> http_error + json list" where
  "filter_models wid [] = Inr []"
| "filter_models wid (m # ms) =
     (if m = JNull then Inl (Crash ''TypeError'')
      else case filter_models wid ms of
        Inl e \<Rightarrow> Inl e
      | Inr kept \<Rightarrow> Inr (if json_get ''workspace_id'' m = Some (JStr wid) then m # kept else kept))"

definition listModels :: "forecast_env \<Rightarrow> string \<Rightarrow> (forecast_state, json list) app" where
  "listModels env wid =
     andThen (fetch_logged env (base_url env @ ''/models'') None) (\<lambda>(status, text).
       if \<not> res_ok status then throw (HttpStatus 502 ''forecast service unreachable'')
       else andThen (res_json text) (\<lambda>all.
         case all of
           JArr ms \<Rightarrow> (case filter_models wid ms of Inl e \<Rightarrow> throw e | Inr kept \<Rightarrow> ok kept)
         | _ \<Rightarrow> throw (Crash ''TypeError'')))"

section \<open>Routes\<close>

record forecast_dto =
  fd_metric :: string
  fd_horizon_days :: "int opt_field"
  fd_model_kind :: "string opt_field"

definition valid_forecast :: "forecast_dto \<Rightarrow> bool" where
  "valid_forecast q \<longleftrightarrow> length (fd_metric q) \<le> 64 \<and>
     optional (\<lambda>h. 1 \<le> h \<and> h \<le> 365) (fd_horizon_days q) \<and>
     optional (\<lambda>k. k \<in> {''prophet'', ''arima''}) (fd_model_kind q)"

definition on_fs :: "(db, 'a) app \<Rightarrow> (forecast_state, 'a) app" where
  "on_fs m s = (let (a, d) = m (fs_db s) in (a, s\<lparr>fs_db := d\<rparr>))"

fun given :: "'a opt_field \<Rightarrow> 'a option" where
  "given (Val x) = Some x"
| "given Undefined = None"
| "given Null = None"

definition forecast_route ::
  "forecast_env \<Rightarrow> string \<Rightarrow> string \<Rightarrow> forecast_dto \<Rightarrow> (forecast_state, json) app" where
  "forecast_route env uid p q =
     andThen (on_fs (can_activate (Some uid) (Some p) None)) (\<lambda>(w, r).
     andThen (validation_pipe (valid_forecast q)) (\<lambda>_.
       forecast env w (fd_metric q) (nullish (fd_horizon_days q) 30) (given (fd_model_kind q))))"

definition models_route :: "forecast_env \<Rightarrow> string \<Rightarrow> string \<Rightarrow> (forecast_state, json list) app" where
  "models_route env uid p =
     andThen (on_fs (can_activate (Some uid) (Some p) None)) (\<lambda>(w, r). listModels env w)"

section \<open>Facts\<close>

lemma on_fs_can_activate:
  "on_fs (can_activate (Some u) (Some w) p) s =
     (if w = [] then (Inl (Forbidden ''missing workspaceId param''), s)
      else case role_of (fs_db s) w u of
        None \<Rightarrow> (Inl (Forbidden ''not a member of this workspace''), s)
      | Some r \<Rightarrow> (Inr (w, r), s))"
  by (simp add: on_fs_def can_activate_eq split: option.split)

lemma filter_models_Inr:
  "filter_models wid ms = Inr kept \<Longrightarrow>
     kept = filter (\<lambda>m. json_get ''workspace_id'' m = Some (JStr wid)) ms \<and> JNull \<notin> set ms"
  by (induction ms arbitrary: kept) (auto split: if_splits sum.splits)

lemma filter_models_total:
  "JNull \<notin> set ms \<Longrightarrow>
     filter_models wid ms = Inr (filter (\<lambda>m. json_get ''workspace_id'' m = Some (JStr wid)) ms)"
  by (induction ms) auto

lemma res_json_eq:
  "res_json text s = (case json_parse text of None \<Rightarrow> (Inl (Crash ''SyntaxError''), s) | Some j \<Rightarrow> (Inr j, s))"
  by (simp add: res_json_def split: option.split)

text \<open>
  The forecast route, branch by branch. A request reaches the forecast service only for
  a member of the workspace, a metric of the catalogue and a horizon of 1 to 365 days (30 when
  absent); then exactly one request is sent, whose body names that workspace, and the answer is
  the service's JSON or an error with the service's own status. Otherwise nothing is sent.
\<close>

theorem forecast_route_outcome:
  "let body = Some (stringify (fe_fraction env)
         (forecast_body p (fd_metric q) (nullish (fd_horizon_days q) 30) (given (fd_model_kind q))));
       url = base_url env @ ''/forecast''
   in if p \<noteq> [] \<and> role_of (fs_db s) p uid \<noteq> None \<and> valid_forecast q \<and> isKnownMetric (fd_metric q)
      then after (forecast_route env uid p q) s = s\<lparr>fs_sent := fs_sent s @ [(url, body)]\<rparr>
         \<and> answer (forecast_route env uid p q) s =
           (case fe_fetch env url body of
              FetchRejected m \<Rightarrow> Inl (Crash m)
            | Fetched status text \<Rightarrow>
                if 200 \<le> status \<and> status \<le> 299
                then (case json_parse text of Some j \<Rightarrow> Inr j | None \<Rightarrow> Inl (Crash ''SyntaxError''))
                else Inl (HttpStatus status (if text = [] then ''forecast service '' @ int_str status else text)))
      else after (forecast_route env uid p q) s = s \<and> (\<exists>e. answer (forecast_route env uid p q) s = Inl e)"
proof -
  have h: "valid_forecast q \<Longrightarrow> 1 \<le> nullish (fd_horizon_days q) 30 \<and> nullish (fd_horizon_days q) 30 \<le> 365"
    by (cases "fd_horizon_days q") (auto simp: valid_forecast_def)
  show ?thesis
  proof (cases "role_of (fs_db s) p uid")
    case None
    then show ?thesis by (simp add: forecast_route_def andThen_def on_fs_can_activate)
  next
    case (Some r)
    with h show ?thesis
      by (auto simp: forecast_route_def andThen_def on_fs_can_activate validation_pipe_def forecast_def
          fetch_logged_def Let_def res_ok_def res_json_eq split: fetched.split option.split)
  qed
qed

text \<open>
  The list of models a user sees holds exactly the entries of the forecast service
  that name the workspace of the route, in the service's order, and only members get it.
\<close>

theorem models_scoped:
  assumes "answer (models_route env uid p) s = Inr models"
  shows "role_of (fs_db s) p uid \<noteq> None \<and>
    (\<exists>status text ms. fe_fetch env (base_url env @ ''/models'') None = Fetched status text \<and>
       json_parse text = Some (JArr ms) \<and>
       models = filter (\<lambda>m. json_get ''workspace_id'' m = Some (JStr p)) ms)"
proof (cases "role_of (fs_db s) p uid")
  case None
  with assms show ?thesis
    by (simp add: models_route_def andThen_def on_fs_can_activate split: if_splits)
next
  case (Some r)
  with assms show ?thesis
    by (auto simp: models_route_def andThen_def on_fs_can_activate listModels_def fetch_logged_def Let_def
        res_json_eq dest!: filter_models_Inr
        split: if_splits fetched.splits option.splits json.splits sum.splits)
qed

definition sample_forecast :: forecast_env where
  "sample_forecast = \<lparr>fe_baseUrl = ''http://forecast:8000/'',
     fe_fetch = (\<lambda>url body. Fetched 200 ''[{\"workspace_id\":\"w1\"},{\"workspace_id\":\"w2\"}]''),
     fe_fraction = (\<lambda>_. [])\<rparr>"

theorem models_scoped_witness:
  "answer (models_route sample_forecast ''u1'' ''w1'') \<lparr>fs_db = sample_db, fs_sent = []\<rparr>
     = Inr [JObj [(''workspace_id'', JStr ''w1'')]]
   \<and> role_of sample_db ''w1'' ''u1'' \<noteq> None"
proof -
  have parse: "json_parse ''[{\"workspace_id\":\"w1\"},{\"workspace_id\":\"w2\"}]'' =
      Some (JArr [JObj [(''workspace_id'', JStr ''w1'')], JObj [(''workspace_id'', JStr ''w2'')]])"
    by code_simp
  have "role_of sample_db ''w1'' ''u1'' = Some Owner" by (simp add: role_of_def sample_defs)
  then have run: "answer (models_route sample_forecast ''u1'' ''w1'') \<lparr>fs_db = sample_db, fs_sent = []\<rparr>
      = Inr [JObj [(''workspace_id'', JStr ''w1'')]]"
    by (simp add: models_route_def andThen_def on_fs_can_activate listModels_def fetch_logged_def
        sample_forecast_def res_json_eq parse res_ok_def)
  with models_scoped [OF run] show ?thesis by simp
qed

end
