(* ===== verification/Realtime.thy ===== *)
theory Realtime
  imports Auth
begin

text \<open>
  The Socket.IO gateway (\<open>metrics.gateway.ts\<close>): the handshake of a socket, the room it joins,
  the Redis subscription per workspace, and the fan-out of a published tick. The state holds the
  database, the sockets that joined a room (socket, user, workspace), the workspaces subscribed
  to, the sockets the gateway disconnected and what was emitted to whom. Whether Redis accepts a
  subscription is a parameter. A handshake is one step: between its awaits only log lines and
  other sockets' handshakes run.
\<close>

record handshake =
  hs_namespace :: string
  hs_auth_token :: "json option"
  hs_authorization :: "string option"

record joined =
  jn_socket :: nat
  jn_userId :: string
  jn_workspaceId :: string

datatype emitted = Hello nat string role | Tick nat json

record gateway =
  gw_db :: db
  gw_joined :: "joined list"
  gw_subscribed :: "string list"
  gw_closed :: "nat list"
  gw_emitted :: "emitted list"

definition TICK_CHANNEL_PREFIX :: string where
  "TICK_CHANNEL_PREFIX = ''metrics:tick:''"

section \<open>Reading the handshake\<close>

definition uuid_char :: "char \<Rightarrow> bool" where
  "uuid_char c \<longleftrightarrow> between 48 57 c \<or> between 97 102 c \<or> between 65 70 c \<or> c = CHR ''-''"

text \<open>\<open>/^\/ws\/([^/]+)$/\<close>, then \<open>/^[0-9a-fA-F-]{36}$/\<close> on the group.\<close>

definition extractWorkspaceId :: "string \<Rightarrow> string option" where
  "extractWorkspaceId namespace =
     (if \<not> starts_with ''/ws/'' namespace then None
      else let i = drop 4 namespace in
        if i = [] \<or> CHR ''/'' \<in> set i then None
        else if length i = 36 \<and> list_all uuid_char i then Some i else None)"

text \<open>\<open>replace(/^Bearer\s+/i, '')\<close>\<close>

definition strip_bearer :: "string \<Rightarrow> string" where
  "strip_bearer t =
     (if starts_with ''bearer'' (to_lower (take 6 t)) \<and> is_space (hd (drop 6 t @ ''x''))
      then dropWhile is_space (drop 6 t) else t)"

definition extractToken :: "handshake \<Rightarrow> string option" where
  "extractToken hs =
     (let header = (case hs_authorization hs of
            None \<Rightarrow> None
          | Some h \<Rightarrow> if starts_with ''bearer '' (to_lower h) then Some (drop 7 h) else None)
      in case hs_auth_token hs of
           Some (JStr t) \<Rightarrow> if t = [] then header else Some (strip_bearer t)
         | _ \<Rightarrow> header)"

section \<open>Connections\<close>

text \<open>
  The check of a handshake: the workspace, the user and the role, or \<open>None\<close> where the code
  disconnects (a missing part, a token that does not verify, a user without a role, a payload
  whose \<open>sub\<close> is no string and makes the lookup throw).
\<close>

definition admitted :: "auth_env \<Rightarrow> int \<Rightarrow> handshake \<Rightarrow> db \<Rightarrow> (string \<times> string \<times> role) option" where
  "admitted env now hs s =
     (case (extractWorkspaceId (hs_namespace hs), extractToken hs) of
        (Some w, Some token) \<Rightarrow>
          if token = [] then None
          else (case verifyAccess env now token of
             Some payload \<Rightarrow>
               (case json_get ''sub'' payload of
                  Some (JStr u) \<Rightarrow> (case role_of s w u of None \<Rightarrow> None | Some r \<Rightarrow> Some (w, u, r))
                | _ \<Rightarrow> None)
           | None \<Rightarrow> None)
      | _ \<Rightarrow> None)"

definition disconnect_socket :: "nat \<Rightarrow> gateway \<Rightarrow> gateway" where
  "disconnect_socket i g =
     g\<lparr>gw_joined := filter (\<lambda>j. jn_socket j \<noteq> i) (gw_joined g), gw_closed := gw_closed g @ [i]\<rparr>"

definition join_room :: "nat \<Rightarrow> string \<Rightarrow> string \<Rightarrow> gateway \<Rightarrow> gateway" where
  "join_room i u w g =
     g\<lparr>gw_joined := gw_joined g @ [\<lparr>jn_socket = i, jn_userId = u, jn_workspaceId = w\<rparr>]\<rparr>"

definition handleConnection :: "auth_env \<Rightarrow> int \<Rightarrow> bool \<Rightarrow> nat \<Rightarrow> handshake \<Rightarrow> gateway \<Rightarrow> gateway" where
  "handleConnection env now redis_up i hs g =
     (case admitted env now hs (gw_db g) of
        None \<Rightarrow> disconnect_socket i g
      | Some (w, u, r) \<Rightarrow>
          let g1 = join_room i u w g in
          if w \<in> set (gw_subscribed g1)
          then g1\<lparr>gw_emitted := gw_emitted g1 @ [Hello i w r]\<rparr>
          else if redis_up
          then g1\<lparr>gw_subscribed := gw_subscribed g1 @ [w],
                  gw_emitted := gw_emitted g1 @ [Hello i w r]\<rparr>
          else disconnect_socket i g1)"

text \<open>The client went away: Socket.IO drops it from its rooms; the handler only logs.\<close>

definition handleDisconnect :: "nat \<Rightarrow> gateway \<Rightarrow> gateway" where
  "handleDisconnect i g = g\<lparr>gw_joined := filter (\<lambda>j. jn_socket j \<noteq> i) (gw_joined g)\<rparr>"

section \<open>Ticks\<close>

definition tick_payload :: "string \<Rightarrow> json" where
  "tick_payload raw = (case json_parse raw of Some j \<Rightarrow> j | None \<Rightarrow> JStr raw)"

definition gw_fanout :: "string \<Rightarrow> string \<Rightarrow> gateway \<Rightarrow> gateway" where
  "gw_fanout w raw g =
     g\<lparr>gw_emitted := gw_emitted g @
         map (\<lambda>j. Tick (jn_socket j) (tick_payload raw)) (filter (\<lambda>j. jn_workspaceId j = w) (gw_joined g))\<rparr>"

definition on_message :: "string \<Rightarrow> string \<Rightarrow> gateway \<Rightarrow> gateway" where
  "on_message channel raw g =
     (if \<not> starts_with TICK_CHANNEL_PREFIX channel then g
      else gw_fanout (drop (length TICK_CHANNEL_PREFIX) channel) raw g)"

text \<open>\<open>onModuleDestroy\<close>: the channels it unsubscribes from.\<close>

definition unsubscribed_channels :: "gateway \<Rightarrow> string list" where
  "unsubscribed_channels g = map (\<lambda>w. TICK_CHANNEL_PREFIX @ w) (gw_subscribed g)"

section \<open>The gateway over time\<close>

text \<open>Other handlers change the database; none of them takes a membership away.\<close>

definition members_kept :: "db \<Rightarrow> db \<Rightarrow> bool" where
  "members_kept s t \<longleftrightarrow> (\<forall>w u. role_of s w u \<noteq> None \<longrightarrow> role_of t w u \<noteq> None)"

lemma members_kept_invite: "members_kept s (after (invite fresh now w a b r) s)"
  by (auto simp: members_kept_def invite_eq upsert_member_role)

lemma members_kept_same: "members t = members s \<Longrightarrow> members_kept s t"
  by (simp add: members_kept_def role_of_def)

lemma members_kept_grow: "members t = members s @ new \<Longrightarrow> members_kept s t"
  by (auto simp: members_kept_def role_of_def find_append split: option.splits)

inductive gw_step :: "auth_env \<Rightarrow> gateway \<Rightarrow> gateway \<Rightarrow> bool" for env where
  connects: "i \<notin> jn_socket ` set (gw_joined g) \<Longrightarrow> gw_step env g (handleConnection env now redis_up i hs g)"
| leaves: "gw_step env g (handleDisconnect i g)"
| receives: "gw_step env g (on_message channel raw g)"
| elsewhere: "members_kept (gw_db g) s \<Longrightarrow> gw_step env g (g\<lparr>gw_db := s\<rparr>)"

definition gw_inv :: "gateway \<Rightarrow> bool" where
  "gw_inv g \<longleftrightarrow> distinct (map jn_socket (gw_joined g)) \<and>
     (\<forall>j \<in> set (gw_joined g). jn_workspaceId j \<in> set (gw_subscribed g) \<and>
        role_of (gw_db g) (jn_workspaceId j) (jn_userId j) \<noteq> None)"

lemma gw_inv_drop:
  "gw_inv g \<Longrightarrow> gw_inv (g\<lparr>gw_joined := filter P (gw_joined g), gw_closed := c\<rparr>)"
  by (auto simp: gw_inv_def distinct_map_filter)

lemma admitted_role: "admitted env now hs s = Some (w, u, r) \<Longrightarrow> role_of s w u = Some r"
  by (auto simp: admitted_def split: option.splits if_splits json.splits)

lemma handleConnection_cases:
  assumes "i \<notin> jn_socket ` set (gw_joined g)"
  obtains (closed) c where "handleConnection env now redis_up i hs g =
      g\<lparr>gw_joined := filter (\<lambda>j. jn_socket j \<noteq> i) (gw_joined g), gw_closed := c\<rparr>"
  | (joins) w u r sub where "admitted env now hs (gw_db g) = Some (w, u, r)"
      and "set sub = insert w (set (gw_subscribed g))"
      and "handleConnection env now redis_up i hs g =
        g\<lparr>gw_joined := gw_joined g @ [\<lparr>jn_socket = i, jn_userId = u, jn_workspaceId = w\<rparr>],
          gw_subscribed := sub, gw_emitted := gw_emitted g @ [Hello i w r]\<rparr>"
proof (cases "admitted env now hs (gw_db g)")
  case None
  then show thesis by (intro closed) (simp add: handleConnection_def disconnect_socket_def)
next
  case (Some x)
  obtain w u r where x: "x = (w, u, r)" by (cases x)
  consider (old) "w \<in> set (gw_subscribed g)" | (new) "w \<notin> set (gw_subscribed g)" "redis_up"
    | (down) "w \<notin> set (gw_subscribed g)" "\<not> redis_up" by blast
  then show thesis
  proof cases
    case old
    show thesis
      by (rule joins [of w u r "gw_subscribed g"])
         (use old Some x in \<open>auto simp: handleConnection_def join_room_def Let_def\<close>)
  next
    case new
    show thesis
      by (rule joins [of w u r "gw_subscribed g @ [w]"])
         (use new Some x in \<open>auto simp: handleConnection_def join_room_def Let_def\<close>)
  next
    case down
    then show thesis
      using Some x
      by (intro closed) (auto simp: handleConnection_def join_room_def disconnect_socket_def Let_def)
  qed
qed

lemma gw_inv_step:
  assumes "gw_step env g g'" and inv: "gw_inv g"
  shows "gw_inv g'"
  using assms(1)
proof (cases rule: gw_step.cases)
  case (connects i now redis_up hs)
  from connects(2) show ?thesis
  proof (cases rule: handleConnection_cases [where env = env and now = now and redis_up = redis_up and hs = hs])
    case (closed c)
    show ?thesis unfolding connects(1) closed by (rule gw_inv_drop [OF inv])
  next
    case (joins w u r sub)
    with inv connects(2) admitted_role [OF joins(1)] show ?thesis
      unfolding connects(1) joins(3) gw_inv_def by auto
  qed
next
  case (leaves i)
  with inv show ?thesis by (auto simp: gw_inv_def handleDisconnect_def distinct_map_filter)
next
  case (receives channel raw)
  with inv show ?thesis by (auto simp: gw_inv_def on_message_def gw_fanout_def)
next
  case (elsewhere s)
  with inv show ?thesis by (auto simp: gw_inv_def members_kept_def)
qed

interpretation rooms: inductive_invariant "gw_step env" gw_inv for env
  by unfold_locales (rule gw_inv_step)

section \<open>Properties\<close>

lemma extractWorkspaceId_iff:
  "extractWorkspaceId n = Some w \<longleftrightarrow> n = ''/ws/'' @ w \<and> length w = 36 \<and> list_all uuid_char w"
proof -
  have "CHR ''/'' \<notin> set w" if "list_all uuid_char w"
    using that by (auto simp: list_all_iff uuid_char_def between_def)
  then show ?thesis
    by (auto simp: extractWorkspaceId_def starts_with_iff Let_def split: if_splits)
qed

text \<open>
  Claim C15: ticks stay inside the workspace. From a gateway without sockets, after any sequence of
  handshakes, departures, messages and database changes that take no membership away, a message
  on the channel of workspace \<open>w\<close> goes to exactly the sockets in the room of \<open>w\<close>, each of them
  once; the user of each is at that moment a member of \<open>w\<close>, and the gateway is subscribed to the
  channel. A message on any other channel reaches nobody.
\<close>

theorem ticks_stay_inside:
  assumes "reaches (gw_step env) g0 g" and "gw_joined g0 = []"
  shows "gw_emitted (on_message channel raw g) = gw_emitted g @
      map (\<lambda>j. Tick (jn_socket j) (tick_payload raw))
        (filter (\<lambda>j. channel = TICK_CHANNEL_PREFIX @ jn_workspaceId j) (gw_joined g))
    \<and> distinct (map jn_socket (gw_joined g))
    \<and> list_all (\<lambda>j. role_of (gw_db g) (jn_workspaceId j) (jn_userId j) \<noteq> None
         \<and> jn_workspaceId j \<in> set (gw_subscribed g)) (gw_joined g)"
proof -
  have "gw_inv g0" using assms(2) by (simp add: gw_inv_def)
  with assms(1) have "gw_inv g" by (rule rooms.inv_reaches)
  moreover have "gw_emitted (on_message channel raw g) = gw_emitted g @
      map (\<lambda>j. Tick (jn_socket j) (tick_payload raw))
        (filter (\<lambda>j. channel = TICK_CHANNEL_PREFIX @ jn_workspaceId j) (gw_joined g))"
  proof (cases "starts_with TICK_CHANNEL_PREFIX channel")
    case True
    then obtain w where "channel = TICK_CHANNEL_PREFIX @ w" by (auto simp: starts_with_iff)
    then have "on_message channel raw g = gw_fanout w raw g"
      and room: "channel = TICK_CHANNEL_PREFIX @ jn_workspaceId j \<longleftrightarrow> jn_workspaceId j = w" for j :: joined
      by (auto simp: on_message_def)
    then show ?thesis by (simp add: gw_fanout_def room)
  next
    case False
    then have "channel \<noteq> TICK_CHANNEL_PREFIX @ jn_workspaceId j" for j :: joined by auto
    with False show ?thesis by (simp add: on_message_def)
  qed
  ultimately show ?thesis by (simp add: gw_inv_def list_all_iff)
qed

definition sample_uuid :: string where
  "sample_uuid = replicate 36 (CHR ''a'')"

definition sample_gateway :: gateway where
  "sample_gateway = \<lparr>gw_db = sample_db\<lparr>members := [sample_member ''m1'' sample_uuid ''u1'' Viewer]\<rparr>,
     gw_joined = [], gw_subscribed = [], gw_closed = [], gw_emitted = []\<rparr>"

definition sample_handshake :: handshake where
  "sample_handshake = \<lparr>hs_namespace = ''/ws/'' @ sample_uuid,
     hs_auth_token = Some (JStr ''Bearer {\"sub\":\"u1\"}''), hs_authorization = None\<rparr>"

theorem ticks_stay_inside_witness:
  "gw_emitted (on_message (''metrics:tick:'' @ sample_uuid) ''7''
       (handleConnection sample_auth 0 True 4 sample_handshake sample_gateway))
     = [Hello 4 sample_uuid Viewer, Tick 4 (JNum 7)]"
proof -
  let ?g = "handleConnection sample_auth 0 True 4 sample_handshake sample_gateway"
  have "json_parse ''{\"sub\":\"u1\"}'' = Some (JObj [(''sub'', JStr ''u1'')])" by code_simp
  moreover have "extractToken sample_handshake = Some ''{\"sub\":\"u1\"}''" by code_simp
  moreover have "extractWorkspaceId (''/ws/'' @ sample_uuid) = Some sample_uuid"
    by (simp add: extractWorkspaceId_iff sample_uuid_def uuid_char_def between_def list_all_iff)
  ultimately have "admitted sample_auth 0 sample_handshake (gw_db sample_gateway) = Some (sample_uuid, ''u1'', Viewer)"
    by (simp add: admitted_def sample_handshake_def verifyAccess_def sample_auth_def role_of_def
        sample_gateway_def sample_defs)
  then have g: "gw_joined ?g = [\<lparr>jn_socket = 4, jn_userId = ''u1'', jn_workspaceId = sample_uuid\<rparr>]"
    "gw_emitted ?g = [Hello 4 sample_uuid Viewer]"
    by (simp_all add: handleConnection_def join_room_def Let_def sample_gateway_def)
  have "gw_step sample_auth sample_gateway ?g" by (rule gw_step.connects) (simp add: sample_gateway_def)
  then have "reaches (gw_step sample_auth) sample_gateway ?g" by (rule reaches_one)
  from ticks_stay_inside [OF this, of "''metrics:tick:'' @ sample_uuid" "''7''"] g
  have "gw_emitted (on_message (''metrics:tick:'' @ sample_uuid) ''7'' ?g) =
      [Hello 4 sample_uuid Viewer, Tick 4 (tick_payload ''7'')]"
    by (simp add: sample_gateway_def TICK_CHANNEL_PREFIX_def)
  moreover have "tick_payload ''7'' = JNum 7" by code_simp
  ultimately show ?thesis by simp
qed

text \<open>
  Claim C35: the handshake of the web socket does not look at the kind of a token. Where both secrets
  are the same, which nothing checks, a refresh token that is still good for a refresh opens the live
  metrics of every workspace its user is a member of, for as long as it lives (a week, against the
  quarter of an hour of an access token), while the HTTP guard refuses the same token.
\<close>

theorem refresh_token_joins:
  assumes "jwt_reads env" and "au_accessSecret env = au_refreshSecret env"
    and "token = tp_refreshToken (issue_tokens env now rnd uid email)" and "token \<noteq> []"
    and "verifyRefresh env now' token \<noteq> None"
    and "extractWorkspaceId (hs_namespace hs) = Some w" and "extractToken hs = Some token"
    and "role_of (gw_db g) w uid = Some r"
  shows "\<lparr>jn_socket = i, jn_userId = uid, jn_workspaceId = w\<rparr> \<in> set (gw_joined (handleConnection env now' True i hs g))
    \<and> authenticate env now' (Some token) = Inl (Unauthorized ''wrong token type'')"
proof -
  let ?p = "refresh_payload uid (uid @ ''.'' @ int_str now @ ''.'' @ rnd)"
  have signed: "token = au_sign env (au_refreshSecret env) ?p (au_refreshTtl env) now"
    using assms(3) by (simp add: issue_tokens_def Let_def)
  obtain payload where read: "verifyAccess env now' token = Some payload"
    using assms(2,5) by (auto simp: verifyAccess_def verifyRefresh_def)
  have "integral ?p" by (simp add: refresh_payload_def)
  with assms(1) read have same: "json_get c payload = json_get c ?p" if "c \<in> {''type'', ''sub'', ''email''}" for c
    using that unfolding jwt_reads_def verifyAccess_def signed by blast
  have "json_get ''sub'' payload = Some (JStr uid)" "json_get ''type'' payload \<noteq> Some (JStr ''access'')"
    using same [of "''sub''"] same [of "''type''"] by (simp_all add: refresh_payload_def)
  then have "admitted env now' hs (gw_db g) = Some (w, uid, r)"
    and "authenticate env now' (Some token) = Inl (Unauthorized ''wrong token type'')"
    using read assms(4,6-8) by (simp_all add: admitted_def authenticate_def validate_def)
  then show ?thesis by (simp add: handleConnection_def join_room_def Let_def)
qed

theorem refresh_token_joins_witness:
  "\<lparr>jn_socket = 4, jn_userId = ''u1'', jn_workspaceId = sample_uuid\<rparr> \<in> set (gw_joined
     (handleConnection sample_auth 600000000 True 4
        \<lparr>hs_namespace = ''/ws/'' @ sample_uuid, hs_auth_token = None, hs_authorization =
           Some (''Bearer '' @ tp_refreshToken (issue_tokens sample_auth 0 ''r'' ''u1'' ''a@x''))\<rparr> sample_gateway))"
proof -
  let ?token = "tp_refreshToken (issue_tokens sample_auth 0 ''r'' ''u1'' ''a@x'')"
  let ?hs = "\<lparr>hs_namespace = ''/ws/'' @ sample_uuid, hs_auth_token = None, hs_authorization = Some (''Bearer '' @ ?token)\<rparr>"
  have reads: "jwt_reads sample_auth"
    by (simp add: jwt_reads_def sample_auth_def json_parse_stringify)
  have live: "verifyRefresh sample_auth 600000000 ?token \<noteq> None"
  proof -
    have "?token = stringify (\<lambda>_. []) (refresh_payload ''u1'' (''u1'' @ ''.'' @ int_str 0 @ ''.'' @ ''r''))"
      by (simp add: issue_tokens_def Let_def sample_auth_def)
    moreover have "integral (refresh_payload x y)" for x y by (simp add: refresh_payload_def)
    ultimately show ?thesis by (simp only: json_parse_stringify verifyRefresh_def sample_auth_def auth_env.simps) simp
  qed
  have full: "?token \<noteq> []" by code_simp
  have parts: "extractWorkspaceId (hs_namespace ?hs) = Some sample_uuid"
    by (simp add: extractWorkspaceId_iff sample_uuid_def uuid_char_def between_def list_all_iff)
  have taken: "extractToken ?hs = Some ?token" by code_simp
  have role: "role_of (gw_db sample_gateway) sample_uuid ''u1'' = Some Viewer"
    by (simp add: role_of_def sample_gateway_def sample_member_def)
  have secrets: "au_accessSecret sample_auth = au_refreshSecret sample_auth" by (simp add: sample_auth_def)
  show ?thesis
    using refresh_token_joins [OF reads secrets refl full live parts taken role] by blast
qed

end
