(* ===== verification/Bootstrap.thy ===== *)
theory Bootstrap
  imports JsText
begin

text \<open>
  The API's front door: the CORS decision of \<open>main.ts\<close> and the health routes
  (\<open>health.controller.ts\<close>, with the \<open>ping\<close> of \<open>redis.service.ts\<close> and
  \<open>clickhouse.service.ts\<close>). What the three stores answer is a parameter; \<open>None\<close> is a throw.
\<close>

section \<open>CORS\<close>

definition cors_allow_list :: "string \<Rightarrow> string list" where
  "cors_allow_list config = filter (\<lambda>s. s \<noteq> []) (map js_trim (split_on (CHR '','') (js_trim config)))"

definition cors_allows :: "string \<Rightarrow> string option \<Rightarrow> bool" where
  "cors_allows config origin =
     (let allowList = cors_allow_list config in
      case origin of
        None \<Rightarrow> True
      | Some o' \<Rightarrow>
          if o' = [] then True
          else if length allowList = 0 then True
          else if ''*'' \<in> set allowList \<or> o' \<in> set allowList then True
          else False)"

section \<open>Health\<close>

definition redis_ping :: "string option \<Rightarrow> bool" where
  "redis_ping reply = (case reply of Some pong \<Rightarrow> pong = ''PONG'' | None \<Rightarrow> False)"

definition clickhouse_ping :: "bool option \<Rightarrow> bool" where
  "clickhouse_ping reply = (case reply of Some success \<Rightarrow> success | None \<Rightarrow> False)"

record ready_answer =
  ra_status :: string
  ra_postgres :: bool
  ra_redis :: bool
  ra_clickhouse :: bool

definition ready :: "unit option \<Rightarrow> string option \<Rightarrow> bool option \<Rightarrow> ready_answer" where
  "ready postgres redis clickhouse =
     (let pg = (postgres \<noteq> None); rd = redis_ping redis; ch = clickhouse_ping clickhouse;
          fine = (pg \<and> rd \<and> ch)
      in \<lparr>ra_status = (if fine then ''ok'' else ''degraded''), ra_postgres = pg, ra_redis = rd,
          ra_clickhouse = ch\<rparr>)"

section \<open>Facts\<close>

lemma js_trim_no_space: "list_all (\<lambda>c. \<not> is_space c) t \<Longrightarrow> js_trim t = t"
proof -
  assume *: "list_all (\<lambda>c. \<not> is_space c) t"
  have "dropWhile is_space t = t" using * by (cases t) auto
  moreover have "dropWhile is_space (rev t) = rev t"
    using * by (cases t rule: rev_cases) (auto simp: list_all_iff)
  ultimately show ?thesis by (simp add: js_trim_def)
qed

lemma join_no_space:
  "\<forall>t \<in> set ts. list_all (\<lambda>c. \<not> is_space c) t \<Longrightarrow> list_all (\<lambda>c. \<not> is_space c) (js_join [CHR '',''] ts)"
  by (induction ts rule: induct_list012) (auto simp: is_space_def)

text \<open>
  What a configured list of origins means. If \<open>CORS_ORIGIN\<close> is a list of non-empty
  names without commas and white space, joined by commas, a browser's origin is allowed exactly
  when it is empty, is in the list, or \<open>*\<close> is. The list being empty, which is the default,
  allows every origin, with credentials.
\<close>

theorem cors_policy:
  assumes "\<forall>t \<in> set allowed. t \<noteq> [] \<and> CHR '','' \<notin> set t \<and> list_all (\<lambda>c. \<not> is_space c) t"
  shows "cors_allows (js_join '','' allowed) (Some origin) \<longleftrightarrow>
    origin = [] \<or> allowed = [] \<or> ''*'' \<in> set allowed \<or> origin \<in> set allowed"
proof -
  have "cors_allow_list (js_join '','' allowed) = allowed"
  proof (cases "allowed = []")
    case True
    then show ?thesis by (simp add: cors_allow_list_def js_trim_def)
  next
    case False
    have trim: "js_trim (js_join '','' allowed) = js_join '','' allowed"
      using assms by (intro js_trim_no_space join_no_space) blast
    have "split_on (CHR '','') (js_join '','' allowed) = allowed"
      using False assms by (intro split_join) auto
    moreover have "map js_trim allowed = allowed"
      using assms by (intro map_idI js_trim_no_space) blast
    moreover have "filter (\<lambda>t. t \<noteq> []) allowed = allowed"
      using assms by (intro filter_True) blast
    ultimately show ?thesis unfolding cors_allow_list_def trim by simp
  qed
  then show ?thesis by (simp add: cors_allows_def)
qed

theorem cors_policy_witness:
  "cors_allows ''http://a,http://b'' (Some ''http://b'') \<and> \<not> cors_allows ''http://a,http://b'' (Some ''http://c'')"
  using cors_policy [of "[''http://a'', ''http://b'']" "''http://b''"]
    cors_policy [of "[''http://a'', ''http://b'']" "''http://c''"]
  by (simp add: is_space_def)

end
