(* ===== verification/Client.thy ===== *)
theory Client
  imports S3 Json Prelude
begin

text \<open>
  The browser's access layer (\<open>frontend/lib\<close>): the \<open>fetch\<close> wrapper \<open>api.ts\<close>, the session in
  \<open>localStorage\<close> (\<open>auth.ts\<close>), and the calls of \<open>dashboards.ts\<close>, \<open>alerts.ts\<close>, \<open>apikeys.ts\<close>,
  \<open>forecast.ts\<close> and \<open>pdf.ts\<close>, which all build their URL from the stored workspace; further
  \<open>filters.ts\<close>, \<open>onboarding.ts\<close>, \<open>theme.ts\<close> and \<open>ws.ts\<close>. The network, the number and string
  conversions of odd values and the calendar arithmetic of \<open>setDate\<close> are parameters. The state
  is the page: whether there is a window, its storage, and the requests sent so far.
\<close>

type_synonym storage = "string \<Rightarrow> string option"

record http_call =
  hc_url :: string
  hc_method :: string
  hc_headers :: "(string \<times> string) list"
  hc_body :: "string option"

record page =
  pg_window :: bool
  pg_storage :: storage
  pg_sent :: "http_call list"

text \<open>A rejected \<open>fetch\<close>, or a response: status, status text and body text.\<close>

datatype net_reply = Unreachable string | Replied int string string

datatype client_error = ApiError int string "json option" | JsError string

record client_env =
  ce_api_url :: "string option"
  ce_ws_url :: "string option"
  ce_net :: "http_call \<Rightarrow> net_reply"
  ce_string_of :: "json \<Rightarrow> string"
  ce_fraction :: "rat \<Rightarrow> string"
  ce_minus_days :: "int \<Rightarrow> int \<Rightarrow> int"

type_synonym 'a act = "page \<Rightarrow> (client_error + 'a) \<times> page"

definition ret :: "'a \<Rightarrow> 'a act" where
  "ret x pg = (Inr x, pg)"

definition raise :: "client_error \<Rightarrow> 'a act" where
  "raise e pg = (Inl e, pg)"

definition bind_act :: "'a act \<Rightarrow> ('a \<Rightarrow> 'b act) \<Rightarrow> 'b act" where
  "bind_act m k pg = (case m pg of (Inl e, pg') \<Rightarrow> (Inl e, pg') | (Inr x, pg') \<Rightarrow> k x pg')"

section \<open>Storage\<close>

definition getItem :: "string \<Rightarrow> page \<Rightarrow> string option" where
  "getItem k pg = pg_storage pg k"

definition setItem :: "string \<Rightarrow> string \<Rightarrow> page \<Rightarrow> page" where
  "setItem k v pg = pg\<lparr>pg_storage := (pg_storage pg)(k \<mapsto> v)\<rparr>"

definition removeItem :: "string \<Rightarrow> page \<Rightarrow> page" where
  "removeItem k pg = pg\<lparr>pg_storage := (pg_storage pg)(k := None)\<rparr>"

definition ACCESS_KEY :: string where "ACCESS_KEY = ''if.access''"
definition REFRESH_KEY :: string where "REFRESH_KEY = ''if.refresh''"
definition WORKSPACE_KEY :: string where "WORKSPACE_KEY = ''if.workspace''"

text \<open>A value in a template literal or as an argument of \<open>setItem\<close>; \<open>None\<close> is \<open>undefined\<close>.\<close>

definition as_text :: "client_env \<Rightarrow> json option \<Rightarrow> string" where
  "as_text env v = (case v of None \<Rightarrow> ''undefined'' | Some (JStr s) \<Rightarrow> s | Some j \<Rightarrow> ce_string_of env j)"

section \<open>The fetch wrapper\<close>

text \<open>The \<open>init\<close> the callers pass: none of them passes headers.\<close>

record init =
  in_method :: "string option"
  in_body :: "string option"
  in_token :: "string opt_field"

definition get_init :: init where
  "get_init = \<lparr>in_method = None, in_body = None, in_token = Undefined\<rparr>"

definition API_BASE :: "client_env \<Rightarrow> string" where
  "API_BASE env = (case ce_api_url env of Some u \<Rightarrow> u | None \<Rightarrow> ''http://localhost:4000'')"

definition effective_token :: "string opt_field \<Rightarrow> page \<Rightarrow> string option" where
  "effective_token token pg =
     (case token of
        Undefined \<Rightarrow> if pg_window pg then getItem ''if.access'' pg else None
      | Null \<Rightarrow> None
      | Val t \<Rightarrow> Some t)"

definition api_call :: "client_env \<Rightarrow> string \<Rightarrow> init \<Rightarrow> page \<Rightarrow> http_call" where
  "api_call env path i pg =
     \<lparr>hc_url = (if starts_with ''http'' path then path else API_BASE env @ path),
      hc_method = (case in_method i of Some m \<Rightarrow> m | None \<Rightarrow> ''GET''),
      hc_headers = (''content-type'', ''application/json'') #
        (case effective_token (in_token i) pg of
           Some t \<Rightarrow> if t = [] then [] else [(''authorization'', ''Bearer '' @ t)]
         | None \<Rightarrow> []),
      hc_body = in_body i\<rparr>"

text \<open>The result is \<open>None\<close> for the \<open>undefined\<close> of a 204.\<close>

definition apiFetch :: "client_env \<Rightarrow> string \<Rightarrow> init \<Rightarrow> json option act" where
  "apiFetch env path i pg =
     (let call = api_call env path i pg; pg' = pg\<lparr>pg_sent := pg_sent pg @ [call]\<rparr> in
      case ce_net env call of
        Unreachable m \<Rightarrow> (Inl (JsError m), pg')
      | Replied status statusText text \<Rightarrow>
          if \<not> (200 \<le> status \<and> status \<le> 299)
          then (Inl (ApiError status (int_str status @ '' '' @ statusText) (json_parse text)), pg')
          else if status = 204 then (Inr None, pg')
          else (case json_parse text of
                  None \<Rightarrow> (Inl (JsError ''SyntaxError''), pg')
                | Some j \<Rightarrow> (Inr (Some j), pg')))"

section \<open>The session\<close>

text \<open>\<open>x.k\<close> of a value that may be \<open>undefined\<close> or \<open>null\<close>, both of which throw.\<close>

definition member_of :: "json option \<Rightarrow> string \<Rightarrow> client_error + json option" where
  "member_of v k =
     (case v of
        None \<Rightarrow> Inl (JsError ''TypeError'')
      | Some JNull \<Rightarrow> Inl (JsError ''TypeError'')
      | Some j \<Rightarrow> Inr (json_get k j))"

definition lift_result :: "client_error + 'a \<Rightarrow> 'a act" where
  "lift_result r pg = (r, pg)"

definition store_tokens :: "client_env \<Rightarrow> json option \<Rightarrow> unit act" where
  "store_tokens env tokens =
     bind_act (lift_result (member_of tokens ''accessToken'')) (\<lambda>a.
     bind_act (\<lambda>pg. (Inr (), setItem ACCESS_KEY (as_text env a) pg)) (\<lambda>_.
     bind_act (lift_result (member_of tokens ''refreshToken'')) (\<lambda>r pg.
       (Inr (), setItem REFRESH_KEY (as_text env r) pg))))"

definition storeSession :: "client_env \<Rightarrow> json option \<Rightarrow> unit act" where
  "storeSession env session pg =
     (if \<not> pg_window pg then (Inr (), pg)
      else bind_act (lift_result (member_of session ''tokens'')) (\<lambda>tokens.
           bind_act (store_tokens env tokens) (\<lambda>_.
           bind_act (lift_result (member_of session ''workspace'')) (\<lambda>ws pg.
             (Inr (), setItem WORKSPACE_KEY
               (case ws of None \<Rightarrow> ''undefined'' | Some j \<Rightarrow> stringify (ce_fraction env) j) pg)))) pg)"

definition clearSession :: "page \<Rightarrow> page" where
  "clearSession pg =
     (if \<not> pg_window pg then pg
      else removeItem WORKSPACE_KEY (removeItem REFRESH_KEY (removeItem ACCESS_KEY pg)))"

definition getAccessToken :: "page \<Rightarrow> string option" where
  "getAccessToken pg = (if \<not> pg_window pg then None else getItem ACCESS_KEY pg)"

definition getRefreshToken :: "page \<Rightarrow> string option" where
  "getRefreshToken pg = (if \<not> pg_window pg then None else getItem REFRESH_KEY pg)"

definition getActiveWorkspace :: "json option act" where
  "getActiveWorkspace pg =
     (if \<not> pg_window pg then (Inr None, pg)
      else case getItem WORKSPACE_KEY pg of
        None \<Rightarrow> (Inr None, pg)
      | Some raw \<Rightarrow>
          if raw = [] then (Inr None, pg)
          else (case json_parse raw of
                  None \<Rightarrow> (Inl (JsError ''SyntaxError''), pg)
                | Some j \<Rightarrow> (Inr (Some j), pg)))"

definition post_init :: "client_env \<Rightarrow> json \<Rightarrow> init" where
  "post_init env body =
     \<lparr>in_method = Some ''POST'', in_body = Some (stringify (ce_fraction env) body), in_token = Undefined\<rparr>"

definition client_signup :: "client_env \<Rightarrow> json \<Rightarrow> json option act" where
  "client_signup env input =
     bind_act (apiFetch env ''/api/auth/signup'' (post_init env input)) (\<lambda>session.
     bind_act (storeSession env session) (\<lambda>_. ret session))"

definition client_login :: "client_env \<Rightarrow> json \<Rightarrow> json option act" where
  "client_login env input =
     bind_act (apiFetch env ''/api/auth/login'' (post_init env input)) (\<lambda>session.
     bind_act (storeSession env session) (\<lambda>_. ret session))"

definition client_refresh :: "client_env \<Rightarrow> json option act" where
  "client_refresh env pg =
     (case getRefreshToken pg of
        None \<Rightarrow> (Inr None, pg)
      | Some t \<Rightarrow>
          if t = [] then (Inr None, pg)
          else
            bind_act (apiFetch env ''/api/auth/refresh''
                        (post_init env (JObj [(''refreshToken'', JStr t)]))) (\<lambda>res.
            bind_act (lift_result (member_of res ''tokens'')) (\<lambda>tokens.
            bind_act (\<lambda>pg. if pg_window pg then store_tokens env tokens pg else (Inr (), pg)) (\<lambda>_.
              ret tokens))) pg)"

definition logout :: "page \<Rightarrow> page" where
  "logout pg = clearSession pg"

section \<open>Calls under the active workspace\<close>

text \<open>\<open>workspaceBase()\<close>: the same function in four files, \<open>base()\<close> with a suffix in two.\<close>

definition workspaceBase :: "client_env \<Rightarrow> string act" where
  "workspaceBase env =
     bind_act getActiveWorkspace (\<lambda>ws.
       if \<not> truthy ws then raise (JsError ''no active workspace'')
       else ret (''/api/workspaces/'' @
              as_text env (case ws of Some j \<Rightarrow> json_get ''id'' j | None \<Rightarrow> None)))"

definition ws_fetch :: "client_env \<Rightarrow> string \<Rightarrow> init \<Rightarrow> json option act" where
  "ws_fetch env suffix i = bind_act (workspaceBase env) (\<lambda>base. apiFetch env (base @ suffix) i)"

definition form_char :: "char \<Rightarrow> string" where
  "form_char c =
     (if c = CHR '' '' then ''+''
      else if between 65 90 c \<or> between 97 122 c \<or> between 48 57 c \<or>
              c \<in> {CHR ''*'', CHR ''-'', CHR ''.'', CHR ''_''}
      then [c] else concat (map percent (utf8_char c)))"

text \<open>\<open>new URLSearchParams(pairs).toString()\<close>\<close>

definition form_encode :: "(string \<times> string) list \<Rightarrow> string" where
  "form_encode kvs =
     js_join ''&'' (map (\<lambda>(k, v). concat (map form_char k) @ ''='' @ concat (map form_char v)) kvs)"

definition listDashboards :: "client_env \<Rightarrow> json option act" where
  "listDashboards env = ws_fetch env ''/dashboards'' get_init"

definition getDashboard :: "client_env \<Rightarrow> string \<Rightarrow> json option act" where
  "getDashboard env i = ws_fetch env (''/dashboards/'' @ i) get_init"

definition createDashboard :: "client_env \<Rightarrow> json \<Rightarrow> json option act" where
  "createDashboard env input = ws_fetch env ''/dashboards'' (post_init env input)"

text \<open>The body of \<open>createWidget\<close>: members that are \<open>undefined\<close> are left out by \<open>JSON.stringify\<close>.\<close>

definition widget_body :: "json \<Rightarrow> json" where
  "widget_body input = defined_members
     [(''type'', json_get ''type'' input), (''title'', json_get ''title'' input),
      (''config'', json_get ''configJson'' input), (''positionX'', json_get ''positionX'' input),
      (''positionY'', json_get ''positionY'' input), (''width'', json_get ''width'' input),
      (''height'', json_get ''height'' input)]"

definition createWidget :: "client_env \<Rightarrow> string \<Rightarrow> json \<Rightarrow> json option act" where
  "createWidget env did input =
     ws_fetch env (''/dashboards/'' @ did @ ''/widgets'') (post_init env (widget_body input))"

definition fetchKpi :: "client_env \<Rightarrow> string \<Rightarrow> string \<Rightarrow> string \<Rightarrow> string option \<Rightarrow> json option act" where
  "fetchKpi env metric from_iso to_iso granularity =
     (let qs = form_encode [(''metric'', metric), (''from'', from_iso), (''to'', to_iso),
        (''granularity'', case granularity of Some g \<Rightarrow> g | None \<Rightarrow> ''day'')]
      in ws_fetch env (''/events/kpi?'' @ qs) get_init)"

definition listAlerts :: "client_env \<Rightarrow> json option act" where
  "listAlerts env = ws_fetch env ''/alerts'' get_init"

definition alertHistory :: "client_env \<Rightarrow> json option act" where
  "alertHistory env = ws_fetch env ''/alerts/history'' get_init"

definition createAlert :: "client_env \<Rightarrow> json \<Rightarrow> json option act" where
  "createAlert env input = ws_fetch env ''/alerts'' (post_init env input)"

definition toggleAlert :: "client_env \<Rightarrow> string \<Rightarrow> bool \<Rightarrow> json option act" where
  "toggleAlert env i enabled =
     ws_fetch env (''/alerts/'' @ i)
       ((post_init env (JObj [(''enabled'', JBool enabled)]))\<lparr>in_method := Some ''PATCH''\<rparr>)"

definition deleteAlert :: "client_env \<Rightarrow> string \<Rightarrow> unit act" where
  "deleteAlert env i =
     bind_act (ws_fetch env (''/alerts/'' @ i) (get_init\<lparr>in_method := Some ''DELETE''\<rparr>)) (\<lambda>_. ret ())"

definition listApiKeys :: "client_env \<Rightarrow> json option act" where
  "listApiKeys env = ws_fetch env ''/api-keys'' get_init"

definition createApiKey :: "client_env \<Rightarrow> json \<Rightarrow> json option act" where
  "createApiKey env input = ws_fetch env ''/api-keys'' (post_init env input)"

definition fetchForecast :: "client_env \<Rightarrow> string \<Rightarrow> int option \<Rightarrow> string option \<Rightarrow> json option act" where
  "fetchForecast env metric horizonDays modelKind =
     (let qs = [(''metric'', metric),
                (''horizon_days'', int_str (case horizonDays of Some n \<Rightarrow> n | None \<Rightarrow> 30))] @
               (case modelKind of Some k \<Rightarrow> if k = [] then [] else [(''model_kind'', k)] | None \<Rightarrow> [])
      in ws_fetch env (''/forecast?'' @ form_encode qs) get_init)"

definition fetchModels :: "client_env \<Rightarrow> json option act" where
  "fetchModels env = ws_fetch env ''/forecast/models'' get_init"

definition enqueuePdf :: "client_env \<Rightarrow> string \<Rightarrow> json option act" where
  "enqueuePdf env did =
     ws_fetch env (''/dashboards/'' @ did @ ''/pdf'') (get_init\<lparr>in_method := Some ''POST''\<rparr>)"

definition pollPdf :: "client_env \<Rightarrow> string \<Rightarrow> string \<Rightarrow> json option act" where
  "pollPdf env did jid = ws_fetch env (''/dashboards/'' @ did @ ''/pdf/'' @ jid) get_init"

definition downloadPdf :: "client_env \<Rightarrow> string \<Rightarrow> string \<Rightarrow> json option act" where
  "downloadPdf env did jid =
     ws_fetch env (''/dashboards/'' @ did @ ''/pdf/'' @ jid @ ''/download'') get_init"

text \<open>The query of the funnel and cohort widgets, which call \<open>apiFetch\<close> themselves.\<close>

definition fetchFunnel :: "client_env \<Rightarrow> int \<Rightarrow> string list \<Rightarrow> int \<Rightarrow> int \<Rightarrow> json option act" where
  "fetchFunnel env now steps windowDays windowHours =
     ws_fetch env (''/events/funnel?'' @ form_encode
       [(''steps'', js_join '','' steps), (''from'', toISOString (ce_minus_days env now windowDays)),
        (''to'', toISOString now), (''windowHours'', int_str windowHours)]) get_init"

definition fetchCohorts :: "client_env \<Rightarrow> int \<Rightarrow> int \<Rightarrow> json option act" where
  "fetchCohorts env now windowDays =
     ws_fetch env (''/events/cohort?'' @ form_encode
       [(''from'', toISOString (ce_minus_days env now windowDays)), (''to'', toISOString now)]) get_init"

text \<open>The address of the socket of a workspace.\<close>

definition socket_address :: "client_env \<Rightarrow> string \<Rightarrow> string" where
  "socket_address env wid =
     (case ce_ws_url env of Some u \<Rightarrow> u | None \<Rightarrow> ''ws://localhost:4000'') @ ''/ws/'' @ wid"

section \<open>Filters, the checklist and the theme\<close>

record filters =
  fl_from :: string
  fl_to :: string
  fl_country :: string
  fl_device :: string
  fl_plan :: string

definition defaultFilters :: "client_env \<Rightarrow> int \<Rightarrow> int \<Rightarrow> filters" where
  "defaultFilters env now windowDays =
     \<lparr>fl_from = toISOString (ce_minus_days env now windowDays), fl_to = toISOString now,
      fl_country = [], fl_device = [], fl_plan = []\<rparr>"

definition filtersToParams :: "filters \<Rightarrow> (string \<times> string) list" where
  "filtersToParams f =
     [(''from'', fl_from f), (''to'', fl_to f)] @
     (if fl_country f \<noteq> [] then [(''country'', fl_country f)] else []) @
     (if fl_device f \<noteq> [] then [(''device'', fl_device f)] else []) @
     (if fl_plan f \<noteq> [] then [(''plan'', fl_plan f)] else [])"

definition isEventMarkedSent :: "page \<Rightarrow> bool" where
  "isEventMarkedSent pg = (if \<not> pg_window pg then False else getItem ''if.onboarding.eventSent'' pg = Some ''1'')"

definition markEventSent :: "page \<Rightarrow> page" where
  "markEventSent pg = (if \<not> pg_window pg then pg else setItem ''if.onboarding.eventSent'' ''1'' pg)"

definition isChecklistDismissed :: "page \<Rightarrow> bool" where
  "isChecklistDismissed pg = (if \<not> pg_window pg then False else getItem ''if.onboarding.dismissed'' pg = Some ''1'')"

definition dismissChecklist :: "page \<Rightarrow> page" where
  "dismissChecklist pg = (if \<not> pg_window pg then pg else setItem ''if.onboarding.dismissed'' ''1'' pg)"

definition resetChecklist :: "page \<Rightarrow> page" where
  "resetChecklist pg =
     (if \<not> pg_window pg then pg
      else removeItem ''if.onboarding.eventSent'' (removeItem ''if.onboarding.dismissed'' pg))"

text \<open>The root element as far as the theme goes: the class \<open>dark\<close> and the colour scheme.\<close>

datatype theme = Light | Dark

definition theme_str :: "theme \<Rightarrow> string" where
  "theme_str t = (case t of Light \<Rightarrow> ''light'' | Dark \<Rightarrow> ''dark'')"

record root_element =
  re_dark :: bool
  re_colorScheme :: string

definition getStoredTheme :: "page \<Rightarrow> theme option" where
  "getStoredTheme pg =
     (if \<not> pg_window pg then None
      else if getItem ''if.theme'' pg = Some ''light'' then Some Light
      else if getItem ''if.theme'' pg = Some ''dark'' then Some Dark else None)"

definition getSystemTheme :: "bool \<Rightarrow> page \<Rightarrow> theme" where
  "getSystemTheme prefers_dark pg =
     (if \<not> pg_window pg then Dark else if prefers_dark then Dark else Light)"

definition getInitialTheme :: "bool \<Rightarrow> page \<Rightarrow> theme" where
  "getInitialTheme prefers_dark pg =
     (case getStoredTheme pg of Some t \<Rightarrow> t | None \<Rightarrow> getSystemTheme prefers_dark pg)"

definition applyTheme :: "theme \<Rightarrow> root_element \<Rightarrow> root_element" where
  "applyTheme t r = r\<lparr>re_dark := (t = Dark), re_colorScheme := theme_str t\<rparr>"

definition setTheme :: "theme \<Rightarrow> page \<times> root_element \<Rightarrow> page \<times> root_element" where
  "setTheme t x =
     (let (pg, r) = x in
      if \<not> pg_window pg then (pg, r) else (setItem ''if.theme'' (theme_str t) pg, applyTheme t r))"

text \<open>The script injected into the head, run where there is a window.\<close>

definition themeBootScript :: "bool \<Rightarrow> page \<Rightarrow> root_element \<Rightarrow> root_element" where
  "themeBootScript prefers_dark pg r =
     (let stored = getItem ''if.theme'' pg;
          t = (if stored \<noteq> Some ''light'' \<and> stored \<noteq> Some ''dark''
               then if prefers_dark then ''dark'' else ''light''
               else the stored);
          r1 = (if t = ''dark'' then r\<lparr>re_dark := True\<rparr> else r\<lparr>re_dark := False\<rparr>)
      in r1\<lparr>re_colorScheme := t\<rparr>)"

text \<open>The toggle button: it applies the initial theme when mounted, and each click flips.\<close>

definition toggle_mounts :: "bool \<Rightarrow> page \<times> root_element \<Rightarrow> theme \<times> page \<times> root_element" where
  "toggle_mounts prefers_dark x =
     (let (pg, r) = x; t = getInitialTheme prefers_dark pg in (t, pg, applyTheme t r))"

definition toggle_clicked :: "theme \<times> page \<times> root_element \<Rightarrow> theme \<times> page \<times> root_element" where
  "toggle_clicked x =
     (let (t, rest) = x; next_theme = (if t = Dark then Light else Dark)
      in (next_theme, setTheme next_theme rest))"

section \<open>Facts\<close>

lemma bind_act_ret [simp]: "bind_act (ret x) k = k x"
  by (simp add: bind_act_def ret_def fun_eq_iff)

lemma bind_act_raise [simp]: "bind_act (raise e) k = raise e"
  by (simp add: bind_act_def raise_def fun_eq_iff)

lemma bind_act_apply:
  "bind_act m k pg = (case fst (m pg) of Inl e \<Rightarrow> (Inl e, snd (m pg)) | Inr x \<Rightarrow> k x (snd (m pg)))"
  by (cases "m pg") (simp add: bind_act_def split: sum.split)

lemma apiFetch_sent [simp]: "pg_sent (snd (apiFetch env path i pg)) = pg_sent pg @ [api_call env path i pg]"
  by (simp add: apiFetch_def Let_def split: net_reply.split option.split)

lemma apiFetch_storage [simp]:
  "pg_storage (snd (apiFetch env path i pg)) = pg_storage pg"
  "pg_window (snd (apiFetch env path i pg)) = pg_window pg"
  by (simp_all add: apiFetch_def Let_def split: net_reply.split option.split)

text \<open>A page whose stored workspace is the printed object \<open>ws\<close> with id \<open>i\<close>.\<close>

definition signed_in :: "client_env \<Rightarrow> page \<Rightarrow> string \<Rightarrow> string \<Rightarrow> bool" where
  "signed_in env pg a i \<longleftrightarrow> pg_window pg \<and> getAccessToken pg = Some a \<and> a \<noteq> [] \<and>
     (\<exists>ws. getActiveWorkspace pg = (Inr (Some ws), pg) \<and> truthy (Some ws) \<and> json_get ''id'' ws = Some (JStr i))"

text \<open>The request \<open>c\<close> sends from \<open>pg\<close>: one, below the workspace, with the bearer token.\<close>

definition sends_inside :: "client_env \<Rightarrow> page \<Rightarrow> string \<Rightarrow> string \<Rightarrow> 'a act \<Rightarrow> bool" where
  "sends_inside env pg a i c \<longleftrightarrow>
     (\<exists>call. pg_sent (snd (c pg)) = pg_sent pg @ [call] \<and>
        starts_with (API_BASE env @ ''/api/workspaces/'' @ i @ ''/'') (hc_url call) \<and>
        (''authorization'', ''Bearer '' @ a) \<in> set (hc_headers call)) \<and>
     pg_storage (snd (c pg)) = pg_storage pg"

lemma workspaceBase_signed_in:
  "signed_in env pg a i \<Longrightarrow> workspaceBase env pg = (Inr (''/api/workspaces/'' @ i), pg)"
  by (auto simp: signed_in_def workspaceBase_def bind_act_apply as_text_def ret_def)

lemma ws_fetch_inside:
  assumes "signed_in env pg a i" and "in_token x = Undefined"
  shows "sends_inside env pg a i (ws_fetch env (CHR ''/'' # suffix) x)"
proof -
  have run: "ws_fetch env (CHR ''/'' # suffix) x pg =
      apiFetch env (''/api/workspaces/'' @ i @ CHR ''/'' # suffix) x pg"
    by (simp add: ws_fetch_def bind_act_apply workspaceBase_signed_in [OF assms(1)])
  have token: "effective_token (in_token x) pg = Some a" "a \<noteq> []"
    using assms by (auto simp: effective_token_def signed_in_def getAccessToken_def ACCESS_KEY_def split: if_splits)
  let ?call = "api_call env (''/api/workspaces/'' @ i @ CHR ''/'' # suffix) x pg"
  have "hc_url ?call = (API_BASE env @ ''/api/workspaces/'' @ i @ ''/'') @ suffix"
    by (simp add: api_call_def starts_with_def)
  then have "starts_with (API_BASE env @ ''/api/workspaces/'' @ i @ ''/'') (hc_url ?call)"
    unfolding starts_with_iff by blast
  moreover have "(''authorization'', ''Bearer '' @ a) \<in> set (hc_headers ?call)"
    by (simp add: api_call_def token)
  ultimately show ?thesis
    unfolding sends_inside_def run by (intro conjI exI [of _ ?call]) simp_all
qed

text \<open>What a call does with the answer neither sends nor stores.\<close>

lemma sends_inside_ret: "sends_inside env pg a i c \<Longrightarrow> sends_inside env pg a i (bind_act c (\<lambda>_. ret x))"
  by (simp add: sends_inside_def bind_act_apply ret_def split: prod.split sum.split)

lemma bind_act_assoc: "bind_act (bind_act c f) g = bind_act c (\<lambda>x. bind_act (f x) g)"
  by (auto simp: bind_act_apply split: prod.split sum.split)

lemma ret_bind [simp]: "bind_act (ret x) f = f x"
  by (auto simp: bind_act_apply ret_def)

lemma ws_fetch_no_workspace:
  assumes "getActiveWorkspace pg = (Inr None, pg)"
  shows "ws_fetch env suffix x pg = (Inl (JsError ''no active workspace''), pg)"
  by (simp add: ws_fetch_def workspaceBase_def bind_act_apply assms truthy_def raise_def)

lemma post_init_token [simp]: "in_token (post_init env j) = Undefined" "in_token get_init = Undefined"
  by (simp_all add: post_init_def get_init_def)

lemmas call_defs = listDashboards_def getDashboard_def createDashboard_def createWidget_def fetchKpi_def
  listAlerts_def alertHistory_def createAlert_def toggleAlert_def listApiKeys_def createApiKey_def
  fetchForecast_def fetchModels_def enqueuePdf_def pollPdf_def downloadPdf_def fetchFunnel_def fetchCohorts_def

lemma storage_simps [simp]:
  "getItem k (setItem k' v pg) = (if k = k' then Some v else getItem k pg)"
  "getItem k (removeItem k' pg) = (if k = k' then None else getItem k pg)"
  "pg_window (setItem k v pg) = pg_window pg" "pg_window (removeItem k pg) = pg_window pg"
  "pg_sent (setItem k v pg) = pg_sent pg"
  by (simp_all add: getItem_def setItem_def removeItem_def)

lemma keys_distinct [simp]:
  "ACCESS_KEY \<noteq> REFRESH_KEY" "REFRESH_KEY \<noteq> ACCESS_KEY" "ACCESS_KEY \<noteq> WORKSPACE_KEY"
  "WORKSPACE_KEY \<noteq> ACCESS_KEY" "REFRESH_KEY \<noteq> WORKSPACE_KEY" "WORKSPACE_KEY \<noteq> REFRESH_KEY"
  by (simp_all add: ACCESS_KEY_def REFRESH_KEY_def WORKSPACE_KEY_def)

lemma signed_out:
  "pg_window pg \<Longrightarrow> getActiveWorkspace (logout pg) = (Inr None, logout pg)"
  "pg_window pg \<Longrightarrow> getAccessToken (logout pg) = None"
  "pg_window pg \<Longrightarrow> getRefreshToken (logout pg) = None"
  by (simp_all add: logout_def clearSession_def getActiveWorkspace_def getAccessToken_def getRefreshToken_def)

text \<open>What an answer of sign-up or login must look like for the session to be complete.\<close>

definition session_json :: "string \<Rightarrow> string \<Rightarrow> string \<Rightarrow> json \<Rightarrow> json \<Rightarrow> bool" where
  "session_json a r i ws session \<longleftrightarrow>
     (\<exists>toks. json_get ''tokens'' session = Some toks \<and> toks \<noteq> JNull \<and>
        json_get ''accessToken'' toks = Some (JStr a) \<and> json_get ''refreshToken'' toks = Some (JStr r)) \<and>
     json_get ''workspace'' session = Some ws \<and> json_get ''id'' ws = Some (JStr i) \<and>
     session \<noteq> JNull \<and> integral session \<and> integral ws"

lemma json_get_object: "json_get k j = Some v \<Longrightarrow> \<exists>kvs. j = JObj kvs"
  by (cases j) auto

lemma storeSession_stores:
  assumes "session_json a r i ws session" and "pg_window pg"
  shows "storeSession env (Some session) pg =
    (Inr (), setItem WORKSPACE_KEY (stringify (ce_fraction env) ws)
       (setItem REFRESH_KEY r (setItem ACCESS_KEY a pg)))"
proof -
  obtain toks kvs tvs where "json_get ''tokens'' session = Some toks" "session = JObj kvs" "toks = JObj tvs"
    "json_get ''accessToken'' toks = Some (JStr a)" "json_get ''refreshToken'' toks = Some (JStr r)"
    "json_get ''workspace'' session = Some ws"
    using assms(1) json_get_object unfolding session_json_def by metis
  then show ?thesis
    using assms(2)
    by (simp add: storeSession_def store_tokens_def bind_act_apply lift_result_def member_of_def as_text_def)
qed

section \<open>Properties\<close>

text \<open>
  Claim C19: a login is the session of every later call. If the API answers a login with a
  complete session object (tokens and a workspace with an id, whose numbers are whole), then the
  tokens and the workspace read back from the storage are the ones of the answer, each of the
  nineteen calls that the client's modules for a workspace export then sends exactly one request,
  below \<open>/api/workspaces/\<close> and that workspace's id, under that access token, without touching the
  storage; after a logout the same calls fail and send nothing.
\<close>

theorem session_round_trip:
  assumes "pg_window pg" and "session_json a r i ws session" and "a \<noteq> []"
    and "ce_net env (api_call env ''/api/auth/login'' (post_init env input) pg)
           = Replied 200 st (stringify (ce_fraction env) session)"
  shows "let pg' = snd (client_login env input pg);
             calls = [listDashboards env, getDashboard env d, createDashboard env j, createWidget env d j,
               fetchKpi env m t1 t2 g, listAlerts env, alertHistory env, createAlert env j,
               toggleAlert env x b, bind_act (deleteAlert env x) (\<lambda>_. ret None), listApiKeys env, createApiKey env j, fetchForecast env m h k,
               fetchModels env, enqueuePdf env d, pollPdf env d x, downloadPdf env d x,
               fetchFunnel env now steps wd wh, fetchCohorts env now wd]
    in fst (client_login env input pg) = Inr (Some session)
     \<and> getAccessToken pg' = Some a \<and> getRefreshToken pg' = Some r
     \<and> getActiveWorkspace pg' = (Inr (Some ws), pg')
     \<and> list_all (sends_inside env pg' a i) calls
     \<and> list_all (\<lambda>c. c (logout pg') = (Inl (JsError ''no active workspace''), logout pg')) calls"
proof -
  let ?pg = "setItem WORKSPACE_KEY (stringify (ce_fraction env) ws) (setItem REFRESH_KEY r (setItem ACCESS_KEY a
      (snd (apiFetch env ''/api/auth/login'' (post_init env input) pg))))"
  have parse: "json_parse (stringify (ce_fraction env) session) = Some session"
    "json_parse (stringify (ce_fraction env) ws) = Some ws"
    using assms(2) by (simp_all add: session_json_def json_parse_stringify)
  have "fst (apiFetch env ''/api/auth/login'' (post_init env input) pg) = Inr (Some session)"
    by (simp add: apiFetch_def assms(4) parse)
  then have run: "client_login env input pg = (Inr (Some session), ?pg)"
    using assms(1) by (simp add: client_login_def bind_act_apply storeSession_stores [OF assms(2)] ret_def)
  have win: "pg_window ?pg" using assms(1) by simp
  have "json_parse [] = None" by code_simp
  with parse(2) have "stringify (ce_fraction env) ws \<noteq> []" by auto
  then have ws: "getActiveWorkspace ?pg = (Inr (Some ws), ?pg)"
    using win parse(2) by (simp add: getActiveWorkspace_def)
  have toks: "getAccessToken ?pg = Some a" "getRefreshToken ?pg = Some r"
    using win by (simp_all add: getAccessToken_def getRefreshToken_def)
  obtain kvs where "ws = JObj kvs" "json_get ''id'' ws = Some (JStr i)"
    using assms(2) json_get_object unfolding session_json_def by blast
  then have "signed_in env ?pg a i"
    using ws toks win assms(3) by (simp add: signed_in_def truthy_def)
  note inside = ws_fetch_inside [OF this]
  show ?thesis
    unfolding run Let_def snd_conv fst_conv
    using ws toks
    by (simp add: call_defs deleteAlert_def bind_act_assoc sends_inside_ret inside
        ws_fetch_no_workspace [OF signed_out(1) [OF win]] bind_act_apply Let_def)
qed

definition sample_session :: json where
  "sample_session = JObj [(''user'', JObj [(''id'', JStr ''u1'')]),
     (''workspace'', JObj [(''id'', JStr ''w1''), (''name'', JStr ''Shop'')]),
     (''tokens'', JObj [(''accessToken'', JStr ''A''), (''refreshToken'', JStr ''R'')])]"

definition sample_client :: client_env where
  "sample_client = \<lparr>ce_api_url = None, ce_ws_url = None,
     ce_net = (\<lambda>call. Replied 200 ''OK'' (stringify (\<lambda>_. []) sample_session)),
     ce_string_of = (\<lambda>_. []), ce_fraction = (\<lambda>_. []), ce_minus_days = (\<lambda>t n. t - n * 86400000)\<rparr>"

definition blank_page :: page where
  "blank_page = \<lparr>pg_window = True, pg_storage = Map.empty, pg_sent = []\<rparr>"

theorem session_round_trip_witness:
  "let pg = snd (client_login sample_client (JObj []) blank_page) in
     getAccessToken pg = Some ''A'' \<and> sends_inside sample_client pg ''A'' ''w1'' (listDashboards sample_client)"
proof -
  let ?ws = "JObj [(''id'', JStr ''w1''), (''name'', JStr ''Shop'')]"
  have "pg_window blank_page" "session_json ''A'' ''R'' ''w1'' ?ws sample_session" "''A'' \<noteq> []"
    "ce_net sample_client (api_call sample_client ''/api/auth/login'' (post_init sample_client (JObj [])) blank_page)
       = Replied 200 ''OK'' (stringify (ce_fraction sample_client) sample_session)"
    by (simp_all add: blank_page_def session_json_def sample_session_def sample_client_def)
  from session_round_trip [OF this]
  show ?thesis unfolding Let_def list.pred_inject by blast
qed

text \<open>
  No flash of the wrong theme. The script in the head puts the root element into exactly
  the state that the theme toggle computes when it is mounted, and after any click the script of
  the next page load restores the theme that was clicked, whatever the system prefers then.
\<close>

theorem theme_no_flash:
  assumes "pg_window pg"
  shows "themeBootScript prefers pg r = applyTheme (getInitialTheme prefers pg) r
    \<and> (let (t, pg', r') = toggle_clicked (toggle_mounts prefers (pg, r)) in
         t \<noteq> getInitialTheme prefers pg \<and> r' = applyTheme t r
         \<and> themeBootScript prefers' pg' r2 = applyTheme t r2)"
proof
  show "themeBootScript prefers pg r = applyTheme (getInitialTheme prefers pg) r"
    using assms
    by (auto simp: themeBootScript_def getInitialTheme_def getStoredTheme_def getSystemTheme_def
        applyTheme_def theme_str_def Let_def)
  show "let (t, pg', r') = toggle_clicked (toggle_mounts prefers (pg, r)) in
      t \<noteq> getInitialTheme prefers pg \<and> r' = applyTheme t r
      \<and> themeBootScript prefers' pg' r2 = applyTheme t r2"
    using assms
    by (cases "getInitialTheme prefers pg")
       (simp_all add: toggle_clicked_def toggle_mounts_def setTheme_def themeBootScript_def applyTheme_def
         theme_str_def)
qed

theorem theme_no_flash_witness:
  "re_dark (themeBootScript True blank_page \<lparr>re_dark = False, re_colorScheme = []\<rparr>)"
  using theme_no_flash [of blank_page True "\<lparr>re_dark = False, re_colorScheme = []\<rparr>"]
  by (simp add: blank_page_def applyTheme_def getInitialTheme_def getStoredTheme_def getSystemTheme_def getItem_def)

end
