(* ===== verification/Charts.thy ===== *)
theory Charts
  imports JsDate Prelude Complex_Main "HOL-Library.Multiset"
begin

text \<open>
  What the widgets compute from the API's answers: \<open>KpiTile.tsx\<close>, \<open>ForecastBand.tsx\<close>,
  \<open>FunnelChart.tsx\<close>, \<open>CohortHeatmap.tsx\<close>, and the model table of \<open>models/page.tsx\<close>. Numbers are
  exact rationals; \<open>Intl.NumberFormat\<close>, \<open>toFixed\<close>, \<open>Math.pow\<close>, \<open>localeCompare\<close> and the parsing
  of dates are the environment. The dash the widgets show for a missing value is \<open>-\<close>.
\<close>

record chart_env =
  ch_currency :: "rat \<Rightarrow> string"
  ch_number :: "int \<Rightarrow> string"
  ch_fixed :: "nat \<Rightarrow> rat \<Rightarrow> string"
  ch_text :: "rat \<Rightarrow> string"
  ch_pow :: "rat \<Rightarrow> rat \<Rightarrow> rat"
  ch_locale_le :: "string \<Rightarrow> string \<Rightarrow> bool"
  ch_time :: "string \<Rightarrow> int option"
  ch_minus_days :: "int \<Rightarrow> int \<Rightarrow> int"

definition js_round :: "rat \<Rightarrow> int" where
  "js_round q = \<lfloor>q + 1 / 2\<rfloor>"

section \<open>KPI tile: the value\<close>

record kpi_data =
  kd_unit :: string
  kd_points :: "(string \<times> rat) list"
  kd_hit :: bool

definition formatValue :: "chart_env \<Rightarrow> kpi_data option \<Rightarrow> string" where
  "formatValue env series =
     (case series of
        None \<Rightarrow> ''-''
      | Some s \<Rightarrow>
          if kd_points s = [] then ''-''
          else let total = foldl (\<lambda>acc p. acc + snd p) 0 (kd_points s) in
            if kd_unit s = ''cents'' then ch_currency env (total / 100)
            else ch_number env (js_round total))"

section \<open>Forecast band\<close>

record forecast_point =
  fp_ds :: string
  fp_yhat :: rat
  fp_lower :: rat
  fp_upper :: rat

record chart_row =
  cr_ds :: string
  cr_actual :: "rat option"
  cr_yhat :: "rat option"
  cr_band :: "(rat \<times> rat) option"

definition combine :: "forecast_point list \<Rightarrow> forecast_point list \<Rightarrow> chart_row list" where
  "combine history forecast =
     map (\<lambda>p. \<lparr>cr_ds = fp_ds p, cr_actual = Some (fp_yhat p), cr_yhat = None, cr_band = None\<rparr>) history @
     map (\<lambda>p. \<lparr>cr_ds = fp_ds p, cr_actual = None, cr_yhat = Some (fp_yhat p),
               cr_band = Some (fp_lower p, fp_upper p)\<rparr>) forecast"

definition formatTick :: "chart_env \<Rightarrow> rat \<Rightarrow> string" where
  "formatTick env value =
     (if \<bar>value\<bar> \<ge> 1000 then ch_fixed env 1 (value / 1000) @ ''k''
      else int_str (js_round value))"

section \<open>Funnel bars\<close>

record funnel_step =
  fs_name :: string
  fs_reached :: rat
  fs_conversion :: rat

definition width_pct :: "funnel_step list \<Rightarrow> nat \<Rightarrow> rat" where
  "width_pct data i =
     (let max = (case data of [] \<Rightarrow> 0 | d # _ \<Rightarrow> fs_reached d) in
      if max > 0 then fs_reached (data ! i) / max * 100 else 0)"

definition drop_pct :: "funnel_step list \<Rightarrow> nat \<Rightarrow> rat" where
  "drop_pct data i =
     (if 0 < i \<and> fs_reached (data ! (i - 1)) > 0
      then (fs_reached (data ! (i - 1)) - fs_reached (data ! i)) / fs_reached (data ! (i - 1)) * 100
      else 0)"

text \<open>The line of a step: its label, its figures, the loss shown in red, the width of the bar.\<close>

definition funnel_line :: "chart_env \<Rightarrow> funnel_step list \<Rightarrow> nat \<Rightarrow> string \<times> string \<times> string option \<times> rat" where
  "funnel_line env data i =
     (let s = data ! i in
      (int_str (int i + 1) @ ''. '' @ fs_name s,
       ch_text env (fs_reached s) @ '' - '' @ ch_fixed env 1 (fs_conversion s * 100) @ ''%'',
       if 0 < i \<and> drop_pct data i > 0 then Some (''-'' @ ch_fixed env 1 (drop_pct data i) @ ''%'') else None,
       width_pct data i))"

definition funnel_lines :: "chart_env \<Rightarrow> funnel_step list \<Rightarrow> (string \<times> string \<times> string option \<times> rat) list" where
  "funnel_lines env data = map (funnel_line env data) [0..<length data]"

section \<open>Cohort heatmap\<close>

datatype heat_mode = Count | Retention

record cohort_line =
  cl_signup_day :: string
  cl_size :: rat
  cl_weeks :: "rat list"

definition maxCount :: "cohort_line list \<Rightarrow> rat" where
  "maxCount cohorts = foldl (\<lambda>m c. foldl max m (drop 1 (cl_weeks c))) 0 cohorts"

text \<open>\<open>None\<close> is the plain background, otherwise the opacity of the blue.\<close>

definition cellColor :: "chart_env \<Rightarrow> rat \<Rightarrow> rat \<Rightarrow> heat_mode \<Rightarrow> rat option" where
  "cellColor env value mx mode =
     (if mx \<le> 0 then None
      else let ratio = min 1 (value / mx) in
        Some (case mode of Retention \<Rightarrow> max (6 / 100) ratio
              | Count \<Rightarrow> max (6 / 100) (ch_pow env ratio (6 / 10))))"

definition cell_text :: "chart_env \<Rightarrow> heat_mode \<Rightarrow> rat \<Rightarrow> rat \<Rightarrow> string" where
  "cell_text env mode n v =
     (if mode = Retention \<and> n > 0 then int_str (js_round (v / n * 100)) @ ''%''
      else if v > 0 then ch_text env v else [])"

definition heat_row :: "chart_env \<Rightarrow> heat_mode \<Rightarrow> cohort_line list \<Rightarrow> cohort_line
    \<Rightarrow> string \<times> rat \<times> (string \<times> rat option) list" where
  "heat_row env mode cohorts row =
     (take 10 (cl_signup_day row), cl_size row,
      map (\<lambda>v. (cell_text env mode (cl_size row) v,
                cellColor env v (case mode of Retention \<Rightarrow> cl_size row | Count \<Rightarrow> maxCount cohorts) mode))
        (cl_weeks row))"

section \<open>The model table\<close>

record model_meta =
  mm_metric :: string
  mm_kind :: string
  mm_fitted_at :: string
  mm_window :: int
  mm_mape :: "rat option"

record model_row =
  mr_metric :: string
  mr_prophet :: "model_meta option"
  mr_arima :: "model_meta option"

text \<open>A comparison with \<open>NaN\<close> is false.\<close>

definition newer :: "chart_env \<Rightarrow> model_meta \<Rightarrow> model_meta \<Rightarrow> bool" where
  "newer env b a =
     (case (ch_time env (mm_fitted_at b), ch_time env (mm_fitted_at a)) of
        (Some x, Some y) \<Rightarrow> x > y | _ \<Rightarrow> False)"

definition pickNewer :: "chart_env \<Rightarrow> model_meta option \<Rightarrow> model_meta \<Rightarrow> model_meta" where
  "pickNewer env a b = (case a of None \<Rightarrow> b | Some a' \<Rightarrow> if newer env b a' then b else a')"

definition add_model :: "chart_env \<Rightarrow> model_meta \<Rightarrow> model_row \<Rightarrow> model_row" where
  "add_model env m row =
     (if mm_kind m = ''prophet'' then row\<lparr>mr_prophet := Some (pickNewer env (mr_prophet row) m)\<rparr>
      else if mm_kind m = ''arima'' then row\<lparr>mr_arima := Some (pickNewer env (mr_arima row) m)\<rparr>
      else row)"

text \<open>\<open>byMetric\<close>: the rows in insertion order; \<open>set\<close> on a known key keeps its place.\<close>

fun put_model :: "chart_env \<Rightarrow> model_meta \<Rightarrow> model_row list \<Rightarrow> model_row list" where
  "put_model env m [] = [add_model env m \<lparr>mr_metric = mm_metric m, mr_prophet = None, mr_arima = None\<rparr>]"
| "put_model env m (r # rs) =
     (if mr_metric r = mm_metric m then add_model env m r # rs else r # put_model env m rs)"

definition by_metric :: "chart_env \<Rightarrow> model_meta list \<Rightarrow> model_row list" where
  "by_metric env models = foldl (\<lambda>rows m. put_model env m rows) [] models"

fun insert_row :: "(string \<Rightarrow> string \<Rightarrow> bool) \<Rightarrow> model_row \<Rightarrow> model_row list \<Rightarrow> model_row list" where
  "insert_row le r [] = [r]"
| "insert_row le r (x # xs) = (if le (mr_metric r) (mr_metric x) then r # x # xs else x # insert_row le r xs)"

definition rollup :: "chart_env \<Rightarrow> model_meta list \<Rightarrow> model_row list" where
  "rollup env models = foldr (insert_row (ch_locale_le env)) (by_metric env models) []"

definition mape_of :: "model_meta option \<Rightarrow> rat option" where
  "mape_of m = (case m of None \<Rightarrow> None | Some m' \<Rightarrow> mm_mape m')"

definition fmtMape :: "chart_env \<Rightarrow> rat option \<Rightarrow> string" where
  "fmtMape env m = (case m of None \<Rightarrow> ''-'' | Some q \<Rightarrow> ch_fixed env 1 (q * 100) @ ''%'')"

text \<open>An unparsable date gives \<open>NaN\<close>, which falls through to the days.\<close>

definition fmtAge :: "chart_env \<Rightarrow> int \<Rightarrow> string \<Rightarrow> string" where
  "fmtAge env now stamp =
     (case ch_time env stamp of
        None \<Rightarrow> ''NaNd ago''
      | Some t \<Rightarrow>
          let ms = rat_of_int (now - t); hours = ms / 3600000 in
          if hours < 1 then int_str (js_round (ms / 60000)) @ ''m ago''
          else if hours < 48 then int_str (js_round hours) @ ''h ago''
          else int_str (js_round (hours / 24)) @ ''d ago'')"

definition winner :: "model_row \<Rightarrow> string option" where
  "winner row =
     (case (mape_of (mr_prophet row), mape_of (mr_arima row)) of
        (None, None) \<Rightarrow> None
      | (None, Some _) \<Rightarrow> Some ''arima''
      | (Some _, None) \<Rightarrow> Some ''prophet''
      | (Some p, Some a) \<Rightarrow> if p \<le> a then Some ''prophet'' else Some ''arima'')"

text \<open>The cells of a row: metric, both errors, the pick, the age and the window.\<close>

definition model_cells :: "chart_env \<Rightarrow> int \<Rightarrow> model_row \<Rightarrow> string \<times> string \<times> string \<times> string \<times> string \<times> string" where
  "model_cells env now r =
     (let fitted = (case mr_prophet r of Some m \<Rightarrow> Some (mm_fitted_at m)
                    | None \<Rightarrow> map_option mm_fitted_at (mr_arima r));
          window = (case mr_prophet r of Some m \<Rightarrow> Some (mm_window m)
                    | None \<Rightarrow> map_option mm_window (mr_arima r))
      in (mr_metric r, fmtMape env (mape_of (mr_prophet r)), fmtMape env (mape_of (mr_arima r)),
          (case winner r of Some k \<Rightarrow> k | None \<Rightarrow> ''-''),
          (case fitted of Some stamp \<Rightarrow> if stamp = [] then ''-'' else fmtAge env now stamp | None \<Rightarrow> ''-''),
          (case window of Some w \<Rightarrow> if w = 0 then ''-'' else int_str w @ ''d'' | None \<Rightarrow> ''-'')))"

section \<open>The bars of a funnel\<close>

text \<open>
  The bars tell the truth about the figures. If the reached counts are non-negative and
  never increase (which the API guarantees), every bar is between 0 and 100 percent wide, the
  widths never increase, every loss is between 0 and 100 percent, and each bar is its
  predecessor's, shortened by exactly the loss that is shown.
\<close>

theorem funnel_bars:
  assumes "\<forall>d \<in> set data. 0 \<le> fs_reached d"
    and "\<forall>k. Suc k < length data \<longrightarrow> fs_reached (data ! Suc k) \<le> fs_reached (data ! k)"
    and "i < length data"
  shows "0 \<le> width_pct data i \<and> width_pct data i \<le> 100
    \<and> 0 \<le> drop_pct data i \<and> drop_pct data i \<le> 100
    \<and> (0 < i \<longrightarrow> width_pct data i \<le> width_pct data (i - 1)
         \<and> width_pct data i = width_pct data (i - 1) * (1 - drop_pct data i / 100))"
proof -
  let ?r = "\<lambda>k. fs_reached (data ! k)"
  have first: "(case data of [] \<Rightarrow> 0 | d # _ \<Rightarrow> fs_reached d) = ?r 0"
    using assms(3) by (cases data) auto
  have pos: "0 \<le> ?r k" if "k < length data" for k using assms(1) that by simp
  have top: "?r k \<le> ?r 0" if "k < length data" for k
    using that by (induction k) (auto dest: Suc_lessD intro: order_trans [OF assms(2) [rule_format]])
  have w: "width_pct data k = (if ?r 0 > 0 then ?r k / ?r 0 * 100 else 0)" for k
    by (simp add: width_pct_def first Let_def)
  have width: "0 \<le> width_pct data k \<and> width_pct data k \<le> 100" if "k < length data" for k
    using pos [OF that] top [OF that] by (simp add: w divide_le_eq)
  show ?thesis
  proof (cases "0 < i")
    case False
    with width [OF assms(3)] show ?thesis by (simp add: drop_pct_def)
  next
    case True
    then obtain k where i: "i = Suc k" by (cases i) auto
    have k: "k < length data" "?r i \<le> ?r k" using assms(2,3) i by auto
    have drop: "drop_pct data i = (if ?r k > 0 then (?r k - ?r i) / ?r k * 100 else 0)"
      by (simp add: drop_pct_def i)
    have "0 \<le> drop_pct data i \<and> drop_pct data i \<le> 100"
      using pos [OF assms(3)] k(2) by (simp add: drop divide_le_eq)
    moreover have "width_pct data i = width_pct data k * (1 - drop_pct data i / 100)"
    proof (cases "?r k > 0")
      case True
      then show ?thesis by (simp add: w drop field_simps)
    next
      case False
      with pos [OF k(1)] pos [OF assms(3)] k(2) have "?r k = 0" "?r i = 0" by auto
      then show ?thesis by (simp add: w drop)
    qed
    moreover from this calculation have "width_pct data i \<le> width_pct data k"
      using width [OF k(1)] by (simp add: mult_left_le)
    ultimately show ?thesis using width [OF assms(3)] i by simp
  qed
qed

theorem funnel_bars_witness:
  "let data = [\<lparr>fs_name = ''a'', fs_reached = 8, fs_conversion = 1\<rparr>,
               \<lparr>fs_name = ''b'', fs_reached = 2, fs_conversion = 1 / 4\<rparr>]
   in width_pct data 1 = 25 \<and> width_pct data 1 = width_pct data 0 * (1 - drop_pct data 1 / 100)"
proof -
  let ?data = "[\<lparr>fs_name = ''a'', fs_reached = 8, fs_conversion = 1\<rparr>,
               \<lparr>fs_name = ''b'', fs_reached = 2, fs_conversion = 1 / 4\<rparr>] :: funnel_step list"
  have "width_pct ?data 1 = width_pct ?data (1 - 1) * (1 - drop_pct ?data 1 / 100)"
    using funnel_bars [of ?data 1] by (simp add: less_Suc_eq)
  then show ?thesis by (simp add: Let_def width_pct_def)
qed

section \<open>The rows of the model table\<close>

definition newest :: "chart_env \<Rightarrow> string \<Rightarrow> string \<Rightarrow> model_meta list \<Rightarrow> model_meta option" where
  "newest env metric kind models =
     foldl (\<lambda>a m. if mm_metric m = metric \<and> mm_kind m = kind then Some (pickNewer env a m) else a) None models"

lemma newest_snoc [simp]:
  "newest env metric kind (ms @ [m]) =
     (if mm_metric m = metric \<and> mm_kind m = kind
      then Some (pickNewer env (newest env metric kind ms) m) else newest env metric kind ms)"
  by (simp add: newest_def)

lemma newest_nil [simp]: "newest env metric kind [] = None"
  by (simp add: newest_def)

lemma newest_in:
  "newest env metric kind ms = Some m \<Longrightarrow> m \<in> set ms \<and> mm_metric m = metric \<and> mm_kind m = kind"
proof (induction ms arbitrary: m rule: rev_induct)
  case (snoc x ms)
  show ?case
  proof (cases "mm_metric x = metric \<and> mm_kind x = kind")
    case True
    then have "m = pickNewer env (newest env metric kind ms) x" using snoc.prems by simp
    then have "m = x \<or> newest env metric kind ms = Some m"
      by (simp add: pickNewer_def split: option.splits if_splits)
    then show ?thesis using snoc.IH True by auto
  next
    case False
    then have "newest env metric kind ms = Some m" using snoc.prems by (simp split: if_splits)
    then show ?thesis using snoc.IH by simp
  qed
qed simp

lemma newest_none:
  "newest env metric kind ms = None \<longleftrightarrow> (\<forall>m \<in> set ms. \<not> (mm_metric m = metric \<and> mm_kind m = kind))"
  by (induction ms rule: rev_induct) auto

lemma newest_latest:
  assumes "\<forall>m \<in> set ms. ch_time env (mm_fitted_at m) \<noteq> None"
    and "newest env metric kind ms = Some m" and "m' \<in> set ms" "mm_metric m' = metric" "mm_kind m' = kind"
  shows "\<not> newer env m' m"
  using assms
proof (induction ms arbitrary: m rule: rev_induct)
  case Nil
  then show ?case by simp
next
  case (snoc x ms)
  show ?case
  proof (cases "mm_metric x = metric \<and> mm_kind x = kind")
    case False
    with snoc show ?thesis by auto
  next
    case True
    show ?thesis
    proof (cases "newest env metric kind ms")
      case None
      then have "m' = x" using snoc.prems(3-5) newest_none by fastforce
      moreover have "m = x" using snoc.prems(2) True None by (simp add: pickNewer_def)
      ultimately show ?thesis by (auto simp: newer_def split: option.splits)
    next
      case (Some a)
      then have m: "m = (if newer env x a then x else a)"
        using snoc.prems(2) True by (simp add: pickNewer_def)
      have old: "\<not> newer env m' a" if "m' \<in> set ms"
        using snoc.IH [of a] Some that snoc.prems by simp
      have "a \<in> set ms" using newest_in [OF Some] by simp
      with snoc.prems(1) obtain ta tx where times: "ch_time env (mm_fitted_at a) = Some ta"
          "ch_time env (mm_fitted_at x) = Some tx" by fastforce
      show ?thesis
      proof (cases "m' = x")
        case True
        then show ?thesis using m times by (auto simp: newer_def)
      next
        case False
        then have "\<not> newer env m' a" using old snoc.prems(3) by simp
        then show ?thesis using m times by (auto simp: newer_def split: option.splits)
      qed
    qed
  qed
qed

lemma by_metric_snoc [simp]: "by_metric env (ms @ [m]) = put_model env m (by_metric env ms)"
  by (simp add: by_metric_def)

lemma add_model_metric [simp]: "mr_metric (add_model env m r) = mr_metric r"
  by (simp add: add_model_def)

lemma put_model_metrics:
  "map mr_metric (put_model env m rs) =
     map mr_metric rs @ (if mm_metric m \<in> mr_metric ` set rs then [] else [mm_metric m])"
proof (induction rs)
  case (Cons r rs)
  then show ?case by (cases "mr_metric r = mm_metric m") simp_all
qed simp

definition row_newest :: "chart_env \<Rightarrow> model_meta list \<Rightarrow> model_row \<Rightarrow> bool" where
  "row_newest env ms r \<longleftrightarrow>
     mr_prophet r = newest env (mr_metric r) ''prophet'' ms \<and> mr_arima r = newest env (mr_metric r) ''arima'' ms"

lemma row_newest_add:
  "row_newest env ms r \<Longrightarrow> mr_metric r = mm_metric m \<Longrightarrow> row_newest env (ms @ [m]) (add_model env m r)"
proof -
  assume row: "row_newest env ms r" and metric: "mr_metric r = mm_metric m"
  consider "mm_kind m = ''prophet''" | "mm_kind m = ''arima''"
    | "mm_kind m \<noteq> ''prophet''" "mm_kind m \<noteq> ''arima''" by blast
  then show ?thesis
    by cases (use row in \<open>simp_all add: row_newest_def add_model_def flip: metric\<close>)
qed

lemma row_newest_other:
  "row_newest env ms r \<Longrightarrow> mr_metric r \<noteq> mm_metric m \<Longrightarrow> row_newest env (ms @ [m]) r"
  by (simp add: row_newest_def)

lemma row_newest_fresh:
  "mm_metric m \<notin> mm_metric ` set ms \<Longrightarrow>
     row_newest env ms \<lparr>mr_metric = mm_metric m, mr_prophet = None, mr_arima = None\<rparr>"
proof -
  assume "mm_metric m \<notin> mm_metric ` set ms"
  then have "newest env (mm_metric m) kind ms = None" for kind
    unfolding newest_none by (metis imageI)
  then show ?thesis by (simp add: row_newest_def)
qed

lemma put_model_newest:
  assumes "\<forall>r \<in> set rs. row_newest env ms r" "distinct (map mr_metric rs)"
    and "mm_metric m \<in> mr_metric ` set rs \<or> mm_metric m \<notin> mm_metric ` set ms"
  shows "\<forall>r \<in> set (put_model env m rs). row_newest env (ms @ [m]) r"
  using assms
proof (induction rs)
  case Nil
  then have fresh: "mm_metric m \<notin> mm_metric ` set ms" by simp
  show ?case using row_newest_add [OF row_newest_fresh [OF fresh], of m] by simp
next
  case (Cons r rs)
  show ?case
  proof (cases "mr_metric r = mm_metric m")
    case True
    then have "mr_metric x \<noteq> mm_metric m" if "x \<in> set rs" for x
      using Cons.prems(2) that by (metis True distinct.simps(2) image_eqI list.set_map list.simps(9))
    with Cons.prems(1) True show ?thesis
      by (simp add: row_newest_add row_newest_other)
  next
    case False
    with Cons show ?thesis by (auto intro: row_newest_other)
  qed
qed

lemma by_metric_rows:
  "distinct (map mr_metric (by_metric env ms)) \<and> mr_metric ` set (by_metric env ms) = mm_metric ` set ms
    \<and> (\<forall>r \<in> set (by_metric env ms). row_newest env ms r)"
proof (induction ms rule: rev_induct)
  case Nil
  then show ?case by (simp add: by_metric_def)
next
  case (snoc m ms)
  let ?rs = "by_metric env ms" and ?rs' = "put_model env m (by_metric env ms)"
  have IH: "distinct (map mr_metric ?rs)" "mr_metric ` set ?rs = mm_metric ` set ms"
      "\<forall>r \<in> set ?rs. row_newest env ms r"
    using snoc.IH by simp_all
  have metrics: "map mr_metric ?rs' =
      map mr_metric ?rs @ (if mm_metric m \<in> mr_metric ` set ?rs then [] else [mm_metric m])"
    by (rule put_model_metrics)
  have "distinct (map mr_metric ?rs')"
    using IH(1) by (simp add: metrics)
  moreover have "mr_metric ` set ?rs' = mm_metric ` set (ms @ [m])"
  proof -
    have "mr_metric ` set ?rs' = set (map mr_metric ?rs')" by simp
    also have "\<dots> = insert (mm_metric m) (mm_metric ` set ms)"
      unfolding metrics using IH(2) by auto
    finally show ?thesis by simp
  qed
  moreover have "\<forall>r \<in> set ?rs'. row_newest env (ms @ [m]) r"
    by (rule put_model_newest [OF IH(3,1)]) (simp add: IH(2))
  ultimately show ?case by simp
qed

lemma insert_row_mset: "mset (insert_row le r xs) = mset (r # xs)"
  by (induction xs) auto

lemma rollup_mset: "mset (rollup env ms) = mset (by_metric env ms)"
proof -
  have "mset (foldr (insert_row le) xs []) = mset xs" for le xs
    by (induction xs) (simp_all add: insert_row_mset)
  then show ?thesis by (simp add: rollup_def)
qed

text \<open>
  The model table shows the newest fits. It has exactly one row for every metric of the
  answer, and in the row of a metric each of the two columns is empty if and only if the answer
  has no model of that kind, and otherwise holds a model of that metric and kind that no other
  one of them is newer than.
\<close>

theorem rollup_newest:
  assumes "\<forall>m \<in> set models. ch_time env (mm_fitted_at m) \<noteq> None"
  shows "distinct (map mr_metric (rollup env models))
    \<and> mr_metric ` set (rollup env models) = mm_metric ` set models
    \<and> (\<forall>r \<in> set (rollup env models).
        \<forall>(kind, column) \<in> {(''prophet'', mr_prophet r), (''arima'', mr_arima r)}.
          let fits = filter (\<lambda>m. mm_metric m = mr_metric r \<and> mm_kind m = kind) models in
          case column of None \<Rightarrow> fits = []
          | Some m \<Rightarrow> m \<in> set fits \<and> (\<forall>m' \<in> set fits. \<not> newer env m' m))"
proof (intro conjI ballI)
  have same: "set (rollup env models) = set (by_metric env models)"
    using rollup_mset by (rule mset_eq_setD)
  have "mset (map mr_metric (rollup env models)) = mset (map mr_metric (by_metric env models))"
    by (simp add: rollup_mset)
  then show "distinct (map mr_metric (rollup env models))"
    using by_metric_rows mset_eq_imp_distinct_iff by blast
  show "mr_metric ` set (rollup env models) = mm_metric ` set models"
    using by_metric_rows same by simp
  fix r x
  assume "r \<in> set (rollup env models)"
    and x: "x \<in> {(''prophet'', mr_prophet r), (''arima'', mr_arima r)}"
  then have "row_newest env models r" using by_metric_rows same by blast
  with x obtain kind where "x = (kind, newest env (mr_metric r) kind models)"
    by (auto simp: row_newest_def)
  then show "case x of (kind, column) \<Rightarrow>
      let fits = filter (\<lambda>m. mm_metric m = mr_metric r \<and> mm_kind m = kind) models in
      case column of None \<Rightarrow> fits = []
      | Some m \<Rightarrow> m \<in> set fits \<and> (\<forall>m' \<in> set fits. \<not> newer env m' m)"
    using newest_in newest_none newest_latest [OF assms]
    by (auto simp: Let_def filter_empty_conv split: option.split)
qed

definition sample_chart :: chart_env where
  "sample_chart = \<lparr>ch_currency = (\<lambda>_. ''$''), ch_number = int_str, ch_fixed = (\<lambda>_ _. ''0''), ch_text = (\<lambda>_. ''0''),
     ch_pow = (\<lambda>x _. x), ch_locale_le = (\<lambda>_ _. True), ch_time = (\<lambda>t. Some (int (length t))),
     ch_minus_days = (\<lambda>t n. t - n)\<rparr>"

theorem rollup_newest_witness:
  "let m = \<lparr>mm_metric = ''rev'', mm_kind = ''prophet'', mm_fitted_at = ''1'', mm_window = 90, mm_mape = None\<rparr>;
       m' = m\<lparr>mm_fitted_at := ''22''\<rparr>;
       row = hd (rollup sample_chart [m', m])
   in mr_metric ` set (rollup sample_chart [m', m]) = {''rev''} \<and> mr_prophet row = Some m' \<and> mr_arima row = None"
proof -
  let ?m = "\<lparr>mm_metric = ''rev'', mm_kind = ''prophet'', mm_fitted_at = ''1'', mm_window = 90, mm_mape = None\<rparr>"
  have "mr_metric ` set (rollup sample_chart [?m\<lparr>mm_fitted_at := ''22''\<rparr>, ?m]) = {''rev''}"
    using rollup_newest [of "[?m\<lparr>mm_fitted_at := ''22''\<rparr>, ?m]" sample_chart]
    by (simp add: sample_chart_def)
  then show ?thesis
    by (simp add: Let_def rollup_def by_metric_def sample_chart_def add_model_def pickNewer_def newer_def)
qed

end
