(* ===== verification/KpiTile.thy ===== *)
theory KpiTile
  imports Client Charts
begin

text \<open>
  A mounted \<open>KpiTile\<close> (\<open>components/widgets/KpiTile.tsx\<close>). The cache of \<open>@tanstack/react-query\<close> is
  not code of the repository: it is a parameter of the tile (\<open>query_lib\<close>), and \<open>react_query\<close> states
  the documented behaviour that a property relies on. A render is at a time; the key of the tile's
  query contains that time in milliseconds.
\<close>

record query_key =
  kq_metric :: string
  kq_window :: int
  kq_from :: string
  kq_to :: string

text \<open>
  The library over its own state \<open>'c\<close>: \<open>useQuery\<close> with a key, a fetch for a key that has ended
  (\<open>None\<close> for an error), the refetch interval of a key; what a render is told about a key
  (\<open>None\<close> while it is loading); the fetches started so far; and whether a component that watches
  the first key is rendered again when a fetch for the second one ends.
\<close>

record 'c query_lib =
  ql_empty :: 'c
  ql_observe :: "query_key \<Rightarrow> 'c \<Rightarrow> 'c"
  ql_answer :: "query_key \<Rightarrow> kpi_data option \<Rightarrow> 'c \<Rightarrow> 'c"
  ql_refetch :: "query_key \<Rightarrow> 'c \<Rightarrow> 'c"
  ql_data :: "'c \<Rightarrow> query_key \<Rightarrow> kpi_data option option"
  ql_asked :: "'c \<Rightarrow> query_key list"
  ql_rerenders :: "query_key \<Rightarrow> query_key \<Rightarrow> bool"

section \<open>The component\<close>

text \<open>The key of the last render, what \<open>useQuery\<close> answered to it, and the \<open>pulse\<close> state.\<close>

record tile =
  ti_key :: query_key
  ti_seen :: "kpi_data option option"
  ti_pulse :: bool

definition tile_query :: "client_env \<Rightarrow> string \<Rightarrow> int \<Rightarrow> int \<Rightarrow> query_key" where
  "tile_query env metric windowDays now =
     \<lparr>kq_metric = metric, kq_window = windowDays,
      kq_from = toISOString (ce_minus_days env now windowDays), kq_to = toISOString now\<rparr>"

text \<open>The query function of a key.\<close>

definition tile_fetch :: "client_env \<Rightarrow> query_key \<Rightarrow> json option act" where
  "tile_fetch env q = fetchKpi env (kq_metric q) (kq_from q) (kq_to q) (Some ''day'')"

definition tile_render ::
  "client_env \<Rightarrow> 'c query_lib \<Rightarrow> string \<Rightarrow> int \<Rightarrow> int \<Rightarrow> tile \<times> 'c \<Rightarrow> tile \<times> 'c" where
  "tile_render env lib metric windowDays now =
     (\<lambda>(t, c). let q = tile_query env metric windowDays now; c' = ql_observe lib q c
               in (t\<lparr>ti_key := q, ti_seen := ql_data lib c' q\<rparr>, c'))"

definition tile_mounts :: "client_env \<Rightarrow> 'c query_lib \<Rightarrow> string \<Rightarrow> int \<Rightarrow> int \<Rightarrow> tile \<times> 'c" where
  "tile_mounts env lib metric windowDays now =
     tile_render env lib metric windowDays now
       (\<lparr>ti_key = tile_query env metric windowDays now, ti_seen = None, ti_pulse = False\<rparr>, ql_empty lib)"

text \<open>
  A fetch that was started ends with an answer or a failure, the \<open>tick\<close> message of the socket, the
  end of its pulse, the refetch interval, a render of the parent. A \<open>setState\<close> to the value that is
  already there renders nothing.
\<close>

datatype tile_event = Settled query_key "kpi_data option" | TickMessage | PulseEnds | Refetch | ParentRenders

definition tile_step ::
  "client_env \<Rightarrow> 'c query_lib \<Rightarrow> string \<Rightarrow> int \<Rightarrow> int \<Rightarrow> tile_event \<Rightarrow> tile \<times> 'c \<Rightarrow> tile \<times> 'c" where
  "tile_step env lib metric windowDays now e =
     (\<lambda>(t, c). let render = tile_render env lib metric windowDays now in
      case e of
        Settled q d \<Rightarrow>
          if q \<notin> set (ql_asked lib c) then (t, c)
          else if ql_rerenders lib (ti_key t) q then render (t, ql_answer lib q d c)
          else (t, ql_answer lib q d c)
      | TickMessage \<Rightarrow> if ti_pulse t then (t, c) else render (t\<lparr>ti_pulse := True\<rparr>, c)
      | PulseEnds \<Rightarrow> if ti_pulse t then render (t\<lparr>ti_pulse := False\<rparr>, c) else (t, c)
      | Refetch \<Rightarrow> (t, ql_refetch lib (ti_key t) c)
      | ParentRenders \<Rightarrow> render (t, c))"

fun tile_run ::
  "client_env \<Rightarrow> 'c query_lib \<Rightarrow> string \<Rightarrow> int \<Rightarrow> (int \<times> tile_event) list \<Rightarrow> tile \<times> 'c \<Rightarrow> tile \<times> 'c" where
  "tile_run env lib metric windowDays [] tc = tc"
| "tile_run env lib metric windowDays ((now, e) # es) tc =
     tile_run env lib metric windowDays es (tile_step env lib metric windowDays now e tc)"

text \<open>What is shown: \<open>None\<close> is the grey placeholder of a loading tile.\<close>

definition tile_value :: "chart_env \<Rightarrow> tile \<Rightarrow> string option" where
  "tile_value ch t =
     (case ti_seen t of
        None \<Rightarrow> None
      | Some None \<Rightarrow> Some ''error''
      | Some (Some d) \<Rightarrow> Some (formatValue ch (Some d)))"

definition shows_cached :: "tile \<Rightarrow> bool" where
  "shows_cached t = (case ti_seen t of Some (Some d) \<Rightarrow> kd_hit d | _ \<Rightarrow> False)"

section \<open>What the library promises\<close>

text \<open>
  A key is loading until a fetch for it has ended, and has its data from then on; a render with a
  key that was never asked for starts a fetch, any other render or refetch at most fetches that key
  again; and a component is rendered again when the fetch for the key it watches ends.
\<close>

definition react_query :: "'c query_lib \<Rightarrow> bool" where
  "react_query lib \<longleftrightarrow>
     ql_asked lib (ql_empty lib) = [] \<and> dom (ql_data lib (ql_empty lib)) = {} \<and>
     (\<forall>q c. dom (ql_data lib (ql_observe lib q c)) \<subseteq> dom (ql_data lib c)) \<and>
     (\<forall>q c. \<exists>ks. ql_asked lib (ql_observe lib q c) = ql_asked lib c @ ks \<and> set ks \<subseteq> {q}) \<and>
     (\<forall>q c. q \<notin> set (ql_asked lib c) \<longrightarrow> ql_asked lib (ql_observe lib q c) = ql_asked lib c @ [q]) \<and>
     (\<forall>q c. dom (ql_data lib (ql_refetch lib q c)) \<subseteq> dom (ql_data lib c)) \<and>
     (\<forall>q c. \<exists>ks. ql_asked lib (ql_refetch lib q c) = ql_asked lib c @ ks \<and> set ks \<subseteq> {q}) \<and>
     (\<forall>q r c. dom (ql_data lib (ql_answer lib q r c)) \<subseteq> insert q (dom (ql_data lib c))) \<and>
     (\<forall>q r c. ql_asked lib (ql_answer lib q r c) = ql_asked lib c) \<and>
     (\<forall>q d c. ql_data lib (ql_answer lib q (Some d) c) q = Some (Some d)) \<and>
     (\<forall>q. ql_rerenders lib q q)"

lemma query_laws:
  assumes "react_query lib"
  shows "ql_asked lib (ql_empty lib) = []" "dom (ql_data lib (ql_empty lib)) = {}"
    and "dom (ql_data lib (ql_observe lib q c)) \<subseteq> dom (ql_data lib c)"
    and "q \<notin> set (ql_asked lib c) \<Longrightarrow> ql_asked lib (ql_observe lib q c) = ql_asked lib c @ [q]"
    and "dom (ql_data lib (ql_refetch lib q c)) \<subseteq> dom (ql_data lib c)"
    and "\<exists>ks. ql_asked lib (ql_refetch lib q c) = ql_asked lib c @ ks \<and> set ks \<subseteq> {q}"
    and "dom (ql_data lib (ql_answer lib q r c)) \<subseteq> insert q (dom (ql_data lib c))"
    and "ql_asked lib (ql_answer lib q r c) = ql_asked lib c"
    and "ql_rerenders lib q q"
  using assms unfolding react_query_def by simp_all

section \<open>Every render asks a new question\<close>

lemma query_time:
  assumes "tile_query env m d t1 = tile_query env m d t2" and "\<bar>t1 - t2\<bar> < 86400000"
  shows "t1 = t2"
proof -
  have "toISOString t1 = toISOString t2" using assms(1) by (simp add: tile_query_def)
  then have "86400000 dvd t1 - t2" using iso_time_of_day unfolding mod_eq_dvd_iff by blast
  then have "86400000 dvd \<bar>t1 - t2\<bar>" by simp
  then have "\<not> 0 < \<bar>t1 - t2\<bar>" using assms(2) zdvd_imp_le [of 86400000 "\<bar>t1 - t2\<bar>"] by linarith
  then show ?thesis by simp
qed

text \<open>
  Everything asked up to \<open>prev\<close> was asked at a moment since the mount, only what was asked is
  answered, the key of the last render is not, and that render saw nothing.
\<close>

definition asked_within :: "client_env \<Rightarrow> string \<Rightarrow> int \<Rightarrow> int \<Rightarrow> int \<Rightarrow> query_key list \<Rightarrow> bool" where
  "asked_within env m d mount prev ks \<longleftrightarrow> (\<forall>q \<in> set ks. \<exists>u. mount \<le> u \<and> u \<le> prev \<and> q = tile_query env m d u)"

definition unsettled ::
  "client_env \<Rightarrow> 'c query_lib \<Rightarrow> string \<Rightarrow> int \<Rightarrow> int \<Rightarrow> int \<Rightarrow> tile \<times> 'c \<Rightarrow> bool" where
  "unsettled env lib m d mount prev tc \<longleftrightarrow> (case tc of (t, c) \<Rightarrow>
     asked_within env m d mount prev (ql_asked lib c) \<and> dom (ql_data lib c) \<subseteq> set (ql_asked lib c) \<and>
     ti_key t \<in> set (ql_asked lib c) \<and> ti_key t \<notin> dom (ql_data lib c) \<and> ti_seen t = None)"

lemma asked_new:
  assumes "asked_within env m d mount prev ks" and "prev < now" "now < mount + 86400000"
  shows "tile_query env m d now \<notin> set ks"
proof
  assume "tile_query env m d now \<in> set ks"
  with assms(1) obtain u where "mount \<le> u" "u \<le> prev" "tile_query env m d now = tile_query env m d u"
    unfolding asked_within_def by blast
  with query_time [of env m d now u] assms(2,3) show False by simp
qed

lemma asked_later: "asked_within env m d mount prev ks \<Longrightarrow> prev \<le> now \<Longrightarrow> asked_within env m d mount now ks"
  by (force simp: asked_within_def)

lemma unsettled_later:
  "unsettled env lib m d mount prev tc \<Longrightarrow> prev \<le> now \<Longrightarrow> unsettled env lib m d mount now tc"
  by (auto simp: unsettled_def intro: asked_later)

text \<open>A render after the clock moved: a new key, a new request, nothing to see.\<close>

lemma unsettled_render:
  assumes lib: "react_query lib" and asked: "asked_within env m d mount prev (ql_asked lib c)"
    and "prev < now" "now < mount + 86400000" "mount \<le> now"
    and dom: "dom (ql_data lib c) \<subseteq> set (ql_asked lib c)"
  shows "unsettled env lib m d mount now (tile_render env lib m d now (t, c))"
    and "ql_asked lib (snd (tile_render env lib m d now (t, c))) = ql_asked lib c @ [tile_query env m d now]"
proof -
  let ?q = "tile_query env m d now"
  have new: "?q \<notin> set (ql_asked lib c)" by (rule asked_new [OF asked assms(3,4)])
  note asks = query_laws(4) [OF lib new] and less = query_laws(3) [OF lib, of ?q c]
  then have none: "ql_data lib (ql_observe lib ?q c) ?q = None" using new dom by blast
  have "asked_within env m d mount now (ql_asked lib c @ [?q])"
    using asked_later [OF asked, of now] assms(3,5) by (auto simp: asked_within_def)
  with none less dom asks show "unsettled env lib m d mount now (tile_render env lib m d now (t, c))"
    by (auto simp: unsettled_def tile_render_def Let_def)
  show "ql_asked lib (snd (tile_render env lib m d now (t, c))) = ql_asked lib c @ [?q]"
    by (simp add: tile_render_def Let_def asks)
qed

lemma unsettled_step:
  assumes lib: "react_query lib" and old: "unsettled env lib m d mount prev (t, c)"
    and time: "prev < now" "now < mount + 86400000" "mount \<le> now"
  shows "unsettled env lib m d mount now (tile_step env lib m d now e (t, c))"
proof -
  have asked: "asked_within env m d mount prev (ql_asked lib c)" and dom: "dom (ql_data lib c) \<subseteq> set (ql_asked lib c)"
    and key: "ti_key t \<in> set (ql_asked lib c)" "ti_key t \<notin> dom (ql_data lib c)" "ti_seen t = None"
    using old by (simp_all add: unsettled_def)
  have un: "unsettled env lib m d mount now (t, c)" using unsettled_later [OF old] time(1) by simp
  note render = unsettled_render(1) [OF lib _ time]
  show ?thesis
  proof (cases e)
    case (Settled q r)
    show ?thesis
    proof (cases "q \<in> set (ql_asked lib c)")
      case True
      let ?c = "ql_answer lib q r c"
      have same: "ql_asked lib ?c = ql_asked lib c" and more: "dom (ql_data lib ?c) \<subseteq> insert q (dom (ql_data lib c))"
        using query_laws(7,8) [OF lib] by blast+
      have dom': "dom (ql_data lib ?c) \<subseteq> set (ql_asked lib ?c)" using more dom True unfolding same by blast
      have "unsettled env lib m d mount now (tile_render env lib m d now (t, ?c))"
        using asked dom' by (intro render) (simp_all add: same)
      moreover have "unsettled env lib m d mount now (t, ?c)" if "q \<noteq> ti_key t"
        using un key that more dom' by (auto simp: unsettled_def same)
      moreover have "ql_rerenders lib (ti_key t) (ti_key t)" by (rule query_laws(9) [OF lib])
      ultimately show ?thesis
        using True by (cases "q = ti_key t") (simp_all add: Settled tile_step_def Let_def)
    next
      case False
      with un show ?thesis by (simp add: Settled tile_step_def)
    qed
  next
    case Refetch
    obtain ks where "ql_asked lib (ql_refetch lib (ti_key t) c) = ql_asked lib c @ ks" "set ks \<subseteq> {ti_key t}"
      using query_laws(6) [OF lib] by blast
    moreover have less: "dom (ql_data lib (ql_refetch lib (ti_key t) c)) \<subseteq> dom (ql_data lib c)"
      by (rule query_laws(5) [OF lib])
    moreover have "dom (ql_data lib (ql_refetch lib (ti_key t) c)) \<subseteq> set (ql_asked lib c)"
      using less dom by (rule subset_trans)
    moreover have "ti_key t \<notin> dom (ql_data lib (ql_refetch lib (ti_key t) c))" using less key(2) by blast
    ultimately have "unsettled env lib m d mount now (t, ql_refetch lib (ti_key t) c)"
      using un key by (auto simp: unsettled_def asked_within_def)
    then show ?thesis by (simp add: Refetch tile_step_def)
  qed (use un render [OF asked dom] in \<open>simp_all add: tile_step_def Let_def\<close>)
qed

lemma unsettled_run:
  assumes "react_query lib" and "unsettled env lib m d mount prev tc" and "mount \<le> prev"
    and "sorted_wrt (<) (prev # map fst es)" and "\<forall>(u, e) \<in> set es. u < mount + 86400000"
  shows "unsettled env lib m d mount (fst (last ((prev, ParentRenders) # es))) (tile_run env lib m d es tc)"
  using assms(2-)
proof (induction es arbitrary: prev tc)
  case (Cons x es)
  obtain now e where x: "x = (now, e)" by (cases x)
  have "unsettled env lib m d mount now (tile_step env lib m d now e tc)"
    using Cons.prems x unsettled_step [OF assms(1), of env m d mount prev "fst tc" "snd tc" now] by auto
  moreover have "mount \<le> now" "sorted_wrt (<) (now # map fst es)" "\<forall>(u, e) \<in> set es. u < mount + 86400000"
    using Cons.prems x by auto
  ultimately have "unsettled env lib m d mount (fst (last ((now, ParentRenders) # es)))
      (tile_run env lib m d es (tile_step env lib m d now e tc))"
    by (rule Cons.IH)
  then show ?case by (simp add: x split: if_splits)
qed simp

lemma unsettled_mount:
  assumes "react_query lib"
  shows "unsettled env lib m d mount mount (tile_mounts env lib m d mount)"
  unfolding tile_mounts_def
  using query_laws(1,2) [OF assms]
  by (intro unsettled_render(1) [OF assms, of _ _ _ _ "mount - 1"]) (simp_all add: asked_within_def)

text \<open>
  Claim C17: a KPI tile does not come to show its number. Because the key of its query contains the
  current time in milliseconds, under any cache that keeps the documented promises of react-query,
  in every run of answers, failures, live ticks, refetches and renders during the first 24 hours
  after it was mounted, each event at a later millisecond than the one before, the tile still shows
  the loading placeholder and no value, error or cached badge; and an answer to the question it is
  waiting for, at a later moment, only makes it send the next request, for a range never asked before.
\<close>

theorem kpi_tile_never_settles:
  assumes "react_query lib" and "sorted_wrt (<) (mount # map fst events)"
    and "\<forall>(u, e) \<in> set events. u < mount + 86400000"
  shows "let (t, c) = tile_run env lib metric windowDays events (tile_mounts env lib metric windowDays mount) in
      tile_value ch t = None \<and> \<not> shows_cached t
      \<and> (fst (last ((mount, ParentRenders) # events)) < now \<and> now < mount + 86400000 \<longrightarrow>
          (let q = tile_query env metric windowDays now in
           ql_asked lib (snd (tile_step env lib metric windowDays now (Settled (ti_key t) d) (t, c))) = ql_asked lib c @ [q]
           \<and> q \<notin> set (ql_asked lib c)))"
proof -
  obtain t c where run: "tile_run env lib metric windowDays events (tile_mounts env lib metric windowDays mount) = (t, c)"
    by fastforce
  let ?prev = "fst (last ((mount, ParentRenders) # events))" and ?c = "ql_answer lib (ti_key t) d c"
  have un: "unsettled env lib metric windowDays mount ?prev (t, c)"
    unfolding run [symmetric] by (rule unsettled_run [OF assms(1) unsettled_mount [OF assms(1)] order_refl assms(2,3)])
  then have asked: "asked_within env metric windowDays mount ?prev (ql_asked lib c)" and seen: "ti_seen t = None"
    and key: "ti_key t \<in> set (ql_asked lib c)" and dom: "dom (ql_data lib c) \<subseteq> set (ql_asked lib c)"
    by (simp_all add: unsettled_def)
  have "ql_asked lib (snd (tile_step env lib metric windowDays now (Settled (ti_key t) d) (t, c)))
      = ql_asked lib c @ [tile_query env metric windowDays now]"
    and "tile_query env metric windowDays now \<notin> set (ql_asked lib c)"
    if time: "?prev < now" "now < mount + 86400000"
  proof -
    have "mount \<le> ?prev" using assms(2) by (cases events rule: rev_cases) (auto simp: sorted_wrt_append)
    with time(1) have "mount \<le> now" by simp
    note same = query_laws(8) [OF assms(1), of "ti_key t" d c]
    have "dom (ql_data lib ?c) \<subseteq> set (ql_asked lib ?c)"
      using query_laws(7) [OF assms(1), of "ti_key t" d c] dom key unfolding same by blast
    with unsettled_render(2) [OF assms(1) _ time \<open>mount \<le> now\<close>, of env metric windowDays ?c t] asked
    show "ql_asked lib (snd (tile_step env lib metric windowDays now (Settled (ti_key t) d) (t, c)))
        = ql_asked lib c @ [tile_query env metric windowDays now]"
      using key query_laws(9) [OF assms(1)] by (simp add: tile_step_def Let_def same)
    show "tile_query env metric windowDays now \<notin> set (ql_asked lib c)"
      by (rule asked_new [OF asked time])
  qed
  then show ?thesis unfolding run by (simp add: Let_def tile_value_def shows_cached_def seen)
qed

text \<open>A cache that keeps every answer; three requests, two of them answered, nothing shown.\<close>

definition sample_lib :: "((query_key \<Rightarrow> kpi_data option option) \<times> query_key list) query_lib" where
  "sample_lib = \<lparr>ql_empty = (Map.empty, []),
     ql_observe = (\<lambda>q (r, ks). (r, if q \<in> set ks then ks else ks @ [q])),
     ql_answer = (\<lambda>q d (r, ks). (r(q \<mapsto> d), ks)), ql_refetch = (\<lambda>q (r, ks). (r, ks @ [q])),
     ql_data = fst, ql_asked = snd, ql_rerenders = (=)\<rparr>"

lemma sample_lib_laws: "react_query sample_lib"
  by (auto simp: react_query_def sample_lib_def split: prod.split)

theorem kpi_tile_never_settles_witness:
  "let q = tile_query sample_client ''rev'' 30;
       d = Some \<lparr>kd_unit = ''count'', kd_points = [(''x'', 5)], kd_hit = False\<rparr>;
       (t, c) = tile_run sample_client sample_lib ''rev'' 30 [(1200, Settled (q 1000) d), (1400, Settled (q 1200) d)]
             (tile_mounts sample_client sample_lib ''rev'' 30 1000)
   in tile_value sample_chart t = None \<and> \<not> shows_cached t"
  using kpi_tile_never_settles [OF sample_lib_laws,
      of 1000 "[(1200, Settled (tile_query sample_client ''rev'' 30 1000)
                       (Some \<lparr>kd_unit = ''count'', kd_points = [(''x'', 5)], kd_hit = False\<rparr>)),
               (1400, Settled (tile_query sample_client ''rev'' 30 1200)
                       (Some \<lparr>kd_unit = ''count'', kd_points = [(''x'', 5)], kd_hit = False\<rparr>))]"
        sample_client "''rev''" 30 sample_chart 0 None]
  by (auto simp: Let_def split: prod.splits)

end
