(* ===== verification/Pages.thy ===== *)
theory Pages
  imports Client Charts
begin

text \<open>
  The pages behind the login: the dashboard canvas (\<open>app/dashboards/[id]/page.tsx\<close>), the list of
  dashboards, the alert rules and their history, and the getting-started checklist
  (\<open>components/onboarding/GettingStartedCard.tsx\<close>). A page is a function of its form fields and of
  the state of its queries; the actions send through the access layer of \<open>Client\<close>. Texts are in
  ASCII (an arrow is a dash and a bracket); class names and icons are left out.
\<close>

text \<open>A query of \<open>@tanstack/react-query\<close>: loading, failed, or with its data.\<close>

datatype query = Loading | Failed | Loaded "json option"

definition data_of_query :: "query \<Rightarrow> json option" where
  "data_of_query q = (case q of Loaded d \<Rightarrow> d | _ \<Rightarrow> None)"

definition settled :: "client_error + json option \<Rightarrow> query" where
  "settled r = (case r of Inl _ \<Rightarrow> Failed | Inr d \<Rightarrow> Loaded d)"

text \<open>\<open>v ?? d\<close>, \<open>o?.k\<close> and the elements of a value used as an array.\<close>

definition or_else :: "json option \<Rightarrow> json \<Rightarrow> json" where
  "or_else v d = (case v of None \<Rightarrow> d | Some JNull \<Rightarrow> d | Some j \<Rightarrow> j)"

definition field :: "string \<Rightarrow> json option \<Rightarrow> json option" where
  "field k v = (case v of None \<Rightarrow> None | Some j \<Rightarrow> json_get k j)"

definition items_of :: "json option \<Rightarrow> json list" where
  "items_of v = (case v of Some (JArr xs) \<Rightarrow> xs | _ \<Rightarrow> [])"

section \<open>The dashboard page\<close>

definition KPI_METRICS :: "(string \<times> string) list" where
  "KPI_METRICS = [(''mrr'', ''MRR''), (''dau'', ''Daily active users''), (''signups'', ''Signups''),
     (''churn'', ''Churn''), (''payments'', ''Payments'')]"

datatype widget_choice = KpiWidget | ForecastWidget | CohortWidget | FunnelWidget

definition metric_label :: "string \<Rightarrow> string" where
  "metric_label metric = (case map_of KPI_METRICS metric of Some l \<Rightarrow> l | None \<Rightarrow> metric)"

definition num :: "int \<Rightarrow> json" where
  "num i = JNum (rat_of_int i)"

definition default_steps :: json where
  "default_steps = JArr (map JStr [''signup'', ''subscription_started'', ''subscription_payment''])"

definition widget_input :: "widget_choice \<Rightarrow> string \<Rightarrow> json" where
  "widget_input choice metric =
     (case choice of
        KpiWidget \<Rightarrow> JObj [(''type'', JStr ''kpi''), (''title'', JStr (metric_label metric)),
          (''configJson'', JObj [(''metric'', JStr metric)])]
      | ForecastWidget \<Rightarrow> JObj [(''type'', JStr ''forecast''),
          (''title'', JStr (metric_label metric @ '' forecast'')),
          (''configJson'', JObj [(''metric'', JStr metric), (''horizonDays'', num 30),
             (''modelKind'', JStr ''prophet'')])]
      | CohortWidget \<Rightarrow> JObj [(''type'', JStr ''cohort''), (''title'', JStr ''Cohort retention''),
          (''configJson'', JObj [(''windowDays'', num 84)])]
      | FunnelWidget \<Rightarrow> JObj [(''type'', JStr ''funnel''),
          (''title'', JStr ''Signup -> payment funnel''),
          (''configJson'', JObj [(''steps'', default_steps), (''windowDays'', num 30),
             (''windowHours'', num (24 * 7))])])"

definition addWidget :: "client_env \<Rightarrow> string \<Rightarrow> widget_choice \<Rightarrow> string \<Rightarrow> json option act" where
  "addWidget env did choice metric = createWidget env did (widget_input choice metric)"

text \<open>What is drawn for a widget, with the properties it is given; undefined ones are left out.\<close>

datatype canvas_item =
    KpiItem json json
  | ForecastItem json json json "json option"
  | CohortItem json json
  | FunnelItem json json json json
  | OtherItem json json

definition page_widgets :: "query \<Rightarrow> json list" where
  "page_widgets dash = items_of (field ''widgets'' (data_of_query dash))"

definition has_type :: "string \<Rightarrow> json \<Rightarrow> bool" where
  "has_type t w \<longleftrightarrow> json_get ''type'' w = Some (JStr t)"

record grouped =
  gr_kpis :: "json list"
  gr_forecasts :: "json list"
  gr_cohorts :: "json list"
  gr_funnels :: "json list"
  gr_other :: "json list"

definition group_widgets :: "json list \<Rightarrow> grouped" where
  "group_widgets ws =
     \<lparr>gr_kpis = filter (has_type ''kpi'') ws, gr_forecasts = filter (has_type ''forecast'') ws,
      gr_cohorts = filter (has_type ''cohort'') ws, gr_funnels = filter (has_type ''funnel'') ws,
      gr_other = filter (\<lambda>w. \<not> (\<exists>t \<in> set [''kpi'', ''forecast'', ''cohort'', ''funnel'']. has_type t w)) ws\<rparr>"

definition widget_config :: "json \<Rightarrow> json" where
  "widget_config w = or_else (json_get ''configJson'' w) (JObj [])"

definition text_of :: "string \<Rightarrow> json \<Rightarrow> json" where
  "text_of k w = (case json_get k w of None \<Rightarrow> JNull | Some j \<Rightarrow> j)"

definition kpi_item :: "json \<Rightarrow> canvas_item" where
  "kpi_item w = KpiItem (or_else (json_get ''metric'' (widget_config w)) (JStr ''mrr'')) (text_of ''title'' w)"

definition forecast_item :: "json \<Rightarrow> canvas_item" where
  "forecast_item w =
     ForecastItem (or_else (json_get ''metric'' (widget_config w)) (JStr ''mrr'')) (text_of ''title'' w)
       (or_else (json_get ''horizonDays'' (widget_config w)) (num 30)) (json_get ''modelKind'' (widget_config w))"

definition cohort_item :: "json \<Rightarrow> canvas_item" where
  "cohort_item w = CohortItem (text_of ''title'' w) (or_else (json_get ''windowDays'' (widget_config w)) (num 84))"

definition funnel_item :: "json \<Rightarrow> canvas_item" where
  "funnel_item w =
     FunnelItem (text_of ''title'' w) (or_else (json_get ''steps'' (widget_config w)) default_steps)
       (or_else (json_get ''windowDays'' (widget_config w)) (num 30))
       (or_else (json_get ''windowHours'' (widget_config w)) (num (24 * 7)))"

definition other_item :: "json \<Rightarrow> canvas_item" where
  "other_item w = OtherItem (text_of ''title'' w) (text_of ''type'' w)"

text \<open>The sections with their titles; a section without widgets is not drawn.\<close>

definition canvas_sections :: "json list \<Rightarrow> (string \<times> canvas_item list) list" where
  "canvas_sections ws =
     (let g = group_widgets ws in
      (if gr_kpis g \<noteq> [] then [(''Key metrics'', map kpi_item (gr_kpis g))] else []) @
      (if gr_forecasts g \<noteq> [] then [(''Forecasts'', map forecast_item (gr_forecasts g))] else []) @
      (if gr_cohorts g \<noteq> [] \<or> gr_funnels g \<noteq> []
       then [(''Cohorts & funnels'', map cohort_item (gr_cohorts g) @ map funnel_item (gr_funnels g))] else []) @
      (if gr_other g \<noteq> [] then [(''Other widgets'', map other_item (gr_other g))] else []))"

record canvas =
  cv_heading :: json
  cv_count :: nat
  cv_loading :: bool
  cv_empty :: bool
  cv_sections :: "(string \<times> canvas_item list) list"

definition dashboard_page :: "query \<Rightarrow> canvas" where
  "dashboard_page dash =
     (let ws = page_widgets dash in
      \<lparr>cv_heading = or_else (field ''name'' (data_of_query dash)) (JStr ''Loading...''),
       cv_count = length ws, cv_loading = (dash = Loading),
       cv_empty = (dash \<noteq> Loading \<and> ws = []), cv_sections = canvas_sections ws\<rparr>)"

text \<open>The page opened on a dashboard: its query sends \<open>getDashboard\<close>.\<close>

definition open_dashboard :: "client_env \<Rightarrow> string \<Rightarrow> page \<Rightarrow> canvas \<times> page" where
  "open_dashboard env did pg =
     (let (r, pg') = getDashboard env did pg in (dashboard_page (settled r), pg'))"

text \<open>The layouts of \<open>/dashboards\<close>, \<open>/alerts\<close> and \<open>/models\<close>: without a token to the login page.\<close>

definition layout_ready :: "page \<Rightarrow> bool" where
  "layout_ready pg \<longleftrightarrow> (case getAccessToken pg of None \<Rightarrow> False | Some t \<Rightarrow> t \<noteq> [])"

section \<open>The list of dashboards\<close>

record dashboard_form =
  df_name :: string
  df_description :: string
  df_creating :: bool

text \<open>The input of the form, or nothing when the name is blank.\<close>

definition dashboard_input :: "dashboard_form \<Rightarrow> json option" where
  "dashboard_input fm =
     (if js_trim (df_name fm) = [] then None
      else Some (defined_members
        [(''name'', Some (JStr (js_trim (df_name fm)))),
         (''description'', if js_trim (df_description fm) = [] then None
                           else Some (JStr (js_trim (df_description fm))))]))"

definition submit_dashboard :: "client_env \<Rightarrow> dashboard_form \<Rightarrow> page \<Rightarrow> dashboard_form \<times> page" where
  "submit_dashboard env fm pg =
     (case dashboard_input fm of
        None \<Rightarrow> (fm, pg)
      | Some input \<Rightarrow>
          (case createDashboard env input pg of
             (Inl e, pg') \<Rightarrow> (fm, pg')
           | (Inr d, pg') \<Rightarrow> (fm\<lparr>df_name := [], df_description := [], df_creating := False\<rparr>, pg')))"

text \<open>A card of the list: name, the number in its corner, the description, the link.\<close>

definition widgetCount :: "json \<Rightarrow> nat" where
  "widgetCount d = length (items_of (json_get ''layoutJson'' d))"

definition dashboard_card :: "client_env \<Rightarrow> json \<Rightarrow> json \<times> nat \<times> json \<times> string" where
  "dashboard_card env d =
     (text_of ''name'' d, widgetCount d,
      (if truthy (json_get ''description'' d) then text_of ''description'' d else JStr ''No description''),
      ''/dashboards/'' @ as_text env (json_get ''id'' d))"

datatype list_view = ListLoading | ListFailed | ListEmpty | ListCards "(json \<times> nat \<times> json \<times> string) list"

definition dashboards_view :: "client_env \<Rightarrow> query \<Rightarrow> list_view" where
  "dashboards_view env q =
     (case q of
        Loading \<Rightarrow> ListLoading
      | Failed \<Rightarrow> ListFailed
      | Loaded d \<Rightarrow> if items_of d = [] then ListEmpty else ListCards (map (dashboard_card env) (items_of d)))"

section \<open>The alert rules\<close>

text \<open>A number field holds a number or, after \<open>parseFloat\<close> of an empty text, \<open>NaN\<close>.\<close>

record alert_form =
  af_adding :: bool
  af_name :: string
  af_metric :: string
  af_method :: string
  af_threshold :: "rat option"
  af_windowDays :: "rat option"
  af_emailTo :: string
  af_slackWebhook :: string

definition METRICS :: "string list" where
  "METRICS = [''mrr'', ''dau'', ''signups'', ''churn'', ''payments'']"

definition fresh_alert_form :: alert_form where
  "fresh_alert_form = \<lparr>af_adding = False, af_name = [], af_metric = ''mrr'', af_method = ''zscore'',
     af_threshold = Some 3, af_windowDays = Some 7, af_emailTo = [], af_slackWebhook = []\<rparr>"

text \<open>\<open>JSON.stringify\<close> prints \<open>NaN\<close> as \<open>null\<close>.\<close>

definition number_json :: "rat option \<Rightarrow> json" where
  "number_json q = (case q of Some r \<Rightarrow> JNum r | None \<Rightarrow> JNull)"

definition form_channels :: "alert_form \<Rightarrow> json list" where
  "form_channels fm =
     (if af_emailTo fm \<noteq> []
      then [JObj [(''type'', JStr ''email''), (''config'', JObj [(''to'', JStr (af_emailTo fm))])]] else []) @
     (if af_slackWebhook fm \<noteq> []
      then [JObj [(''type'', JStr ''slack''), (''config'', JObj [(''webhookUrl'', JStr (af_slackWebhook fm))])]] else [])"

definition alert_input :: "alert_form \<Rightarrow> json" where
  "alert_input fm = JObj
     [(''name'', JStr (af_name fm)), (''metric'', JStr (af_metric fm)), (''method'', JStr (af_method fm)),
      (''thresholdParams'', JObj [(''threshold'', number_json (af_threshold fm)),
                                  (''windowDays'', number_json (af_windowDays fm))]),
      (''channels'', JArr (form_channels fm))]"

definition submit_alert :: "client_env \<Rightarrow> alert_form \<Rightarrow> page \<Rightarrow> alert_form \<times> page" where
  "submit_alert env fm pg =
     (if js_trim (af_name fm) = [] then (fm, pg)
      else case createAlert env (alert_input fm) pg of
        (Inl e, pg') \<Rightarrow> (fm, pg')
      | (Inr a, pg') \<Rightarrow>
          (fm\<lparr>af_adding := False, af_name := [], af_emailTo := [], af_slackWebhook := []\<rparr>, pg'))"

definition click_toggle :: "client_env \<Rightarrow> json \<Rightarrow> json option act" where
  "click_toggle env a =
     toggleAlert env (as_text env (json_get ''id'' a)) (\<not> truthy (json_get ''enabled'' a))"

definition click_delete :: "client_env \<Rightarrow> bool \<Rightarrow> json \<Rightarrow> unit act" where
  "click_delete env confirmed a =
     (if confirmed then deleteAlert env (as_text env (json_get ''id'' a)) else ret ())"

text \<open>A row: name, metric, method, the number of channels, the last fire, the state.\<close>

definition alert_line :: "json \<Rightarrow> json \<times> json \<times> json \<times> string \<times> json option \<times> string" where
  "alert_line a =
     (let n = length (items_of (json_get ''channelsJson'' a)) in
      (text_of ''name'' a, text_of ''metric'' a, text_of ''method'' a,
       nat_str n @ '' channel'' @ (if n = 1 then [] else ''s''),
       (if truthy (json_get ''lastFiredAt'' a) then json_get ''lastFiredAt'' a else None),
       (if truthy (json_get ''enabled'' a) then ''Enabled'' else ''Disabled'')))"

text \<open>A row of the history: a dash where the rule or the expectation is missing.\<close>

definition history_line :: "json \<Rightarrow> json \<times> json \<times> json \<times> json \<times> json" where
  "history_line e =
     (text_of ''firedAt'' e,
      or_else (field ''name'' (json_get ''alert'' e)) (JStr ''-''),
      or_else (field ''metric'' (json_get ''alert'' e)) (JStr ''-''),
      text_of ''value'' e, or_else (json_get ''expected'' e) (JStr ''-''))"

section \<open>The getting-started checklist\<close>

datatype step_status = StepDone | StepTodo | StepLoading

record checklist =
  gs_dismissed :: bool
  gs_eventMarked :: bool
  gs_issued :: "json option"
  gs_creatingKey :: bool
  gs_keyName :: string

record checklist_queries =
  gq_keys :: query
  gq_dashboards :: query
  gq_firstDashboard :: query
  gq_models :: query

text \<open>The effect after the first render reads the two flags of the storage.\<close>

definition checklist_mounts :: "page \<Rightarrow> checklist" where
  "checklist_mounts pg =
     \<lparr>gs_dismissed = isChecklistDismissed pg, gs_eventMarked = isEventMarkedSent pg, gs_issued = None,
      gs_creatingKey = False, gs_keyName = ''Default''\<rparr>"

definition firstDashboardId :: "checklist_queries \<Rightarrow> json option" where
  "firstDashboardId q =
     (case items_of (data_of_query (gq_dashboards q)) of [] \<Rightarrow> None | d # _ \<Rightarrow> json_get ''id'' d)"

text \<open>A query that is not enabled does not load.\<close>

definition loading_first :: "checklist_queries \<Rightarrow> bool" where
  "loading_first q \<longleftrightarrow> truthy (firstDashboardId q) \<and> gq_firstDashboard q = Loading"

definition first_dashboard :: "checklist_queries \<Rightarrow> query" where
  "first_dashboard q = (if truthy (firstDashboardId q) then gq_firstDashboard q else Loading)"

definition hasKey :: "checklist_queries \<Rightarrow> bool" where
  "hasKey q \<longleftrightarrow> filter (\<lambda>k. \<not> truthy (json_get ''revokedAt'' k)) (items_of (data_of_query (gq_keys q))) \<noteq> []"

definition hasDashboard :: "checklist_queries \<Rightarrow> bool" where
  "hasDashboard q \<longleftrightarrow> items_of (data_of_query (gq_dashboards q)) \<noteq> []"

definition hasWidget :: "checklist_queries \<Rightarrow> bool" where
  "hasWidget q \<longleftrightarrow> items_of (field ''widgets'' (data_of_query (first_dashboard q))) \<noteq> []"

definition hasModel :: "checklist_queries \<Rightarrow> bool" where
  "hasModel q \<longleftrightarrow> items_of (data_of_query (gq_models q)) \<noteq> []"

definition stepStatus :: "bool \<Rightarrow> bool \<Rightarrow> step_status" where
  "stepStatus cond loading = (if cond then StepDone else if loading then StepLoading else StepTodo)"

definition quoted :: "string \<Rightarrow> string" where
  "quoted s = [CHR 0x22] @ s @ [CHR 0x22]"

definition curlSnippet :: "string \<Rightarrow> client_env \<Rightarrow> checklist \<Rightarrow> string" where
  "curlSnippet ingest_base env c =
     (let next_line = '' '' @ [CHR 0x5C, CHR 0x0A] @ ''  '' in
      ''curl -X POST '' @ ingest_base @ ''/v1/events'' @ next_line @
      ''-H '' @ quoted (''Authorization: Bearer '' @
        (case gs_issued c of Some k \<Rightarrow> as_text env (json_get ''secret'' k) | None \<Rightarrow> ''<your-api-key>'')) @
      next_line @ ''-H '' @ quoted ''Content-Type: application/json'' @ next_line @
      ''-d '' @ [CHR 0x27] @ ''{'' @ quoted ''event'' @ '':'' @ quoted ''order_completed'' @ '','' @
      quoted ''properties'' @ '':{'' @ quoted ''value'' @ '':49.0,'' @ quoted ''currency'' @ '':'' @
      quoted ''USD'' @ ''}}'' @ [CHR 0x27])"

text \<open>What an open step offers; the labels of copied or pending buttons are left out.\<close>

datatype step_body =
    SecretShown string
  | KeyNameForm string
  | CreateKeyButton
  | SnippetShown string
  | NewDashboardButton
  | OpenDashboard string
  | DashboardFirst
  | ModelsLink

record step =
  st_id :: string
  st_title :: string
  st_description :: string
  st_status :: step_status
  st_body :: step_body

definition checklist_steps :: "string \<Rightarrow> client_env \<Rightarrow> checklist \<Rightarrow> checklist_queries \<Rightarrow> step list" where
  "checklist_steps ingest_base env c q =
     [\<lparr>st_id = ''api-key'', st_title = ''Create an API key'',
       st_description = ''Authenticate your event sources.'',
       st_status = stepStatus (hasKey q) (gq_keys q = Loading),
       st_body = (case gs_issued c of
           Some k \<Rightarrow> SecretShown (as_text env (json_get ''secret'' k))
         | None \<Rightarrow> if gs_creatingKey c then KeyNameForm (gs_keyName c) else CreateKeyButton)\<rparr>,
      \<lparr>st_id = ''first-event'', st_title = ''Send your first event'',
       st_description = ''Use the API key to ingest one event - POST to the ingestion service.'',
       st_status = stepStatus (gs_eventMarked c) False,
       st_body = SnippetShown (curlSnippet ingest_base env c)\<rparr>,
      \<lparr>st_id = ''dashboard'', st_title = ''Create your first dashboard'',
       st_description = ''A dashboard is a canvas for KPI tiles, charts, and forecasts.'',
       st_status = stepStatus (hasDashboard q) (gq_dashboards q = Loading), st_body = NewDashboardButton\<rparr>,
      \<lparr>st_id = ''widget'', st_title = ''Add a widget'',
       st_description = ''Drop a KPI tile or a chart onto a dashboard.'',
       st_status = stepStatus (hasWidget q) (loading_first q),
       st_body = (if truthy (firstDashboardId q)
                  then OpenDashboard (''/dashboards/'' @ as_text env (firstDashboardId q)) else DashboardFirst)\<rparr>,
      \<lparr>st_id = ''forecast'', st_title = ''Fit your first forecast model'',
       st_description = ''Models retrain nightly at 02:00 UTC after you have ~14 days of data. You can trigger it manually too.'',
       st_status = stepStatus (hasModel q) (gq_models q = Loading), st_body = ModelsLink\<rparr>]"

definition steps_done :: "step list \<Rightarrow> nat" where
  "steps_done steps = length (filter (\<lambda>s. st_status s = StepDone) steps)"

text \<open>The card: headline, progress, each step with its badge and, unless it is done, its body.\<close>

record card =
  ca_headline :: string
  ca_done :: nat
  ca_total :: nat
  ca_dismissible :: bool
  ca_items :: "(string \<times> string \<times> step_body option) list"

definition badge :: "step_status \<Rightarrow> nat \<Rightarrow> string" where
  "badge status idx =
     (case status of StepDone \<Rightarrow> ''done'' | StepLoading \<Rightarrow> ''...'' | StepTodo \<Rightarrow> nat_str idx)"

definition step_item :: "nat \<times> step \<Rightarrow> string \<times> string \<times> step_body option" where
  "step_item x =
     (let (idx, s) = x in
      (badge (st_status s) (idx + 1), st_title s, if st_status s \<noteq> StepDone then Some (st_body s) else None))"

definition checklist_card :: "string \<Rightarrow> client_env \<Rightarrow> checklist \<Rightarrow> checklist_queries \<Rightarrow> card option" where
  "checklist_card ingest_base env c q =
     (let steps = checklist_steps ingest_base env c q; n = steps_done steps; all_done = (n = length steps) in
      if gs_dismissed c \<or> (all_done \<and> gs_dismissed c) then None
      else Some \<lparr>ca_headline = (if all_done then ''All done'' else ''Getting started''),
        ca_done = n, ca_total = length steps, ca_dismissible = all_done,
        ca_items = map step_item (enumerate 0 steps)\<rparr>)"

definition submit_key :: "client_env \<Rightarrow> checklist \<Rightarrow> page \<Rightarrow> checklist \<times> page" where
  "submit_key env c pg =
     (case createApiKey env (JObj [(''name'', JStr (if gs_keyName c = [] then ''Default'' else gs_keyName c))]) pg of
        (Inl e, pg') \<Rightarrow> (c, pg')
      | (Inr k, pg') \<Rightarrow> (c\<lparr>gs_issued := k, gs_creatingKey := False\<rparr>, pg'))"

definition mark_sent :: "checklist \<Rightarrow> page \<Rightarrow> checklist \<times> page" where
  "mark_sent c pg = (c\<lparr>gs_eventMarked := True\<rparr>, markEventSent pg)"

definition dismiss_card :: "checklist \<Rightarrow> page \<Rightarrow> checklist \<times> page" where
  "dismiss_card c pg = (c\<lparr>gs_dismissed := True\<rparr>, dismissChecklist pg)"

section \<open>The canvas draws every widget\<close>

text \<open>The drawing of one widget, by its type.\<close>

definition draw :: "json \<Rightarrow> canvas_item" where
  "draw w =
     (if has_type ''kpi'' w then kpi_item w else if has_type ''forecast'' w then forecast_item w
      else if has_type ''cohort'' w then cohort_item w else if has_type ''funnel'' w then funnel_item w
      else other_item w)"

lemma has_type_unique: "has_type t w \<Longrightarrow> has_type u w \<longleftrightarrow> t = u"
  by (auto simp: has_type_def)

lemma group_items:
  "mset (map kpi_item (gr_kpis (group_widgets ws)) @ map forecast_item (gr_forecasts (group_widgets ws)) @
     map cohort_item (gr_cohorts (group_widgets ws)) @ map funnel_item (gr_funnels (group_widgets ws)) @
     map other_item (gr_other (group_widgets ws))) = mset (map draw ws)"
proof (induction ws)
  case (Cons w ws)
  consider t where "t \<in> {''kpi'', ''forecast'', ''cohort'', ''funnel''}" "has_type t w"
    | "\<forall>t \<in> {''kpi'', ''forecast'', ''cohort'', ''funnel''}. \<not> has_type t w"
    by blast
  then show ?case
  proof cases
    case 1
    then show ?thesis
      using Cons.IH has_type_unique [OF 1(2)] by (auto simp: group_widgets_def draw_def)
  next
    case 2
    then show ?thesis using Cons.IH by (simp add: group_widgets_def draw_def)
  qed
qed (simp add: group_widgets_def)

lemma section_items:
  "concat (map snd (canvas_sections ws)) =
     map kpi_item (gr_kpis (group_widgets ws)) @ map forecast_item (gr_forecasts (group_widgets ws)) @
     map cohort_item (gr_cohorts (group_widgets ws)) @ map funnel_item (gr_funnels (group_widgets ws)) @
     map other_item (gr_other (group_widgets ws))"
  by (simp add: canvas_sections_def Let_def)

text \<open>
  The canvas shows every widget of the dashboard exactly once, whatever its type and its
  configuration are: the items of all sections together are the drawings of the widgets. No
  section is empty, and the page shows the empty canvas if and only if the query has ended and
  there is no section.
\<close>

theorem canvas_complete:
  "let sections = canvas_sections (page_widgets dash) in
     mset (concat (map snd sections)) = mset (map draw (page_widgets dash))
     \<and> list_all (\<lambda>s. snd s \<noteq> []) sections
     \<and> cv_sections (dashboard_page dash) = sections
     \<and> (cv_empty (dashboard_page dash) \<longleftrightarrow> dash \<noteq> Loading \<and> sections = [])"
proof -
  let ?ws = "page_widgets dash"
  have items: "mset (concat (map snd (canvas_sections ?ws))) = mset (map draw ?ws)"
    unfolding section_items by (rule group_items)
  have full: "list_all (\<lambda>s. snd s \<noteq> []) (canvas_sections ?ws)"
    by (simp add: canvas_sections_def Let_def)
  then have "canvas_sections ?ws = [] \<longleftrightarrow> concat (map snd (canvas_sections ?ws)) = []"
    by (cases "canvas_sections ?ws") simp_all
  also have "\<dots> \<longleftrightarrow> ?ws = []"
    using arg_cong [OF items, of size] by (metis length_0_conv length_map size_mset)
  finally show ?thesis
    using items full by (auto simp: Let_def dashboard_page_def)
qed

section \<open>The secret of a new key\<close>

definition item_bodies :: "(string \<times> string \<times> step_body option) list \<Rightarrow> step_body list" where
  "item_bodies items = List.map_filter (\<lambda>(b, title, body). body) items"

definition bodies_shown :: "card option \<Rightarrow> step_body list" where
  "bodies_shown cd = (case cd of None \<Rightarrow> [] | Some x \<Rightarrow> item_bodies (ca_items x))"

lemma item_bodies_steps:
  "set (item_bodies (map step_item (enumerate j steps))) = st_body ` {s \<in> set steps. st_status s \<noteq> StepDone}"
  by (induction steps arbitrary: j) (auto simp: item_bodies_def step_item_def map_filter_simps)

lemma card_bodies:
  "set (bodies_shown (checklist_card base env c q))
     = (if gs_dismissed c then {} else st_body ` {s \<in> set (checklist_steps base env c q). st_status s \<noteq> StepDone})"
  by (simp add: checklist_card_def Let_def bodies_shown_def item_bodies_steps)

text \<open>The two bodies that show a secret, each the body of one step.\<close>

lemma snippet_body:
  "SnippetShown x \<in> set (bodies_shown (checklist_card base env c q)) \<longleftrightarrow>
     \<not> gs_dismissed c \<and> \<not> gs_eventMarked c \<and> x = curlSnippet base env c"
proof -
  let ?steps = "checklist_steps base env c q"
  have steps: "set ?steps = {?steps ! 0, ?steps ! 1, ?steps ! 2, ?steps ! 3, ?steps ! 4}"
    and other: "SnippetShown x \<noteq> st_body (?steps ! 0)" "SnippetShown x \<noteq> st_body (?steps ! 2)"
      "SnippetShown x \<noteq> st_body (?steps ! 3)" "SnippetShown x \<noteq> st_body (?steps ! 4)"
    and second: "st_body (?steps ! 1) = SnippetShown (curlSnippet base env c)"
    and status: "st_status (?steps ! 1) \<noteq> StepDone \<longleftrightarrow> \<not> gs_eventMarked c"
    by (simp_all add: checklist_steps_def stepStatus_def split: option.split)
  have "SnippetShown x \<in> st_body ` {s \<in> set ?steps. st_status s \<noteq> StepDone}
      \<longleftrightarrow> SnippetShown x = st_body (?steps ! 1) \<and> \<not> gs_eventMarked c"
    unfolding steps status [symmetric] using other by blast
  then show ?thesis unfolding card_bodies second by auto
qed

lemma secret_body:
  "SecretShown k \<in> set (bodies_shown (checklist_card base env c q)) \<longleftrightarrow>
     \<not> gs_dismissed c \<and> \<not> hasKey q \<and> (\<exists>i. gs_issued c = Some i \<and> as_text env (json_get ''secret'' i) = k)"
proof -
  obtain s2 s3 s4 s5 where steps: "set (checklist_steps base env c q) = {hd (checklist_steps base env c q), s2, s3, s4, s5}"
    and other: "SecretShown k \<noteq> st_body s2" "SecretShown k \<noteq> st_body s3" "SecretShown k \<noteq> st_body s4"
      "SecretShown k \<noteq> st_body s5"
    by (rule that [of "checklist_steps base env c q ! 1" "checklist_steps base env c q ! 2"
          "checklist_steps base env c q ! 3" "checklist_steps base env c q ! 4"])
       (simp_all add: checklist_steps_def)
  have first: "st_body (hd (checklist_steps base env c q)) = (case gs_issued c of
        Some i \<Rightarrow> SecretShown (as_text env (json_get ''secret'' i))
      | None \<Rightarrow> if gs_creatingKey c then KeyNameForm (gs_keyName c) else CreateKeyButton)"
    and status: "st_status (hd (checklist_steps base env c q)) \<noteq> StepDone \<longleftrightarrow> \<not> hasKey q"
    by (simp_all add: checklist_steps_def stepStatus_def)
  have "SecretShown k \<in> st_body ` {s \<in> set (checklist_steps base env c q). st_status s \<noteq> StepDone}
      \<longleftrightarrow> SecretShown k = st_body (hd (checklist_steps base env c q)) \<and> \<not> hasKey q"
    unfolding steps status [symmetric] using other by blast
  also have "\<dots> \<longleftrightarrow> \<not> hasKey q \<and> (\<exists>i. gs_issued c = Some i \<and> as_text env (json_get ''secret'' i) = k)"
    unfolding first by (cases "gs_issued c") auto
  finally show ?thesis unfolding card_bodies by simp
qed

lemma curlSnippet_secret:
  assumes "gs_issued c = Some issued" and "json_get ''secret'' issued = Some (JStr secret)"
  shows "\<exists>a b. curlSnippet base env c = a @ ''Authorization: Bearer '' @ secret @ b"
proof -
  let ?next = "'' '' @ [CHR 0x5C, CHR 0x0A] @ ''  ''"
  have "\<exists>b. curlSnippet base env c =
      (''curl -X POST '' @ base @ ''/v1/events'' @ ?next @ ''-H '' @ [CHR 0x22]) @ ''Authorization: Bearer '' @ secret @ b"
    unfolding curlSnippet_def Let_def quoted_def assms(1) option.case assms(2) as_text_def json.case append_assoc
    by (simp only: append_assoc same_append_eq) (rule exI, rule refl)
  then show ?thesis by blast
qed

text \<open>
  Claim C26: the panel that shows the secret of a new API key disappears. After a key is created the
  first step of the card shows its secret, to be saved because it is never shown again, only until
  the list of keys is fetched anew: as soon as that list has the new key (or any other that is not
  revoked) the step counts as done and its body is no longer drawn, although the page still holds
  the secret. From then on the secret can be read only in the \<open>curl\<close> command of the second step, and
  once an event is marked as sent no longer there either.
\<close>

theorem secret_panel_vanishes:
  assumes "createApiKey env (JObj [(''name'', JStr (if gs_keyName c = [] then ''Default'' else gs_keyName c))]) pg
      = (Inr (Some issued), pg')" and "json_get ''secret'' issued = Some (JStr secret)" and "\<not> gs_dismissed c"
    and "gq_keys q = Loaded (Some (JArr ks))" and "gq_keys q' = Loaded (Some (JArr ks'))"
    and "\<forall>k \<in> set ks. truthy (json_get ''revokedAt'' k)"
    and "k' \<in> set ks'" "\<not> truthy (json_get ''revokedAt'' k')"
  shows "let c' = fst (submit_key env c pg); shown = (\<lambda>q. set (bodies_shown (checklist_card base env c' q))) in
      gs_issued c' = Some issued
      \<and> SecretShown secret \<in> shown q
      \<and> (\<forall>x. SecretShown x \<notin> shown q')
      \<and> (\<forall>x. SnippetShown x \<in> shown q' \<longleftrightarrow> \<not> gs_eventMarked c \<and> x = curlSnippet base env c')
      \<and> (\<exists>a b. curlSnippet base env c' = a @ ''Authorization: Bearer '' @ secret @ b)"
proof -
  have c': "fst (submit_key env c pg) = c\<lparr>gs_issued := Some issued, gs_creatingKey := False\<rparr>"
    by (simp add: submit_key_def assms(1))
  have "\<not> hasKey q" "hasKey q'"
    using assms(6-8) by (auto simp: hasKey_def assms(4,5) data_of_query_def items_of_def filter_empty_conv)
  moreover have "\<exists>a b. curlSnippet base env (c\<lparr>gs_issued := Some issued, gs_creatingKey := False\<rparr>)
      = a @ ''Authorization: Bearer '' @ secret @ b"
    by (rule curlSnippet_secret [OF _ assms(2)]) simp
  ultimately show ?thesis
    unfolding c' Let_def secret_body snippet_body by (simp add: assms(2,3) as_text_def)
qed

definition key_client :: client_env where
  "key_client = sample_client\<lparr>ce_net := \<lambda>call. Replied 201 ''Created'' (stringify (\<lambda>_. [])
     (JObj [(''secret'', JStr ''ifk_live_x'')]))\<rparr>"

definition signed_in_page :: page where
  "signed_in_page = setItem WORKSPACE_KEY (stringify (\<lambda>_. []) (JObj [(''id'', JStr ''w1'')])) (setItem ACCESS_KEY ''A'' blank_page)"

lemma signed_in_page: "signed_in env signed_in_page ''A'' ''w1''"
proof -
  let ?ws = "JObj [(''id'', JStr ''w1'')]"
  have "json_parse (stringify (\<lambda>_. []) ?ws) = Some ?ws" "stringify (\<lambda>_. []) ?ws \<noteq> []"
    by (rule json_parse_stringify) simp_all
  then show ?thesis
    by (simp add: signed_in_def signed_in_page_def blank_page_def getAccessToken_def getActiveWorkspace_def
        truthy_def del: stringify.simps)
qed

theorem secret_panel_vanishes_witness:
  "let q = \<lparr>gq_keys = Loaded (Some (JArr [])), gq_dashboards = Loading, gq_firstDashboard = Loading, gq_models = Loading\<rparr>;
       c' = fst (submit_key key_client (checklist_mounts signed_in_page) signed_in_page);
       shown = (\<lambda>q. set (bodies_shown (checklist_card [] key_client c' q)))
   in SecretShown ''ifk_live_x'' \<in> shown q \<and> SecretShown ''ifk_live_x'' \<notin> shown (q\<lparr>gq_keys := Loaded (Some (JArr [JObj []]))\<rparr>)
      \<and> SnippetShown (curlSnippet [] key_client c') \<in> shown (q\<lparr>gq_keys := Loaded (Some (JArr [JObj []]))\<rparr>)"
proof -
  let ?issued = "JObj [(''secret'', JStr ''ifk_live_x'')]"
  have parse: "json_parse (stringify (\<lambda>_. []) ?issued) = Some ?issued"
    by (rule json_parse_stringify) simp
  have "\<exists>pg'. createApiKey key_client (JObj [(''name'', JStr ''Default'')]) signed_in_page = (Inr (Some ?issued), pg')"
    by (simp add: createApiKey_def ws_fetch_def bind_act_apply workspaceBase_signed_in [OF signed_in_page]
        apiFetch_def key_client_def parse Let_def del: stringify.simps)
  then obtain pg' where "createApiKey key_client (JObj [(''name'', JStr ''Default'')]) signed_in_page
      = (Inr (Some ?issued), pg')" by blast
  then have call: "createApiKey key_client (JObj [(''name'', JStr (if gs_keyName (checklist_mounts signed_in_page) = []
      then ''Default'' else gs_keyName (checklist_mounts signed_in_page)))]) signed_in_page = (Inr (Some ?issued), pg')"
    by (simp add: checklist_mounts_def)
  have open_card: "\<not> gs_dismissed (checklist_mounts signed_in_page)"
    by (simp add: checklist_mounts_def isChecklistDismissed_def signed_in_page_def WORKSPACE_KEY_def ACCESS_KEY_def
        blank_page_def getItem_def setItem_def)
  have unmarked: "\<not> gs_eventMarked (checklist_mounts signed_in_page)"
    by (simp add: checklist_mounts_def isEventMarkedSent_def signed_in_page_def WORKSPACE_KEY_def ACCESS_KEY_def
        blank_page_def getItem_def setItem_def)
  show ?thesis
    using unmarked secret_panel_vanishes [OF call _ open_card, where ks = "[]" and ks' = "[JObj []]" and k' = "JObj []"
        and q = "\<lparr>gq_keys = Loaded (Some (JArr [])), gq_dashboards = Loading, gq_firstDashboard = Loading, gq_models = Loading\<rparr>"
        and q' = "\<lparr>gq_keys = Loaded (Some (JArr [JObj []])), gq_dashboards = Loading, gq_firstDashboard = Loading, gq_models = Loading\<rparr>"
        and base = "[]"]
    by (simp add: Let_def truthy_def)
qed

end
