(* ===== verification/Shell.thy ===== *)
theory Shell
  imports Pages
begin

text \<open>
  The pages in front of the login and the frame around the others: the forms of
  \<open>(auth)/login/page.tsx\<close> and \<open>(auth)/signup/page.tsx\<close> with the password meter, the navigation of
  \<open>AppShell.tsx\<close>, the panel of \<open>FilterPanel.tsx\<close>, the toasts of \<open>AlertToaster.tsx\<close> and the public
  page of a share link. The e-mail test of \<open>zod\<close> and the parser of dates are parameters.
\<close>

section \<open>The login and sign-up forms\<close>

record auth_view =
  av_error :: "string option"
  av_pending :: bool
  av_path :: string

definition message_of :: "client_error \<Rightarrow> string" where
  "message_of e = (case e of ApiError _ m _ \<Rightarrow> m | JsError m \<Rightarrow> m)"

text \<open>\<open>safeParse\<close>: the message of the first issue, in the order of the schema.\<close>

definition check_login :: "(string \<Rightarrow> bool) \<Rightarrow> string \<Rightarrow> string \<Rightarrow> string option" where
  "check_login is_email email password =
     (if \<not> is_email email then Some ''Enter a valid email''
      else if password = [] then Some ''Password required'' else None)"

definition check_signup :: "(string \<Rightarrow> bool) \<Rightarrow> string \<Rightarrow> string \<Rightarrow> string option" where
  "check_signup is_email email password =
     (if \<not> is_email email then Some ''Enter a valid email''
      else if length password < 8 then Some ''Password must be at least 8 characters'' else None)"

text \<open>Both \<open>onSubmit\<close>: clear the error, check, send, and go to the dashboards or show what went wrong.\<close>

definition submit_with :: "string option \<Rightarrow> 'a act \<Rightarrow> auth_view \<Rightarrow> page \<Rightarrow> auth_view \<times> page" where
  "submit_with issue call v pg =
     (case issue of
        Some m \<Rightarrow> (v\<lparr>av_error := Some m\<rparr>, pg)
      | None \<Rightarrow>
          (case call pg of
             (Inr _, pg') \<Rightarrow> (v\<lparr>av_error := None, av_pending := False, av_path := ''/dashboards''\<rparr>, pg')
           | (Inl e, pg') \<Rightarrow> (v\<lparr>av_error := Some (message_of e), av_pending := False\<rparr>, pg')))"

definition submit_login :: "client_env \<Rightarrow> (string \<Rightarrow> bool) \<Rightarrow> string \<Rightarrow> string \<Rightarrow> auth_view \<Rightarrow> page \<Rightarrow> auth_view \<times> page" where
  "submit_login env is_email email password =
     submit_with (check_login is_email email password)
       (client_login env (JObj [(''email'', JStr email), (''password'', JStr password)]))"

definition signup_input :: "string \<Rightarrow> string \<Rightarrow> string \<Rightarrow> string \<Rightarrow> json" where
  "signup_input email password displayName workspaceName =
     defined_members [(''email'', Some (JStr email)), (''password'', Some (JStr password)),
       (''displayName'', if displayName = [] then None else Some (JStr displayName)),
       (''workspaceName'', if workspaceName = [] then None else Some (JStr workspaceName))]"

definition submit_signup :: "client_env \<Rightarrow> (string \<Rightarrow> bool) \<Rightarrow> string \<Rightarrow> string \<Rightarrow> string \<Rightarrow> string
    \<Rightarrow> auth_view \<Rightarrow> page \<Rightarrow> auth_view \<times> page" where
  "submit_signup env is_email email password displayName workspaceName =
     submit_with (check_signup is_email email password)
       (client_signup env (signup_input email password displayName workspaceName))"

section \<open>The password meter\<close>

definition is_upper :: "char \<Rightarrow> bool" where "is_upper = between 65 90"
definition is_lower :: "char \<Rightarrow> bool" where "is_lower = between 97 122"

definition scorePassword :: "string \<Rightarrow> nat" where
  "scorePassword p =
     (if p = [] then 0
      else let s1 = (if length p \<ge> 8 then 1 else 0);
               s2 = (if length p \<ge> 12 then s1 + 1 else s1);
               s3 = (if list_ex is_upper p \<and> list_ex is_lower p then s2 + 1 else s2);
               s4 = (if list_ex is_digit p \<and> list_ex (\<lambda>c. \<not> (is_upper c \<or> is_lower c \<or> is_digit c)) p
                     then s3 + 1 else s3)
           in min s4 4)"

definition meter_label :: "nat \<Rightarrow> string" where
  "meter_label score = [[], ''Weak'', ''Okay'', ''Good'', ''Strong''] ! score"

definition meter_bars :: "nat \<Rightarrow> bool list" where
  "meter_bars score = map (\<lambda>i. i \<le> score) [1, 2, 3, 4]"

section \<open>The frame\<close>

definition NAV :: "(string \<times> string) list" where
  "NAV = [(''/dashboards'', ''Dashboards''), (''/models'', ''Models''), (''/alerts'', ''Alerts'')]"

definition active_link :: "string \<Rightarrow> string \<Rightarrow> bool" where
  "active_link path href \<longleftrightarrow> path = href \<or> starts_with (href @ ''/'') path"

definition sign_out :: "auth_view \<Rightarrow> page \<Rightarrow> auth_view \<times> page" where
  "sign_out v pg = (v\<lparr>av_path := ''/login''\<rparr>, logout pg)"

section \<open>The filter panel\<close>

text \<open>\<open>new Date(text)\<close> of a date field; \<open>toISOString\<close> throws on an invalid date.\<close>

definition isoDate :: "string \<Rightarrow> string" where
  "isoDate stamp = take 10 stamp"

definition applyRange :: "(string \<Rightarrow> int option) \<Rightarrow> string \<Rightarrow> string \<Rightarrow> filters \<Rightarrow> client_error + filters" where
  "applyRange parse_date start finish current =
     (case parse_date start of
        None \<Rightarrow> Inl (JsError ''Invalid time value'')
      | Some a \<Rightarrow>
          (case parse_date finish of
             None \<Rightarrow> Inl (JsError ''Invalid time value'')
           | Some b \<Rightarrow> Inr (current\<lparr>fl_from := toISOString a, fl_to := toISOString b\<rparr>)))"

definition change_from :: "(string \<Rightarrow> int option) \<Rightarrow> string \<Rightarrow> filters \<Rightarrow> client_error + filters" where
  "change_from parse_date v f = applyRange parse_date v (isoDate (fl_to f)) f"

definition change_to :: "(string \<Rightarrow> int option) \<Rightarrow> string \<Rightarrow> filters \<Rightarrow> client_error + filters" where
  "change_to parse_date v f = applyRange parse_date (isoDate (fl_from f)) v f"

datatype filter_field = Country | Device | Plan

definition COUNTRIES :: "string list" where
  "COUNTRIES = [[], ''US'', ''GB'', ''DE'', ''FR'', ''IN'', ''BR'', ''JP'', ''AU'', ''CA'', ''NL'']"

definition DEVICES :: "string list" where
  "DEVICES = [[], ''desktop'', ''mobile'', ''tablet'']"

definition PLANS :: "string list" where
  "PLANS = [[], ''starter'', ''growth'', ''scale'']"

definition setField :: "filter_field \<Rightarrow> string \<Rightarrow> filters \<Rightarrow> filters" where
  "setField k v f =
     (case k of Country \<Rightarrow> f\<lparr>fl_country := v\<rparr> | Device \<Rightarrow> f\<lparr>fl_device := v\<rparr> | Plan \<Rightarrow> f\<lparr>fl_plan := v\<rparr>)"

section \<open>Toasts\<close>

record toast =
  to_id :: string
  to_title :: string
  to_body :: string
  to_ts :: int

definition make_toast :: "client_env \<Rightarrow> int \<Rightarrow> string \<Rightarrow> json \<Rightarrow> toast" where
  "make_toast env now rnd payload =
     \<lparr>to_id = ''t_'' @ int_str now @ ''_'' @ rnd,
      to_title = as_text env (Some (or_else (json_get ''alertName'' payload) (JStr ''Alert fired''))),
      to_body = as_text env (Some (or_else (json_get ''metric'' payload) (JStr ''metric''))) @ '' = '' @
                as_text env (Some (or_else (json_get ''value'' payload) (JStr ''?''))),
      to_ts = now\<rparr>"

text \<open>The socket's messages: only the event \<open>alert\<close> is listened to.\<close>

definition on_socket_event :: "client_env \<Rightarrow> int \<Rightarrow> string \<Rightarrow> string \<Rightarrow> json \<Rightarrow> toast list \<Rightarrow> toast list" where
  "on_socket_event env now rnd event payload toasts =
     (if event = ''alert'' then toasts @ [make_toast env now rnd payload] else toasts)"

definition expire_toast :: "string \<Rightarrow> toast list \<Rightarrow> toast list" where
  "expire_toast i toasts = filter (\<lambda>t. to_id t \<noteq> i) toasts"

section \<open>The page of a share link\<close>

text \<open>\<open>None\<close> is \<open>notFound()\<close>; a rejected \<open>fetch\<close> or a body that does not parse throws.\<close>

definition fetchShared :: "client_env \<Rightarrow> string \<Rightarrow> json option act" where
  "fetchShared env token pg =
     (let call = \<lparr>hc_url = API_BASE env @ ''/api/share/'' @ encodeURIComponent token, hc_method = ''GET'',
                  hc_headers = [], hc_body = None\<rparr>;
          pg' = pg\<lparr>pg_sent := pg_sent pg @ [call]\<rparr>
      in case ce_net env call of
           Unreachable m \<Rightarrow> (Inl (JsError m), pg')
         | Replied status _ text \<Rightarrow>
             if \<not> (200 \<le> status \<and> status \<le> 299) then (Inr None, pg')
             else (case json_parse text of
                     None \<Rightarrow> (Inl (JsError ''SyntaxError''), pg')
                   | Some j \<Rightarrow> (Inr (Some j), pg')))"

definition shared_widgets :: "json \<Rightarrow> (json \<times> json) list" where
  "shared_widgets d =
     map (\<lambda>w. (text_of ''title'' w, text_of ''type'' w)) (items_of (field ''widgets'' (json_get ''dashboard'' d)))"

definition shared_page :: "json option \<Rightarrow> (json \<times> (json \<times> json) list) option" where
  "shared_page data =
     (if \<not> truthy data then None
      else case data of
        Some d \<Rightarrow> Some (or_else (field ''name'' (json_get ''dashboard'' d)) JNull, shared_widgets d)
      | None \<Rightarrow> None)"

end
