(* ===== verification/Stack.thy ===== *)
theory Stack
  imports Shell Pdf Realtime AlertEvaluator
begin

text \<open>
  The browser and the API together: the bodies the pages post against the DTOs and the services
  that read them, the rows the services store against what the pages draw of them, the print page
  of a PDF export, and the fired alerts on their way to the toasts.
\<close>

section \<open>Bodies and rows as JSON\<close>

definition opt_json :: "('a \<Rightarrow> json) \<Rightarrow> 'a opt_field \<Rightarrow> json option" where
  "opt_json f v = (case v of Undefined \<Rightarrow> None | Null \<Rightarrow> Some JNull | Val x \<Rightarrow> Some (f x))"

definition widget_type_str :: "widget_type \<Rightarrow> string" where
  "widget_type_str t =
     (case t of Kpi \<Rightarrow> ''kpi'' | Line \<Rightarrow> ''line'' | Bar \<Rightarrow> ''bar'' | Funnel \<Rightarrow> ''funnel''
      | Cohort \<Rightarrow> ''cohort'' | Forecast \<Rightarrow> ''forecast'' | Table \<Rightarrow> ''table'')"

text \<open>The body whose fields are those of the DTO.\<close>

definition create_widget_json :: "create_widget_dto \<Rightarrow> json" where
  "create_widget_json d = defined_members
     [(''type'', Some (JStr (widget_type_str (cw_type d)))), (''title'', Some (JStr (cw_title d))),
      (''config'', opt_json (\<lambda>j. j) (cw_config d)), (''positionX'', opt_json num (cw_positionX d)),
      (''positionY'', opt_json num (cw_positionY d)), (''width'', opt_json num (cw_width d)),
      (''height'', opt_json num (cw_height d))]"

definition widget_json :: "widget \<Rightarrow> json" where
  "widget_json x = JObj
     [(''id'', JStr (wid_id x)), (''dashboardId'', JStr (wid_dashboardId x)),
      (''type'', JStr (widget_type_str (wid_type x))), (''title'', JStr (wid_title x)),
      (''configJson'', wid_configJson x), (''positionX'', num (wid_positionX x)),
      (''positionY'', num (wid_positionY x)), (''width'', num (wid_width x)),
      (''height'', num (wid_height x)), (''createdAt'', JStr (toISOString (wid_createdAt x))),
      (''updatedAt'', JStr (toISOString (wid_updatedAt x)))]"

definition dashboard_json :: "dashboard \<Rightarrow> json" where
  "dashboard_json d = JObj
     [(''id'', JStr (dash_id d)), (''workspaceId'', JStr (dash_workspaceId d)),
      (''createdById'', JStr (dash_createdById d)), (''name'', JStr (dash_name d)),
      (''description'', case dash_description d of Some t \<Rightarrow> JStr t | None \<Rightarrow> JNull),
      (''layoutJson'', dash_layoutJson d), (''createdAt'', JStr (toISOString (dash_createdAt d))),
      (''updatedAt'', JStr (toISOString (dash_updatedAt d)))]"

definition create_alert_json :: "create_alert_dto \<Rightarrow> json" where
  "create_alert_json d = defined_members
     [(''name'', Some (JStr (ca_name d))), (''metric'', Some (JStr (ca_metric d))),
      (''method'', Some (JStr (method_str (ca_method d)))),
      (''thresholdParams'', Some (ca_thresholdParams d)),
      (''channels'', Some (JArr (map channel_json (ca_channels d)))),
      (''cooldownSeconds'', opt_json num (ca_cooldownSeconds d)),
      (''enabled'', opt_json JBool (ca_enabled d))]"

section \<open>An added widget is drawn as it was chosen\<close>

definition widget_dto :: "widget_choice \<Rightarrow> string \<Rightarrow> create_widget_dto" where
  "widget_dto choice metric =
     \<lparr>cw_type = (case choice of KpiWidget \<Rightarrow> Kpi | ForecastWidget \<Rightarrow> Forecast | CohortWidget \<Rightarrow> Cohort
                 | FunnelWidget \<Rightarrow> Funnel),
      cw_title = (case choice of KpiWidget \<Rightarrow> metric_label metric
                  | ForecastWidget \<Rightarrow> metric_label metric @ '' forecast''
                  | CohortWidget \<Rightarrow> ''Cohort retention'' | FunnelWidget \<Rightarrow> ''Signup -> payment funnel''),
      cw_config = (case json_get ''configJson'' (widget_input choice metric) of Some j \<Rightarrow> Val j | None \<Rightarrow> Undefined),
      cw_positionX = Undefined, cw_positionY = Undefined, cw_width = Undefined, cw_height = Undefined\<rparr>"

definition chosen_item :: "widget_choice \<Rightarrow> string \<Rightarrow> canvas_item" where
  "chosen_item choice metric =
     (case choice of
        KpiWidget \<Rightarrow> KpiItem (JStr metric) (JStr (metric_label metric))
      | ForecastWidget \<Rightarrow> ForecastItem (JStr metric) (JStr (metric_label metric @ '' forecast'')) (num 30)
          (Some (JStr ''prophet''))
      | CohortWidget \<Rightarrow> CohortItem (JStr ''Cohort retention'') (num 84)
      | FunnelWidget \<Rightarrow> FunnelItem (JStr ''Signup -> payment funnel'') default_steps (num 30) (num 168))"

lemma widget_body_is_dto: "widget_body (widget_input choice metric) = create_widget_json (widget_dto choice metric)"
  by (cases choice)
     (simp_all add: widget_body_def widget_input_def create_widget_json_def widget_dto_def
       widget_type_str_def opt_json_def)

lemma label_length: "metric \<in> set (map fst KPI_METRICS) \<Longrightarrow>
    1 \<le> length (metric_label metric) \<and> length (metric_label metric) \<le> 18"
  by (auto simp: KPI_METRICS_def metric_label_def)

lemma widget_dto_valid:
  "metric \<in> set (map fst KPI_METRICS) \<Longrightarrow> valid_create_widget (widget_dto choice metric)"
  using label_length [of metric]
  by (cases choice) (auto simp: valid_create_widget_def widget_dto_def widget_input_def)

lemma widget_create_row:
  "answer (widget_create fresh now wid did dto) s = Inr x \<Longrightarrow>
     wid_type x = cw_type dto \<and> wid_title x = cw_title dto \<and> wid_configJson x = nullish (cw_config dto) (JObj [])"
  by (auto simp: widget_create_def andThen_def Let_def split: prod.splits sum.splits)

lemma draw_chosen:
  assumes "wid_type x = cw_type (widget_dto choice metric)" "wid_title x = cw_title (widget_dto choice metric)"
    and "wid_configJson x = nullish (cw_config (widget_dto choice metric)) (JObj [])"
  shows "draw (widget_json x) = chosen_item choice metric"
  using assms
  by (cases choice)
     (simp_all add: widget_dto_def widget_input_def chosen_item_def draw_def has_type_def widget_json_def
       widget_type_str_def kpi_item_def forecast_item_def cohort_item_def funnel_item_def widget_config_def
       or_else_def text_of_def num_def default_steps_def)

text \<open>
  Claim C18: adding a widget works through all tiers. For every choice and every metric the page
  offers, the page sends exactly one POST under the active workspace whose body, read back as
  JSON, is the body of a DTO that the API's validation accepts, and the page then draws the row
  that the API stores for that DTO as the chosen item, with the chosen metric, title and windows.
\<close>

theorem added_widget_drawn:
  assumes "metric \<in> set (map fst KPI_METRICS)" and "signed_in env pg a i"
    and "answer (widget_create fresh now wid did (widget_dto choice metric)) s = Inr x"
  shows "sends_inside env pg a i (addWidget env did' choice metric)
    \<and> Option.bind (hc_body (last (pg_sent (snd (addWidget env did' choice metric pg))))) json_parse
        = Some (create_widget_json (widget_dto choice metric))
    \<and> valid_create_widget (widget_dto choice metric)
    \<and> draw (widget_json x) = chosen_item choice metric"
proof (intro conjI)
  have call: "addWidget env did' choice metric =
      ws_fetch env (CHR ''/'' # ''dashboards/'' @ did' @ ''/widgets'')
        (post_init env (create_widget_json (widget_dto choice metric)))"
    by (simp add: addWidget_def createWidget_def widget_body_is_dto)
  show "sends_inside env pg a i (addWidget env did' choice metric)"
    unfolding call by (rule ws_fetch_inside [OF assms(2)]) simp
  have "integral (create_widget_json (widget_dto choice metric))"
    unfolding widget_body_is_dto [symmetric]
    by (cases choice)
       (simp_all add: widget_body_def widget_input_def num_def default_steps_def defined_members_def map_filter_simps)
  then show "Option.bind (hc_body (last (pg_sent (snd (addWidget env did' choice metric pg))))) json_parse
      = Some (create_widget_json (widget_dto choice metric))"
    by (simp add: call ws_fetch_def bind_act_apply workspaceBase_signed_in [OF assms(2)] api_call_def
        post_init_def json_parse_stringify)
  show "valid_create_widget (widget_dto choice metric)"
    using assms(1) by (rule widget_dto_valid)
  show "draw (widget_json x) = chosen_item choice metric"
    using widget_create_row [OF assms(3)] draw_chosen by blast
qed

theorem added_widget_drawn_witness:
  "let x = (case answer (widget_create ''n'' 5 ''w1'' ''d1'' (widget_dto KpiWidget ''dau'')) sample_db of Inr x \<Rightarrow> x)
   in draw (widget_json x) = KpiItem (JStr ''dau'') (JStr ''Daily active users'')
     \<and> valid_create_widget (widget_dto KpiWidget ''dau'')"
proof -
  have "\<exists>x. answer (widget_create ''n'' 5 ''w1'' ''d1'' (widget_dto KpiWidget ''dau'')) sample_db = Inr x"
    by (simp add: widget_create_def assert_dashboard_in_workspace_def dash_find_def scoped_find_def andThen_def
        sample_defs Let_def)
  then obtain x where x: "answer (widget_create ''n'' 5 ''w1'' ''d1'' (widget_dto KpiWidget ''dau'')) sample_db = Inr x"
    by blast
  from added_widget_drawn [OF _ signed_in_page this]
  show ?thesis by (simp add: x KPI_METRICS_def chosen_item_def metric_label_def)
qed

section \<open>The alert form\<close>

definition form_dto :: "alert_form \<Rightarrow> create_alert_dto" where
  "form_dto fm =
     \<lparr>ca_name = af_name fm, ca_metric = af_metric fm,
      ca_method = (if af_method fm = ''iqr'' then Iqr else Zscore),
      ca_thresholdParams = JObj [(''threshold'', number_json (af_threshold fm)),
                                 (''windowDays'', number_json (af_windowDays fm))],
      ca_channels =
        (if af_emailTo fm \<noteq> [] then [\<lparr>ch_type = ''email'', ch_config = JObj [(''to'', JStr (af_emailTo fm))]\<rparr>] else []) @
        (if af_slackWebhook fm \<noteq> []
         then [\<lparr>ch_type = ''slack'', ch_config = JObj [(''webhookUrl'', JStr (af_slackWebhook fm))]\<rparr>] else []),
      ca_cooldownSeconds = Undefined, ca_enabled = Undefined\<rparr>"

lemma alert_input_is_dto:
  "af_method fm \<in> {''zscore'', ''iqr''} \<Longrightarrow> alert_input fm = create_alert_json (form_dto fm)"
  by (auto simp: alert_input_def create_alert_json_def form_dto_def form_channels_def channel_json_def
      method_str_def opt_json_def defined_members_def map_filter_simps)

text \<open>
  The form of the alerts page and the API agree. For every state the form can be
  submitted in (a name that is not blank, one of the offered metrics and methods, and a name of
  at most 120 characters, which the form does not check), its body is that of a DTO the validation
  accepts, and the service stores one enabled rule with the form's metric and channels, a
  cool-down of one hour and no last fire; a blank name sends nothing.
\<close>

theorem alert_form_accepted:
  assumes "af_metric fm \<in> set Pages.METRICS" and "af_method fm \<in> {''zscore'', ''iqr''}"
    and "length (af_name fm) \<le> 120"
  shows "if js_trim (af_name fm) = [] then submit_alert env fm pg = (fm, pg)
    else alert_input fm = create_alert_json (form_dto fm) \<and> valid_create_alert (form_dto fm)
      \<and> (case alert_create fresh now w (form_dto fm) s of
           (Inr a, s') \<Rightarrow> alerts s' = alerts s @ [a] \<and> al_enabled a \<and> al_cooldownSeconds a = 3600
             \<and> al_lastFiredAt a = None \<and> al_metric a = af_metric fm
             \<and> al_channelsJson a = JArr (form_channels fm)
         | (Inl e, s') \<Rightarrow> False)"
proof (cases "js_trim (af_name fm) = []")
  case True
  then show ?thesis by (simp add: submit_alert_def)
next
  case False
  then have name: "af_name fm \<noteq> []" by (auto simp: js_trim_def)
  have "isKnownMetric (af_metric fm)" and "length (af_metric fm) \<le> 64"
    using assms(1) by (auto simp: isKnownMetric_iff Pages.METRICS_def)
  then have "valid_create_alert (form_dto fm)"
    using assms(3) name
    by (cases "af_name fm")
       (auto simp: valid_create_alert_def form_dto_def valid_channels_def valid_channel_def)
  moreover have "map channel_json (ca_channels (form_dto fm)) = form_channels fm"
    by (simp add: form_dto_def form_channels_def channel_json_def)
  ultimately show ?thesis
    using False \<open>isKnownMetric (af_metric fm)\<close> alert_input_is_dto [OF assms(2)]
    by (simp add: alert_create_def Let_def form_dto_def)
qed

theorem alert_form_accepted_witness:
  "valid_create_alert (form_dto (fresh_alert_form\<lparr>af_name := ''drop'', af_emailTo := ''a@x''\<rparr>))"
proof -
  have "js_trim ''drop'' = ''drop''" by code_simp
  then show ?thesis
    using alert_form_accepted [where fm = "fresh_alert_form\<lparr>af_name := ''drop'', af_emailTo := ''a@x''\<rparr>"]
    by (simp add: fresh_alert_form_def Pages.METRICS_def)
qed

section \<open>The print page of an export\<close>

text \<open>
  The page the worker's browser opens: a fresh profile whose storage holds only the access token
  that \<open>renderViaPuppeteer\<close> seeds before it navigates to \<open>print_url\<close>.
\<close>

definition print_page :: "string \<Rightarrow> page" where
  "print_page token = setItem ''if.access'' token \<lparr>pg_window = True, pg_storage = Map.empty, pg_sent = []\<rparr>"

text \<open>
  Claim C16: every exported PDF is blank. The layout lets the print page through, but the seeded
  storage has no workspace, so the query for the dashboard fails before anything is sent: whatever
  the API would answer and whichever dashboard is printed, the page that is turned into the PDF
  shows the empty canvas with no heading, no widget and no section, and no request is ever sent
  from it. Signed in with a workspace, the same page sends its request.
\<close>

theorem print_page_is_blank:
  assumes "token \<noteq> []"
  shows "layout_ready (print_page token)
    \<and> open_dashboard env did (print_page token)
        = (\<lparr>cv_heading = JStr ''Loading...'', cv_count = 0, cv_loading = False, cv_empty = True,
            cv_sections = []\<rparr>, print_page token)
    \<and> pg_sent (print_page token) = []
    \<and> (signed_in env pg a i \<longrightarrow> pg_sent (snd (open_dashboard env did pg)) \<noteq> [])"
proof -
  have token: "getAccessToken (print_page token) = Some token"
    by (simp add: getAccessToken_def print_page_def ACCESS_KEY_def)
  have "getActiveWorkspace (print_page token) = (Inr None, print_page token)"
    by (simp add: getActiveWorkspace_def print_page_def WORKSPACE_KEY_def getItem_def setItem_def)
  then have "getDashboard env did (print_page token) = (Inl (JsError ''no active workspace''), print_page token)"
    by (simp add: getDashboard_def ws_fetch_no_workspace)
  then have "open_dashboard env did (print_page token)
      = (\<lparr>cv_heading = JStr ''Loading...'', cv_count = 0, cv_loading = False, cv_empty = True,
          cv_sections = []\<rparr>, print_page token)"
    by (simp add: open_dashboard_def settled_def dashboard_page_def page_widgets_def data_of_query_def field_def
        items_of_def or_else_def canvas_sections_def group_widgets_def)
  moreover have "pg_sent (snd (open_dashboard env did pg)) \<noteq> []" if "signed_in env pg a i"
  proof -
    have "sends_inside env pg a i (getDashboard env did)"
      using ws_fetch_inside [OF that, of get_init "''dashboards/'' @ did"] by (simp add: getDashboard_def)
    then show ?thesis
      by (auto simp: sends_inside_def open_dashboard_def split: prod.split)
  qed
  moreover have "layout_ready (print_page token)" using assms by (simp add: layout_ready_def token)
  moreover have "pg_sent (print_page token) = []" by (simp add: print_page_def)
  ultimately show ?thesis by blast
qed

theorem print_page_is_blank_witness:
  "layout_ready (print_page ''jwt'') \<and> cv_empty (fst (open_dashboard sample_client ''d1'' (print_page ''jwt'')))
    \<and> pg_sent (snd (open_dashboard sample_client ''d1'' signed_in_page)) \<noteq> []"
  using print_page_is_blank [of "''jwt''" sample_client "''d1''" signed_in_page] signed_in_page by fastforce

section \<open>Fired alerts and toasts\<close>

text \<open>Redis hands a published message to the gateway; the gateway's messages reach the page.\<close>

definition relay :: "(rat \<Rightarrow> string) \<Rightarrow> effect list \<Rightarrow> gateway \<Rightarrow> gateway" where
  "relay fr effects g =
     fold (\<lambda>e g. case e of Publish channel body \<Rightarrow> on_message channel (stringify fr body) g | _ \<Rightarrow> g) effects g"

definition socket_event :: "emitted \<Rightarrow> string \<times> json" where
  "socket_event e =
     (case e of
        Hello i w r \<Rightarrow> (''hello'', JObj [(''workspaceId'', JStr w), (''role'', JStr (case r of Owner \<Rightarrow> ''owner'' | Member \<Rightarrow> ''member'' | Viewer \<Rightarrow> ''viewer''))])
      | Tick i payload \<Rightarrow> (''tick'', payload))"

definition toasts_of :: "client_env \<Rightarrow> (nat \<Rightarrow> int) \<Rightarrow> (nat \<Rightarrow> string) \<Rightarrow> emitted list \<Rightarrow> toast list" where
  "toasts_of env clock rnd es =
     fold (\<lambda>(n, e). on_socket_event env (clock n) (rnd n) (fst (socket_event e)) (snd (socket_event e)))
       (enumerate 0 es) []"

definition on_fired_channel :: "effect \<Rightarrow> bool" where
  "on_fired_channel e = (case e of Publish channel _ \<Rightarrow> starts_with ''alerts:fired:'' channel | _ \<Rightarrow> True)"

lemma fire_channels:
  "list_all on_fired_channel (w_trace w) \<Longrightarrow> list_all on_fired_channel (w_trace (after (fire env c fresh a p m) w))"
  by (cases c) (simp add: fire_eq Let_def on_fired_channel_def starts_with_def split: sum.split)

lemma caught_channels:
  assumes "list_all on_fired_channel (w_trace w)"
  shows "list_all on_fired_channel (w_trace (after (evaluate_caught env c fresh a) w))"
proof -
  have "list_all on_fired_channel (w_trace (after (evaluateOne env c fresh a) w))"
    using assms
    by (simp add: evaluateOne_eq Let_def on_fired_channel_def fire_channels split: anomaly_reply.split option.split)
  then show ?thesis
    by (auto simp: evaluate_caught_def on_fired_channel_def split: prod.split sum.split)
qed

lemma evaluate_all_channels:
  "list_all on_fired_channel (w_trace w) \<Longrightarrow>
     list_all on_fired_channel (w_trace (after (evaluate_all env clocks ids n as) w))"
  by (induction as arbitrary: n w) (simp_all add: evaluate_all_Cons caught_channels del: evaluate_all.simps(2))

lemma relay_fired: "list_all on_fired_channel es \<Longrightarrow> relay fr es g = g"
proof (induction es)
  case (Cons e es)
  have "\<not> starts_with TICK_CHANNEL_PREFIX channel" if "starts_with ''alerts:fired:'' channel" for channel
    using that by (auto simp: starts_with_iff TICK_CHANNEL_PREFIX_def)
  with Cons show ?case
    by (auto simp: relay_def on_fired_channel_def on_message_def split: effect.splits)
qed (simp add: relay_def)

text \<open>
  Claim C27: no browser ever hears of a fired alert. Whatever a tick of the evaluator publishes, the
  gateway that receives it sends nothing and stays as it was; and whatever the gateway has sent to
  sockets, the alerts page, which listens for the event \<open>alert\<close>, shows no toast.
\<close>

theorem alert_toasts_are_dead:
  "relay fr (w_trace (evaluate env clocks ids (w\<lparr>w_trace := []\<rparr>))) g = g
   \<and> toasts_of client clock rnd (gw_emitted g) = []"
proof
  have "list_all on_fired_channel (w_trace (evaluate env clocks ids (w\<lparr>w_trace := []\<rparr>)))"
    by (simp add: evaluate_def Let_def evaluate_all_channels on_fired_channel_def)
  then show "relay fr (w_trace (evaluate env clocks ids (w\<lparr>w_trace := []\<rparr>))) g = g"
    by (rule relay_fired)
  have "fold (\<lambda>(n, e). on_socket_event client (clock n) (rnd n) (fst (socket_event e)) (snd (socket_event e)))
      nes [] = []" for nes
    by (induction nes) (auto simp: on_socket_event_def socket_event_def split: emitted.splits)
  then show "toasts_of client clock rnd (gw_emitted g) = []" by (simp add: toasts_of_def)
qed

section \<open>A dashboard, its canvas and its card\<close>

text \<open>The answer of \<open>get\<close>, and a series of widgets added to a dashboard.\<close>

definition detail_json :: "dashboard \<Rightarrow> widget list \<Rightarrow> json" where
  "detail_json d xs =
     (case dashboard_json d of JObj kvs \<Rightarrow> JObj (kvs @ [(''widgets'', JArr (map widget_json xs))]) | j \<Rightarrow> j)"

definition add_all :: "string \<Rightarrow> string \<Rightarrow> (string \<times> int \<times> create_widget_dto) list \<Rightarrow> db \<Rightarrow> db" where
  "add_all w did news s = fold (\<lambda>(fresh, now, dto). after (widget_create fresh now w did dto)) news s"

text \<open>The row of an added widget.\<close>

abbreviation added_row :: "string \<Rightarrow> string \<times> int \<times> create_widget_dto \<Rightarrow> widget" where
  "added_row did \<equiv> \<lambda>(fresh, now, dto). new_widget fresh now did dto"

lemma dash_find_cong: "dashboards t = dashboards s \<Longrightarrow> answer (dash_find w did) t = answer (dash_find w did) s"
  by (simp add: dash_find_eq)

lemma add_all_rows:
  assumes "answer (dash_find w did) s = Inr d"
  shows "add_all w did news s = s\<lparr>widgets := widgets s @ map (added_row did) news\<rparr>"
  using assms
proof (induction news arbitrary: s)
  case (Cons n news)
  obtain fresh now dto where n: "n = (fresh, now, dto)" by (cases n)
  let ?s = "s\<lparr>widgets := widgets s @ [new_widget fresh now did dto]\<rparr>"
  have "after (widget_create fresh now w did dto) s = ?s"
    using Cons.prems by (simp add: widget_create_eq)
  moreover have "answer (dash_find w did) ?s = Inr d"
    using Cons.prems dash_find_cong [of ?s s] by simp
  ultimately show ?case using Cons.IH by (simp add: add_all_def n)
qed (simp add: add_all_def)

text \<open>
  Claim C25: a new dashboard grows with its widgets, except on its card. After a dashboard is
  created under a fresh id and any number of widgets is added to it, \<open>get\<close> answers it with exactly
  the added widgets, in the order of their times, each with the type, title, configuration, place
  and size it was added with or the defaults; its page counts them and draws each of them once; but
  the card in the list of dashboards, which counts the entries of \<open>layoutJson\<close>, always shows zero.
\<close>

theorem card_counts_no_widgets:
  assumes "did \<notin> dash_id ` set (dashboards s)" and "did \<notin> wid_dashboardId ` set (widgets s)"
  shows "let t = add_all w did news (after (dash_create did now w u dto) s);
             row = (\<lambda>(fresh, time, x).
               \<lparr>wid_id = fresh, wid_dashboardId = did, wid_type = cw_type x, wid_title = cw_title x,
                wid_configJson = nullish (cw_config x) (JObj []),
                wid_positionX = nullish (cw_positionX x) 0, wid_positionY = nullish (cw_positionY x) 0,
                wid_width = nullish (cw_width x) 4, wid_height = nullish (cw_height x) 3,
                wid_createdAt = time, wid_updatedAt = time\<rparr>) in
    case answer (dash_get w did) t of
      Inl e \<Rightarrow> False
    | Inr (d, xs) \<Rightarrow>
        dash_id d = did \<and> dash_workspaceId d = w \<and> dash_name d = cd_name dto
        \<and> mset xs = mset (map row news) \<and> sorted (map wid_createdAt xs)
        \<and> cv_count (dashboard_page (Loaded (Some (detail_json d xs)))) = length news
        \<and> mset (concat (map snd (cv_sections (dashboard_page (Loaded (Some (detail_json d xs)))))))
            = mset (map (\<lambda>n. draw (widget_json (row n))) news)
        \<and> (case answer (dash_list w) t of Inr ds \<Rightarrow> d \<in> set ds | Inl e \<Rightarrow> False)
        \<and> widgetCount (dashboard_json d) = 0"
proof -
  let ?s = "after (dash_create did now w u dto) s"
  let ?t = "add_all w did news ?s" and ?rows = "map (added_row did) news"
  obtain d where d: "?s = s\<lparr>dashboards := dashboards s @ [d]\<rparr>" "dash_id d = did" "dash_workspaceId d = w"
    "dash_name d = cd_name dto" "dash_layoutJson d = JArr []"
    by (simp add: dash_create_def Let_def)
  have find: "answer (dash_find w did) ?s = Inr d"
  proof -
    have "List.find (\<lambda>x. dash_id x = did \<and> dash_workspaceId x = w) (dashboards s) = None"
      using assms(1) by (auto simp: find_None)
    then show ?thesis using d by (simp add: dash_find_eq find_append)
  qed
  note rows = add_all_rows [OF find, of news]
  let ?xs = "dash_widgets did ?t"
  have get: "answer (dash_get w did) ?t = Inr (d, ?xs)"
  proof -
    have "dashboards ?t = dashboards ?s" by (simp add: rows)
    from dash_find_cong [OF this] find have "answer (dash_find w did) ?t = Inr d" by simp
    then show ?thesis by (simp add: dash_get_eq d(2))
  qed
  have own: "list_all (\<lambda>x. wid_dashboardId x = did) ?rows"
    by (auto simp: list_all_iff new_widget_def)
  have "filter (\<lambda>x. wid_dashboardId x = did) (widgets ?t) = ?rows"
    using assms(2) own d(1) unfolding rows by (auto simp: filter_empty_conv list_all_iff filter_id_conv)
  then have xs: "mset ?xs = mset ?rows" "sorted (map wid_createdAt ?xs)"
    by (simp_all add: dash_widgets_def order_asc_def)
  have ws: "page_widgets (Loaded (Some (detail_json d ?xs))) = map widget_json ?xs"
    by (simp add: page_widgets_def data_of_query_def field_def detail_json_def dashboard_json_def items_of_def)
  have "mset (concat (map snd (canvas_sections (map widget_json ?xs)))) = image_mset (\<lambda>x. draw (widget_json x)) (mset ?xs)"
    unfolding section_items group_items by (simp add: image_mset.compositionality comp_def)
  then have drawn: "mset (concat (map snd (canvas_sections (map widget_json ?xs))))
      = mset (map (\<lambda>n. draw (widget_json (added_row did n))) news)"
    unfolding xs(1) by (simp add: image_mset.compositionality comp_def)
  have count: "length ?xs = length news" using arg_cong [OF xs(1), of size] by simp
  have listed: "case answer (dash_list w) ?t of Inr ds \<Rightarrow> d \<in> set ds | Inl e \<Rightarrow> False"
    using d(1,3) rows by (simp add: dash_list_def)
  have none: "widgetCount (dashboard_json d) = 0"
    by (simp add: widgetCount_def dashboard_json_def d(5) items_of_def)
  show ?thesis
    unfolding Let_def get
    using xs drawn count listed none d(2-4)
    by (simp add: dashboard_page_def Let_def ws new_widget_def)
qed

theorem card_counts_no_widgets_witness:
  "let t = add_all ''w1'' ''d9'' [(''n'', 7, widget_dto KpiWidget ''dau''), (''o'', 6, widget_dto CohortWidget ''dau'')]
             (after (dash_create ''d9'' 4 ''w1'' ''u1'' \<lparr>cd_name = ''Sales'', cd_description = Undefined\<rparr>) sample_db)
   in case answer (dash_get ''w1'' ''d9'') t of
        Inr (d, xs) \<Rightarrow> image_mset wid_id (mset xs) = {#''n'', ''o''#} \<and> dash_name d = ''Sales'' \<and> widgetCount (dashboard_json d) = 0
      | Inl e \<Rightarrow> False"
proof -
  have "''d9'' \<notin> dash_id ` set (dashboards sample_db)" "''d9'' \<notin> wid_dashboardId ` set (widgets sample_db)"
    by (simp_all add: sample_defs)
  from card_counts_no_widgets [OF this, of "''w1''"
      "[(''n'', 7, widget_dto KpiWidget ''dau''), (''o'', 6, widget_dto CohortWidget ''dau'')]" 4 "''u1''"
      "\<lparr>cd_name = ''Sales'', cd_description = Undefined\<rparr>"]
  show ?thesis by (auto simp: Let_def split: sum.splits prod.splits)
qed

end
