(* ===== verification/Isolation.thy ===== *)
theory Isolation
  imports Alerts ApiKeys Share Pdf
begin

text \<open>
  The requests that change a workspace's rows, as one type with one handler: every route below
  \<open>workspaces/:workspaceId\<close> that is not a \<open>GET\<close>, and the invitation. What a request cannot do:
  change anything of another workspace, or anything at all for a user whose role does not allow it.
  A requested export adds a row to its own workspace like any other request; what its worker later
  reads of another workspace is a property of \<open>Pdf\<close>.
\<close>

record api_env =
  ae_is_uuid :: "string \<Rightarrow> bool"
  ae_is_email :: "string \<Rightarrow> bool"
  ae_argon :: "string \<Rightarrow> string"
  ae_draw :: "nat \<Rightarrow> string"
  ae_share :: share_env

text \<open>
  Generated ids and clock readings are part of the request; an export's flag tells whether the
  queue is up.
\<close>

datatype request =
    CreateDashboard string int create_dashboard_dto
  | UpdateDashboard int string update_dashboard_dto
  | DeleteDashboard string
  | CreateWidget string int string create_widget_dto
  | UpdateWidget int string string update_widget_dto
  | DeleteWidget string string
  | CreateAlert string int create_alert_dto
  | UpdateAlert int string update_alert_dto
  | DeleteAlert string
  | CreateKey string int create_key_dto
  | RevokeKey int string
  | CreateLink "byte list" string int string "int opt_field"
  | RevokeLink int string
  | Invite string int invite_dto
  | ExportPdf bool string int string

definition void :: "('s, 'a) app \<Rightarrow> ('s, unit) app" where
  "void m = andThen m (\<lambda>_. ok ())"

text \<open>What a route that also writes to the queue does to the database.\<close>

definition in_db :: "(pdf_world, 'a) app \<Rightarrow> (db, 'a) app" where
  "in_db m s = (let (a, w) = m \<lparr>pw_db = s, pw_waiting = [], pw_active = []\<rparr> in (a, pw_db w))"

definition handle :: "api_env \<Rightarrow> string \<Rightarrow> string \<Rightarrow> request \<Rightarrow> (db, unit) app" where
  "handle env uid p req =
     (let u = ae_is_uuid env in
      case req of
        CreateDashboard fresh now d \<Rightarrow> void (dash_create_route fresh now uid p d)
      | UpdateDashboard now i d \<Rightarrow> void (dash_update_route u now uid p i d)
      | DeleteDashboard i \<Rightarrow> void (dash_delete_route u uid p i)
      | CreateWidget fresh now i d \<Rightarrow> void (widget_create_route u fresh now uid p i d)
      | UpdateWidget now i x d \<Rightarrow> void (widget_update_route u now uid p i x d)
      | DeleteWidget i x \<Rightarrow> void (widget_delete_route u uid p i x)
      | CreateAlert fresh now d \<Rightarrow> void (alert_create_route fresh now uid p d)
      | UpdateAlert now i d \<Rightarrow> void (alert_update_route u now uid p i d)
      | DeleteAlert i \<Rightarrow> void (alert_delete_route u uid p i)
      | CreateKey fresh now d \<Rightarrow>
          void (keys_create_route u (ae_argon env) (ae_draw env) fresh now uid p d)
      | RevokeKey now i \<Rightarrow> void (keys_revoke_route u now uid p i)
      | CreateLink rand fresh now i ttl \<Rightarrow>
          void (share_create_route u (ae_share env) rand fresh now uid p i ttl)
      | RevokeLink now i \<Rightarrow> void (share_revoke_route u now uid p i)
      | Invite fresh now d \<Rightarrow> void (ws_invite u (ae_is_email env) fresh now uid p d)
      | ExportPdf up fresh now i \<Rightarrow> void (in_db (pdf_enqueue_route u up fresh now uid p i)))"

section \<open>The rows of a workspace\<close>

record tenant =
  tn_users :: "user list"
  tn_workspaces :: "workspace list"
  tn_members :: "member list"
  tn_keys :: "api_key list"
  tn_dashboards :: "dashboard list"
  tn_widgets :: "widget list"
  tn_alerts :: "alert list"
  tn_events :: "alert_event list"
  tn_links :: "share_link list"
  tn_jobs :: "pdf_job list"

definition own_dashboards :: "string \<Rightarrow> db \<Rightarrow> dashboard list" where
  "own_dashboards w s = filter (\<lambda>d. dash_workspaceId d = w) (dashboards s)"

definition own_widgets :: "string \<Rightarrow> db \<Rightarrow> widget list" where
  "own_widgets w s = filter (\<lambda>x. wid_dashboardId x \<in> dash_id ` set (own_dashboards w s)) (widgets s)"

definition tenant_view :: "string \<Rightarrow> db \<Rightarrow> tenant" where
  "tenant_view w s =
     \<lparr>tn_users = users s, tn_workspaces = workspaces s,
      tn_members = filter (\<lambda>m. mem_workspaceId m = w) (members s),
      tn_keys = filter (\<lambda>k. key_workspaceId k = w) (api_keys s),
      tn_dashboards = own_dashboards w s, tn_widgets = own_widgets w s,
      tn_alerts = filter (\<lambda>a. al_workspaceId a = w) (alerts s),
      tn_events = filter (\<lambda>e. ev_workspaceId e = w) (alert_events s),
      tn_links = filter (\<lambda>l. sl_workspaceId l = w) (share_links s),
      tn_jobs = filter (\<lambda>j. job_workspaceId j = w) (pdf_jobs s)\<rparr>"

text \<open>
  What the schema keeps: primary keys are unique, and an alert event and a share link belong to
  the workspace of the alert and of the dashboard they refer to.
\<close>

definition db_ok :: "db \<Rightarrow> bool" where
  "db_ok s \<longleftrightarrow>
     dash.ids_unique s \<and> widget.ids_unique s \<and> alert.ids_unique s \<and> keys.ids_unique s \<and> link.ids_unique s \<and>
     (\<forall>e \<in> set (alert_events s). \<forall>a \<in> set (alerts s). al_id a = ev_alertId e \<longrightarrow> al_workspaceId a = ev_workspaceId e) \<and>
     (\<forall>l \<in> set (share_links s). \<forall>d \<in> set (dashboards s).
        dash_id d = sl_dashboardId l \<longrightarrow> dash_workspaceId d = sl_workspaceId l)"

lemma pipes_read: "reads (uuid_pipe f x)" "reads (validation_pipe b)"
  by (simp_all add: reads_def)

lemmas route_defs = dash_create_route_def dash_update_route_def dash_delete_route_def widget_create_route_def
  widget_update_route_def widget_delete_route_def alert_create_route_def alert_update_route_def
  alert_delete_route_def keys_create_route_def keys_revoke_route_def share_create_route_def share_revoke_route_def

lemma in_db_enqueue_cases:
  "after (in_db (pdf_enqueue_route f up fresh now uid p i)) s = s \<or>
   role_of s p uid \<in> {Some Owner, Some Member} \<and>
   after (in_db (pdf_enqueue_route f up fresh now uid p i)) s
     = s\<lparr>pdf_jobs := pdf_jobs s @ [new_job fresh now p i uid]\<rparr>"
  by (rule pdf_enqueue_route_cases [of f up fresh now uid p i "\<lparr>pw_db = s, pw_waiting = [], pw_active = []\<rparr>"])
     (auto simp: in_db_def pdf_enqueue_def Let_def)

text \<open>A frame condition passes through everything a route puts around its service.\<close>

locale route_frame = frame_condition pre R
  for pre :: "db \<Rightarrow> bool" and R :: "db \<Rightarrow> db \<Rightarrow> bool"
begin

lemma voided: "obeys pre R m \<Longrightarrow> obeys pre R (void m)"
  unfolding void_def by (rule reads_last) (auto simp: reads_def)

lemma behind_guard: "obeys pre R (h p) \<Longrightarrow> obeys pre R (guarded uid p h)"
  by (auto simp: obeys_def guarded_eq unchanged split: option.split)

lemmas around = voided behind_guard reads_first [OF pipes_read(1)] reads_first [OF pipes_read(2)]
  reads_first [OF reads_require_role]

lemma route_of_invite:
  assumes "\<And>s u. pre s \<Longrightarrow> u \<in> user_id ` set (users s) \<Longrightarrow> valid_invite g d \<Longrightarrow>
      R s (after (upsert_member fresh now p u (inv_role d)) s)"
  shows "obeys pre R (ws_invite f g fresh now uid p d)"
proof (cases "valid_invite g d")
  case True
  have "R s (after (\<lambda>s. case List.find (\<lambda>u. user_email u = inv_email d) (users s) of
      None \<Rightarrow> (Inr (UserNotFound (inv_email d)), s)
    | Some invitee \<Rightarrow>
        andThen (invite fresh now p uid (user_id invitee) (inv_role d)) (\<lambda>m. ok (Invited m)) s) s)"
    if "pre s" for s
    using assms that True unchanged
    by (auto simp: after_andThen invite_eq dest: find_SomeD split: option.split sum.split)
  then show ?thesis unfolding ws_invite_def by (intro reads_first pipes_read obeysI)
next
  case False
  then have "reads (ws_invite f g fresh now uid p d)"
    by (simp add: reads_def ws_invite_def after_andThen validation_pipe_def uuid_pipe_def)
  then show ?thesis by (rule only_reads)
qed

lemma route_of_export:
  assumes "\<And>s. pre s \<Longrightarrow> role_of s p uid \<in> {Some Owner, Some Member} \<Longrightarrow>
      R s (s\<lparr>pdf_jobs := pdf_jobs s @ [new_job fresh now p i uid]\<rparr>)"
  shows "obeys pre R (in_db (pdf_enqueue_route f up fresh now uid p i))"
proof (rule obeysI)
  fix s assume "pre s"
  then show "R s (after (in_db (pdf_enqueue_route f up fresh now uid p i)) s)"
    using in_db_enqueue_cases [of f up fresh now uid p i s] assms unchanged by auto
qed

text \<open>So a condition that the services behind a workspace respect is respected by the requests.\<close>

lemma handled:
  assumes "\<And>fresh now d. req = CreateDashboard fresh now d \<Longrightarrow> obeys pre R (dash_create fresh now p uid d)"
    and "\<And>now i d. obeys pre R (dash_update now p i d)"
    and "\<And>i. obeys pre R (dash_delete p i)"
    and "\<And>fresh now i d. req = CreateWidget fresh now i d \<Longrightarrow> obeys pre R (widget_create fresh now p i d)"
    and "\<And>now i x d. obeys pre R (widget_update now p i x d)"
    and "\<And>i x. obeys pre R (widget_delete p i x)"
    and "\<And>fresh now d. req = CreateAlert fresh now d \<Longrightarrow> obeys pre R (alert_create fresh now p d)"
    and "\<And>now i d. obeys pre R (alert_update now p i d)"
    and "\<And>i. obeys pre R (alert_delete p i)"
    and "\<And>fresh now d n sc. req = CreateKey fresh now d \<Longrightarrow>
          obeys pre R (issue (ae_argon env) (ae_draw env) fresh now p uid n sc)"
    and "\<And>now i. obeys pre R (keys_revoke now p i)"
    and "\<And>rand fresh now i ttl. req = CreateLink rand fresh now i ttl \<Longrightarrow>
          obeys pre R (share_create (ae_share env) rand fresh now p i uid ttl)"
    and "\<And>now i. obeys pre R (share_revoke now p i)"
    and "\<And>fresh now d s u. req = Invite fresh now d \<Longrightarrow> pre s \<Longrightarrow> u \<in> user_id ` set (users s) \<Longrightarrow>
          valid_invite (ae_is_email env) d \<Longrightarrow> R s (after (upsert_member fresh now p u (inv_role d)) s)"
    and "\<And>up fresh now i s. req = ExportPdf up fresh now i \<Longrightarrow> pre s \<Longrightarrow>
          role_of s p uid \<in> {Some Owner, Some Member} \<Longrightarrow>
          R s (s\<lparr>pdf_jobs := pdf_jobs s @ [new_job fresh now p i uid]\<rparr>)"
  shows "obeys pre R (handle env uid p req)"
  unfolding handle_def Let_def
  by (cases req)
     (simp_all only: request.case route_defs,
      (intro around reads_last route_of_invite route_of_export assms; simp add: reads_def)+)

end

section \<open>The services spare the other workspaces\<close>

abbreviation spares :: "string \<Rightarrow> (db, 'a) app \<Rightarrow> bool" where
  "spares v \<equiv> obeys db_ok (\<lambda>s t. tenant_view v t = tenant_view v s)"

interpretation elsewhere: route_frame db_ok "\<lambda>s t. tenant_view v t = tenant_view v s" for v
  by unfold_locales simp

lemma filter_other: "f x = p \<Longrightarrow> v \<noteq> p \<Longrightarrow> filter (\<lambda>r. f r = v) (xs @ [x]) = filter (\<lambda>r. f r = v) xs"
  by simp

lemma dash_in:
  assumes "db_ok s" and "answer (dash_find p i) s = Inr d" and "v \<noteq> p"
  shows "i \<notin> dash_id ` set (own_dashboards v s)"
proof
  assume "i \<in> dash_id ` set (own_dashboards v s)"
  then obtain d' where "d' \<in> set (dashboards s)" "dash_id d' = i" "dash_workspaceId d' = v"
    by (auto simp: own_dashboards_def)
  moreover have "dash.ids_unique s" using assms(1) by (simp add: db_ok_def)
  ultimately show False
    using dash.only_row [OF _ assms(2)] dash.lookup_found [OF assms(2)] assms(3) by blast
qed

lemma spares_dash_create:
  assumes "v \<noteq> p"
  shows "spares v (dash_create fresh now p uid d)"
proof (rule obeysI)
  fix s
  have "own_dashboards v (after (dash_create fresh now p uid d) s) = own_dashboards v s"
    using assms by (simp add: dash_create_def Let_def own_dashboards_def)
  then show "tenant_view v (after (dash_create fresh now p uid d) s) = tenant_view v s"
    by (simp add: tenant_view_def own_widgets_def) (simp add: dash_create_def Let_def)
qed

lemma spares_dash_update:
  assumes "v \<noteq> p"
  shows "spares v (dash_update now p i d)"
proof (rule obeysI)
  fix s assume ok: "db_ok s"
  then have unique: "dash.ids_unique s" by (simp add: db_ok_def)
  show "tenant_view v (after (dash_update now p i d) s) = tenant_view v s"
  proof (cases "answer (dash_find p i) s")
    case (Inr r)
    have "own_dashboards v (s\<lparr>dashboards := update_where (\<lambda>r. dash_id r = i) (dash_changes now d) (dashboards s)\<rparr>)
        = own_dashboards v s"
      using dash.update_spares [OF unique Inr _ assms] by (simp add: own_dashboards_def)
    with Inr show ?thesis by (simp add: dash_update_eq tenant_view_def own_widgets_def)
  qed (simp add: dash_update_eq)
qed

lemma spares_dash_delete:
  assumes "v \<noteq> p"
  shows "spares v (dash_delete p i)"
proof (rule obeysI)
  fix s assume ok: "db_ok s"
  then have unique: "dash.ids_unique s" by (simp add: db_ok_def)
  show "tenant_view v (after (dash_delete p i) s) = tenant_view v s"
  proof (cases "answer (dash_find p i) s")
    case (Inr r)
    let ?s = "after (dash_delete p i) s"
    have eq: "?s = s\<lparr>dashboards := delete_where (\<lambda>d. dash_id d = i) (dashboards s),
        widgets := delete_where (\<lambda>x. wid_dashboardId x = i) (widgets s),
        share_links := delete_where (\<lambda>l. sl_dashboardId l = i) (share_links s)\<rparr>"
      using Inr by (simp add: dash_delete_eq)
    have dashes: "own_dashboards v ?s = own_dashboards v s"
      using dash.delete_spares [OF unique Inr assms] by (simp add: own_dashboards_def eq)
    have "own_widgets v ?s = own_widgets v s"
      unfolding own_widgets_def dashes
      using dash_in [OF ok Inr assms] by (auto simp: eq delete_where_def intro!: filter_cong)
    moreover have "filter (\<lambda>l. sl_workspaceId l = v) (share_links ?s) = filter (\<lambda>l. sl_workspaceId l = v) (share_links s)"
    proof -
      have "r \<in> set (dashboards s)" "dash_id r = i" "dash_workspaceId r = p"
        using dash.lookup_found [OF Inr] by auto
      then have "sl_workspaceId l = p" if "l \<in> set (share_links s)" "sl_dashboardId l = i" for l
        using ok that unfolding db_ok_def by metis
      then show ?thesis using assms by (simp add: eq filter_delete_where)
    qed
    ultimately show ?thesis using dashes by (simp add: tenant_view_def) (simp add: eq)
  qed (simp add: dash_delete_eq)
qed

lemma spares_widgets:
  assumes "own_widgets v (s\<lparr>widgets := ws\<rparr>) = own_widgets v s"
  shows "tenant_view v (s\<lparr>widgets := ws\<rparr>) = tenant_view v s"
  using assms by (simp add: tenant_view_def own_dashboards_def)

lemma own_dashboards_widgets [simp]: "own_dashboards v (s\<lparr>widgets := ws\<rparr>) = own_dashboards v s"
  by (simp add: own_dashboards_def)

lemma spares_widget_create:
  assumes "v \<noteq> p"
  shows "spares v (widget_create fresh now p i d)"
proof (rule obeysI)
  fix s assume ok: "db_ok s"
  show "tenant_view v (after (widget_create fresh now p i d) s) = tenant_view v s"
  proof (cases "answer (dash_find p i) s")
    case (Inr r)
    then show ?thesis
      using dash_in [OF ok Inr assms]
      by (simp add: widget_create_eq spares_widgets own_widgets_def new_widget_def)
  qed (simp add: widget_create_eq)
qed

text \<open>A widget found below a dashboard of \<open>p\<close> is not one of \<open>v\<close>.\<close>

lemma widget_in:
  assumes "db_ok s" "answer (dash_find p i) s = Inr d" "answer (widget_find i x) s = Inr r" "v \<noteq> p"
    and "y \<in> set (widgets s)" "wid_id y = x"
  shows "wid_dashboardId y \<notin> dash_id ` set (own_dashboards v s)"
proof -
  have "widget.ids_unique s" using assms(1) by (simp add: db_ok_def)
  then have "y = r" using widget.only_row [OF _ assms(3)] assms(5,6) by blast
  then have "wid_dashboardId y = i" using widget.lookup_found [OF assms(3)] by simp
  then show ?thesis using dash_in [OF assms(1,2,4)] by simp
qed

lemma spares_widget_update:
  assumes "v \<noteq> p"
  shows "spares v (widget_update now p i x d)"
proof (rule obeysI)
  fix s assume ok: "db_ok s"
  show "tenant_view v (after (widget_update now p i x d) s) = tenant_view v s"
  proof (cases "answer (dash_find p i) s")
    case r: (Inr r)
    show ?thesis
    proof (cases "answer (widget_find i x) s")
      case y: (Inr y)
      have "own_widgets v (s\<lparr>widgets := update_where (\<lambda>z. wid_id z = x) (widget_changes now d) (widgets s)\<rparr>)
          = own_widgets v s"
        unfolding own_widgets_def own_dashboards_widgets
        using widget_in [OF ok r y assms]
        by (simp add: filter_update_where widget_changes_def)
      with r y show ?thesis by (simp add: widget_update_eq spares_widgets)
    qed (simp add: widget_update_eq r)
  qed (simp add: widget_update_eq)
qed

lemma spares_widget_delete:
  assumes "v \<noteq> p"
  shows "spares v (widget_delete p i x)"
proof (rule obeysI)
  fix s assume ok: "db_ok s"
  show "tenant_view v (after (widget_delete p i x) s) = tenant_view v s"
  proof (cases "answer (dash_find p i) s")
    case r: (Inr r)
    show ?thesis
    proof (cases "answer (widget_find i x) s")
      case y: (Inr y)
      have "own_widgets v (s\<lparr>widgets := delete_where (\<lambda>z. wid_id z = x) (widgets s)\<rparr>) = own_widgets v s"
        unfolding own_widgets_def own_dashboards_widgets
        using widget_in [OF ok r y assms] by (simp add: filter_delete_where)
      with r y show ?thesis by (simp add: widget_delete_eq spares_widgets)
    qed (simp add: widget_delete_eq r)
  qed (simp add: widget_delete_eq)
qed

lemma spares_alert_create: "v \<noteq> p \<Longrightarrow> spares v (alert_create fresh now p d)"
  by (simp add: obeys_def alert_create_eq tenant_view_def own_widgets_def own_dashboards_def)

lemma spares_alert_update:
  assumes "v \<noteq> p"
  shows "spares v (alert_update now p i d)"
proof (rule obeysI)
  fix s assume "db_ok s"
  then have unique: "alert.ids_unique s" by (simp add: db_ok_def)
  show "tenant_view v (after (alert_update now p i d) s) = tenant_view v s"
  proof (cases "answer (alert_get p i) s")
    case (Inr r)
    then show ?thesis
      using alert.update_spares [OF unique Inr _ assms, of "alert_changes now d"]
      by (simp add: alert_update_eq tenant_view_def own_widgets_def own_dashboards_def)
  qed (simp add: alert_update_eq)
qed

lemma spares_alert_delete:
  assumes "v \<noteq> p"
  shows "spares v (alert_delete p i)"
proof (rule obeysI)
  fix s assume ok: "db_ok s"
  then have unique: "alert.ids_unique s" by (simp add: db_ok_def)
  show "tenant_view v (after (alert_delete p i) s) = tenant_view v s"
  proof (cases "answer (alert_get p i) s")
    case (Inr r)
    then have "r \<in> set (alerts s)" "al_id r = i" "al_workspaceId r = p"
      using alert.lookup_found [OF Inr] by auto
    then have "ev_workspaceId e = p" if "e \<in> set (alert_events s)" "ev_alertId e = i" for e
      using ok that unfolding db_ok_def by metis
    then have "filter (\<lambda>e. ev_workspaceId e = v) (delete_where (\<lambda>e. ev_alertId e = i) (alert_events s))
        = filter (\<lambda>e. ev_workspaceId e = v) (alert_events s)"
      using assms by (simp add: filter_delete_where)
    with Inr show ?thesis
      using alert.delete_spares [OF unique Inr assms]
      by (simp add: alert_delete_eq tenant_view_def own_widgets_def own_dashboards_def)
  qed (simp add: alert_delete_eq)
qed

lemma spares_issue: "v \<noteq> p \<Longrightarrow> spares v (issue argon draw fresh now p uid name scopes)"
proof (rule obeysI)
  fix s assume "v \<noteq> p"
  then show "tenant_view v (after (issue argon draw fresh now p uid name scopes) s) = tenant_view v s"
    by (cases rule: issue_cases [of argon draw fresh now p uid name scopes s])
       (auto simp: tenant_view_def own_widgets_def own_dashboards_def issued_from_def)
qed

lemma spares_keys_revoke:
  assumes "v \<noteq> p"
  shows "spares v (keys_revoke now p i)"
proof (rule obeysI)
  fix s assume "db_ok s"
  then have unique: "keys.ids_unique s" by (simp add: db_ok_def)
  show "tenant_view v (after (keys_revoke now p i) s) = tenant_view v s"
  proof (cases "answer (keys_find p i) s")
    case (Inr r)
    then show ?thesis
      using keys.update_spares [OF unique Inr _ assms, of "\<lambda>k. k\<lparr>key_revokedAt := Some now\<rparr>"]
      by (simp add: keys_revoke_eq tenant_view_def own_widgets_def own_dashboards_def)
  qed (simp add: keys_revoke_eq)
qed

lemma spares_share_create: "v \<noteq> p \<Longrightarrow> spares v (share_create env rand fresh now p i uid ttl)"
  by (simp add: obeys_def share_create_eq Let_def tenant_view_def own_widgets_def own_dashboards_def new_link_def
      split: sum.split)

lemma spares_share_revoke:
  assumes "v \<noteq> p"
  shows "spares v (share_revoke now p i)"
proof (rule obeysI)
  fix s assume "db_ok s"
  then have unique: "link.ids_unique s" by (simp add: db_ok_def)
  show "tenant_view v (after (share_revoke now p i) s) = tenant_view v s"
  proof (cases "answer (link_find p i) s")
    case (Inr r)
    then show ?thesis
      using link.update_spares [OF unique Inr _ assms, of "\<lambda>l. l\<lparr>sl_revokedAt := Some now\<rparr>"]
      by (simp add: share_revoke_eq tenant_view_def own_widgets_def own_dashboards_def)
  qed (simp add: share_revoke_eq)
qed

lemma spares_upsert: "v \<noteq> p \<Longrightarrow> tenant_view v (after (upsert_member fresh now p u r) s) = tenant_view v s"
  by (auto simp: upsert_member_def Let_def tenant_view_def own_widgets_def own_dashboards_def
      intro!: filter_update_where split: option.split)

lemma spares_export:
  "v \<noteq> p \<Longrightarrow> tenant_view v (s\<lparr>pdf_jobs := pdf_jobs s @ [new_job fresh now p i uid]\<rparr>) = tenant_view v s"
  by (simp add: tenant_view_def own_widgets_def own_dashboards_def new_job_def)

lemma spares_handle: "v \<noteq> p \<Longrightarrow> spares v (handle env uid p req)"
  by (intro elsewhere.handled spares_dash_create spares_dash_update spares_dash_delete spares_widget_create
      spares_widget_update spares_widget_delete spares_alert_create spares_alert_update spares_alert_delete
      spares_issue spares_keys_revoke spares_share_create spares_share_revoke spares_upsert spares_export)

section \<open>Who may change anything\<close>

abbreviation idle :: "db \<Rightarrow> (db, 'a) app \<Rightarrow> bool" where
  "idle s \<equiv> obeys (\<lambda>t. t = s) (\<lambda>t u. u = t)"

interpretation idling: route_frame "\<lambda>t. t = s" "\<lambda>t u. u = t" for s
  by unfold_locales simp

lemma idle_role: "role_of s p uid \<notin> Some ` set al \<Longrightarrow> idle s (andThen (require_role p uid al) k)"
  by (auto simp: obeys_def require_role_eq andThen_def split: option.split)

lemma idle_invite:
  "role_of s p uid \<noteq> Some Owner \<Longrightarrow> idle s (ws_invite f g fresh now uid p d)"
  unfolding ws_invite_def
proof (intro idling.reads_first pipes_read)
  assume "role_of s p uid \<noteq> Some Owner"
  then have "idle s (andThen (invite fresh now p uid u r) (\<lambda>m. ok (Invited m)))" for u r
    unfolding invite_def andThen_assoc by (intro idle_role) auto
  then show "idle s (\<lambda>s. case List.find (\<lambda>u. user_email u = inv_email d) (users s) of
      None \<Rightarrow> (Inr (UserNotFound (inv_email d)), s)
    | Some invitee \<Rightarrow>
        andThen (invite fresh now p uid (user_id invitee) (inv_role d)) (\<lambda>m. ok (Invited m)) s)"
    by (simp add: obeys_def split: option.split)
qed

lemma idle_export:
  "role_of s p uid \<notin> {Some Owner, Some Member} \<Longrightarrow> idle s (in_db (pdf_enqueue_route f up fresh now uid p i))"
  using in_db_enqueue_cases [of f up fresh now uid p i s] by (auto simp: obeys_def)

text \<open>The least role that a request needs.\<close>

fun needed_role :: "request \<Rightarrow> role" where
  "needed_role (CreateDashboard _ _ _) = Member"
| "needed_role (UpdateDashboard _ _ _) = Member"
| "needed_role (CreateWidget _ _ _ _) = Member"
| "needed_role (UpdateWidget _ _ _ _) = Member"
| "needed_role (DeleteWidget _ _) = Member"
| "needed_role (CreateAlert _ _ _) = Member"
| "needed_role (UpdateAlert _ _ _) = Member"
| "needed_role (ExportPdf _ _ _ _) = Member"
| "needed_role _ = Owner"

definition may :: "db \<Rightarrow> string \<Rightarrow> string \<Rightarrow> request \<Rightarrow> bool" where
  "may s p uid req \<longleftrightarrow> (\<exists>r. role_of s p uid = Some r \<and> needed_role req \<le> r)"

lemma may_only: "may s p uid req \<Longrightarrow> role_of s p uid \<in> {Some Owner, Some Member}"
  by (cases req) (auto simp: may_def, (metis role.exhaust)+)

lemma idle_handle:
  assumes "\<not> may s p uid req"
  shows "idle s (handle env uid p req)"
proof (cases "role_of s p uid = Some Owner")
  case True
  with assms show ?thesis by (simp add: may_def)
next
  case no_owner: False
  then have only: "role_of s p uid \<noteq> Some Member" if "needed_role req = Member"
    using assms that by (auto simp: may_def)
  show ?thesis
    unfolding handle_def Let_def
    by (cases req)
       (simp_all only: request.case route_defs,
        (intro idling.voided idling.behind_guard idling.reads_first pipes_read idle_role idle_invite idle_export;
          use no_owner only in auto)+)
qed

lemma requests_frame:
  assumes "db_ok s"
  shows "v \<noteq> p \<Longrightarrow> tenant_view v (after (handle env uid p req) s) = tenant_view v s"
    and "\<not> may s p uid req \<Longrightarrow> after (handle env uid p req) s = s"
  using spares_handle [of v p] idle_handle [of s p] assms by (auto simp: obeys_def)

text \<open>
  Claim C1: no request writes into another workspace. Whatever request that is not a \<open>GET\<close> a user
  sends below a workspace \<open>p\<close> (for any dashboard, widget, alert, API key, share link, PDF export or
  invitation, with any ids in its path and any body), all rows of every other workspace, and all
  users, are as before; and unless the user's role in \<open>p\<close> is at least the one the request needs (a
  member for making and changing dashboards, widgets and alerts, for removing widgets and for
  exports, an owner for everything else), the whole database is. The database is one that the
  program's writes lead to: ids are unique, and events and links carry the workspace of their alert
  and dashboard.
\<close>

theorem requests_stay_inside:
  assumes "db_ok s"
  shows "(v \<noteq> p \<longrightarrow> tenant_view v (after (handle env uid p req) s) = tenant_view v s)
    \<and> (\<not> may s p uid req \<longrightarrow> after (handle env uid p req) s = s)"
  using requests_frame [OF assms] by blast

definition sample_api :: api_env where
  "sample_api = \<lparr>ae_is_uuid = (\<lambda>_. True), ae_is_email = (\<lambda>_. True), ae_argon = (\<lambda>x. x), ae_draw = (\<lambda>n. nat_str n),
     ae_share = \<lparr>sh_secret = ''s'', sh_hmac = (\<lambda>k m. []), sh_sha256 = (\<lambda>t. t), sh_coerced_less = (\<lambda>_ _. False),
                 sh_filter = (\<lambda>_. None)\<rparr>\<rparr>"

lemma sample_db_ok: "db_ok sample_db"
  by (simp add: db_ok_def dash.ids_unique_def widget.ids_unique_def alert.ids_unique_def keys.ids_unique_def
      link.ids_unique_def sample_defs)

text \<open>The owner of \<open>w2\<close> tries to delete a dashboard of \<open>w1\<close>, below his own and below its workspace.\<close>

theorem requests_stay_inside_witness:
  "tenant_view ''w1'' (after (handle sample_api ''u2'' ''w2'' (DeleteDashboard ''d1'')) sample_db)
     = tenant_view ''w1'' sample_db
   \<and> after (handle sample_api ''u2'' ''w1'' (DeleteDashboard ''d1'')) sample_db = sample_db"
proof
  show "tenant_view ''w1'' (after (handle sample_api ''u2'' ''w2'' (DeleteDashboard ''d1'')) sample_db)
      = tenant_view ''w1'' sample_db"
    using requests_stay_inside [OF sample_db_ok, of "''w1''" "''w2''"] by simp
  have "role_of sample_db ''w1'' ''u2'' = None" by (simp add: role_of_def sample_defs)
  then have "\<not> may sample_db ''w1'' ''u2'' (DeleteDashboard ''d1'')" by (simp add: may_def)
  then show "after (handle sample_api ''u2'' ''w1'' (DeleteDashboard ''d1'')) sample_db = sample_db"
    using requests_stay_inside [OF sample_db_ok, of _ "''w1''" sample_api "''u2''"] by simp
qed

text \<open>
  Claim C24: an accepted invitation changes exactly one role. When an owner invites a registered
  e-mail address, the role of its user in that workspace becomes the one of the invitation and no
  other role of anyone anywhere changes. Nothing protects the last owner: if the only owner invites
  his own address, which can only be as a member or a viewer, the workspace has no owner left.
\<close>

theorem invite_changes_one_role:
  assumes "List.find (\<lambda>u. user_email u = inv_email d) (users s) = Some x" and "role_of s p uid = Some Owner"
    and "is_uuid p" and "valid_invite is_email d"
  shows "(let s' = after (ws_invite is_uuid is_email fresh now uid p d) s in
      (\<forall>w u. role_of s' w u = (if w = p \<and> u = user_id x then Some (inv_role d) else role_of s w u))
      \<and> (owners s p = {uid} \<and> user_id x = uid \<longrightarrow> owners s' p = {}))"
proof -
  have "after (ws_invite is_uuid is_email fresh now uid p d) s
      = after (upsert_member fresh now p (user_id x) (inv_role d)) s"
    using assms
    by (simp add: ws_invite_def after_andThen invite_eq uuid_pipe_def validation_pipe_def split: sum.split)
  moreover have "inv_role d \<noteq> Owner" using assms(4) by (auto simp: valid_invite_def)
  ultimately show ?thesis by (auto simp: Let_def upsert_member_role owners_def)
qed

theorem invite_changes_one_role_witness:
  "owners (after (ws_invite (\<lambda>_. True) (\<lambda>_. True) ''m9'' 5 ''u1'' ''w1''
     \<lparr>inv_email = ''a@x'', inv_role = Member\<rparr>) sample_db) ''w1'' = {}"
proof -
  have roles: "role_of sample_db ''w1'' u = (if u = ''u1'' then Some Owner else if u = ''u3'' then Some Viewer else None)" for u
    by (auto simp: role_of_def sample_defs)
  have "owners sample_db ''w1'' = {''u1''}" by (auto simp: owners_def roles)
  then show ?thesis
    using invite_changes_one_role [where s = sample_db and p = "''w1''" and uid = "''u1''" and is_uuid = "\<lambda>_. True"
        and is_email = "\<lambda>_. True" and x = "sample_user ''u1'' ''a@x''" and fresh = "''m9''" and now = 5
        and d = "\<lparr>inv_email = ''a@x'', inv_role = Member\<rparr>"] roles [of "''u1''"]
    by (simp add: Let_def valid_invite_def sample_defs)
qed

end
