(* ===== verification/Integrity.thy ===== *)
theory Integrity
  imports Isolation AlertEvaluator
begin

text \<open>
  Everything that writes to the database, in any order: the requests of \<open>Isolation\<close>, the
  sign-up's transaction, the evaluator's firings, and the export jobs with their worker. The
  schema (\<open>api/prisma/schema.prisma\<close>) is an invariant of these writes: keys stay unique, and no
  write needs the database to refuse a foreign key. Over whole histories it follows who can
  change a workspace, and who can come to own one.
\<close>

section \<open>Foreign keys\<close>

definition resolves :: "('c \<Rightarrow> 'k) \<Rightarrow> 'c list \<Rightarrow> ('p \<Rightarrow> 'k) \<Rightarrow> 'p list \<Rightarrow> bool" where
  "resolves fk cs pk ps \<longleftrightarrow> fk ` set cs \<subseteq> pk ` set ps"

lemma resolvesD: "resolves fk cs pk ps \<Longrightarrow> c \<in> set cs \<Longrightarrow> fk c \<in> pk ` set ps"
  by (auto simp: resolves_def)

lemma resolves_insert [simp]:
  "resolves fk (cs @ [c]) pk ps \<longleftrightarrow> resolves fk cs pk ps \<and> fk c \<in> pk ` set ps"
  by (auto simp: resolves_def)

lemma resolves_more: "resolves fk cs pk ps \<Longrightarrow> resolves fk cs pk (ps @ qs)"
  by (auto simp: resolves_def)

lemma image_update_where:
  assumes "\<And>r. k (f r) = k r"
  shows "k ` set (update_where P f rows) = k ` set rows"
  using keys_update_where [of k f P rows] assms by (metis set_map)

lemma resolves_update [simp]:
  "(\<And>c. fk (f c) = fk c) \<Longrightarrow> resolves fk (update_where P f cs) pk ps = resolves fk cs pk ps"
  "(\<And>p. pk (g p) = pk p) \<Longrightarrow> resolves fk cs pk (update_where Q g ps) = resolves fk cs pk ps"
  unfolding resolves_def by (simp_all only: image_update_where)

lemma resolves_delete: "resolves fk cs pk ps \<Longrightarrow> resolves fk (delete_where P cs) pk ps"
  by (auto simp: resolves_def)

text \<open>\<open>onDelete: Cascade\<close>: the children of a deleted row go with it.\<close>

lemma resolves_cascade:
  assumes "resolves fk cs pk ps" and "\<And>c p. fk c = pk p \<Longrightarrow> P p \<Longrightarrow> Q c"
  shows "resolves fk (delete_where Q cs) pk (delete_where P ps)"
  unfolding resolves_def
proof
  fix k assume "k \<in> fk ` set (delete_where Q cs)"
  then obtain c where c: "c \<in> set cs" "\<not> Q c" "k = fk c" by auto
  with assms(1) obtain p where "p \<in> set ps" "fk c = pk p" by (auto simp: resolves_def)
  with c assms(2) show "k \<in> pk ` set (delete_where P ps)" by auto
qed

section \<open>The schema\<close>

definition pk_ok :: "db \<Rightarrow> bool" where
  "pk_ok s \<longleftrightarrow>
     distinct (map user_id (users s)) \<and> distinct (map ws_id (workspaces s)) \<and>
     distinct (map mem_id (members s)) \<and> distinct (map key_id (api_keys s)) \<and>
     distinct (map dash_id (dashboards s)) \<and> distinct (map wid_id (widgets s)) \<and>
     distinct (map al_id (alerts s)) \<and> distinct (map ev_id (alert_events s)) \<and>
     distinct (map sl_id (share_links s)) \<and> distinct (map job_id (pdf_jobs s))"

definition unique_ok :: "db \<Rightarrow> bool" where
  "unique_ok s \<longleftrightarrow>
     distinct (map user_email (users s)) \<and> distinct (map ws_slug (workspaces s)) \<and>
     distinct (map (\<lambda>m. (mem_workspaceId m, mem_userId m)) (members s)) \<and>
     distinct (map key_prefix (api_keys s)) \<and> distinct (map sl_tokenHash (share_links s))"

text \<open>
  The relations of the schema. An alert event and a share link carry their workspace beside the
  alert and the dashboard they refer to, which the schema alone would let differ; here the pair
  resolves. A job row refers to its workspace, its requester and its dashboard without a relation
  in the schema; the first two resolve. Its dashboard is left out: nothing checks it, and it may be
  of another workspace or none. The last line is not in the schema either: every user owns a
  workspace.
\<close>

definition fk_ok :: "db \<Rightarrow> bool" where
  "fk_ok s \<longleftrightarrow>
     resolves ws_ownerId (workspaces s) user_id (users s) \<and>
     resolves mem_workspaceId (members s) ws_id (workspaces s) \<and>
     resolves mem_userId (members s) user_id (users s) \<and>
     resolves key_workspaceId (api_keys s) ws_id (workspaces s) \<and>
     resolves key_createdById (api_keys s) user_id (users s) \<and>
     resolves dash_workspaceId (dashboards s) ws_id (workspaces s) \<and>
     resolves dash_createdById (dashboards s) user_id (users s) \<and>
     resolves wid_dashboardId (widgets s) dash_id (dashboards s) \<and>
     resolves al_workspaceId (alerts s) ws_id (workspaces s) \<and>
     resolves (\<lambda>e. (ev_alertId e, ev_workspaceId e)) (alert_events s) (\<lambda>a. (al_id a, al_workspaceId a)) (alerts s) \<and>
     resolves (\<lambda>l. (sl_dashboardId l, sl_workspaceId l)) (share_links s) (\<lambda>d. (dash_id d, dash_workspaceId d)) (dashboards s) \<and>
     resolves sl_createdById (share_links s) user_id (users s) \<and>
     resolves job_workspaceId (pdf_jobs s) ws_id (workspaces s) \<and>
     resolves job_requestedBy (pdf_jobs s) user_id (users s) \<and>
     resolves user_id (users s) ws_ownerId (workspaces s)"

text \<open>
  Who made a row belongs to its workspace: the creators of keys, dashboards and links, the
  requesters of exports and the owner named in the workspace itself have a row in
  \<open>workspace_members\<close> for it.
\<close>

definition belongs :: "('r \<Rightarrow> string) \<Rightarrow> ('r \<Rightarrow> string) \<Rightarrow> 'r list \<Rightarrow> db \<Rightarrow> bool" where
  "belongs wsp by rows s \<longleftrightarrow>
     resolves (\<lambda>r. (wsp r, by r)) rows (\<lambda>m. (mem_workspaceId m, mem_userId m)) (members s)"

definition authors_ok :: "db \<Rightarrow> bool" where
  "authors_ok s \<longleftrightarrow>
     belongs ws_id ws_ownerId (workspaces s) s \<and>
     belongs key_workspaceId key_createdById (api_keys s) s \<and>
     belongs dash_workspaceId dash_createdById (dashboards s) s \<and>
     belongs sl_workspaceId sl_createdById (share_links s) s \<and>
     belongs job_workspaceId job_requestedBy (pdf_jobs s) s"

definition schema_ok :: "db \<Rightarrow> bool" where
  "schema_ok s \<longleftrightarrow> pk_ok s \<and> unique_ok s \<and> fk_ok s \<and> authors_ok s"

lemmas schema_defs = schema_ok_def pk_ok_def unique_ok_def fk_ok_def authors_ok_def belongs_def

definition used_ids :: "db \<Rightarrow> string set" where
  "used_ids s = user_id ` set (users s) \<union> ws_id ` set (workspaces s) \<union> mem_id ` set (members s) \<union>
     key_id ` set (api_keys s) \<union> dash_id ` set (dashboards s) \<union> wid_id ` set (widgets s) \<union>
     al_id ` set (alerts s) \<union> ev_id ` set (alert_events s) \<union> sl_id ` set (share_links s) \<union>
     job_id ` set (pdf_jobs s)"

lemma empty_schema: "schema_ok empty_db"
  by (simp add: schema_defs empty_db_def resolves_def)

lemma same_key: "distinct (map k xs) \<Longrightarrow> x \<in> set xs \<Longrightarrow> y \<in> set xs \<Longrightarrow> k x = k y \<Longrightarrow> x = y"
  by (auto simp: distinct_map inj_on_def)

text \<open>A pair that resolves gives the workspace of every row with the id, when ids are unique.\<close>

lemma resolved_pair:
  assumes "resolves (\<lambda>c. (f c, g c)) cs (\<lambda>p. (i p, w p)) ps" and "distinct (map i ps)"
    and "c \<in> set cs" "p \<in> set ps" "i p = f c"
  shows "w p = g c"
proof -
  obtain q where "q \<in> set ps" "i q = f c" "w q = g c"
    using resolvesD [OF assms(1,3)] by auto
  with assms(2,4,5) show ?thesis by (metis same_key)
qed

lemma schema_db_ok: "schema_ok s \<Longrightarrow> db_ok s"
  unfolding db_ok_def dash.ids_unique_def widget.ids_unique_def alert.ids_unique_def keys.ids_unique_def
    link.ids_unique_def
  by (auto simp: schema_defs intro: resolved_pair)

section \<open>The services keep the schema\<close>

text \<open>
  Behind the guards: the user has a role in the workspace, so both exist; the generated id is new.
\<close>

definition behind_guards :: "string list \<Rightarrow> string \<Rightarrow> string \<Rightarrow> db \<Rightarrow> bool" where
  "behind_guards ids uid p s \<longleftrightarrow> schema_ok s \<and> set ids \<inter> used_ids s = {} \<and>
     p \<in> ws_id ` set (workspaces s) \<and> uid \<in> user_id ` set (users s) \<and>
     (p, uid) \<in> (\<lambda>m. (mem_workspaceId m, mem_userId m)) ` set (members s)"

abbreviation sound :: "string list \<Rightarrow> string \<Rightarrow> string \<Rightarrow> (db, 'a) app \<Rightarrow> bool" where
  "sound ids uid p \<equiv> obeys (behind_guards ids uid p) (\<lambda>_. schema_ok)"

interpretation schema: route_frame "behind_guards ids uid p" "\<lambda>_. schema_ok" for ids uid p
  by unfold_locales (simp add: behind_guards_def)

lemmas behind_guards_defs = behind_guards_def used_ids_def

lemma sound_dash_create: "fresh \<in> set ids \<Longrightarrow> sound ids uid p (dash_create fresh now p uid d)"
  by (rule obeysI) (auto simp: behind_guards_defs schema_defs dash_create_def Let_def intro: resolves_more)

lemma sound_dash_update: "sound ids uid p (dash_update now p i d)"
  by (rule obeysI) (simp add: behind_guards_def schema_defs dash_update_eq dash_changes_def split: sum.split)

lemma sound_dash_delete: "sound ids uid p (dash_delete p i)"
proof (rule obeysI)
  fix s assume "behind_guards ids uid p s"
  then have "schema_ok s" by (simp add: behind_guards_def)
  then show "schema_ok (after (dash_delete p i) s)"
    by (auto simp: schema_defs dash_delete_eq intro: resolves_delete resolves_cascade split: sum.split)
qed

lemma sound_widget_create: "fresh \<in> set ids \<Longrightarrow> sound ids uid p (widget_create fresh now p i d)"
  by (rule obeysI)
     (auto simp: behind_guards_defs schema_defs widget_create_eq new_widget_def split: sum.split dest!: dash.lookup_found)

lemma sound_widget_update: "sound ids uid p (widget_update now p i x d)"
  by (rule obeysI) (simp add: behind_guards_def schema_defs widget_update_eq widget_changes_def split: sum.split)

lemma sound_widget_delete: "sound ids uid p (widget_delete p i x)"
  by (rule obeysI) (simp add: behind_guards_def schema_defs widget_delete_eq resolves_delete split: sum.split)

lemma sound_alert_create: "fresh \<in> set ids \<Longrightarrow> sound ids uid p (alert_create fresh now p d)"
  by (rule obeysI) (auto simp: behind_guards_defs schema_defs alert_create_eq intro: resolves_more)

lemma sound_alert_update: "sound ids uid p (alert_update now p i d)"
  by (rule obeysI) (simp add: behind_guards_def schema_defs alert_update_eq split: sum.split)

lemma sound_alert_delete: "sound ids uid p (alert_delete p i)"
proof (rule obeysI)
  fix s assume "behind_guards ids uid p s"
  then have "schema_ok s" by (simp add: behind_guards_def)
  then show "schema_ok (after (alert_delete p i) s)"
    by (auto simp: schema_defs alert_delete_eq intro: resolves_delete resolves_cascade split: sum.split)
qed

lemma insert_key_inject: "ApiKeys.insert_key k s = ApiKeys.insert_key k' s \<Longrightarrow> k = k'"
  by (drule arg_cong [where f = api_keys]) (simp add: ApiKeys.insert_key_def)

lemma issue_attempts_by:
  "issue_attempts argon fresh now w u n sc draws s = (Inr ik, ApiKeys.insert_key k s) \<Longrightarrow> key_createdById k = u"
  by (induction draws) (auto simp: Let_def dest!: insert_key_inject split: prod.splits option.splits)

lemma issue_by: "issue argon draw fresh now w u n sc s = (Inr ik, ApiKeys.insert_key k s) \<Longrightarrow> key_createdById k = u"
  by (auto simp: issue_def dest: issue_attempts_by split: opt_field.splits)

lemma sound_issue:
  assumes "fresh \<in> set ids"
  shows "sound ids uid p (issue argon draw fresh now p uid n sc)"
proof (rule obeysI)
  fix s assume guards: "behind_guards ids uid p s"
  show "schema_ok (after (issue argon draw fresh now p uid n sc) s)"
  proof (cases rule: issue_cases [of argon draw fresh now p uid n sc s])
    case (issued ik k)
    have new: "key_prefix k \<notin> key_prefix ` set (api_keys s)" "key_id k = fresh" "key_workspaceId k = p"
      using issued(2) unfolding issued_from_def by blast+
    have by_user: "key_createdById k = uid" using issued(1) by (rule issue_by)
    have "fresh \<notin> key_id ` set (api_keys s)" using guards assms by (auto simp: behind_guards_defs)
    with new by_user guards issued(1) show ?thesis
      by (simp add: behind_guards_def schema_defs ApiKeys.insert_key_def)
  qed (use guards in \<open>simp add: behind_guards_def\<close>)
qed

lemma sound_keys_revoke: "sound ids uid p (keys_revoke now p i)"
  by (rule obeysI) (simp add: behind_guards_def schema_defs keys_revoke_eq split: sum.split)

lemma sound_share_create:
  "fresh \<in> set ids \<Longrightarrow> sound ids uid p (share_create env rand fresh now p i uid ttl)"
  by (rule obeysI)
     (auto simp: behind_guards_defs schema_defs share_create_eq Let_def new_link_def split: sum.split dest!: dash.lookup_found)

lemma sound_share_revoke: "sound ids uid p (share_revoke now p i)"
  by (rule obeysI) (simp add: behind_guards_def schema_defs share_revoke_eq split: sum.split)

lemma sound_upsert:
  assumes "fresh \<in> set ids" and "behind_guards ids uid p s" and "u \<in> user_id ` set (users s)"
  shows "schema_ok (after (upsert_member fresh now p u r) s)"
  using assms by (auto simp: behind_guards_defs schema_defs upsert_member_def Let_def find_None intro: resolves_more split: option.split)

lemma sound_export:
  assumes "fresh \<in> set ids" and "behind_guards ids uid p s"
  shows "schema_ok (s\<lparr>pdf_jobs := pdf_jobs s @ [new_job fresh now p i uid]\<rparr>)"
  using assms by (auto simp: behind_guards_defs schema_defs new_job_def)

section \<open>All writers together\<close>

text \<open>
  The actions that write to the database: a user's request below a workspace, the transaction of
  a sign-up (with whatever its reads before it prepared), a firing of the evaluator with the row
  of a snapshot, and the two writes of the export worker.
\<close>

datatype site_action =
    Send string string request
  | SignUp new_ids int signup_dto "string \<times> string \<times> string"
  | Fire "int \<times> int" string alert anomaly_point string
  | JobBegins pdf_data
  | JobEnds pdf_env int string pdf_data

definition act :: "api_env \<Rightarrow> site_action \<Rightarrow> db \<Rightarrow> db" where
  "act env a s =
     (case a of
        Send uid p req \<Rightarrow> after (handle env uid p req) s
      | SignUp ids now d prepared \<Rightarrow> after (signup_commit ids now d prepared) s
      | Fire (fired, stored) fresh r p meth \<Rightarrow> fired_db r p meth fired stored fresh s
      | JobBegins d \<Rightarrow> after (pdf_begin d) s
      | JobEnds penv now rnd d \<Rightarrow> after (pdf_finish penv now rnd d) s)"

text \<open>The ids an action draws.\<close>

fun request_ids :: "request \<Rightarrow> string list" where
  "request_ids (CreateDashboard fresh _ _) = [fresh]"
| "request_ids (CreateWidget fresh _ _ _) = [fresh]"
| "request_ids (CreateAlert fresh _ _) = [fresh]"
| "request_ids (CreateKey fresh _ _) = [fresh]"
| "request_ids (CreateLink _ fresh _ _ _) = [fresh]"
| "request_ids (Invite fresh _ _) = [fresh]"
| "request_ids (ExportPdf _ fresh _ _) = [fresh]"
| "request_ids _ = []"

fun drawn_ids :: "site_action \<Rightarrow> string list" where
  "drawn_ids (Send _ _ req) = request_ids req"
| "drawn_ids (SignUp (u, w, m) _ _ _) = [u, w, m]"
| "drawn_ids (Fire _ fresh _ _ _) = [fresh]"
| "drawn_ids _ = []"

text \<open>
  Drawn ids are new, and a snapshot shows the workspace its rule has: an alert never moves to
  another one, as the ids and workspaces of the rows below tell.
\<close>

definition possible :: "site_action \<Rightarrow> db \<Rightarrow> bool" where
  "possible a s \<longleftrightarrow> set (drawn_ids a) \<inter> used_ids s = {} \<and>
     (case a of Fire _ _ r _ _ \<Rightarrow> \<forall>x \<in> set (alerts s). al_id x = al_id r \<longrightarrow> al_workspaceId x = al_workspaceId r
      | _ \<Rightarrow> True)"

inductive site_step :: "api_env \<Rightarrow> site_action \<Rightarrow> db \<Rightarrow> db \<Rightarrow> bool" for env where
  acts: "possible a s \<Longrightarrow> site_step env a s (act env a s)"

inductive_cases site_stepE: "site_step env a s t"

abbreviation any_step :: "api_env \<Rightarrow> db \<Rightarrow> db \<Rightarrow> bool" where
  "any_step env s t \<equiv> \<exists>a. site_step env a s t"

lemma members_exist:
  assumes "schema_ok s" and "role_of s p uid = Some r"
  shows "p \<in> ws_id ` set (workspaces s)" "uid \<in> user_id ` set (users s)"
    "(p, uid) \<in> (\<lambda>m. (mem_workspaceId m, mem_userId m)) ` set (members s)"
proof -
  obtain m where "m \<in> set (members s)" "mem_workspaceId m = p" "mem_userId m = uid"
    using role_of_Some [OF assms(2)] by blast
  moreover have "resolves mem_workspaceId (members s) ws_id (workspaces s)" "resolves mem_userId (members s) user_id (users s)"
    using assms(1) by (simp_all add: schema_defs)
  ultimately show "p \<in> ws_id ` set (workspaces s)" "uid \<in> user_id ` set (users s)"
    "(p, uid) \<in> (\<lambda>m. (mem_workspaceId m, mem_userId m)) ` set (members s)"
    by (auto dest: resolvesD)
qed

lemma schema_send:
  assumes "schema_ok s" and "set (request_ids req) \<inter> used_ids s = {}"
  shows "schema_ok (after (handle env uid p req) s)"
proof (cases "role_of s p uid")
  case None
  then have "idle s (handle env uid p req)" by (intro idle_handle) (simp add: may_def)
  with assms(1) show ?thesis by (simp add: obeys_def)
next
  case (Some r)
  have "sound (request_ids req) uid p (handle env uid p req)"
    by (intro schema.handled sound_dash_create sound_dash_update sound_dash_delete sound_widget_create
        sound_widget_update sound_widget_delete sound_alert_create sound_alert_update sound_alert_delete
        sound_issue sound_keys_revoke sound_share_create sound_share_revoke sound_upsert sound_export) auto
  with assms members_exist [OF assms(1) Some] show ?thesis by (simp add: obeys_def behind_guards_def)
qed

lemma schema_signup:
  assumes "schema_ok s" and "{u, w, m} \<inter> used_ids s = {}"
  shows "schema_ok (after (signup_commit (u, w, m) now d prepared) s)"
proof -
  obtain hash name slug where p: "prepared = (hash, name, slug)" by (cases prepared)
  have "(w, u) \<notin> (\<lambda>m. (mem_workspaceId m, mem_userId m)) ` set (members s)"
  proof
    assume "(w, u) \<in> (\<lambda>m. (mem_workspaceId m, mem_userId m)) ` set (members s)"
    moreover have "resolves mem_workspaceId (members s) ws_id (workspaces s)"
      using assms(1) by (simp add: schema_defs)
    ultimately have "w \<in> ws_id ` set (workspaces s)" by (auto simp: resolves_def)
    then show False using assms(2) by (simp add: used_ids_def)
  qed
  with assms show ?thesis
    unfolding p by (auto simp: schema_defs used_ids_def signup_commit_def Let_def slug_taken_def intro: resolves_more)
qed

lemma schema_fire:
  assumes "schema_ok s" and "fresh \<notin> used_ids s"
    and "\<forall>x \<in> set (alerts s). al_id x = al_id r \<longrightarrow> al_workspaceId x = al_workspaceId r"
  shows "schema_ok (fired_db r p meth fired stored fresh s)"
proof (cases "\<exists>x \<in> set (alerts s). al_id x = al_id r")
  case True
  then obtain x where "x \<in> set (alerts s)" "al_id x = al_id r" by blast
  with assms(3) have "(al_id r, al_workspaceId r) \<in> (\<lambda>a. (al_id a, al_workspaceId a)) ` set (alerts s)"
    by (intro image_eqI [of _ _ x]) simp_all
  with assms(1,2) True show ?thesis
    by (simp add: fired_db_def fire_event_def stamp_def schema_defs used_ids_def image_update_where)
next
  case False
  with assms(1) show ?thesis by (simp add: fired_db_def)
qed

text \<open>The export worker touches job rows only, and never what identifies them.\<close>

abbreviation same_job :: "(pdf_job \<Rightarrow> pdf_job) \<Rightarrow> bool" where
  "same_job f \<equiv> \<forall>j. job_id (f j) = job_id j \<and> job_workspaceId (f j) = job_workspaceId j \<and>
     job_requestedBy (f j) = job_requestedBy j"

lemma job_update_after: "after (job_update i f) s = s\<lparr>pdf_jobs := update_where (\<lambda>j. job_id j = i) f (pdf_jobs s)\<rparr>"
  by (auto simp: job_update_def update_where_none)

lemma pdf_begin_after: "\<exists>f. same_job f \<and>
    after (pdf_begin d) s = s\<lparr>pdf_jobs := update_where (\<lambda>j. job_id j = pd_jobId d) f (pdf_jobs s)\<rparr>"
  by (rule exI [of _ "\<lambda>j. j\<lparr>job_status := Running\<rparr>"]) (simp add: pdf_begin_def job_update_after)

lemma pdf_finish_after: "\<exists>f. same_job f \<and>
    after (pdf_finish env now rnd d) s = s\<lparr>pdf_jobs := update_where (\<lambda>j. job_id j = pd_jobId d) f (pdf_jobs s)\<rparr>"
proof (cases "pd_jobId d \<in> job_id ` set (pdf_jobs s)")
  case True
  then show ?thesis
  proof (cases rule: pdf_finish_cases [of d s env now rnd])
    case stored
    then show ?thesis
      by (intro exI [of _ "\<lambda>j. j\<lparr>job_status := Done, job_s3Key := Some (pdf_key d), job_completedAt := Some now\<rparr>"]) simp
  next
    case (failed m)
    then show ?thesis
      by (intro exI [of _ "\<lambda>j. j\<lparr>job_status := Failed, job_errorMessage := Some m, job_completedAt := Some now\<rparr>"]) simp
  qed
next
  case False
  then have none: "job_update (pd_jobId d) f s = (Inl (Crash ''Record to update not found''), s)" for f
    by (auto simp: job_update_def image_iff)
  have "after (pdf_finish env now rnd d) s = s"
    by (cases "render_and_upload env now rnd d s"; cases "fst (render_and_upload env now rnd d s)")
       (use render_and_upload_answer [of env now rnd d s] in \<open>auto simp: pdf_finish_def catching_def andThen_def none\<close>)
  then show ?thesis by (intro exI [of _ "\<lambda>j. j"]) (simp add: update_where_def)
qed

lemma schema_jobs:
  assumes "schema_ok s" and "same_job f"
  shows "schema_ok (s\<lparr>pdf_jobs := update_where P f (pdf_jobs s)\<rparr>)"
  using assms by (simp add: schema_defs)

lemma site_step_schema:
  assumes "site_step env a s t" and "schema_ok s"
  shows "schema_ok t"
proof -
  from assms(1) have t: "t = act env a s" and possible: "possible a s" by (auto elim: site_stepE)
  show ?thesis
  proof (cases a)
    case (Send uid p req)
    with possible assms(2) show ?thesis by (simp add: t act_def possible_def schema_send)
  next
    case (SignUp ids now d prepared)
    with possible assms(2) show ?thesis
      by (cases ids) (simp add: t act_def possible_def schema_signup)
  next
    case (Fire c fresh r p meth)
    with possible assms(2) show ?thesis by (cases c) (simp add: t act_def possible_def schema_fire)
  next
    case (JobBegins d)
    obtain f where "same_job f"
      "after (pdf_begin d) s = s\<lparr>pdf_jobs := update_where (\<lambda>j. job_id j = pd_jobId d) f (pdf_jobs s)\<rparr>"
      using pdf_begin_after by metis
    with JobBegins assms(2) show ?thesis by (simp add: t act_def schema_jobs)
  next
    case (JobEnds penv now rnd d)
    obtain f where "same_job f"
      "after (pdf_finish penv now rnd d) s = s\<lparr>pdf_jobs := update_where (\<lambda>j. job_id j = pd_jobId d) f (pdf_jobs s)\<rparr>"
      using pdf_finish_after by metis
    with JobEnds assms(2) show ?thesis by (simp add: t act_def schema_jobs)
  qed
qed

interpretation site: inductive_invariant "any_step env" schema_ok for env
  by unfold_locales (blast intro: site_step_schema)

section \<open>The rows of one workspace over a history\<close>

definition tenant_rows :: "string \<Rightarrow> db \<Rightarrow> tenant" where
  "tenant_rows v s =
     (let x = tenant_view v s
      in x\<lparr>tn_users := [], tn_workspaces := filter (\<lambda>w. ws_id w = v) (tn_workspaces x)\<rparr>)"

lemma tenant_rows_of_view: "tenant_view v t = tenant_view v s \<Longrightarrow> tenant_rows v t = tenant_rows v s"
  by (simp add: tenant_rows_def)

lemma find_filter: "List.find P (filter Q xs) = List.find (\<lambda>x. Q x \<and> P x) xs"
  by (induction xs) auto

lemma role_of_rows:
  "role_of s v u = map_option mem_role (List.find (\<lambda>m. mem_userId m = u) (tn_members (tenant_rows v s)))"
  by (simp add: role_of_def tenant_rows_def tenant_view_def Let_def find_filter)

lemma exists_in_rows: "v \<in> ws_id ` set (workspaces s) \<longleftrightarrow> tn_workspaces (tenant_rows v s) \<noteq> []"
  by (auto simp: tenant_rows_def tenant_view_def Let_def filter_empty_conv)

text \<open>
  An action that is none of a workspace \<open>v\<close>: of a user whose role in \<open>v\<close> at the beginning is not
  owner or member, of the evaluator for a rule of another workspace, of the worker for a job of
  another workspace. A sign-up never is one of \<open>v\<close>.
\<close>

definition outside :: "string \<Rightarrow> db \<Rightarrow> db \<Rightarrow> site_action \<Rightarrow> bool" where
  "outside v s0 s a \<longleftrightarrow>
     (case a of
        Send uid p _ \<Rightarrow> p = v \<longrightarrow> role_of s0 v uid \<notin> {Some Owner, Some Member}
      | SignUp _ _ _ _ \<Rightarrow> True
      | Fire _ _ r _ _ \<Rightarrow> al_workspaceId r \<noteq> v
      | JobBegins d \<Rightarrow> \<forall>j \<in> set (pdf_jobs s). job_id j = pd_jobId d \<longrightarrow> job_workspaceId j \<noteq> v
      | JobEnds _ _ _ d \<Rightarrow> \<forall>j \<in> set (pdf_jobs s). job_id j = pd_jobId d \<longrightarrow> job_workspaceId j \<noteq> v)"

abbreviation outside_step :: "api_env \<Rightarrow> string \<Rightarrow> db \<Rightarrow> db \<Rightarrow> db \<Rightarrow> bool" where
  "outside_step env v s0 s t \<equiv> \<exists>a. site_step env a s t \<and> outside v s0 s a"

interpretation outsiders: inductive_invariant "outside_step env v s0" schema_ok for env v s0
  by unfold_locales (blast intro: site_step_schema)

lemma rows_fire:
  assumes "\<forall>x \<in> set (alerts s). al_id x = al_id r \<longrightarrow> al_workspaceId x = al_workspaceId r"
    and "al_workspaceId r \<noteq> v"
  shows "tenant_rows v (fired_db r p meth fired stored fresh s) = tenant_rows v s"
proof -
  have "filter (\<lambda>a. al_workspaceId a = v) (stamp (al_id r) fired (alerts s)) = filter (\<lambda>a. al_workspaceId a = v) (alerts s)"
    using assms unfolding stamp_def by (intro filter_update_where) auto
  with assms(2) show ?thesis
    by (intro tenant_rows_of_view)
       (simp add: fired_db_def fire_event_def tenant_view_def own_widgets_def own_dashboards_def)
qed

lemma rows_signup:
  assumes "v \<noteq> w"
  shows "tenant_rows v (after (signup_commit (u, w, m) now d prepared) s) = tenant_rows v s"
  using assms
  by (cases prepared)
     (simp add: signup_commit_def Let_def tenant_rows_def tenant_view_def own_widgets_def own_dashboards_def)

lemma rows_jobs:
  assumes "filter (\<lambda>j. job_workspaceId j = v) js = filter (\<lambda>j. job_workspaceId j = v) (pdf_jobs s)"
  shows "tenant_rows v (s\<lparr>pdf_jobs := js\<rparr>) = tenant_rows v s"
  using assms by (intro tenant_rows_of_view) (simp add: tenant_view_def own_widgets_def own_dashboards_def)

lemma rows_job_update:
  assumes "\<forall>j \<in> set (pdf_jobs s). job_id j = i \<longrightarrow> job_workspaceId j \<noteq> v"
    and "\<forall>j. job_workspaceId (f j) = job_workspaceId j"
  shows "tenant_rows v (s\<lparr>pdf_jobs := update_where (\<lambda>j. job_id j = i) f (pdf_jobs s)\<rparr>) = tenant_rows v s"
  using assms by (intro rows_jobs filter_update_where) simp

lemma rows_outside:
  assumes "schema_ok s" and "v \<in> ws_id ` set (workspaces s)" and "site_step env a s t" and "outside v s s a"
  shows "tenant_rows v t = tenant_rows v s"
proof -
  from assms(3) have t: "t = act env a s" and possible: "possible a s" by (auto elim: site_stepE)
  show ?thesis
  proof (cases a)
    case (Send uid p req)
    note frame = requests_frame [OF schema_db_ok [OF assms(1)]]
    show ?thesis
    proof (cases "p = v")
      case True
      then have "\<not> may s v uid req" using assms(4) may_only [of s v uid req] by (auto simp: Send outside_def)
      then show ?thesis by (simp add: t act_def Send True frame(2))
    next
      case False
      then show ?thesis by (intro tenant_rows_of_view) (simp add: t act_def Send frame(1))
    qed
  next
    case (SignUp ids now d prepared)
    obtain u w m where ids: "ids = (u, w, m)" by (cases ids)
    with SignUp possible assms(2) have "v \<noteq> w" by (auto simp: possible_def used_ids_def)
    then show ?thesis by (simp add: t act_def SignUp ids rows_signup)
  next
    case (Fire c fresh r p meth)
    with possible assms(4) show ?thesis by (cases c) (simp add: t act_def possible_def outside_def rows_fire)
  next
    case (JobBegins d)
    with pdf_begin_after [of d s] assms(4) show ?thesis
      by (auto simp: t act_def outside_def intro!: rows_job_update)
  next
    case (JobEnds penv now rnd d)
    with pdf_finish_after [of penv now rnd d s] assms(4) show ?thesis
      by (auto simp: t act_def outside_def intro!: rows_job_update)
  qed
qed

section \<open>Owners over a history\<close>

abbreviation tenancy :: "db \<Rightarrow> workspace list \<times> member list" where
  "tenancy s \<equiv> (workspaces s, members s)"

abbreviation no_new_owner :: "db \<Rightarrow> db \<Rightarrow> bool" where
  "no_new_owner s t \<equiv> workspaces t = workspaces s \<and> (\<forall>w. owners t w \<subseteq> owners s w)"

interpretation owning: route_frame "\<lambda>_. True" no_new_owner
  by unfold_locales simp

lemma same_tenancy: "tenancy t = tenancy s \<Longrightarrow> no_new_owner s t"
  by (simp add: owners_def role_of_def)

lemma issue_tenancy: "tenancy (after (issue argon draw fresh now p uid n sc) s) = tenancy s"
  by (cases rule: issue_cases [of argon draw fresh now p uid n sc s]) (simp_all add: ApiKeys.insert_key_def)

lemma services_tenancy:
  "tenancy (after (dash_create fresh now p uid dc) s) = tenancy s"
  "tenancy (after (dash_update now p i du) s) = tenancy s"
  "tenancy (after (dash_delete p i) s) = tenancy s"
  "tenancy (after (widget_create fresh now p i wc) s) = tenancy s"
  "tenancy (after (widget_update now p i x wu) s) = tenancy s"
  "tenancy (after (widget_delete p i x) s) = tenancy s"
  "tenancy (after (alert_create fresh now p ac) s) = tenancy s"
  "tenancy (after (alert_update now p i au) s) = tenancy s"
  "tenancy (after (alert_delete p i) s) = tenancy s"
  "tenancy (after (keys_revoke now p i) s) = tenancy s"
  "tenancy (after (share_create senv rand fresh now p i uid ttl) s) = tenancy s"
  "tenancy (after (share_revoke now p i) s) = tenancy s"
  by (simp_all add: dash_create_def dash_update_eq dash_delete_eq widget_create_eq widget_update_eq
      widget_delete_eq alert_create_eq alert_update_eq alert_delete_eq keys_revoke_eq share_create_eq
      share_revoke_eq Let_def split: sum.split)

lemma owners_send: "obeys (\<lambda>_. True) no_new_owner (handle env uid p req)"
proof (rule owning.handled)
  fix fresh now d s u
  assume "valid_invite (ae_is_email env) d"
  then have "inv_role d \<noteq> Owner" by (auto simp: valid_invite_def)
  then show "no_new_owner s (after (upsert_member fresh now p u (inv_role d)) s)"
    by (auto simp: owners_def upsert_member_role)
qed (intro obeysI same_tenancy services_tenancy issue_tenancy; simp)+

lemma owners_signup:
  assumes "v \<noteq> w"
  shows "owners (after (signup_commit (u, w, m) now d prepared) s) v = owners s v"
  using assms
  by (cases prepared) (auto simp: signup_commit_def Let_def owners_def role_of_def find_append split: option.split)

lemma owners_step:
  assumes "site_step env a s t" and "v \<in> ws_id ` set (workspaces s)"
  shows "v \<in> ws_id ` set (workspaces t) \<and> owners t v \<subseteq> owners s v"
proof -
  from assms(1) have t: "t = act env a s" and possible: "possible a s" by (auto elim: site_stepE)
  consider (quiet) "no_new_owner s t" | (signup) u w m now d prepared where "a = SignUp (u, w, m) now d prepared"
  proof (cases a)
    case (Send uid p req)
    with owners_send [of env uid p req] show thesis by (intro quiet) (simp add: t act_def obeys_def)
  next
    case (SignUp ids now d prepared)
    with signup show thesis by (cases ids) blast
  next
    case (Fire c fresh r p meth)
    then show thesis by (cases c) (intro quiet same_tenancy, simp add: t act_def fired_db_def)
  next
    case (JobBegins d)
    then have "tenancy t = tenancy s" using pdf_begin_after [of d s] by (auto simp: t act_def)
    then show thesis by (intro quiet same_tenancy)
  next
    case (JobEnds penv now rnd d)
    then have "tenancy t = tenancy s" using pdf_finish_after [of penv now rnd d s] by (auto simp: t act_def)
    then show thesis by (intro quiet same_tenancy)
  qed
  then show ?thesis
  proof cases
    case quiet
    with assms(2) show ?thesis by simp
  next
    case signup
    with possible assms(2) have "v \<noteq> w" by (auto simp: possible_def used_ids_def)
    then have "owners t v = owners s v" by (simp add: t act_def signup owners_signup)
    moreover have "set (workspaces s) \<subseteq> set (workspaces t)"
      by (cases prepared) (auto simp: t act_def signup signup_commit_def Let_def)
    ultimately show ?thesis using assms(2) by blast
  qed
qed

section \<open>Properties\<close>

text \<open>
  Claim C3: the schema is an invariant of the whole system. Starting from the empty database, after
  any sequence of sign-ups, requests (any ids, any bodies, any users), firings and steps of the
  export worker whose drawn ids are new, every table has unique ids and unique columns; the
  references the schema declares resolve, an alert event's and a share link's to an alert and a
  dashboard of its own workspace; and the owner of a workspace and the creators of its keys,
  dashboards, links and exports are on its list of members. Deleting a dashboard or an alert takes
  everything below it along. The dashboard an export job names is not among these references: it is
  never checked.
\<close>

theorem rows_keep_their_schema:
  assumes "reaches (any_step env) empty_db s"
  shows "pk_ok s \<and> unique_ok s \<and> fk_ok s \<and> authors_ok s"
  using site.inv_reaches [OF assms empty_schema] by (simp add: schema_ok_def)

definition sample_ann :: site_action where
  "sample_ann = SignUp (''u1'', ''w1'', ''m1'') 1 \<lparr>su_email = ''a@x'', su_password = ''password'',
     su_displayName = Undefined, su_workspaceName = Undefined\<rparr> (''hpw'', ''n'', ''n'')"

definition sample_bob :: site_action where
  "sample_bob = SignUp (''u2'', ''w2'', ''m2'') 1 \<lparr>su_email = ''b@x'', su_password = ''password'',
     su_displayName = Undefined, su_workspaceName = Undefined\<rparr> (''hpw'', ''m'', ''m'')"

definition two_tenants :: db where
  "two_tenants = act sample_api sample_bob (act sample_api sample_ann empty_db)"

lemma two_tenants_eq:
  "two_tenants = \<lparr>users = [\<lparr>user_id = ''u1'', user_email = ''a@x'', user_passwordHash = ''hpw'', user_displayName = None,
       user_emailVerified = False, user_createdAt = 1\<rparr>, \<lparr>user_id = ''u2'', user_email = ''b@x'',
       user_passwordHash = ''hpw'', user_displayName = None, user_emailVerified = False, user_createdAt = 1\<rparr>],
     workspaces = [sample_ws ''w1'' ''u1'' \<lparr>ws_name := ''n'', ws_slug := ''n'', ws_createdAt := 1\<rparr>,
       sample_ws ''w2'' ''u2'' \<lparr>ws_name := ''m'', ws_slug := ''m'', ws_createdAt := 1\<rparr>],
     members = [\<lparr>mem_id = ''m1'', mem_workspaceId = ''w1'', mem_userId = ''u1'', mem_role = Owner,
         mem_invitedAt = 1, mem_joinedAt = Some 1\<rparr>,
       \<lparr>mem_id = ''m2'', mem_workspaceId = ''w2'', mem_userId = ''u2'', mem_role = Owner,
         mem_invitedAt = 1, mem_joinedAt = Some 1\<rparr>],
     api_keys = [], dashboards = [], widgets = [], alerts = [], alert_events = [], share_links = [], pdf_jobs = []\<rparr>"
  by (simp add: two_tenants_def sample_ann_def sample_bob_def act_def signup_commit_def slug_taken_def
      empty_db_def sample_ws_def Let_def)

lemma two_tenants_reached: "reaches (any_step sample_api) empty_db two_tenants"
proof -
  have "any_step sample_api empty_db (act sample_api sample_ann empty_db)"
    by (intro exI [of _ sample_ann] site_step.acts) (simp add: possible_def used_ids_def sample_ann_def empty_db_def)
  moreover have "any_step sample_api (act sample_api sample_ann empty_db) two_tenants"
    unfolding two_tenants_def
    by (intro exI [of _ sample_bob] site_step.acts)
       (simp add: possible_def used_ids_def sample_ann_def sample_bob_def act_def signup_commit_def
         slug_taken_def empty_db_def Let_def)
  ultimately show ?thesis by (rule reaches_step [OF reaches_one])
qed

lemma two_tenants_roles:
  "role_of two_tenants w u = (if w = ''w1'' \<and> u = ''u1'' \<or> w = ''w2'' \<and> u = ''u2'' then Some Owner else None)"
  by (auto simp: role_of_def two_tenants_eq)

lemma two_tenants_schema: "schema_ok two_tenants"
  by (rule site.inv_reaches [OF two_tenants_reached empty_schema])

theorem rows_keep_their_schema_witness:
  "length (users two_tenants) = 2 \<and> fk_ok two_tenants"
proof
  show "length (users two_tenants) = 2" by (simp add: two_tenants_eq)
  show "fk_ok two_tenants" using rows_keep_their_schema [OF two_tenants_reached] by blast
qed

text \<open>
  Claim C2: a history of outsiders leaves no trace. As long as nobody who was owner or member of a
  workspace \<open>v\<close> at the beginning acts below \<open>v\<close>, no rule of \<open>v\<close> fires and no job of \<open>v\<close> is worked
  on, all rows of \<open>v\<close>, its roles among them, stay what they were, whatever everybody else does, in
  any order and for however long.
\<close>

theorem outsiders_change_nothing:
  assumes "reaches (outside_step env v s0) s0 s" and "schema_ok s0" and "v \<in> ws_id ` set (workspaces s0)"
  shows "tenant_rows v s = tenant_rows v s0"
  using assms(1,2)
proof (rule outsiders.run_fact)
  fix x y
  assume ok: "schema_ok x" and same: "tenant_rows v x = tenant_rows v s0" and step: "outside_step env v s0 x y"
  have roles: "role_of s0 v u = role_of x v u" for u unfolding role_of_rows same ..
  obtain a where "site_step env a x y" "outside v s0 x a" using step by blast
  moreover from this(2) have "outside v x x a" by (cases a) (simp_all add: outside_def roles)
  moreover have "v \<in> ws_id ` set (workspaces x)" using assms(3) unfolding exists_in_rows same .
  ultimately show "tenant_rows v y = tenant_rows v s0" using rows_outside [OF ok] same by simp
qed simp

definition bob_at_home :: site_action where
  "bob_at_home = Send ''u2'' ''w2'' (CreateDashboard ''d9'' 5 \<lparr>cd_name = ''x'', cd_description = Undefined\<rparr>)"

theorem outsiders_change_nothing_witness:
  "length (dashboards (act sample_api bob_at_home two_tenants)) = 1 \<and>
   tenant_rows ''w1'' (act sample_api bob_at_home two_tenants) = tenant_rows ''w1'' two_tenants"
proof
  show "length (dashboards (act sample_api bob_at_home two_tenants)) = 1"
    by (simp add: bob_at_home_def act_def handle_def void_def dash_create_route_def guarded_eq andThen_def
        two_tenants_roles require_role_eq uuid_pipe_def validation_pipe_def valid_create_dashboard_def
        dash_create_def Let_def)
       (simp add: two_tenants_eq)
  have "possible bob_at_home two_tenants"
    by (simp add: possible_def bob_at_home_def used_ids_def two_tenants_eq sample_ws_def)
  then have "outside_step sample_api ''w1'' two_tenants two_tenants (act sample_api bob_at_home two_tenants)"
    by (intro exI [of _ bob_at_home] conjI site_step.acts) (assumption, simp add: outside_def bob_at_home_def)
  then show "tenant_rows ''w1'' (act sample_api bob_at_home two_tenants) = tenant_rows ''w1'' two_tenants"
    by (intro outsiders_change_nothing reaches_one two_tenants_schema) (auto simp: two_tenants_eq sample_ws_def)
qed

text \<open>
  Claim C14: nobody ever comes to own a workspace. In any history, the owners of an existing workspace
  are among those it had: invitations make members and viewers only, and nothing else writes a role.
  So a workspace whose last owner is invited as a member has no owner from then on, and nobody left
  who may invite, revoke keys or revoke links.
\<close>

theorem owners_only_shrink:
  assumes "reaches (any_step env) s t" and "v \<in> ws_id ` set (workspaces s)"
  shows "owners t v \<subseteq> owners s v"
proof -
  from assms(1) have "v \<in> ws_id ` set (workspaces t) \<and> owners t v \<subseteq> owners s v"
  proof (induction rule: rtranclp_induct)
    case base
    show ?case using assms(2) by simp
  next
    case (step t u)
    then show ?case using owners_step by (metis subset_trans)
  qed
  then show ?thesis by simp
qed

theorem owners_only_shrink_witness:
  "owners (act sample_api bob_at_home two_tenants) ''w2'' \<subseteq> {''u2''}"
proof -
  have "possible bob_at_home two_tenants"
    by (simp add: possible_def bob_at_home_def used_ids_def two_tenants_eq sample_ws_def)
  then have "any_step sample_api two_tenants (act sample_api bob_at_home two_tenants)"
    by (blast intro: site_step.acts)
  moreover have "owners two_tenants ''w2'' = {''u2''}" by (auto simp: owners_def two_tenants_roles)
  ultimately show ?thesis
    using owners_only_shrink [OF reaches_one, of sample_api two_tenants _ "''w2''"]
    by (simp add: two_tenants_eq sample_ws_def)
qed

text \<open>
  Claim C20: a user can always log in. In every state the system can reach, the right password for
  a stored e-mail address is answered with tokens for that user and a workspace he owns or is a
  member of; the answer \<open>no workspace\<close> is never given.
\<close>

theorem login_finds_workspace:
  assumes "reaches (any_step env) empty_db s" and "u \<in> set (users s)" and "li_email d = user_email u"
    and "au_bcrypt_compare aenv (li_password d) (user_passwordHash u)"
  shows "\<exists>r w. login aenv rnd now d s = (Inr r, s) \<and> ar_userId r = user_id u \<and> w \<in> set (workspaces s)
    \<and> aw_id (ar_workspace r) = ws_id w \<and> (ws_ownerId w = user_id u \<or> is_member s (ws_id w) (user_id u))"
proof -
  let ?mine = "\<lambda>w. ws_ownerId w = user_id u \<or> is_member s (ws_id w) (user_id u)"
  have ok: "schema_ok s" using site.inv_reaches [OF assms(1) empty_schema] .
  then have found: "List.find (\<lambda>u. user_email u = li_email d) (users s) = Some u"
    using assms(2,3) by (intro find_unique_key [where key = user_email]) (simp_all add: schema_defs)
  obtain w ws where ws: "order_asc ws_createdAt (filter ?mine (workspaces s)) = w # ws"
  proof (cases "order_asc ws_createdAt (filter ?mine (workspaces s))")
    case Nil
    then have "\<forall>w \<in> set (workspaces s). ws_ownerId w \<noteq> user_id u"
      using set_order(1) [of ws_createdAt "filter ?mine (workspaces s)"] by (auto simp: filter_empty_conv)
    moreover have "user_id u \<in> ws_ownerId ` set (workspaces s)"
      using ok assms(2) by (auto simp: schema_defs dest: resolvesD)
    ultimately show ?thesis by auto
  qed
  then have "w \<in> set (workspaces s) \<and> ?mine w"
    using set_order(1) [of ws_createdAt "filter ?mine (workspaces s)"] by auto
  with found ws assms(4) show ?thesis by (auto simp: login_def)
qed

theorem login_finds_workspace_witness:
  "\<exists>r. login sample_auth ''r'' 5 \<lparr>li_email = ''b@x'', li_password = ''pw''\<rparr> two_tenants = (Inr r, two_tenants)
     \<and> ar_userId r = ''u2''"
proof -
  let ?u = "users two_tenants ! 1" and ?d = "\<lparr>li_email = ''b@x'', li_password = ''pw''\<rparr>"
  have u: "?u \<in> set (users two_tenants)" "li_email ?d = user_email ?u" "user_id ?u = ''u2''"
    "au_bcrypt_compare sample_auth (li_password ?d) (user_passwordHash ?u)"
    by (simp_all add: two_tenants_eq sample_auth_def)
  show ?thesis
    using login_finds_workspace [OF two_tenants_reached u(1,2,4), of "''r''" 5] u(3) by auto
qed

end
