(* ===== verification/Markup.thy ===== *)
theory Markup
  imports JsText
begin

text \<open>
  What a component renders: a tree of elements with their attributes and event handlers, as the
  JSX of the front end writes it. Handlers take the text of the event's target and give an event
  of the page. Left out everywhere: class names, styles, keys, references and the insides of
  drawings (\<open>svg\<close>); texts are in ASCII (an ellipsis is three dots, a dot in the middle of a line and
  a long dash are a dash, an arrow is a dash and a bracket).
\<close>

datatype 'e markup =
    Text string
  | Elem string "(string \<times> string) list" "(string \<times> (string \<Rightarrow> 'e)) list" "'e markup list"

abbreviation el :: "string \<Rightarrow> (string \<times> string) list \<Rightarrow> 'e markup list \<Rightarrow> 'e markup" where
  "el t as ks \<equiv> Elem t as [] ks"

abbreviation tag :: "string \<Rightarrow> 'e markup list \<Rightarrow> 'e markup" where
  "tag t ks \<equiv> Elem t [] [] ks"

text \<open>\<open>{c && node}\<close>, an attribute without a value, and an icon.\<close>

definition shown_if :: "bool \<Rightarrow> 'e markup list \<Rightarrow> 'e markup list" where
  "shown_if c ks = (if c then ks else [])"

definition flag :: "string \<Rightarrow> bool \<Rightarrow> (string \<times> string) list" where
  "flag k c = (if c then [(k, [])] else [])"

definition svg :: "'e markup" where
  "svg = el ''svg'' [(''aria-hidden'', ''true'')] []"

definition Link :: "string \<Rightarrow> 'e markup list \<Rightarrow> 'e markup" where
  "Link href ks = el ''a'' [(''href'', href)] ks"

definition click :: "'e \<Rightarrow> (string \<times> (string \<Rightarrow> 'e)) list" where
  "click e = [(''onClick'', \<lambda>_. e)]"

section \<open>Reading a tree\<close>

primrec elems :: "'e markup \<Rightarrow> 'e markup list" where
  "elems (Text s) = []"
| "elems (Elem t as hs ks) = Elem t as hs ks # concat (map elems ks)"

fun tag_of :: "'e markup \<Rightarrow> string" where
  "tag_of (Elem t as hs ks) = t"
| "tag_of (Text s) = []"

fun attr :: "string \<Rightarrow> 'e markup \<Rightarrow> string option" where
  "attr k (Elem t as hs ks) = map_of as k"
| "attr k (Text s) = None"

fun handler :: "string \<Rightarrow> 'e markup \<Rightarrow> (string \<Rightarrow> 'e) option" where
  "handler k (Elem t as hs ks) = map_of hs k"
| "handler k (Text s) = None"

definition is_field :: "'e markup \<Rightarrow> bool" where
  "is_field m \<longleftrightarrow> tag_of m \<in> {''input'', ''select'', ''textarea''}"

definition form_fields :: "'e markup list \<Rightarrow> 'e markup list" where
  "form_fields ms = filter is_field (concat (map elems ms))"

definition attrs_of :: "string \<Rightarrow> string \<Rightarrow> 'e markup list \<Rightarrow> string list" where
  "attrs_of t k ms = List.map_filter (attr k) (filter (\<lambda>m. tag_of m = t) (concat (map elems ms)))"

abbreviation hrefs :: "'e markup list \<Rightarrow> string list" where
  "hrefs \<equiv> attrs_of ''a'' ''href''"

definition ids :: "'e markup list \<Rightarrow> string list" where
  "ids ms = List.map_filter (attr ''id'') (concat (map elems ms))"

text \<open>The texts in reading order.\<close>

primrec texts :: "'e markup \<Rightarrow> string list" where
  "texts (Text s) = [s]"
| "texts (Elem t as hs ks) = concat (map texts ks)"

section \<open>Forms\<close>

text \<open>The fields that no label encloses.\<close>

primrec outside_labels :: "'e markup \<Rightarrow> 'e markup list" where
  "outside_labels (Text s) = []"
| "outside_labels (Elem t as hs ks) =
     (if t = ''label'' then []
      else (if is_field (Elem t as hs ks) then [Elem t as hs ks] else []) @ concat (map outside_labels ks))"

definition loose :: "'e markup list \<Rightarrow> 'e markup list" where
  "loose ms = concat (map outside_labels ms)"

text \<open>
  Every field has a label: one around it, or one that names its id, which no other element bears.
\<close>

definition labelled :: "'e markup list \<Rightarrow> bool" where
  "labelled ms \<longleftrightarrow> distinct (ids ms) \<and> set (attrs_of ''label'' ''htmlFor'' ms) \<subseteq> set (ids (form_fields ms)) \<and>
     (\<forall>f \<in> set (loose ms).
        attr ''id'' f \<in> Some ` set (attrs_of ''label'' ''htmlFor'' ms))"

text \<open>
  A controlled form: typing \<open>x\<close> into the \<open>i\<close>-th field makes that field show \<open>x\<close> and leaves what
  the other fields show.
\<close>

definition shown_values :: "'e markup list \<Rightarrow> string list" where
  "shown_values ms = List.map_filter (attr ''value'') (form_fields ms)"

definition type_into :: "('s \<Rightarrow> 'e markup list) \<Rightarrow> ('e \<Rightarrow> 's \<Rightarrow> 's) \<Rightarrow> nat \<Rightarrow> string \<Rightarrow> 's \<Rightarrow> 's" where
  "type_into view update i x s =
     (case handler ''onChange'' (form_fields (view s) ! i) of None \<Rightarrow> s | Some h \<Rightarrow> update (h x) s)"

definition controlled :: "('s \<Rightarrow> 'e markup list) \<Rightarrow> ('e \<Rightarrow> 's \<Rightarrow> 's) \<Rightarrow> 's \<Rightarrow> bool" where
  "controlled view update s \<longleftrightarrow>
     length (shown_values (view s)) = length (form_fields (view s)) \<and>
     (\<forall>i x. i < length (form_fields (view s)) \<longrightarrow>
        shown_values (view (type_into view update i x s)) = (shown_values (view s))[i := x])"

section \<open>Reading a list of trees from the left\<close>

lemma concat_map_Nil [simp]: "concat (map (\<lambda>x. []) xs) = []"
  by (induction xs) simp_all

definition own :: "string \<Rightarrow> (string \<times> string) list \<Rightarrow> string list" where
  "own k as = (case map_of as k of None \<Rightarrow> [] | Some v \<Rightarrow> [v])"

lemma attrs_of_rec [simp]:
  "attrs_of t k [] = []"
  "attrs_of t k (Text s # ms) = attrs_of t k ms"
  "attrs_of t k (Elem u as hs ks # ms) = (if u = t then own k as else []) @ attrs_of t k ks @ attrs_of t k ms"
  by (simp_all add: attrs_of_def own_def List.map_filter_def split: option.split)

lemma attrs_of_two [simp]: "attrs_of t k (m # n # ms) = attrs_of t k [m] @ attrs_of t k (n # ms)"
  by (simp add: attrs_of_def List.map_filter_def)

lemma attrs_of_Cons_map [simp]: "attrs_of t k (m # map f xs) = attrs_of t k [m] @ attrs_of t k (map f xs)"
  by (simp add: attrs_of_def List.map_filter_def)

lemma attrs_of_append [simp]: "attrs_of t k (ms @ ns) = attrs_of t k ms @ attrs_of t k ns"
  by (simp add: attrs_of_def List.map_filter_def)

lemma attrs_of_map: "attrs_of t k (map f xs) = concat (map (\<lambda>x. attrs_of t k [f x]) xs)"
  by (induction xs) (simp_all add: attrs_of_append [of t k "[f x]" "map f xs" for x xs, simplified])

lemma ids_rec [simp]:
  "ids [] = []"
  "ids (Text s # ms) = ids ms"
  "ids (Elem u as hs ks # ms) = own ''id'' as @ ids ks @ ids ms"
  by (simp_all add: ids_def own_def List.map_filter_def split: option.split)

lemma ids_two [simp]: "ids (m # n # ms) = ids [m] @ ids (n # ms)"
  by (simp add: ids_def List.map_filter_def)

lemma ids_Cons_map [simp]: "ids (m # map f xs) = ids [m] @ ids (map f xs)"
  by (simp add: ids_def List.map_filter_def)

lemma ids_append [simp]: "ids (ms @ ns) = ids ms @ ids ns"
  by (simp add: ids_def List.map_filter_def)

lemma ids_map: "ids (map f xs) = concat (map (\<lambda>x. ids [f x]) xs)"
  by (induction xs) (simp_all add: ids_append [of "[f x]" "map f xs" for x xs, simplified])

lemma loose_rec [simp]:
  "loose [] = []"
  "loose (Text s # ms) = loose ms"
  "loose (Elem u as hs ks # ms) =
     (if u = ''label'' then [] else (if u \<in> {''input'', ''select'', ''textarea''} then [Elem u as hs ks] else []) @ loose ks)
     @ loose ms"
  by (simp_all add: loose_def is_field_def)

lemma loose_two [simp]: "loose (m # n # ms) = loose [m] @ loose (n # ms)"
  by (simp add: loose_def)

lemma loose_Cons_map [simp]: "loose (m # map f xs) = loose [m] @ loose (map f xs)"
  by (simp add: loose_def)

lemma loose_append [simp]: "loose (ms @ ns) = loose ms @ loose ns"
  by (simp add: loose_def)

lemma loose_map: "loose (map f xs) = concat (map (\<lambda>x. loose [f x]) xs)"
  by (simp add: loose_def comp_def)

text \<open>A tree without its handlers.\<close>

abbreviation anonymous :: "'e markup \<Rightarrow> unit markup" where
  "anonymous \<equiv> map_markup (\<lambda>_. ())"

lemma elems_map_markup: "elems (map_markup f m) = map (map_markup f) (elems m)"
  by (induction m) (simp_all add: map_concat comp_def cong: map_cong)

lemma attr_map_markup [simp]: "attr k (map_markup f m) = attr k m"
  by (cases m) simp_all

lemma tag_of_map_markup [simp]: "tag_of (map_markup f m) = tag_of m"
  by (cases m) simp_all

lemma texts_map_markup [simp]: "texts (map_markup f m) = texts m"
  by (induction m) (simp_all add: comp_def cong: map_cong)

lemma attrs_of_map_markup [simp]: "attrs_of t k (map (map_markup f) ms) = attrs_of t k ms"
proof -
  have "concat (map elems (map (map_markup f) ms)) = map (map_markup f) (concat (map elems ms))"
    by (simp add: elems_map_markup comp_def map_concat)
  then show ?thesis by (simp add: attrs_of_def List.map_filter_def filter_map comp_def)
qed

lemma ids_map_markup [simp]: "ids (map (map_markup f) ms) = ids ms"
proof -
  have "concat (map elems (map (map_markup f) ms)) = map (map_markup f) (concat (map elems ms))"
    by (simp add: elems_map_markup comp_def map_concat)
  then show ?thesis by (simp add: ids_def List.map_filter_def filter_map comp_def)
qed

lemma loose_map_markup [simp]: "loose (map (map_markup f) ms) = map (map_markup f) (loose ms)"
proof -
  have "outside_labels (map_markup f m) = map (map_markup f) (outside_labels m)" for m
    by (induction m) (simp_all add: is_field_def map_concat comp_def cong: map_cong)
  then show ?thesis by (simp add: loose_def map_concat comp_def)
qed

lemmas markup_simps = own_def shown_if_def flag_def svg_def Link_def click_def is_field_def form_fields_def attrs_of_def
  ids_def map_filter_simps

end
