(* ===== verification/AuthViews.thy ===== *)
theory AuthViews
  imports Markup Shell
begin

text \<open>
  What the pages in front of the login render: the landing page (\<open>app/page.tsx\<close>), the frame and
  the two forms of \<open>app/(auth)\<close>, and the logo.
\<close>

section \<open>The logo\<close>

definition Logo :: "'e markup" where
  "Logo = Link ''/'' [svg, tag ''span'' [Text ''InsightFlow'']]"

definition github :: string where
  "github = ''https://github.com/muhammadrakib2299/InsightFlow-Real-Time-Business-Analytics-with-Ml''"

definition github_link :: "'e markup list \<Rightarrow> 'e markup" where
  "github_link ks = el ''a'' [(''href'', github), (''target'', ''_blank''), (''rel'', ''noreferrer'')] ks"

section \<open>The landing page\<close>

definition home_nav :: "'e markup" where
  "home_nav = tag ''header'' [tag ''div''
     [Logo,
      tag ''nav''
        [Link ''#features'' [Text ''Features''], Link ''#stack'' [Text ''Stack''], github_link [Text ''GitHub'']],
      tag ''div'' [Link ''/login'' [Text ''Log in''], Link ''/signup'' [Text ''Get started'']]]]"

definition home_stat :: "string \<Rightarrow> string \<Rightarrow> 'e markup" where
  "home_stat label v = tag ''div'' [tag ''dt'' [Text label], tag ''dd'' [Text v]]"

definition MiniTile :: "string \<Rightarrow> string \<Rightarrow> string \<Rightarrow> 'e markup" where
  "MiniTile label v trend =
     tag ''div'' [tag ''div'' [Text label], tag ''div'' [tag ''span'' [Text v], tag ''span'' [Text trend]]]"

definition preview_figures :: "'e markup list" where
  "preview_figures =
     [tag ''div''
        [tag ''div'' [tag ''span'' [Text ''Monthly Recurring Revenue''], tag ''span'' [Text ''live'']],
         tag ''span'' [Text ''last 90d - 60d forecast'']],
      tag ''div'' [tag ''span'' [Text ''$48.2k''], tag ''span'' [Text ''+12.4%'']]]"

definition preview_tiles :: "'e markup" where
  "preview_tiles = tag ''div''
     [MiniTile ''ARPU'' ''$42'' ''+3.1%'', MiniTile ''Churn'' ''2.4%'' ''-0.4%'',
      MiniTile ''DAU/MAU'' ''36%'' ''+1.8%'']"

definition ProductPreview :: "'e markup" where
  "ProductPreview = tag ''div''
     [el ''div'' [(''aria-hidden'', ''true'')] [],
      tag ''div'' (preview_figures @ [svg, preview_tiles])]"

definition Hero :: "'e markup" where
  "Hero = tag ''section'' [tag ''div''
     [tag ''div''
        [tag ''span'' [tag ''span'' [tag ''span'' [], tag ''span'' []], Text ''v0.1 - open source - self-hostable''],
         tag ''h1'' [Text ''Real-time analytics with '', tag ''span'' [Text ''forecasts built in'']],
         tag ''p'' [Text ''Ingest events at sub-second latency, watch your KPIs update live, and let Prophet and ARIMA project the next 30, 60, and 90 days - all on a single VPS.''],
         tag ''div''
           [Link ''/signup'' [Text ''Create workspace'', svg], Link ''/login'' [Text ''Log in''],
            github_link [svg, Text ''Star on GitHub'']],
         tag ''dl''
           [home_stat ''Write latency'' ''<1s'', home_stat ''Forecast horizons'' ''30/60/90d'',
            home_stat ''Runs on'' ''$5 VPS'']],
      ProductPreview]]"

definition feature_items :: "(string \<times> string) list" where
  "feature_items =
     [(''Sub-second ingestion'',
       ''REST + SDK + webhooks -> Kafka -> ClickHouse with idempotent micro-batched writes.''),
      (''Forecasts as first-class'',
       ''Prophet primary, ARIMA baseline. Nightly retrain with MAPE tracked on every model.''),
      (''Anomaly alerts in minutes'',
       ''Rolling Z-score and IQR detectors fan out to email, Slack, and generic webhooks.''),
      (''Cohorts & funnels'',
       ''Retention heatmaps, multi-step funnels, drill-downs by geo / device / plan / segment.''),
      (''One-click PDF export'',
       ''Branded reports rendered with Puppeteer, queued via BullMQ, archived to S3.''),
      (''Self-hosted, multi-tenant'',
       ''Row-level isolation across ClickHouse and Postgres. Your data never leaves your infra.'')]"

definition Features :: "'e markup" where
  "Features = el ''section'' [(''id'', ''features'')]
     [tag ''div''
        [tag ''h2'' [Text ''Everything an operator needs to see where the line is going.''],
         tag ''p'' [Text ''Closed BI tools cost four figures per seat and ship without forecasting. InsightFlow pairs a streaming OLAP pipeline with auto-trained models - open source.'']],
      tag ''div'' (map (\<lambda>(title, desc).
        tag ''div'' [tag ''div'' [svg], tag ''h3'' [Text title], tag ''p'' [Text desc]]) feature_items)]"

definition stack_items :: "string list" where
  "stack_items = [''Next.js 14'', ''NestJS'', ''FastAPI'', ''ClickHouse'', ''Kafka (Redpanda)'', ''Postgres'',
     ''Redis'', ''Prophet'', ''ARIMA'', ''Caddy'', ''Docker Compose'']"

definition home_stack :: "'e markup" where
  "home_stack = el ''section'' [(''id'', ''stack'')]
     [tag ''div''
        [tag ''div''
           [tag ''h3'' [Text ''A modern streaming-OLAP stack you can fork.''],
            tag ''p'' [Text ''ADRs in the repo document every trade-off - ClickHouse vs Timescale, Kafka vs Redis Streams, Prophet vs ARIMA.'']],
         tag ''div'' (map (\<lambda>s. tag ''span'' [Text s]) stack_items)]]"

definition CTA :: "'e markup" where
  "CTA = tag ''section'' [tag ''div''
     [tag ''div'' [],
      tag ''div''
        [svg,
         tag ''h3'' [Text ''Spin up your workspace in 60 seconds.''],
         tag ''p'' [Text ''Free, MIT-licensed, and yours to run. No credit card, no seat fees, no data egress.''],
         tag ''div''
           [Link ''/signup'' [Text ''Create workspace'', svg], Link ''/login'' [Text ''I already have one'']]]]]"

definition home_footer :: "'e markup" where
  "home_footer = tag ''footer'' [tag ''div''
     [tag ''div'' [svg, tag ''span'' [Text ''InsightFlow - MIT licensed - v0.1.0'']],
      tag ''div''
        [github_link [Text ''GitHub''], Link ''/login'' [Text ''Log in''], Link ''/signup'' [Text ''Sign up'']]]]"

definition HomePage :: "'e markup" where
  "HomePage = tag ''div''
     [tag ''div'' [], tag ''div'' [], home_nav, tag ''main'' [Hero, Features, home_stack, CTA], home_footer]"

section \<open>The frame of the two forms\<close>

definition AuthLayout :: "int \<Rightarrow> 'e markup list \<Rightarrow> 'e markup" where
  "AuthLayout year children = tag ''div''
     [tag ''div'' [], tag ''div'' [],
      tag ''div''
        [tag ''aside''
           [Logo,
            tag ''div''
              [tag ''h2'' [Text ''See where the line is going, '', tag ''span'' [Text ''not just where it has been.'']],
               tag ''p'' [Text ''Forecast revenue, churn, and demand alongside your live KPIs. Open source, MIT licensed, runs on a single VPS.''],
               tag ''ul'' (map (\<lambda>line. tag ''li'' [svg, tag ''span'' [Text line]])
                 [''Sub-second writes via Kafka -> ClickHouse'', ''Prophet + ARIMA forecasts retrained nightly'',
                  ''Z-score & IQR anomaly alerts'', ''Branded PDF exports out of the box''])],
            tag ''p'' [Text (''(c) '' @ int_str year @ '' InsightFlow - pre-1.0 build'')]],
         tag ''section''
           [tag ''header'' [Logo],
            tag ''div'' [tag ''div'' (tag ''div'' [svg, tag ''span'' [Text ''InsightFlow'']] # children)],
            tag ''footer'' [Text ''MIT licensed - self-hosted - '', github_link [Text ''source on GitHub'']]]]]"

section \<open>The two forms\<close>

text \<open>
  The fields of a form beside the outcome of its submissions (\<open>auth_view\<close>). Submitting is the
  business of \<open>submit_login\<close> and \<open>submit_signup\<close>; the other events only change fields.
\<close>

record auth_form =
  fo_email :: string
  fo_password :: string
  fo_show :: bool
  fo_displayName :: string
  fo_workspaceName :: string
  fo_outcome :: auth_view

datatype form_event =
    SetEmail string
  | SetPassword string
  | ToggleShow
  | SetDisplayName string
  | SetWorkspaceName string
  | SubmitForm

fun form_update :: "form_event \<Rightarrow> auth_form \<Rightarrow> auth_form" where
  "form_update (SetEmail x) s = s\<lparr>fo_email := x\<rparr>"
| "form_update (SetPassword x) s = s\<lparr>fo_password := x\<rparr>"
| "form_update ToggleShow s = s\<lparr>fo_show := \<not> fo_show s\<rparr>"
| "form_update (SetDisplayName x) s = s\<lparr>fo_displayName := x\<rparr>"
| "form_update (SetWorkspaceName x) s = s\<lparr>fo_workspaceName := x\<rparr>"
| "form_update SubmitForm s = s"

definition form_error :: "auth_form \<Rightarrow> 'e markup list" where
  "form_error s =
     (case av_error (fo_outcome s) of
        None \<Rightarrow> []
      | Some m \<Rightarrow> shown_if (m \<noteq> []) [el ''div'' [(''role'', ''alert'')] [Text m]])"

definition submit_button :: "string \<Rightarrow> string \<Rightarrow> auth_form \<Rightarrow> 'e markup" where
  "submit_button busy idle s =
     el ''button'' ((''type'', ''submit'') # flag ''disabled'' (av_pending (fo_outcome s)))
       (if av_pending (fo_outcome s) then [svg, Text busy] else [Text idle])"

definition email_field :: "auth_form \<Rightarrow> form_event markup" where
  "email_field s = tag ''div''
     [el ''label'' [(''htmlFor'', ''email'')] [Text ''Email''],
      Elem ''input'' [(''id'', ''email''), (''type'', ''email''), (''autoComplete'', ''email''),
        (''value'', fo_email s), (''placeholder'', ''you@company.com''), (''required'', [])]
        [(''onChange'', SetEmail)] []]"

definition show_button :: "auth_form \<Rightarrow> form_event markup" where
  "show_button s =
     Elem ''button'' [(''type'', ''button'')] (click ToggleShow) [Text (if fo_show s then ''Hide'' else ''Show'')]"

definition LoginPage :: "auth_form \<Rightarrow> form_event markup" where
  "LoginPage s = tag ''div''
     [tag ''h1'' [Text ''Welcome back''],
      tag ''p'' [Text ''Log in to your InsightFlow workspace.''],
      Elem ''form'' [(''noValidate'', [])] [(''onSubmit'', \<lambda>_. SubmitForm)]
        ([email_field s,
          tag ''div''
            [tag ''div'' [el ''label'' [(''htmlFor'', ''password'')] [Text ''Password''], show_button s],
             Elem ''input'' [(''id'', ''password''), (''type'', if fo_show s then ''text'' else ''password''),
               (''autoComplete'', ''current-password''), (''value'', fo_password s), (''placeholder'', ''********''),
               (''required'', [])] [(''onChange'', SetPassword)] []]] @
         form_error s @
         [submit_button '' Signing in...'' ''Sign in'' s]),
      tag ''p'' [Text ''New here? '', Link ''/signup'' [Text ''Create a workspace'']]]"

definition PasswordMeter :: "nat \<Rightarrow> 'e markup" where
  "PasswordMeter score = tag ''div''
     [tag ''div'' (map (\<lambda>b. tag ''div'' []) (meter_bars score)), tag ''span'' [Text (meter_label score)]]"

definition SignupPage :: "auth_form \<Rightarrow> form_event markup" where
  "SignupPage s = tag ''div''
     [tag ''h1'' [Text ''Create your workspace''],
      tag ''p'' [Text ''One account, one workspace to start. Invite teammates whenever you're ready.''],
      Elem ''form'' [(''noValidate'', [])] [(''onSubmit'', \<lambda>_. SubmitForm)]
        ([email_field s,
          tag ''div''
            [tag ''div'' [el ''label'' [(''htmlFor'', ''password'')] [Text ''Password''], show_button s],
             Elem ''input'' [(''id'', ''password''), (''type'', if fo_show s then ''text'' else ''password''),
               (''autoComplete'', ''new-password''), (''value'', fo_password s),
               (''placeholder'', ''at least 8 characters''), (''minLength'', ''8''), (''required'', [])]
               [(''onChange'', SetPassword)] [],
             PasswordMeter (scorePassword (fo_password s))],
          tag ''div''
            [tag ''div''
               [el ''label'' [(''htmlFor'', ''displayName'')] [Text ''Display name '', tag ''span'' [Text ''- optional'']],
                Elem ''input'' [(''id'', ''displayName''), (''type'', ''text''), (''autoComplete'', ''name''),
                  (''value'', fo_displayName s), (''placeholder'', ''Ada Lovelace'')]
                  [(''onChange'', SetDisplayName)] []],
             tag ''div''
               [el ''label'' [(''htmlFor'', ''workspaceName'')] [Text ''Workspace '', tag ''span'' [Text ''- optional'']],
                Elem ''input'' [(''id'', ''workspaceName''), (''type'', ''text''), (''value'', fo_workspaceName s),
                  (''placeholder'', ''Acme analytics'')] [(''onChange'', SetWorkspaceName)] []]]] @
         form_error s @
         [submit_button '' Creating...'' ''Create workspace'' s,
          tag ''p'' [Text ''By creating a workspace you agree this is a local development build and not for production data.'']]),
      tag ''p'' [Text ''Already have an account? '', Link ''/login'' [Text ''Sign in'']]]"

section \<open>Facts\<close>

lemma login_fields:
  "form_fields [LoginPage s] =
     [Elem ''input'' [(''id'', ''email''), (''type'', ''email''), (''autoComplete'', ''email''),
        (''value'', fo_email s), (''placeholder'', ''you@company.com''), (''required'', [])] [(''onChange'', SetEmail)] [],
      Elem ''input'' [(''id'', ''password''), (''type'', if fo_show s then ''text'' else ''password''),
        (''autoComplete'', ''current-password''), (''value'', fo_password s), (''placeholder'', ''********''),
        (''required'', [])] [(''onChange'', SetPassword)] []]"
  by (simp add: LoginPage_def email_field_def show_button_def form_error_def submit_button_def markup_simps
      split: option.split)

lemma signup_fields:
  "form_fields [SignupPage s] =
     [Elem ''input'' [(''id'', ''email''), (''type'', ''email''), (''autoComplete'', ''email''),
        (''value'', fo_email s), (''placeholder'', ''you@company.com''), (''required'', [])] [(''onChange'', SetEmail)] [],
      Elem ''input'' [(''id'', ''password''), (''type'', if fo_show s then ''text'' else ''password''),
        (''autoComplete'', ''new-password''), (''value'', fo_password s), (''placeholder'', ''at least 8 characters''),
        (''minLength'', ''8''), (''required'', [])] [(''onChange'', SetPassword)] [],
      Elem ''input'' [(''id'', ''displayName''), (''type'', ''text''), (''autoComplete'', ''name''),
        (''value'', fo_displayName s), (''placeholder'', ''Ada Lovelace'')] [(''onChange'', SetDisplayName)] [],
      Elem ''input'' [(''id'', ''workspaceName''), (''type'', ''text''), (''value'', fo_workspaceName s),
        (''placeholder'', ''Acme analytics'')] [(''onChange'', SetWorkspaceName)] []]"
  by (simp add: SignupPage_def email_field_def show_button_def form_error_def submit_button_def PasswordMeter_def
      meter_bars_def markup_simps split: option.split)

lemmas form_parts = email_field_def show_button_def form_error_def submit_button_def PasswordMeter_def meter_bars_def

lemma form_ids:
  "ids [LoginPage s] = [''email'', ''password'']"
  "ids [SignupPage s] = [''email'', ''password'', ''displayName'', ''workspaceName'']"
  "attrs_of ''label'' ''htmlFor'' [LoginPage s] = [''email'', ''password'']"
  "attrs_of ''label'' ''htmlFor'' [SignupPage s] = [''email'', ''password'', ''displayName'', ''workspaceName'']"
  by (simp_all add: LoginPage_def SignupPage_def form_parts Link_def shown_if_def flag_def svg_def own_def
      split: option.split)

lemma form_loose: "loose [LoginPage s] = form_fields [LoginPage s]" "loose [SignupPage s] = form_fields [SignupPage s]"
  unfolding login_fields signup_fields
  by (simp_all add: LoginPage_def SignupPage_def form_parts Link_def shown_if_def flag_def svg_def split: option.split)

lemma form_field_ids:
  "map (attr ''id'') (form_fields [LoginPage s]) = map Some [''email'', ''password'']"
  "map (attr ''id'') (form_fields [SignupPage s]) = map Some [''email'', ''password'', ''displayName'', ''workspaceName'']"
  by (simp_all add: login_fields signup_fields)

lemma labelled_by_ids:
  assumes "loose ms = form_fields ms" and "attrs_of ''label'' ''htmlFor'' ms = is" "ids ms = is" "distinct is"
    and "map (attr ''id'') (form_fields ms) = map Some is"
  shows "labelled ms"
proof -
  have ids: "attr ''id'' ` set (form_fields ms) = Some ` set is"
    using arg_cong [OF assms(5), of set] by simp
  have "i \<in> set (ids (form_fields ms))" if "i \<in> set is" for i
  proof -
    from that ids obtain f where f: "f \<in> set (form_fields ms)" "attr ''id'' f = Some i" by (metis imageE imageI)
    have "f \<in> set (elems f)" using f(2) by (cases f) simp_all
    with f show ?thesis by (force simp: ids_def List.map_filter_def)
  qed
  then show ?thesis
    using ids assms(4) unfolding labelled_def assms(1-3) by blast
qed

lemma login_labelled: "labelled [LoginPage s]"
  by (rule labelled_by_ids [OF form_loose(1) form_ids(3,1) _ form_field_ids(1)]) simp

lemma signup_labelled: "labelled [SignupPage s]"
  by (rule labelled_by_ids [OF form_loose(2) form_ids(4,2) _ form_field_ids(2)]) simp

lemma login_controlled: "controlled (\<lambda>s. [LoginPage s]) form_update s"
  by (auto simp: controlled_def shown_values_def type_into_def login_fields map_filter_simps less_Suc_eq)

lemma signup_controlled: "controlled (\<lambda>s. [SignupPage s]) form_update s"
  by (auto simp: controlled_def shown_values_def type_into_def signup_fields map_filter_simps less_Suc_eq numeral_2_eq_2 numeral_3_eq_3)

text \<open>The texts of the elements with the role of an alert, and the buttons of a type that are disabled.\<close>

definition alerts_shown :: "'e markup \<Rightarrow> string list" where
  "alerts_shown m = concat (map texts (filter (\<lambda>x. attr ''role'' x = Some ''alert'') (elems m)))"

definition submit_disabled :: "'e markup \<Rightarrow> bool list" where
  "submit_disabled m = map (\<lambda>x. attr ''disabled'' x \<noteq> None) (filter (\<lambda>x. attr ''type'' x = Some ''submit'') (elems m))"

text \<open>
  The two forms show the state they edit. Whatever has been typed and answered before, every
  field of the login and of the sign-up form has its label, typing into a field changes what that
  field shows and nothing else, the alert shows the last error and is absent when there is none, and
  the button that submits is disabled exactly while a submission is pending.
\<close>

theorem auth_forms_faithful:
  "let shows_state = (\<lambda>page.
     labelled [page s] \<and> controlled (\<lambda>s. [page s]) form_update s
     \<and> alerts_shown (page s) = (case av_error (fo_outcome s) of None \<Rightarrow> [] | Some m \<Rightarrow> if m = [] then [] else [m])
     \<and> submit_disabled (page s) = [av_pending (fo_outcome s)])
   in shows_state LoginPage \<and> shows_state SignupPage"
proof -
  have "alerts_shown (LoginPage s) = (case av_error (fo_outcome s) of None \<Rightarrow> [] | Some m \<Rightarrow> if m = [] then [] else [m])"
    "submit_disabled (LoginPage s) = [av_pending (fo_outcome s)]"
    "alerts_shown (SignupPage s) = (case av_error (fo_outcome s) of None \<Rightarrow> [] | Some m \<Rightarrow> if m = [] then [] else [m])"
    "submit_disabled (SignupPage s) = [av_pending (fo_outcome s)]"
    by (simp_all add: alerts_shown_def submit_disabled_def LoginPage_def SignupPage_def form_parts markup_simps
        split: option.split)
  then show ?thesis
    by (simp only: Let_def login_labelled signup_labelled login_controlled signup_controlled simp_thms)
qed

end
