(* ===== verification/ShellViews.thy ===== *)
theory ShellViews
  imports Markup Shell
begin

text \<open>
  What the frame renders: \<open>AppShell.tsx\<close>, \<open>ThemeToggle.tsx\<close>, \<open>FilterPanel.tsx\<close>,
  \<open>AlertToaster.tsx\<close> and the public page of a share link. A component that calls back its parent
  takes the parent's events as arguments.
\<close>

text \<open>
  A value of an answer as a child: \<open>null\<close>, \<open>undefined\<close> and the booleans leave nothing. Objects,
  on which React throws, are none of the members that are rendered.
\<close>

definition node :: "client_env \<Rightarrow> json option \<Rightarrow> 'e markup list" where
  "node env v =
     (case v of None \<Rightarrow> [] | Some JNull \<Rightarrow> [] | Some (JBool b) \<Rightarrow> [] | Some j \<Rightarrow> [Text (as_text env (Some j))])"

section \<open>The frame\<close>

definition ThemeToggle :: "'e \<Rightarrow> theme option \<Rightarrow> 'e markup" where
  "ThemeToggle toggled theme =
     (case theme of
        None \<Rightarrow> el ''button'' [(''type'', ''button''), (''aria-label'', ''Toggle theme'')] [tag ''span'' []]
      | Some t \<Rightarrow>
          let says = ''Switch to '' @ theme_str (if t = Dark then Light else Dark) @ '' mode'' in
          Elem ''button'' [(''type'', ''button''), (''aria-label'', says), (''title'', says)] (click toggled) [svg])"

definition nav_links :: "'e markup list" where
  "nav_links = map (\<lambda>(href, label). Link href [Text label]) NAV"

text \<open>The workspace is the one of the storage, once the effect after the first render has read it.\<close>

definition AppShell :: "client_env \<Rightarrow> 'e \<Rightarrow> 'e \<Rightarrow> json option \<Rightarrow> theme option \<Rightarrow> 'e markup list \<Rightarrow> 'e markup" where
  "AppShell env toggled signed_out workspace theme children = tag ''div''
     [tag ''header''
        [tag ''div''
           [Link ''/dashboards''
              [el ''span'' [(''aria-hidden'', ''true'')] [], tag ''span'' [Text ''InsightFlow'']],
            el ''span'' [(''aria-hidden'', ''true'')] [],
            tag ''nav'' nav_links,
            tag ''div''
              (shown_if (truthy workspace)
                 [el ''span'' [(''title'', ''Workspace: '' @ as_text env (field ''name'' workspace))]
                    [el ''span'' [(''aria-hidden'', ''true'')] [],
                     tag ''span'' (node env (field ''name'' workspace))]] @
               [ThemeToggle toggled theme,
                Elem ''button'' [] (click signed_out) [Text ''Sign out'']])],
         tag ''nav'' nav_links],
      tag ''main'' children]"

section \<open>The filter panel\<close>

datatype panel_event = TogglePanel | FromTyped string | ToTyped string | FieldChosen filter_field string

text \<open>A date field that does not parse throws in its handler, which leaves everything as it was.\<close>

fun panel_update :: "(string \<Rightarrow> int option) \<Rightarrow> panel_event \<Rightarrow> bool \<times> filters \<Rightarrow> bool \<times> filters" where
  "panel_update parse_date TogglePanel (is_open, f) = (\<not> is_open, f)"
| "panel_update parse_date (FromTyped v) (is_open, f) =
     (is_open, case change_from parse_date v f of Inl e \<Rightarrow> f | Inr f' \<Rightarrow> f')"
| "panel_update parse_date (ToTyped v) (is_open, f) =
     (is_open, case change_to parse_date v f of Inl e \<Rightarrow> f | Inr f' \<Rightarrow> f')"
| "panel_update parse_date (FieldChosen k v) (is_open, f) = (is_open, setField k v f)"

definition Field :: "string \<Rightarrow> 'e markup \<Rightarrow> 'e markup" where
  "Field label child = tag ''label'' [tag ''span'' [Text label], tag ''div'' [child]]"

definition options_of :: "string list \<Rightarrow> 'e markup list" where
  "options_of vs = map (\<lambda>v. el ''option'' [(''value'', v)] [Text (if v = [] then ''All'' else v)]) vs"

definition panel_select :: "(panel_event \<Rightarrow> 'e) \<Rightarrow> string \<Rightarrow> filter_field \<Rightarrow> string \<Rightarrow> string list \<Rightarrow> 'e markup" where
  "panel_select emit label k v vs =
     Field label (Elem ''select'' [(''value'', v)] [(''onChange'', \<lambda>x. emit (FieldChosen k x))] (options_of vs))"

definition panel_date :: "(string \<Rightarrow> 'e) \<Rightarrow> string \<Rightarrow> string \<Rightarrow> 'e markup" where
  "panel_date typed label stamp =
     Field label
       (Elem ''input'' [(''type'', ''date''), (''value'', isoDate stamp)] [(''onChange'', typed)] [])"

definition FilterPanel :: "(panel_event \<Rightarrow> 'e) \<Rightarrow> bool \<times> filters \<Rightarrow> 'e markup" where
  "FilterPanel emit s = (let (is_open, f) = s in tag ''section''
     (tag ''header''
        [tag ''span'' [Text ''Filters''],
         Elem ''button'' [] (click (emit TogglePanel)) [Text (if is_open then ''hide'' else ''show'')]] #
      shown_if is_open
        [tag ''div''
           [panel_date (\<lambda>v. emit (FromTyped v)) ''From'' (fl_from f),
            panel_date (\<lambda>v. emit (ToTyped v)) ''To'' (fl_to f),
            panel_select emit ''Country'' Country (fl_country f) COUNTRIES,
            panel_select emit ''Device'' Device (fl_device f) DEVICES,
            panel_select emit ''Plan'' Plan (fl_plan f) PLANS]]))"

section \<open>Toasts and the page of a share link\<close>

definition AlertToaster :: "toast list \<Rightarrow> 'e markup" where
  "AlertToaster toasts = tag ''div''
     (map (\<lambda>t. el ''div'' [(''role'', ''status'')] [tag ''div'' [Text (to_title t)], tag ''div'' [Text (to_body t)]])
        toasts)"

definition SharedDashboard :: "client_env \<Rightarrow> json option \<Rightarrow> 'e markup option" where
  "SharedDashboard env data =
     (if \<not> truthy data then None
      else let d = field ''dashboard'' data; widgets = items_of (field ''widgets'' d) in
      Some (tag ''main''
        [tag ''header''
           [tag ''div''
              ([tag ''p'' [Text ''Shared dashboard''], tag ''h1'' (node env (field ''name'' d))] @
               shown_if (truthy (field ''description'' d)) [tag ''p'' (node env (field ''description'' d))]),
            tag ''span'' [Text ''read-only'']],
         tag ''p'' [Text ''Live widget rendering on the shared page is read-only - the widgets below will hydrate once you visit on a client that supports CORS reads to the public BFF endpoints. For the demo build we show widget metadata so the link still validates end-to-end:''],
         tag ''ul''
           (map (\<lambda>w. tag ''li''
              [tag ''div'' (node env (json_get ''title'' w)), tag ''div'' (node env (json_get ''type'' w))]) widgets @
            shown_if (widgets = []) [tag ''li'' [Text ''No widgets on this dashboard.'']])]))"

end
