(* ===== verification/PageViews.thy ===== *)
theory PageViews
  imports ShellViews
begin

text \<open>
  What the pages behind the login render: the list of dashboards with its form, the
  getting-started card, the dashboard page, the alert rules with their form, and their history. The
  handlers name the events of a page; the update of a page is what they do to its form, and what
  they send is in \<open>Pages\<close>. A widget on the dashboard page is left as a component element with its
  properties; \<open>CanvasView\<close> says what it renders.
\<close>

text \<open>Dates are printed by the browser; a mutation of \<open>@tanstack/react-query\<close> is idle, pending or failed.\<close>

record view_env =
  ve_client :: client_env
  ve_date :: "json option \<Rightarrow> string"
  ve_datetime :: "json option \<Rightarrow> string"

datatype mutation = Idle | Pending | Broken

definition loaded_items :: "query \<Rightarrow> json list option" where
  "loaded_items q = (case q of Loaded (Some (JArr xs)) \<Rightarrow> Some xs | _ \<Rightarrow> None)"

definition empty_state :: "string \<Rightarrow> 'e markup list \<Rightarrow> 'e markup list \<Rightarrow> 'e markup" where
  "empty_state title txt buttons = tag ''div''
     ([tag ''div'' [svg], tag ''div'' [tag ''h3'' [Text title], tag ''p'' txt]] @ buttons)"

section \<open>The getting-started card\<close>

datatype checklist_event =
    CopyClicked string string
  | KeyNameTyped string
  | KeySubmitted
  | KeyCancelled
  | KeyStarted
  | EventMarked
  | CardDismissed

text \<open>The buttons that only change the card; submitting, marking and dismissing are \<open>submit_key\<close>,
  \<open>mark_sent\<close> and \<open>dismiss_card\<close>.\<close>

fun checklist_update :: "checklist_event \<Rightarrow> checklist \<Rightarrow> checklist" where
  "checklist_update (KeyNameTyped x) c = c\<lparr>gs_keyName := x\<rparr>"
| "checklist_update KeyCancelled c = c\<lparr>gs_creatingKey := False\<rparr>"
| "checklist_update KeyStarted c = c\<lparr>gs_creatingKey := True\<rparr>"
| "checklist_update _ c = c"

definition copied_label :: "string option \<Rightarrow> string \<Rightarrow> string \<Rightarrow> string" where
  "copied_label copied which idle = (if copied = Some which then ''Copied'' else idle)"

fun step_node :: "(checklist_event \<Rightarrow> 'e) \<Rightarrow> 'e \<Rightarrow> string option \<Rightarrow> bool \<Rightarrow> step_body \<Rightarrow> 'e markup" where
  "step_node emit create_dashboard copied pending (SecretShown secret) = tag ''div''
     [tag ''p'' [Text ''Save this secret - it won't be shown again.''],
      tag ''div''
        [tag ''span'' [Text secret],
         Elem ''button'' [] (click (emit (CopyClicked ''key'' secret))) [Text (copied_label copied ''key'' ''Copy'')]]]"
| "step_node emit create_dashboard copied pending (KeyNameForm name) =
     Elem ''form'' [] [(''onSubmit'', \<lambda>_. emit KeySubmitted)]
       [Elem ''input'' [(''value'', name), (''placeholder'', ''Key name (e.g. Production)''), (''autoFocus'', [])]
          [(''onChange'', \<lambda>x. emit (KeyNameTyped x))] [],
        el ''button'' ((''type'', ''submit'') # flag ''disabled'' pending)
          [Text (if pending then ''Creating...'' else ''Create key'')],
        Elem ''button'' [(''type'', ''button'')] (click (emit KeyCancelled)) [Text ''Cancel'']]"
| "step_node emit create_dashboard copied pending CreateKeyButton =
     Elem ''button'' [] (click (emit KeyStarted)) [Text ''Create API key'']"
| "step_node emit create_dashboard copied pending (SnippetShown snippet) = tag ''div''
     [tag ''pre'' [tag ''code'' [Text snippet]],
      tag ''div''
        [Elem ''button'' [] (click (emit (CopyClicked ''curl'' snippet)))
           [Text (copied_label copied ''curl'' ''Copy snippet'')],
         Elem ''button'' [] (click (emit EventMarked)) [Text ''Mark as done'']]]"
| "step_node emit create_dashboard copied pending NewDashboardButton =
     Elem ''button'' [] (click create_dashboard) [Text ''New dashboard'']"
| "step_node emit create_dashboard copied pending (OpenDashboard href) = Link href [Text ''Open dashboard'']"
| "step_node emit create_dashboard copied pending DashboardFirst = tag ''span'' [Text ''Create a dashboard first.'']"
| "step_node emit create_dashboard copied pending ModelsLink =
     tag ''div'' [Link ''/models'' [Text ''View models ->'']]"

definition StatusBadge :: "step_status \<Rightarrow> nat \<Rightarrow> 'e markup" where
  "StatusBadge status idx =
     (case status of StepDone \<Rightarrow> tag ''span'' [svg] | _ \<Rightarrow> tag ''span'' [Text (badge status idx)])"

definition step_entry :: "(checklist_event \<Rightarrow> 'e) \<Rightarrow> 'e \<Rightarrow> string option \<Rightarrow> bool \<Rightarrow> nat \<times> step \<Rightarrow> 'e markup" where
  "step_entry emit create_dashboard copied pending x = (let (idx, s) = x in tag ''li'' [tag ''div''
     [StatusBadge (st_status s) (idx + 1),
      tag ''div''
        ([tag ''div'' [tag ''h3'' [Text (st_title s)]], tag ''p'' [Text (st_description s)]] @
         shown_if (st_status s \<noteq> StepDone)
           [tag ''div'' [step_node emit create_dashboard copied pending (st_body s)]])]])"

definition GettingStartedCard :: "string \<Rightarrow> client_env \<Rightarrow> (checklist_event \<Rightarrow> 'e) \<Rightarrow> 'e \<Rightarrow> string option \<Rightarrow> bool
    \<Rightarrow> checklist \<Rightarrow> checklist_queries \<Rightarrow> 'e markup list" where
  "GettingStartedCard ingest_base env emit create_dashboard copied pending c q =
     (let steps = checklist_steps ingest_base env c q; n = steps_done steps; all_done = (n = length steps) in
      if gs_dismissed c \<or> (all_done \<and> gs_dismissed c) then []
      else [tag ''div''
        [tag ''div'' [],
         tag ''div''
           [tag ''div''
              (tag ''div''
                 [tag ''div''
                    [tag ''span'' [Text (if all_done then ''All done'' else ''Getting started'')],
                     tag ''span'' [Text (nat_str n @ '' / '' @ nat_str (length steps) @ '' complete'')]],
                  tag ''h2'' [Text (if all_done then ''Your workspace is fully set up.''
                                    else ''Set up your workspace in 5 steps'')],
                  tag ''p'' [Text (if all_done then ''Nice. You can dismiss this card - it won't come back.''
                    else ''Follow these once and your data will start flowing into dashboards and forecasts.'')]] #
               shown_if all_done [Elem ''button'' [] (click (emit CardDismissed)) [Text ''Dismiss'']]),
            tag ''div'' [tag ''div'' []],
            tag ''ol'' (map (step_entry emit create_dashboard copied pending) (enumerate 0 steps))]]])"

section \<open>The list of dashboards\<close>

datatype list_event =
    CreatingToggled
  | CreatingOpened
  | NameTyped string
  | DescriptionTyped string
  | DashboardSubmitted
  | Checklist checklist_event

fun list_update :: "list_event \<Rightarrow> dashboard_form \<Rightarrow> dashboard_form" where
  "list_update CreatingToggled fm = fm\<lparr>df_creating := \<not> df_creating fm\<rparr>"
| "list_update CreatingOpened fm = fm\<lparr>df_creating := True\<rparr>"
| "list_update (NameTyped x) fm = fm\<lparr>df_name := x\<rparr>"
| "list_update (DescriptionTyped x) fm = fm\<lparr>df_description := x\<rparr>"
| "list_update _ fm = fm"

definition dashboard_form_node :: "mutation \<Rightarrow> dashboard_form \<Rightarrow> list_event markup" where
  "dashboard_form_node create fm = Elem ''form'' [] [(''onSubmit'', \<lambda>_. DashboardSubmitted)]
     [tag ''label''
        [tag ''span'' [Text ''Name''],
         Elem ''input'' [(''value'', df_name fm), (''placeholder'', ''Revenue overview''), (''autoFocus'', []),
           (''required'', [])] [(''onChange'', NameTyped)] []],
      tag ''label''
        [tag ''span'' [Text ''Description (optional)''],
         Elem ''input'' [(''value'', df_description fm), (''placeholder'', ''MRR, churn, signups'')]
           [(''onChange'', DescriptionTyped)] []],
      tag ''div''
        (el ''button''
           ((''type'', ''submit'') # flag ''disabled'' (create = Pending \<or> js_trim (df_name fm) = []))
           [Text (if create = Pending then ''Creating...'' else ''Create dashboard'')] #
         shown_if (create = Broken) [tag ''span'' [Text ''Failed to create. Check the API logs.'']])]"

definition dashboard_card_node :: "view_env \<Rightarrow> json \<Rightarrow> 'e markup" where
  "dashboard_card_node env d = tag ''li''
     [Link (''/dashboards/'' @ as_text (ve_client env) (json_get ''id'' d))
        [tag ''div''
           [tag ''span'' (node (ve_client env) (json_get ''name'' d)),
            tag ''span'' [tag ''span'' [Text (nat_str (widgetCount d))]]],
         (if truthy (json_get ''description'' d)
          then tag ''p'' (node (ve_client env) (json_get ''description'' d))
          else tag ''p'' [Text ''No description'']),
         tag ''div''
           [tag ''span'' [Text (ve_date env (json_get ''updatedAt'' d))], tag ''span'' [Text ''Open ->'']]]]"

definition dashboard_cards :: "view_env \<Rightarrow> query \<Rightarrow> list_event markup list" where
  "dashboard_cards env q =
     (case loaded_items q of
        None \<Rightarrow> []
      | Some [] \<Rightarrow>
          [empty_state ''No dashboards yet''
             [Text ''Create your first dashboard to start dropping in KPI tiles, charts, and forecast widgets.'']
             [Elem ''button'' [] (click CreatingOpened) [Text ''+ Create dashboard'']]]
      | Some (d # ds) \<Rightarrow> [tag ''ul'' (map (dashboard_card_node env) (d # ds))])"

definition DashboardsListPage :: "view_env \<Rightarrow> list_event markup list \<Rightarrow> query \<Rightarrow> mutation \<Rightarrow> dashboard_form
    \<Rightarrow> list_event markup" where
  "DashboardsListPage env checklist_card_nodes q create fm = tag ''section''
     (checklist_card_nodes @
      [tag ''header''
         [tag ''div''
            [tag ''p'' [Text ''Workspace''], tag ''h1'' [Text ''Dashboards''],
             tag ''p'' [Text ''Saved views for your workspace. Each dashboard is a canvas - add KPI tiles, charts, funnels, and forecasts.'']],
          Elem ''button'' [] (click CreatingToggled)
            [Text (if df_creating fm then ''Cancel'' else ''+ New dashboard'')]]] @
      shown_if (df_creating fm) [dashboard_form_node create fm] @
      [tag ''div''
         (shown_if (q = Loading) [tag ''div'' [svg, Text '' Loading dashboards...'']] @
          shown_if (q = Failed)
            [tag ''div'' [Text ''Failed to load dashboards. Make sure the API is running on '',
               tag ''code'' [Text ''localhost:4000''], Text ''.'']] @
          dashboard_cards env q)])"

end
