(* ===== verification/CanvasView.thy ===== *)
theory CanvasView
  imports PageViews KpiTile
begin

text \<open>
  The dashboard page (\<open>app/dashboards/[id]/page.tsx\<close>) with its side bar, and what the widgets on it
  render (\<open>components/widgets\<close>).
\<close>

section \<open>The dashboard page\<close>

record canvas_state =
  cs_type :: widget_choice
  cs_metric :: string
  cs_panel_open :: bool
  cs_filters :: filters

datatype canvas_event =
    TypePicked widget_choice
  | MetricPicked string
  | AddClicked
  | Panel panel_event

definition fresh_canvas :: "client_env \<Rightarrow> int \<Rightarrow> canvas_state" where
  "fresh_canvas env now =
     \<lparr>cs_type = KpiWidget, cs_metric = ''mrr'', cs_panel_open = True, cs_filters = defaultFilters env now 30\<rparr>"

fun canvas_update :: "(string \<Rightarrow> int option) \<Rightarrow> canvas_event \<Rightarrow> canvas_state \<Rightarrow> canvas_state" where
  "canvas_update parse_date (TypePicked t) s = s\<lparr>cs_type := t\<rparr>"
| "canvas_update parse_date (MetricPicked m) s = s\<lparr>cs_metric := m\<rparr>"
| "canvas_update parse_date AddClicked s = s"
| "canvas_update parse_date (Panel e) s =
     (let (is_open, f) = panel_update parse_date e (cs_panel_open s, cs_filters s)
      in s\<lparr>cs_panel_open := is_open, cs_filters := f\<rparr>)"

fun choice_str :: "widget_choice \<Rightarrow> string" where
  "choice_str KpiWidget = ''kpi''"
| "choice_str ForecastWidget = ''forecast''"
| "choice_str CohortWidget = ''cohort''"
| "choice_str FunnelWidget = ''funnel''"

definition Card :: "'e markup list \<Rightarrow> 'e markup" where
  "Card children = tag ''div'' children"

definition CardHeader :: "string \<Rightarrow> 'e markup" where
  "CardHeader title = tag ''h2'' [Text title]"

definition Section :: "string \<Rightarrow> string option \<Rightarrow> 'e markup list \<Rightarrow> 'e markup" where
  "Section title hint children = tag ''section''
     (tag ''header''
        (tag ''h2'' [Text title] # (case hint of None \<Rightarrow> [] | Some h \<Rightarrow> [tag ''p'' [Text h]])) # children)"

definition Stat :: "string \<Rightarrow> nat \<Rightarrow> 'e markup" where
  "Stat label n = tag ''div'' [tag ''dt'' [Text label], tag ''dd'' [Text (nat_str n)]]"

definition EmptyCanvas :: "'e \<Rightarrow> bool \<Rightarrow> 'e markup" where
  "EmptyCanvas add pending =
     empty_state ''This dashboard is empty''
       [Text ''Use the sidebar to drop in KPI tiles, forecasts, cohort heatmaps, or funnels - everything updates live from your event stream.'']
       [Elem ''button'' (flag ''disabled'' pending) (click add)
          [Text (if pending then ''Adding...'' else ''Add your first widget'')]]"

definition add_widget_card :: "mutation \<Rightarrow> canvas_state \<Rightarrow> canvas_event markup" where
  "add_widget_card add s = Card
     [CardHeader ''Add widget'',
      tag ''div''
        (tag ''div''
           [tag ''span'' [Text ''Type''],
            tag ''div'' (map (\<lambda>t. Elem ''button'' [] (click (TypePicked t)) [Text (choice_str t)])
              [KpiWidget, ForecastWidget, CohortWidget, FunnelWidget])] #
         shown_if (cs_type s = KpiWidget \<or> cs_type s = ForecastWidget)
           [tag ''label''
              [tag ''span'' [Text ''Metric''],
               Elem ''select'' [(''value'', cs_metric s)] [(''onChange'', MetricPicked)]
                 (map (\<lambda>(k, l). el ''option'' [(''value'', k)] [Text l]) KPI_METRICS)]] @
         shown_if (cs_type s = CohortWidget)
           [tag ''p'' [Text ''Adds a 12-week retention heatmap based on first-seen signups.'']] @
         shown_if (cs_type s = FunnelWidget)
           [tag ''p'' [Text ''Default steps: signup -> subscription_started -> subscription_payment.'']] @
         Elem ''button'' (flag ''disabled'' (add = Pending)) (click AddClicked)
           [Text (if add = Pending then ''Adding...'' else ''Add to dashboard'')] #
         shown_if (add = Broken) [tag ''p'' [Text ''Failed to add widget. Check the API logs.'']])]"

definition glance_card :: "json list \<Rightarrow> 'e markup" where
  "glance_card ws = (let g = group_widgets ws in Card
     [CardHeader ''At a glance'',
      tag ''dl''
        [Stat ''KPI tiles'' (length (gr_kpis g)), Stat ''Forecasts'' (length (gr_forecasts g)),
         Stat ''Cohorts'' (length (gr_cohorts g)), Stat ''Funnels'' (length (gr_funnels g))]])"

text \<open>A widget as a component element; a property without a value is left out.\<close>

fun item_node :: "client_env \<Rightarrow> canvas_item \<Rightarrow> 'e markup" where
  "item_node env (KpiItem m t) = el ''KpiTile'' [(''metric'', as_text env (Some m)), (''title'', as_text env (Some t))] []"
| "item_node env (ForecastItem m t h k) = el ''ForecastBand''
     ([(''metric'', as_text env (Some m)), (''title'', as_text env (Some t)), (''horizonDays'', as_text env (Some h))] @
      (case k of None \<Rightarrow> [] | Some j \<Rightarrow> [(''modelKind'', as_text env (Some j))])) []"
| "item_node env (CohortItem t d) =
     el ''CohortHeatmap'' [(''title'', as_text env (Some t)), (''windowDays'', as_text env (Some d))] []"
| "item_node env (FunnelItem t steps d h) = el ''FunnelChart''
     [(''title'', as_text env (Some t)), (''steps'', as_text env (Some steps)),
      (''windowDays'', as_text env (Some d)), (''windowHours'', as_text env (Some h))] []"
| "item_node env (OtherItem t ty) = tag ''article''
     (node env (Some t) @ [Text '' '', tag ''span'' ([Text ''(''] @ node env (Some ty) @ [Text '')'']),
      Text '' - renderer not implemented yet.''])"

definition section_hint :: "string \<Rightarrow> string option" where
  "section_hint title = map_of
     [(''Key metrics'', ''Live KPIs from the BFF cache.''),
      (''Forecasts'', ''Prophet / ARIMA - retrained nightly.''),
      (''Cohorts & funnels'', ''Retention curves and conversion paths.'')] title"

definition canvas_header :: "view_env \<Rightarrow> query \<Rightarrow> 'e markup" where
  "canvas_header env dash =
     (let d = data_of_query dash; name = field ''name'' d; n = length (page_widgets dash); cl = ve_client env in
      tag ''header''
        [tag ''div''
           ([tag ''nav''
               [Link ''/dashboards'' [Text ''Dashboards''], tag ''span'' [Text ''/''],
                tag ''span'' (node cl (Some (or_else name (JStr ''...''))))],
             tag ''h1'' (node cl (Some (or_else name (JStr ''Loading...''))))] @
            shown_if (truthy (field ''description'' d)) [tag ''p'' (node cl (field ''description'' d))]),
         tag ''div''
           (tag ''span''
              [tag ''span'' [Text (nat_str n)], Text (''widget'' @ (if n = 1 then [] else ''s''))] #
            shown_if (truthy (field ''updatedAt'' d))
              [tag ''span'' [Text (''Updated '' @ ve_date env (field ''updatedAt'' d))]])])"

definition canvas_main :: "view_env \<Rightarrow> query \<Rightarrow> mutation \<Rightarrow> canvas_event markup" where
  "canvas_main env dash add = tag ''div''
     ([canvas_header env dash] @
      shown_if (dash = Loading) [tag ''div'' [Text ''Loading dashboard...'']] @
      shown_if (dash \<noteq> Loading \<and> page_widgets dash = []) [EmptyCanvas AddClicked (add = Pending)] @
      map (\<lambda>(title, items). Section title (section_hint title)
             [tag ''div'' (map (item_node (ve_client env)) items)])
        (canvas_sections (page_widgets dash)))"

definition DashboardPage :: "view_env \<Rightarrow> query \<Rightarrow> mutation \<Rightarrow> canvas_state \<Rightarrow> canvas_event markup" where
  "DashboardPage env dash add s = tag ''section''
     [tag ''aside''
        [add_widget_card add s, FilterPanel Panel (cs_panel_open s, cs_filters s), glance_card (page_widgets dash)],
      canvas_main env dash add]"

section \<open>The widgets\<close>

datatype 'a awaited = Fetching | FetchFailed | Fetched 'a

definition KpiTileView :: "chart_env \<Rightarrow> string \<Rightarrow> int \<Rightarrow> tile \<Rightarrow> 'e markup" where
  "KpiTileView ch title windowDays t = tag ''article''
     [tag ''header''
        [tag ''h3'' [Text title],
         el ''span'' [(''aria-label'', if ti_pulse t then ''live update'' else ''idle'')] []],
      tag ''div''
        [case tile_value ch t of
           None \<Rightarrow> tag ''div'' []
         | Some v \<Rightarrow> tag ''span'' [Text (if v = ''error'' then ''-'' else v)]],
      tag ''footer''
        (tag ''span'' [Text (''Last '' @ int_str windowDays @ '' days'')] #
         shown_if (shows_cached t) [tag ''span'' [Text ''cached'']])]"

definition FunnelChart :: "chart_env \<Rightarrow> string \<Rightarrow> int \<Rightarrow> int \<Rightarrow> funnel_step list awaited \<Rightarrow> 'e markup" where
  "FunnelChart ch title windowDays windowHours q = tag ''article''
     ([tag ''header''
         [tag ''h3'' [Text title],
          tag ''span'' [Text (int_str windowDays @ ''d window - '' @ int_str windowHours @ ''h step gap'')]]] @
      shown_if (q = Fetching) [tag ''p'' [Text ''Loading...'']] @
      shown_if (q = FetchFailed) [tag ''p'' [Text ''Failed to load funnel.'']] @
      [tag ''div''
         (map (\<lambda>(name, figures, loss, width). tag ''div''
            [tag ''div''
               [tag ''span'' [Text name],
                tag ''span'' (Text figures # (case loss of None \<Rightarrow> [] | Some l \<Rightarrow> [tag ''span'' [Text l]]))],
             tag ''div'' [tag ''div'' []]])
            (funnel_lines ch (case q of Fetched steps \<Rightarrow> steps | _ \<Rightarrow> [])))])"

definition CohortHeatmap :: "chart_env \<Rightarrow> string \<Rightarrow> (heat_mode \<Rightarrow> 'e) \<Rightarrow> heat_mode \<Rightarrow> cohort_line list awaited
    \<Rightarrow> 'e markup" where
  "CohortHeatmap ch title picked mode q =
     (let cohorts = (case q of Fetched cs \<Rightarrow> cs | _ \<Rightarrow> []) in tag ''article''
       ([tag ''header''
           [tag ''h3'' [Text title],
            tag ''div''
              [Elem ''button'' [] (click (picked Retention)) [Text ''retention %''],
               tag ''span'' [Text ''-''],
               Elem ''button'' [] (click (picked Count)) [Text ''counts'']]]] @
        shown_if (q = Fetching) [tag ''p'' [Text ''Loading...'']] @
        shown_if (q = FetchFailed) [tag ''p'' [Text ''Failed to load cohort data.'']] @
        shown_if (cohorts = [] \<and> q \<noteq> Fetching) [tag ''p'' [Text ''No cohort data in window.'']] @
        shown_if (cohorts \<noteq> [])
          [tag ''div'' [tag ''table''
             [tag ''thead'' [tag ''tr''
                ([tag ''th'' [Text ''Cohort''], tag ''th'' [Text ''Size'']] @
                 map (\<lambda>i. tag ''th'' [Text (''W'' @ nat_str i)]) [0..<13])],
              tag ''tbody'' (map (\<lambda>row. let (day, size, cells) = heat_row ch mode cohorts row in tag ''tr''
                ([tag ''td'' [Text day], tag ''td'' [Text (ch_text ch size)]] @
                 map (\<lambda>(shown, colour). tag ''td'' [Text shown]) cells)) cohorts)]]]))"

text \<open>The chart is drawn by \<open>recharts\<close> from the rows of \<open>combine\<close>, which are its data.\<close>

record forecast_data =
  fd_workspace :: string
  fd_metric :: string
  fd_kind :: string
  fd_fitted_at :: string
  fd_mape :: "rat option"
  fd_history :: "forecast_point list"
  fd_forecast :: "forecast_point list"

definition band_chart :: "'e markup" where
  "band_chart = el ''ResponsiveContainer'' [(''width'', ''100%''), (''height'', ''100%'')]
     [tag ''ComposedChart''
        [el ''XAxis'' [(''dataKey'', ''ds''), (''fontSize'', ''11''), (''tickMargin'', ''6''), (''minTickGap'', ''32'')] [],
         el ''YAxis'' [(''fontSize'', ''11''), (''tickFormatter'', ''formatTick''), (''width'', ''48'')] [],
         tag ''Tooltip'' [],
         el ''Area'' [(''type'', ''monotone''), (''dataKey'', ''band''), (''fillOpacity'', ''0.15''),
           (''isAnimationActive'', ''false''), (''name'', ''80% CI'')] [],
         el ''Line'' [(''type'', ''monotone''), (''dataKey'', ''actual''), (''strokeWidth'', ''1.5''), (''dot'', ''false''),
           (''name'', ''Actual''), (''isAnimationActive'', ''false'')] [],
         el ''Line'' [(''type'', ''monotone''), (''dataKey'', ''yhat''), (''strokeWidth'', ''2''),
           (''strokeDasharray'', ''4 3''), (''dot'', ''false''), (''name'', ''Forecast''),
           (''isAnimationActive'', ''false'')] [],
         tag ''Legend'' []]]"

definition ForecastBand :: "chart_env \<Rightarrow> string \<Rightarrow> forecast_data awaited \<Rightarrow> 'e markup \<times> chart_row list" where
  "ForecastBand ch title q =
     (tag ''article''
        [tag ''header''
           [tag ''h3'' [Text title],
            tag ''span''
              (case q of
                 Fetched d \<Rightarrow> Text (fd_kind d) #
                   (case fd_mape d of None \<Rightarrow> []
                    | Some m \<Rightarrow> [tag ''span'' [Text (''MAPE '' @ ch_fixed ch 1 (m * 100) @ ''%'')]])
               | _ \<Rightarrow> [])],
         tag ''div''
           (shown_if (q = Fetching) [tag ''div'' [Text ''Loading forecast...'']] @
            shown_if (q = FetchFailed)
              [tag ''div'' [Text ''Failed to load forecast - model may not be trained yet (POST /retrain).'']] @
            (case q of Fetched d \<Rightarrow> [band_chart] | _ \<Rightarrow> []))],
      case q of Fetched d \<Rightarrow> combine (fd_history d) (fd_forecast d) | _ \<Rightarrow> [])"

end
