(* ===== verification/AlertViews.thy ===== *)
theory AlertViews
  imports CanvasView
begin

text \<open>
  The pages of the alert rules, of their history and of the models (\<open>app/alerts/page.tsx\<close>,
  \<open>app/alerts/history/page.tsx\<close>, \<open>app/models/page.tsx\<close>).
\<close>

section \<open>Numbers of a form\<close>

text \<open>
  \<open>parseFloat\<close> and \<open>parseInt(_, 10)\<close>: the longest prefix that is a number, \<open>NaN\<close> (here \<open>None\<close>) when
  there is none. A number field never holds the text \<open>Infinity\<close>.
\<close>

definition signed :: "(string \<Rightarrow> rat option) \<Rightarrow> string \<Rightarrow> rat option" where
  "signed number s =
     (case dropWhile is_space s of
        [] \<Rightarrow> None
      | c # cs \<Rightarrow> if c = CHR ''-'' then map_option uminus (number cs)
                  else if c = CHR ''+'' then number cs else number (c # cs))"

definition unsigned_float :: "string \<Rightarrow> rat option" where
  "unsigned_float u =
     (let ds = takeWhile is_digit u; r = dropWhile is_digit u;
          (fs, r') = (case r of c # cs \<Rightarrow> if c = CHR ''.'' then (takeWhile is_digit cs, dropWhile is_digit cs) else ([], r)
                      | [] \<Rightarrow> ([], []));
          m = of_nat (str_nat (ds @ fs)) / 10 ^ length fs
      in if ds @ fs = [] then None
         else Some (case parse_exponent m r' of None \<Rightarrow> m | Some (q, _) \<Rightarrow> q))"

definition parseFloat :: "string \<Rightarrow> rat option" where
  "parseFloat = signed unsigned_float"

definition parseInt :: "string \<Rightarrow> rat option" where
  "parseInt = signed (\<lambda>u. if takeWhile is_digit u = [] then None else Some (of_nat (str_nat (takeWhile is_digit u))))"

text \<open>A number as the value of a field.\<close>

definition number_value :: "client_env \<Rightarrow> rat option \<Rightarrow> string" where
  "number_value env q = (case q of None \<Rightarrow> ''NaN'' | Some r \<Rightarrow> as_text env (Some (JNum r)))"

section \<open>The alert rules\<close>

datatype alerts_page_event =
    AddingToggled
  | AddingOpened
  | AlertNameTyped string
  | AlertMetricPicked string
  | MethodPicked string
  | ThresholdTyped string
  | WindowTyped string
  | EmailTyped string
  | SlackTyped string
  | AlertSubmitted
  | RuleToggled json
  | RuleDeleted json

fun alerts_page_update :: "alerts_page_event \<Rightarrow> alert_form \<Rightarrow> alert_form" where
  "alerts_page_update AddingToggled fm = fm\<lparr>af_adding := \<not> af_adding fm\<rparr>"
| "alerts_page_update AddingOpened fm = fm\<lparr>af_adding := True\<rparr>"
| "alerts_page_update (AlertNameTyped x) fm = fm\<lparr>af_name := x\<rparr>"
| "alerts_page_update (AlertMetricPicked x) fm = fm\<lparr>af_metric := x\<rparr>"
| "alerts_page_update (MethodPicked x) fm = fm\<lparr>af_method := x\<rparr>"
| "alerts_page_update (ThresholdTyped x) fm = fm\<lparr>af_threshold := parseFloat x\<rparr>"
| "alerts_page_update (WindowTyped x) fm = fm\<lparr>af_windowDays := parseInt x\<rparr>"
| "alerts_page_update (EmailTyped x) fm = fm\<lparr>af_emailTo := x\<rparr>"
| "alerts_page_update (SlackTyped x) fm = fm\<lparr>af_slackWebhook := x\<rparr>"
| "alerts_page_update _ fm = fm"

definition alert_form_node :: "client_env \<Rightarrow> mutation \<Rightarrow> alert_form \<Rightarrow> alerts_page_event markup" where
  "alert_form_node env create fm = Elem ''form'' [] [(''onSubmit'', \<lambda>_. AlertSubmitted)]
     [Field ''Name'' (Elem ''input'' [(''value'', af_name fm), (''placeholder'', ''MRR drop''), (''required'', [])]
        [(''onChange'', AlertNameTyped)] []),
      Field ''Metric'' (Elem ''select'' [(''value'', af_metric fm)] [(''onChange'', AlertMetricPicked)]
        (map (\<lambda>m. el ''option'' [(''value'', m)] [Text m]) METRICS)),
      Field ''Method'' (Elem ''select'' [(''value'', af_method fm)] [(''onChange'', MethodPicked)]
        [el ''option'' [(''value'', ''zscore'')] [Text ''z-score''], el ''option'' [(''value'', ''iqr'')] [Text ''IQR'']]),
      Field (if af_method fm = ''zscore'' then ''Threshold (|z|)'' else ''IQR multiplier'')
        (Elem ''input'' [(''type'', ''number''), (''step'', ''0.1''), (''value'', number_value env (af_threshold fm))]
           [(''onChange'', ThresholdTyped)] []),
      Field ''Window (days)''
        (Elem ''input'' [(''type'', ''number''), (''value'', number_value env (af_windowDays fm))]
           [(''onChange'', WindowTyped)] []),
      Field ''Email recipient (optional)''
        (Elem ''input'' [(''type'', ''email''), (''value'', af_emailTo fm), (''placeholder'', ''alerts@example.com'')]
           [(''onChange'', EmailTyped)] []),
      tag ''div''
        [Field ''Slack webhook URL (optional)''
           (Elem ''input'' [(''type'', ''url''), (''value'', af_slackWebhook fm),
              (''placeholder'', ''https://hooks.slack.com/services/...'')] [(''onChange'', SlackTyped)] [])],
      tag ''div''
        (el ''button''
           ((''type'', ''submit'') # flag ''disabled'' (create = Pending \<or> js_trim (af_name fm) = []))
           [Text (if create = Pending then ''Creating...'' else ''Create alert'')] #
         shown_if (create = Broken) [tag ''span'' [Text ''Failed to create. Check the API logs.'']])]"

definition rule_node :: "view_env \<Rightarrow> json \<Rightarrow> alerts_page_event markup" where
  "rule_node env a =
     (let (name, metric, meth, channels, fired, state) = alert_line a; cl = ve_client env in tag ''li''
        [tag ''div''
           [tag ''div''
              [tag ''span'' (node cl (Some name)), tag ''span'' [tag ''span'' (node cl (Some metric))],
               tag ''span'' (node cl (Some meth))],
            tag ''div''
              [tag ''span'' [Text channels],
               (case fired of
                  None \<Rightarrow> tag ''span'' [Text ''Never fired'']
                | Some t \<Rightarrow> tag ''span'' [Text ''Last fired '', tag ''span'' [Text (ve_datetime env (Some t))]])]],
         tag ''div''
           [Elem ''button'' [] (click (RuleToggled a)) [tag ''span'' [], Text state],
            Elem ''button'' [(''title'', ''Delete alert'')] (click (RuleDeleted a)) [Text ''Delete'']]])"

definition EmptyAlerts :: "'e \<Rightarrow> 'e markup" where
  "EmptyAlerts create =
     empty_state ''No alerts configured''
       [Text ''Set up a z-score or IQR detector on any metric and get pinged on email or Slack when it spikes or dips outside the normal range.'']
       [Elem ''button'' [] (click create) [Text ''+ Create your first alert'']]"

definition rules_list :: "view_env \<Rightarrow> query \<Rightarrow> alerts_page_event markup list" where
  "rules_list env alerts =
     (case loaded_items alerts of
        None \<Rightarrow> []
      | Some [] \<Rightarrow> [EmptyAlerts AddingOpened]
      | Some (a # as) \<Rightarrow> [tag ''ul'' (map (rule_node env) (a # as))])"

definition AlertsPage :: "view_env \<Rightarrow> query \<Rightarrow> mutation \<Rightarrow> alert_form \<Rightarrow> alerts_page_event markup" where
  "AlertsPage env alerts create fm = tag ''section''
     ([tag ''header''
         [tag ''div''
            [tag ''h1'' [Text ''Alerts''],
             tag ''p''
               [Text ''Z-score and IQR detectors run every 5 minutes against your metrics. When they fire, notifications go out to email and/or Slack. '',
                Link ''/alerts/history'' [Text ''View history ->'']]],
          Elem ''button'' [] (click AddingToggled) [Text (if af_adding fm then ''Cancel'' else ''+ New alert'')]]] @
      shown_if (af_adding fm) [alert_form_node (ve_client env) create fm] @
      [tag ''div''
         (shown_if (alerts = Loading) [tag ''div'' [tag ''span'' [], Text ''Loading alerts...'']] @
          rules_list env alerts)])"

section \<open>The history\<close>

definition history_row :: "view_env \<Rightarrow> json \<Rightarrow> 'e markup" where
  "history_row env e =
     (let (fired, name, metric, v, expected) = history_line e; cell = (\<lambda>j. tag ''td'' (node (ve_client env) (Some j)))
      in tag ''tr''
           [tag ''td'' [Text (ve_datetime env (Some fired))], cell name, cell metric, cell v, cell expected])"

definition AlertHistoryPage :: "view_env \<Rightarrow> query \<Rightarrow> 'e markup" where
  "AlertHistoryPage env history = tag ''section''
     [tag ''header''
        [tag ''div'' [tag ''h1'' [Text ''Alert history''], tag ''p'' [Text ''Most recent 50 fires.'']],
         Link ''/alerts'' [Text ''<- Back to alerts'']],
      tag ''table''
        [tag ''thead'' [tag ''tr''
           (map (\<lambda>h. tag ''th'' [Text h]) [''When'', ''Alert'', ''Metric'', ''Value'', ''Expected''])],
         tag ''tbody''
           (shown_if (loaded_items history = Some [])
              [tag ''tr'' [el ''td'' [(''colSpan'', ''5'')] [Text ''No alerts have fired yet.'']]] @
            (case loaded_items history of None \<Rightarrow> [] | Some es \<Rightarrow> map (history_row env) es))]]"

section \<open>The models\<close>

definition EmptyModels :: "'e markup" where
  "EmptyModels =
     empty_state ''No fitted models yet''
       [Text ''Models retrain nightly at 02:00 UTC once you have ~14 days of historical data. You can also trigger a retrain manually by POSTing to '',
        tag ''code'' [Text ''/retrain''], Text '' on the forecast service with your '',
        tag ''code'' [Text ''RETRAIN_SHARED_SECRET''], Text ''.''] []"

definition model_node :: "chart_env \<Rightarrow> int \<Rightarrow> model_row \<Rightarrow> 'e markup" where
  "model_node ch now r =
     (let (metric, prophet, arima, picked, age, window) = model_cells ch now r in tag ''tr''
        [tag ''td'' [tag ''span'' [Text metric]], tag ''td'' [Text prophet], tag ''td'' [Text arima],
         tag ''td'' [tag ''span'' (shown_if (winner r \<noteq> None) [svg] @ [Text picked])],
         tag ''td'' [Text age], tag ''td'' [Text window]])"

definition ModelsPage :: "chart_env \<Rightarrow> int \<Rightarrow> model_meta list awaited \<Rightarrow> 'e markup" where
  "ModelsPage ch now models =
     (let rows = (case models of Fetched ms \<Rightarrow> rollup ch ms | _ \<Rightarrow> []) in tag ''section''
        [tag ''header''
           [tag ''div''
              [tag ''h1'' [Text ''Models''],
               tag ''p'' [Text ''Latest fitted Prophet and ARIMA models per metric. The MAPE column is mean absolute percentage error on a 14-day holdout split - lower is better. Dashboards use whichever model has the lower MAPE.'']],
            Link ''/dashboards'' [Text ''<- Back to dashboards'']],
         tag ''div''
           (shown_if (models = Fetching) [tag ''div'' [tag ''span'' [], Text ''Loading models...'']] @
            shown_if (models = FetchFailed)
              [tag ''div'' [Text ''Failed to load models. The forecast service may be down, or no retrain has run yet.'']] @
            shown_if (models \<noteq> Fetching \<and> models \<noteq> FetchFailed \<and> rows = []) [EmptyModels] @
            shown_if (rows \<noteq> [])
              [tag ''div'' [tag ''table''
                 [tag ''thead'' [tag ''tr'' (map (\<lambda>h. tag ''th'' [Text h])
                    [''Metric'', ''Prophet MAPE'', ''ARIMA MAPE'', ''Picked'', ''Fitted'', ''Window''])],
                  tag ''tbody'' (map (model_node ch now) rows)]]] @
            [tag ''p'' [Text ''Both models retrain nightly at 02:00 UTC. The dashboard widgets pick Prophet by default, falling back to ARIMA when Prophet is missing.'']])])"

end
