(* ===== verification/SiteMap.thy ===== *)
theory SiteMap
  imports AuthViews AlertViews
begin

text \<open>
  The whole site: the pages under their paths, each inside its layout, with the links that lead
  from one to the other and the fields the user types into. A page is rendered from everything the
  browser holds; its handlers are dropped (\<open>anonymous\<close>) so that all pages have one type.
\<close>

section \<open>Layouts\<close>

text \<open>
  The layouts of \<open>/dashboards\<close>, \<open>/alerts\<close> and \<open>/models\<close>: nothing until a token was found; the
  toasts are part of the pages of the alerts only.
\<close>

record site =
  si_env :: view_env
  si_chart :: chart_env
  si_now :: int
  si_year :: int
  si_ingest :: string
  si_page :: page
  si_workspace :: "json option"
  si_theme :: "theme option"
  si_toasts :: "toast list"
  si_login :: auth_form
  si_signup :: auth_form
  si_list :: query
  si_create :: mutation
  si_form :: dashboard_form
  si_checklist :: checklist
  si_queries :: checklist_queries
  si_copied :: "string option"
  si_keyPending :: bool
  si_dash :: query
  si_add :: mutation
  si_canvas :: canvas_state
  si_alerts :: query
  si_createAlert :: mutation
  si_alertForm :: alert_form
  si_history :: query
  si_models :: "model_meta list awaited"
  si_shared :: "json option"

abbreviation si_client :: "site \<Rightarrow> client_env" where
  "si_client s \<equiv> ve_client (si_env s)"

definition framed :: "site \<Rightarrow> unit markup list \<Rightarrow> unit markup list" where
  "framed s children =
     shown_if (layout_ready (si_page s))
       [AppShell (si_client s) () () (si_workspace s) (si_theme s) children]"

definition DashboardsLayout :: "site \<Rightarrow> unit markup list \<Rightarrow> unit markup list" where
  "DashboardsLayout s children = framed s children"

definition ModelsLayout :: "site \<Rightarrow> unit markup list \<Rightarrow> unit markup list" where
  "ModelsLayout s children = framed s children"

definition AlertsLayout :: "site \<Rightarrow> unit markup list \<Rightarrow> unit markup list" where
  "AlertsLayout s children = framed s (children @ [AlertToaster (si_toasts s)])"

section \<open>Pages\<close>

datatype route =
    Home | Login | Signup | Dashboards | Dashboard string | Models | Alerts | AlertHistory | Shared string

text \<open>The folders of \<open>app\<close> as the router reads them: a dynamic segment is one that is not empty.\<close>

definition route_at :: "string \<Rightarrow> route option" where
  "route_at path =
     (let parts = split_on (CHR ''/'') path in
      if parts = [[], []] then Some Home
      else if parts = [[], ''login''] then Some Login
      else if parts = [[], ''signup''] then Some Signup
      else if parts = [[], ''dashboards''] then Some Dashboards
      else if parts = [[], ''models''] then Some Models
      else if parts = [[], ''alerts''] then Some Alerts
      else if parts = [[], ''alerts'', ''history''] then Some AlertHistory
      else if length parts = 3 \<and> parts ! 0 = [] \<and> parts ! 1 = ''dashboards'' \<and> parts ! 2 \<noteq> []
        then Some (Dashboard (parts ! 2))
      else if length parts = 3 \<and> parts ! 0 = [] \<and> parts ! 1 = ''share'' \<and> parts ! 2 \<noteq> []
        then Some (Shared (parts ! 2))
      else None)"

definition checklist_of :: "site \<Rightarrow> list_event markup list" where
  "checklist_of s =
     GettingStartedCard (si_ingest s) (si_client s) Checklist CreatingOpened (si_copied s) (si_keyPending s)
       (si_checklist s) (si_queries s)"

fun render :: "route \<Rightarrow> site \<Rightarrow> unit markup list" where
  "render Home s = [HomePage]"
| "render Login s = [AuthLayout (si_year s) [anonymous (LoginPage (si_login s))]]"
| "render Signup s = [AuthLayout (si_year s) [anonymous (SignupPage (si_signup s))]]"
| "render Dashboards s = DashboardsLayout s
     [anonymous (DashboardsListPage (si_env s) (checklist_of s) (si_list s) (si_create s) (si_form s))]"
| "render (Dashboard i) s = DashboardsLayout s
     [anonymous (DashboardPage (si_env s) (si_dash s) (si_add s) (si_canvas s))]"
| "render Models s = ModelsLayout s [ModelsPage (si_chart s) (si_now s) (si_models s)]"
| "render Alerts s = AlertsLayout s
     [anonymous (AlertsPage (si_env s) (si_alerts s) (si_createAlert s) (si_alertForm s))]"
| "render AlertHistory s = AlertsLayout s [AlertHistoryPage (si_env s) (si_history s)]"
| "render (Shared t) s = (case SharedDashboard (si_client s) (si_shared s) of None \<Rightarrow> [] | Some m \<Rightarrow> [m])"

section \<open>What the parts contribute\<close>

named_theorems site_parts

lemma anonymous_list: "attrs_of t k [map_markup f m] = attrs_of t k [m]" "ids [map_markup f m] = ids [m]"
  "loose [map_markup f m] = map (map_markup f) (loose [m])"
  using attrs_of_map_markup [of t k f "[m]"] ids_map_markup [of f "[m]"] loose_map_markup [of f "[m]"] by simp_all

lemma node_parts [site_parts]: "attrs_of t k (node env v) = []" "ids (node env v) = []" "loose (node env v) = []"
  by (simp_all add: node_def split: option.split json.split)

lemma framed_parts [site_parts]:
  "hrefs (framed s ks) = (if layout_ready (si_page s) then
     [''/dashboards'', ''/dashboards'', ''/models'', ''/alerts'', ''/dashboards'', ''/models'', ''/alerts''] @ hrefs ks else [])"
  "ids (framed s ks) = (if layout_ready (si_page s) then ids ks else [])"
  "loose (framed s ks) = (if layout_ready (si_page s) then loose ks else [])"
  by (simp_all add: framed_def AppShell_def ThemeToggle_def nav_links_def NAV_def shown_if_def own_def svg_def Link_def node_parts
     Let_def split: option.split)

lemma panel_parts [site_parts]:
  "hrefs [FilterPanel emit x] = []" "ids [FilterPanel emit x] = []" "loose [FilterPanel emit x] = []"
  by (simp_all add: FilterPanel_def panel_date_def panel_select_def Field_def options_of_def attrs_of_map ids_map shown_if_def own_def Let_def comp_def split: prod.split)

lemma toaster_parts [site_parts]:
  "hrefs [AlertToaster ts] = []" "ids [AlertToaster ts] = []" "loose [AlertToaster ts] = []"
  by (simp_all add: AlertToaster_def attrs_of_map ids_map loose_map own_def)

lemma empty_state_parts [site_parts]:
  "hrefs [empty_state title txt bs] = hrefs txt @ hrefs bs" "ids [empty_state title txt bs] = ids txt @ ids bs"
  "loose [empty_state title txt bs] = loose txt @ loose bs"
  by (simp_all add: empty_state_def own_def svg_def)

definition key_field :: "string \<Rightarrow> unit markup" where
  "key_field name = Elem ''input'' [(''value'', name), (''placeholder'', ''Key name (e.g. Production)''), (''autoFocus'', [])]
     [(''onChange'', \<lambda>_. ())] []"

fun step_hrefs :: "step_body \<Rightarrow> string list" where
  "step_hrefs (OpenDashboard href) = [href]"
| "step_hrefs ModelsLink = [''/models'']"
| "step_hrefs _ = []"

fun step_loose :: "step_body \<Rightarrow> unit markup list" where
  "step_loose (KeyNameForm name) = [key_field name]"
| "step_loose _ = []"

lemma step_node_parts [site_parts]:
  "hrefs [step_node emit cd copied p b] = step_hrefs b" "ids [step_node emit cd copied p b] = []"
  "map anonymous (loose [step_node emit cd copied p b]) = step_loose b"
proof -
  show "hrefs [step_node emit cd copied p b] = step_hrefs b" by (cases b) (simp_all add: own_def Link_def)
  show "ids [step_node emit cd copied p b] = []" by (cases b) (simp_all add: own_def Link_def flag_def)
  show "map anonymous (loose [step_node emit cd copied p b]) = step_loose b"
    by (cases b) (simp_all add: Link_def key_field_def comp_def)
qed

definition open_bodies :: "step list \<Rightarrow> step_body list" where
  "open_bodies steps = map st_body (filter (\<lambda>s. st_status s \<noteq> StepDone) steps)"

lemma badge_parts [site_parts]:
  "hrefs [StatusBadge st i] = []" "ids [StatusBadge st i] = []" "loose [StatusBadge st i] = []"
  by (simp_all add: StatusBadge_def own_def svg_def split: step_status.split)

lemma steps_parts [site_parts]:
  "hrefs (map (step_entry emit cd copied p) (enumerate j steps)) = concat (map step_hrefs (open_bodies steps))"
  "ids (map (step_entry emit cd copied p) (enumerate j steps)) = []"
  "map anonymous (loose (map (step_entry emit cd copied p) (enumerate j steps))) = concat (map step_loose (open_bodies steps))"
  by (induction steps arbitrary: j)
     (simp_all add: step_entry_def open_bodies_def shown_if_def own_def site_parts)

lemma card_parts [site_parts]:
  "hrefs (GettingStartedCard base env emit cd copied p c q) =
     (if gs_dismissed c then [] else concat (map step_hrefs (open_bodies (checklist_steps base env c q))))"
  "ids (GettingStartedCard base env emit cd copied p c q) = []"
  "map anonymous (loose (GettingStartedCard base env emit cd copied p c q)) =
     (if gs_dismissed c then [] else concat (map step_loose (open_bodies (checklist_steps base env c q))))"
  by (simp_all add: GettingStartedCard_def Let_def shown_if_def own_def site_parts)

lemma dashboard_form_parts [site_parts]:
  "hrefs [dashboard_form_node m fm] = []" "ids [dashboard_form_node m fm] = []" "loose [dashboard_form_node m fm] = []"
  by (simp_all add: dashboard_form_node_def shown_if_def flag_def own_def)

lemma card_node_parts [site_parts]:
  "hrefs [dashboard_card_node env d] = [''/dashboards/'' @ as_text (ve_client env) (json_get ''id'' d)]"
  "ids [dashboard_card_node env d] = []" "loose [dashboard_card_node env d] = []"
  by (simp_all add: dashboard_card_node_def Link_def own_def site_parts)

definition listed :: "query \<Rightarrow> json list" where
  "listed q = (case loaded_items q of None \<Rightarrow> [] | Some ds \<Rightarrow> ds)"

lemma cards_parts [site_parts]:
  "hrefs (map (dashboard_card_node env) ds) = map (\<lambda>d. ''/dashboards/'' @ as_text (ve_client env) (json_get ''id'' d)) ds"
  "ids (map (dashboard_card_node env) ds) = []" "loose (map (dashboard_card_node env) ds) = []"
  by (simp_all add: attrs_of_map [where f = "dashboard_card_node env"] ids_map [where f = "dashboard_card_node env"]
    loose_map [where f = "dashboard_card_node env"] site_parts)

lemma dashboard_cards_parts [site_parts]:
  "hrefs (dashboard_cards env q) = map (\<lambda>d. ''/dashboards/'' @ as_text (ve_client env) (json_get ''id'' d)) (listed q)"
  "ids (dashboard_cards env q) = []" "loose (dashboard_cards env q) = []"
  by (simp_all add: dashboard_cards_def listed_def own_def site_parts del: list.map split: option.split list.split)

lemma list_page_parts [site_parts]:
  "hrefs [DashboardsListPage env cs q m fm] =
     hrefs cs @ map (\<lambda>d. ''/dashboards/'' @ as_text (ve_client env) (json_get ''id'' d)) (listed q)"
  "ids [DashboardsListPage env cs q m fm] = ids cs"
  "loose [DashboardsListPage env cs q m fm] = loose cs"
  by (simp_all add: DashboardsListPage_def shown_if_def own_def site_parts svg_def)

lemma add_card_parts [site_parts]:
  "hrefs [add_widget_card m s] = []" "ids [add_widget_card m s] = []" "loose [add_widget_card m s] = []"
  by (simp_all add: add_widget_card_def Card_def CardHeader_def KPI_METRICS_def shown_if_def flag_def own_def)

lemma glance_parts [site_parts]:
  "hrefs [glance_card ws] = []" "ids [glance_card ws] = []" "loose [glance_card ws] = []"
  by (simp_all add: glance_card_def Card_def CardHeader_def Stat_def Let_def own_def)

lemma item_parts [site_parts]:
  "hrefs [item_node env i] = []" "ids [item_node env i] = []" "loose [item_node env i] = []"
  by (cases i; simp add: own_def site_parts split: option.split)+

lemma items_parts [site_parts]:
  "hrefs (map (item_node env) is) = []" "ids (map (item_node env) is) = []" "loose (map (item_node env) is) = []"
  by (simp_all add: attrs_of_map [where f = "item_node env"] ids_map [where f = "item_node env"]
      loose_map [where f = "item_node env"] site_parts)

lemma section_parts:
  fixes env :: client_env and secs :: "(string \<times> canvas_item list) list"
  defines "nodes \<equiv> map (\<lambda>(title, items). Section title (section_hint title) [tag ''div'' (map (item_node env) items)]) secs"
  shows "hrefs nodes = []" "ids nodes = []" "loose nodes = []"
  unfolding nodes_def
  by (induction secs) (auto simp: Section_def own_def site_parts split: option.split)

lemma header_parts [site_parts]:
  "hrefs [canvas_header env d] = [''/dashboards'']" "ids [canvas_header env d] = []" "loose [canvas_header env d] = []"
  by (simp_all add: canvas_header_def Let_def Link_def shown_if_def own_def site_parts)

lemma main_parts [site_parts]:
  "hrefs [canvas_main env d m] = [''/dashboards'']" "ids [canvas_main env d m] = []" "loose [canvas_main env d m] = []"
  by (simp_all add: canvas_main_def section_parts [where env = "ve_client env"] EmptyCanvas_def shown_if_def flag_def own_def site_parts)

lemma canvas_parts [site_parts]:
  "hrefs [DashboardPage env d m s] = [''/dashboards'']" "ids [DashboardPage env d m s] = []"
  "loose [DashboardPage env d m s] = []"
  by (simp_all add: DashboardPage_def own_def site_parts)

lemma alert_form_parts [site_parts]:
  "hrefs [alert_form_node env m fm] = []" "ids [alert_form_node env m fm] = []" "loose [alert_form_node env m fm] = []"
  by (simp_all add: alert_form_node_def Field_def METRICS_def shown_if_def flag_def own_def)

lemma rule_node_parts [site_parts]:
  "hrefs [rule_node env a] = []" "ids [rule_node env a] = []" "loose [rule_node env a] = []"
  by (simp_all add: rule_node_def Let_def own_def site_parts split: prod.split option.split)

lemma rule_nodes_parts [site_parts]:
  "hrefs (map (rule_node env) as) = []" "ids (map (rule_node env) as) = []" "loose (map (rule_node env) as) = []"
  by (simp_all add: attrs_of_map [where f = "rule_node env"] ids_map [where f = "rule_node env"]
      loose_map [where f = "rule_node env"] site_parts)

lemma rules_parts [site_parts]:
  "hrefs (rules_list env q) = []" "ids (rules_list env q) = []" "loose (rules_list env q) = []"
  by (simp_all add: rules_list_def EmptyAlerts_def own_def site_parts del: list.map split: option.split list.split)

lemma alerts_page_parts [site_parts]:
  "hrefs [AlertsPage env q m fm] = [''/alerts/history'']" "ids [AlertsPage env q m fm] = []"
  "loose [AlertsPage env q m fm] = []"
  by (simp_all add: AlertsPage_def Link_def shown_if_def own_def site_parts)

lemma history_row_parts [site_parts]:
  "hrefs [history_row env e] = []" "ids [history_row env e] = []" "loose [history_row env e] = []"
  by (simp_all add: history_row_def Let_def own_def site_parts split: prod.split)

lemma history_rows_parts [site_parts]:
  "hrefs (map (history_row env) es) = []" "ids (map (history_row env) es) = []" "loose (map (history_row env) es) = []"
  by (simp_all add: attrs_of_map [where f = "history_row env"] ids_map [where f = "history_row env"]
      loose_map [where f = "history_row env"] site_parts)

lemma history_page_parts [site_parts]:
  "hrefs [AlertHistoryPage env q] = [''/alerts'']" "ids [AlertHistoryPage env q] = []" "loose [AlertHistoryPage env q] = []"
  by (simp_all add: AlertHistoryPage_def Link_def shown_if_def own_def site_parts split: option.split)

lemma model_node_parts [site_parts]:
  "hrefs [model_node ch now r] = []" "ids [model_node ch now r] = []" "loose [model_node ch now r] = []"
  by (simp_all add: model_node_def Let_def shown_if_def svg_def own_def split: prod.split)

lemma model_nodes_parts [site_parts]:
  "hrefs (map (model_node ch now) rs) = []" "ids (map (model_node ch now) rs) = []" "loose (map (model_node ch now) rs) = []"
  by (simp_all add: attrs_of_map [where f = "model_node ch now"] ids_map [where f = "model_node ch now"]
      loose_map [where f = "model_node ch now"] site_parts)

lemma models_page_parts [site_parts]:
  "hrefs [ModelsPage ch now q] = [''/dashboards'']" "ids [ModelsPage ch now q] = []" "loose [ModelsPage ch now q] = []"
  by (simp_all add: ModelsPage_def Let_def EmptyModels_def Link_def shown_if_def own_def site_parts)

lemma shared_parts [site_parts]:
  "SharedDashboard env d = Some m \<Longrightarrow> hrefs [m] = []" "SharedDashboard env d = Some m \<Longrightarrow> ids [m] = []"
  "SharedDashboard env d = Some m \<Longrightarrow> loose [m] = []"
  by (auto simp: SharedDashboard_def Let_def shown_if_def own_def site_parts attrs_of_map ids_map loose_map split: if_splits)

lemma home_parts [site_parts]:
  "set (hrefs [HomePage]) = {''/'', ''#features'', ''#stack'', ''/login'', ''/signup'', github}"
  "ids [HomePage] = [''features'', ''stack'']" "loose [HomePage] = []"
  by (auto simp: HomePage_def home_nav_def home_stat_def Logo_def github_link_def Hero_def Features_def feature_items_def
      home_stack_def stack_items_def CTA_def home_footer_def ProductPreview_def preview_figures_def preview_tiles_def
      MiniTile_def Link_def svg_def own_def)

lemma home_sections: "attrs_of ''section'' ''id'' [HomePage] = [''features'', ''stack'']"
  by (simp add: HomePage_def home_nav_def home_stat_def Logo_def github_link_def Hero_def Features_def feature_items_def
      home_stack_def stack_items_def CTA_def home_footer_def ProductPreview_def preview_figures_def preview_tiles_def
      MiniTile_def Link_def svg_def own_def)

lemma auth_parts [site_parts]:
  "hrefs [AuthLayout y ks] = [''/''] @ [''/''] @ hrefs ks @ [github]" "ids [AuthLayout y ks] = ids ks" "loose [AuthLayout y ks] = loose ks"
  by (simp_all add: AuthLayout_def Logo_def github_link_def Link_def svg_def own_def)

lemma forms_parts [site_parts]:
  "hrefs [LoginPage s] = [''/signup'']" "ids [LoginPage s] = [''email'', ''password'']"
  "hrefs [SignupPage s] = [''/login'']" "ids [SignupPage s] = [''email'', ''password'', ''displayName'', ''workspaceName'']"
  by (simp_all add: LoginPage_def SignupPage_def form_parts Link_def shown_if_def flag_def svg_def own_def split: option.split)

end
