(* ===== verification/SiteFacts.thy ===== *)
theory SiteFacts
  imports SiteMap
begin

text \<open>
  Facts about all pages at once: where their links lead, which fields have a label, what is said when
  a load fails, and what the filter panel of a dashboard changes.
\<close>

section \<open>Links\<close>

text \<open>A link leads to a section of its own page, to the repository of the project, or to a page of the site.\<close>

definition leads_somewhere :: "unit markup list \<Rightarrow> string \<Rightarrow> bool" where
  "leads_somewhere page h \<longleftrightarrow>
     (\<exists>i \<in> set (attrs_of ''section'' ''id'' page). h = ''#'' @ i) \<or>
     h = ''https://github.com/muhammadrakib2299/InsightFlow-Real-Time-Business-Analytics-with-Ml'' \<or>
     route_at h \<noteq> None"

definition known_dashboards :: "site \<Rightarrow> json list" where
  "known_dashboards s = listed (si_list s) @ items_of (data_of_query (gq_dashboards (si_queries s)))"

lemma route_at_dashboard: "i \<noteq> [] \<Longrightarrow> CHR ''/'' \<notin> set i \<Longrightarrow> route_at (''/dashboards/'' @ i) = Some (Dashboard i)"
  by (simp add: route_at_def split_on_no_sep)

lemma route_at_fixed:
  "route_at ''/'' = Some Home" "route_at ''/login'' = Some Login" "route_at ''/signup'' = Some Signup"
  "route_at ''/dashboards'' = Some Dashboards" "route_at ''/models'' = Some Models" "route_at ''/alerts'' = Some Alerts"
  "route_at ''/alerts/history'' = Some AlertHistory"
  by (simp_all add: route_at_def)

lemma step_links:
  "set (concat (map step_hrefs (open_bodies (checklist_steps base env c q)))) \<subseteq>
     {''/models''} \<union> (\<lambda>d. ''/dashboards/'' @ as_text env (json_get ''id'' d)) ` set (items_of (data_of_query (gq_dashboards q)))"
  by (auto simp: open_bodies_def checklist_steps_def firstDashboardId_def truthy_def
      split: if_splits option.splits list.splits)

definition site_paths :: "string set" where
  "site_paths = {''/'', ''/login'', ''/signup'', ''/dashboards'', ''/models'', ''/alerts'', ''/alerts/history''}"

lemma framed_links:
  "set (hrefs (framed s ks)) \<subseteq> {''/dashboards'', ''/models'', ''/alerts''} \<union> set (hrefs ks)"
proof (cases "layout_ready (si_page s)")
  case True
  then show ?thesis unfolding framed_parts by (simp only: if_True set_append list.set) blast
qed (simp add: framed_parts)

lemma frame_paths:
  assumes "set (hrefs ks) \<subseteq> site_paths"
  shows "set (hrefs (framed s ks)) \<subseteq> site_paths \<union> A \<union> B \<union> D"
proof -
  have "{''/dashboards'', ''/models'', ''/alerts''} \<subseteq> site_paths" by (simp add: site_paths_def)
  then show ?thesis using framed_links [of s ks] assms by blast
qed

lemma links_collected:
  assumes "C \<subseteq> Q \<union> f ` set bs" and "X \<subseteq> P \<union> C \<union> f ` set as" and "P \<subseteq> S" "Q \<subseteq> S"
  shows "X \<subseteq> S \<union> A \<union> B \<union> f ` set (as @ bs)"
  using assms by auto

lemma list_links:
  "set (hrefs (render Dashboards s)) \<subseteq> site_paths \<union> A \<union> B
     \<union> (\<lambda>d. ''/dashboards/'' @ as_text (si_client s) (json_get ''id'' d)) ` set (known_dashboards s)"
proof -
  let ?link = "\<lambda>d. ''/dashboards/'' @ as_text (si_client s) (json_get ''id'' d)"
  let ?first = "items_of (data_of_query (gq_dashboards (si_queries s)))"
  have "set (hrefs (checklist_of s)) \<subseteq> {''/models''} \<union> ?link ` set ?first"
  proof (cases "gs_dismissed (si_checklist s)")
    case False
    then show ?thesis unfolding checklist_of_def card_parts using step_links by (simp only: if_False)
  qed (simp add: checklist_of_def card_parts)
  moreover have "set (hrefs (render Dashboards s)) \<subseteq>
      {''/dashboards'', ''/models'', ''/alerts''} \<union> set (hrefs (checklist_of s)) \<union> ?link ` set (listed (si_list s))"
    using framed_links [of s "[anonymous (DashboardsListPage (si_env s) (checklist_of s) (si_list s) (si_create s) (si_form s))]"]
    unfolding render.simps DashboardsLayout_def anonymous_list list_page_parts set_append set_map Un_assoc .
  moreover have "{''/dashboards'', ''/models'', ''/alerts''} \<subseteq> site_paths" "{''/models''} \<subseteq> site_paths"
    by (simp_all add: site_paths_def)
  ultimately show ?thesis unfolding known_dashboards_def by (rule links_collected)
qed

lemma render_links:
  "set (hrefs (render r s)) \<subseteq> site_paths \<union> {github} \<union> (if r = Home then {''#features'', ''#stack''} else {})
     \<union> (\<lambda>d. ''/dashboards/'' @ as_text (si_client s) (json_get ''id'' d)) ` set (known_dashboards s)"
proof (cases r)
  case Home
  then show ?thesis by (simp add: site_parts site_paths_def)
next
  case Login
  then show ?thesis by (simp add: site_parts anonymous_list site_paths_def)
next
  case Signup
  then show ?thesis by (simp add: site_parts anonymous_list site_paths_def)
next
  case Dashboards
  show ?thesis unfolding Dashboards by (rule list_links)
next
  case (Dashboard i)
  show ?thesis unfolding Dashboard render.simps DashboardsLayout_def
    by (rule frame_paths) (simp add: anonymous_list canvas_parts site_paths_def)
next
  case Models
  show ?thesis unfolding Models render.simps ModelsLayout_def
    by (rule frame_paths) (simp add: models_page_parts site_paths_def)
next
  case Alerts
  show ?thesis unfolding Alerts render.simps AlertsLayout_def
    by (rule frame_paths) (simp add: anonymous_list alerts_page_parts toaster_parts site_paths_def)
next
  case AlertHistory
  show ?thesis unfolding AlertHistory render.simps AlertsLayout_def
    by (rule frame_paths) (simp add: history_page_parts toaster_parts site_paths_def)
next
  case (Shared t)
  then show ?thesis by (simp add: shared_parts split: option.split)
qed


definition has_path_id :: "json \<Rightarrow> bool" where
  "has_path_id d \<longleftrightarrow> (case json_get ''id'' d of Some (JStr i) \<Rightarrow> i \<noteq> [] \<and> CHR ''/'' \<notin> set i | _ \<Rightarrow> False)"

lemma has_path_idE:
  assumes "has_path_id d" obtains i where "json_get ''id'' d = Some (JStr i)" "i \<noteq> []" "CHR ''/'' \<notin> set i"
  using assms unfolding has_path_id_def by (auto split: option.split_asm json.split_asm)

text \<open>
  Claim C40: there are no dead links. Whatever the browser holds, every link of every page leads to
  the id of a \<open>section\<close> of the same page, to the repository of this project on GitHub, or to a path
  under which the site has a page; and a link to a dashboard leads to one that the API has listed
  (the ids it lists being texts without a slash).
\<close>

theorem no_dead_links:
  assumes "\<forall>d \<in> set (known_dashboards s). has_path_id d" and "h \<in> set (hrefs (render r s))"
  shows "leads_somewhere (render r s) h
    \<and> (\<forall>i. route_at h = Some (Dashboard i) \<longrightarrow> (\<exists>d \<in> set (known_dashboards s). json_get ''id'' d = Some (JStr i)))"
proof -
  consider "h \<in> site_paths" | "h = github" | "r = Home" "h = ''#features'' \<or> h = ''#stack''"
    | d where "d \<in> set (known_dashboards s)" "h = ''/dashboards/'' @ as_text (si_client s) (json_get ''id'' d)"
    using render_links [of r s] assms(2) by (auto split: if_splits)
  then show ?thesis
  proof cases
    case 1
    then have "\<exists>p \<in> {Home, Login, Signup, Dashboards, Models, Alerts, AlertHistory}. route_at h = Some p"
      unfolding site_paths_def using route_at_fixed by blast
    then show ?thesis by (auto simp: leads_somewhere_def)
  next
    case 2
    then show ?thesis by (simp add: leads_somewhere_def github_def route_at_def)
  next
    case 3
    then show ?thesis by (auto simp: leads_somewhere_def home_sections route_at_def)
  next
    case 4
    then obtain i where "json_get ''id'' d = Some (JStr i)" "i \<noteq> []" "CHR ''/'' \<notin> set i"
      using assms(1) has_path_idE by blast
    with 4 have "route_at h = Some (Dashboard i)" using route_at_dashboard by (simp add: as_text_def)
    with 4(1) \<open>json_get ''id'' d = Some (JStr i)\<close> show ?thesis by (auto simp: leads_somewhere_def)
  qed
qed

definition sample_view :: view_env where
  "sample_view = \<lparr>ve_client = sample_client, ve_date = (\<lambda>_. ''today''), ve_datetime = (\<lambda>_. ''now'')\<rparr>"

definition sample_form :: auth_form where
  "sample_form = \<lparr>fo_email = [], fo_password = [], fo_show = False, fo_displayName = [], fo_workspaceName = [],
     fo_outcome = \<lparr>av_error = None, av_pending = False, av_path = ''/login''\<rparr>\<rparr>"

definition sample_site :: site where
  "sample_site =
     \<lparr>si_env = sample_view, si_chart = sample_chart, si_now = 0, si_year = 2025, si_ingest = ''http://localhost:5000'',
      si_page = signed_in_page, si_workspace = None, si_theme = None, si_toasts = [],
      si_login = sample_form, si_signup = sample_form, si_list = Loading, si_create = Idle,
      si_form = \<lparr>df_name = [], df_description = [], df_creating = False\<rparr>,
      si_checklist = checklist_mounts signed_in_page,
      si_queries = \<lparr>gq_keys = Loading, gq_dashboards = Loading, gq_firstDashboard = Loading, gq_models = Loading\<rparr>,
      si_copied = None, si_keyPending = False, si_dash = Loading, si_add = Idle, si_canvas = fresh_canvas sample_client 0,
      si_alerts = Loading, si_createAlert = Idle, si_alertForm = fresh_alert_form, si_history = Loading,
      si_models = Fetching, si_shared = None\<rparr>"

lemma sample_site_ready: "layout_ready (si_page sample_site)"
  by (simp add: sample_site_def layout_ready_def getAccessToken_def getItem_def setItem_def signed_in_page_def blank_page_def
      ACCESS_KEY_def WORKSPACE_KEY_def)

text \<open>The card of a listed dashboard.\<close>

theorem no_dead_links_witness:
  "let s = sample_site\<lparr>si_list := Loaded (Some (JArr [JObj [(''id'', JStr ''d1'')]]))\<rparr>
   in ''/dashboards/d1'' \<in> set (hrefs (render Dashboards s)) \<and> leads_somewhere (render Dashboards s) ''/dashboards/d1''"
proof -
  let ?s = "sample_site\<lparr>si_list := Loaded (Some (JArr [JObj [(''id'', JStr ''d1'')]]))\<rparr>"
  have known: "known_dashboards ?s = [JObj [(''id'', JStr ''d1'')]]"
    by (simp add: known_dashboards_def listed_def loaded_items_def sample_site_def data_of_query_def items_of_def)
  have link: "''/dashboards/d1'' \<in> set (hrefs (render Dashboards ?s))"
    using sample_site_ready
    by (simp add: DashboardsLayout_def framed_parts anonymous_list list_page_parts listed_def loaded_items_def as_text_def)
  have "\<forall>d \<in> set (known_dashboards ?s). has_path_id d" by (simp add: known has_path_id_def)
  from no_dead_links [OF this link] link show ?thesis by (simp only: Let_def simp_thms)
qed

section \<open>Fields\<close>

text \<open>The fields of a page that have no label, around them or by their id.\<close>

definition unlabelled :: "unit markup list \<Rightarrow> unit markup list" where
  "unlabelled page =
     filter (\<lambda>f. attr ''id'' f \<notin> Some ` set (attrs_of ''label'' ''htmlFor'' page)) (loose page)"

definition naming_key :: "site \<Rightarrow> bool" where
  "naming_key s \<longleftrightarrow> layout_ready (si_page s) \<and> \<not> gs_dismissed (si_checklist s) \<and> \<not> hasKey (si_queries s)
     \<and> gs_issued (si_checklist s) = None \<and> gs_creatingKey (si_checklist s)"

lemma open_step_fields:
  "concat (map step_loose (open_bodies (checklist_steps base env c q))) =
     (if \<not> hasKey q \<and> gs_issued c = None \<and> gs_creatingKey c then [key_field (gs_keyName c)] else [])"
  by (cases "gs_issued c") (simp_all add: open_bodies_def checklist_steps_def stepStatus_def)

lemma auth_labels: "attrs_of ''label'' ''htmlFor'' [AuthLayout y ks] = attrs_of ''label'' ''htmlFor'' ks"
  by (simp add: AuthLayout_def Logo_def github_link_def Link_def svg_def)

lemma loose_forms:
  "unlabelled [AuthLayout y [anonymous (LoginPage s)]] = []" "unlabelled [AuthLayout y [anonymous (SignupPage s)]] = []"
  unfolding unlabelled_def auth_labels auth_parts anonymous_list form_ids form_loose login_fields signup_fields
  by simp_all

text \<open>
  Every field has a label. On every page, whatever the browser holds, no two elements bear
  the same id, and every field the user types into has a label around it or one that names its id -
  except the field for the name of a new API key on the getting-started card, which only has a
  placeholder, and which is there exactly while a key is being named.
\<close>

theorem fields_labelled:
  "distinct (ids (render r s))
   \<and> unlabelled (render r s) =
       (if r = Dashboards \<and> naming_key s then [key_field (gs_keyName (si_checklist s))] else [])"
proof (cases r)
  case Login
  then show ?thesis by (simp add: loose_forms auth_parts forms_parts anonymous_list)
next
  case Signup
  then show ?thesis by (simp add: loose_forms auth_parts forms_parts anonymous_list)
next
  case Dashboards
  have "loose (render r s) = (if naming_key s then [key_field (gs_keyName (si_checklist s))] else [])"
    unfolding Dashboards render.simps DashboardsLayout_def framed_parts anonymous_list list_page_parts checklist_of_def
      card_parts open_step_fields naming_key_def by simp
  moreover have "attr ''id'' (key_field n) = None" for n by (simp add: key_field_def)
  ultimately show ?thesis
    by (simp add: Dashboards unlabelled_def DashboardsLayout_def framed_parts anonymous_list list_page_parts
        checklist_of_def card_parts)
next
  case (Shared t)
  then show ?thesis by (simp add: unlabelled_def shared_parts split: option.split)
qed (simp_all add: anonymous_list DashboardsLayout_def ModelsLayout_def AlertsLayout_def
      framed_parts canvas_parts models_page_parts alerts_page_parts history_page_parts toaster_parts home_parts
      unlabelled_def)

section \<open>Loads that fail\<close>

definition page_texts :: "unit markup list \<Rightarrow> string list" where
  "page_texts page = concat (map texts page)"

lemma frame_says:
  "layout_ready (si_page s) \<Longrightarrow> t \<in> set (texts m) \<Longrightarrow> t \<in> set (page_texts (framed s (m # ks)))"
  by (simp add: page_texts_def framed_def shown_if_def AppShell_def)

lemma frame_says_less:
  "set (texts m) \<subseteq> set (texts m') \<Longrightarrow> framed s = framed s' \<Longrightarrow>
     set (page_texts (framed s (m # ks))) \<subseteq> set (page_texts (framed s' (m' # ks)))"
  by (auto simp: page_texts_def framed_def shown_if_def AppShell_def)

text \<open>
  Claim C38: who is told that a load failed. The list of dashboards and the table of models say so.
  The dashboard page does not: it looks exactly as for a dashboard without a name and without widgets
  and says that it is empty. The alert rules say nothing that they do not say while they are loading,
  and the history looks as if it were still loading.
\<close>

theorem failed_loads:
  assumes "layout_ready (si_page s)"
  shows "''Failed to load dashboards. Make sure the API is running on '' \<in> set (page_texts (render Dashboards (s\<lparr>si_list := Failed\<rparr>)))
    \<and> ''Failed to load models. The forecast service may be down, or no retrain has run yet.''
        \<in> set (page_texts (render Models (s\<lparr>si_models := FetchFailed\<rparr>)))
    \<and> render (Dashboard i) (s\<lparr>si_dash := Failed\<rparr>) = render (Dashboard i) (s\<lparr>si_dash := Loaded (Some (JObj []))\<rparr>)
    \<and> ''This dashboard is empty'' \<in> set (page_texts (render (Dashboard i) (s\<lparr>si_dash := Failed\<rparr>)))
    \<and> set (page_texts (render Alerts (s\<lparr>si_alerts := Failed\<rparr>))) \<subseteq> set (page_texts (render Alerts (s\<lparr>si_alerts := Loading\<rparr>)))
    \<and> render AlertHistory (s\<lparr>si_history := Failed\<rparr>) = render AlertHistory (s\<lparr>si_history := Loading\<rparr>)"
proof (intro conjI)
  show "''Failed to load dashboards. Make sure the API is running on '' \<in> set (page_texts (render Dashboards (s\<lparr>si_list := Failed\<rparr>)))"
    unfolding render.simps DashboardsLayout_def using assms
    by (intro frame_says) (simp_all add: DashboardsListPage_def shown_if_def)
  show "''Failed to load models. The forecast service may be down, or no retrain has run yet.''
        \<in> set (page_texts (render Models (s\<lparr>si_models := FetchFailed\<rparr>)))"
    unfolding render.simps ModelsLayout_def using assms
    by (intro frame_says) (simp_all add: ModelsPage_def shown_if_def)
  have failed: "page_widgets Failed = []" "page_widgets (Loaded (Some (JObj []))) = []"
      "data_of_query Failed = None" "data_of_query (Loaded (Some (JObj []))) = Some (JObj [])"
      "field k None = None" "field k (Some (JObj [])) = None" for k
    by (simp_all add: page_widgets_def data_of_query_def field_def items_of_def)
  then show "render (Dashboard i) (s\<lparr>si_dash := Failed\<rparr>) = render (Dashboard i) (s\<lparr>si_dash := Loaded (Some (JObj []))\<rparr>)"
    by (simp add: DashboardsLayout_def framed_def DashboardPage_def canvas_main_def canvas_header_def Let_def)
  show "''This dashboard is empty'' \<in> set (page_texts (render (Dashboard i) (s\<lparr>si_dash := Failed\<rparr>)))"
    unfolding render.simps DashboardsLayout_def using assms
    by (intro frame_says)
       (simp_all add: DashboardPage_def canvas_main_def failed EmptyCanvas_def empty_state_def shown_if_def)
  show "set (page_texts (render Alerts (s\<lparr>si_alerts := Failed\<rparr>))) \<subseteq> set (page_texts (render Alerts (s\<lparr>si_alerts := Loading\<rparr>)))"
    unfolding render.simps AlertsLayout_def append_Cons append_Nil
    by (simp, rule frame_says_less) (auto simp: AlertsPage_def shown_if_def rules_list_def loaded_items_def framed_def fun_eq_iff)
  show "render AlertHistory (s\<lparr>si_history := Failed\<rparr>) = render AlertHistory (s\<lparr>si_history := Loading\<rparr>)"
    by (simp add: AlertsLayout_def framed_def AlertHistoryPage_def loaded_items_def)
qed

theorem failed_loads_witness:
  "''This dashboard is empty'' \<in> set (page_texts (render (Dashboard ''d1'') (sample_site\<lparr>si_dash := Failed\<rparr>)))"
  using failed_loads [OF sample_site_ready, of "''d1''"] by blast

section \<open>The filters\<close>

definition is_widget :: "'e markup \<Rightarrow> bool" where
  "is_widget m \<longleftrightarrow> tag_of m \<in> {''KpiTile'', ''ForecastBand'', ''CohortHeatmap'', ''FunnelChart''}"

definition widgets_on :: "'e markup list \<Rightarrow> 'e markup list" where
  "widgets_on ms = filter is_widget (concat (map elems ms))"

lemma widgets_on_rec [simp]:
  "widgets_on [] = []"
  "widgets_on (Text s # ms) = widgets_on ms"
  "widgets_on (Elem u as hs ks # ms) = (if u \<in> {''KpiTile'', ''ForecastBand'', ''CohortHeatmap'', ''FunnelChart''}
     then [Elem u as hs ks] else []) @ widgets_on ks @ widgets_on ms"
  "widgets_on (m # n # ms) = widgets_on [m] @ widgets_on (n # ms)"
  "widgets_on (ms @ ns) = widgets_on ms @ widgets_on ns"
  by (simp_all add: widgets_on_def is_widget_def)

lemma widgets_on_map: "widgets_on (map f xs) = concat (map (\<lambda>x. widgets_on [f x]) xs)"
  by (simp add: widgets_on_def filter_concat comp_def)

lemma side_bar_widgets:
  "widgets_on [add_widget_card add s] = []" "widgets_on [FilterPanel emit x] = []" "widgets_on [glance_card ws] = []"
proof -
  show "widgets_on [add_widget_card add s] = []"
    by (simp add: add_widget_card_def Card_def CardHeader_def KPI_METRICS_def shown_if_def)
  show "widgets_on [FilterPanel emit x] = []"
    by (cases x) (simp add: FilterPanel_def panel_date_def panel_select_def Field_def options_of_def shown_if_def Let_def
      widgets_on_map)
  show "widgets_on [glance_card ws] = []"
    by (simp add: glance_card_def Card_def CardHeader_def Stat_def Let_def)
qed

lemma page_widgets_on: "widgets_on [DashboardPage env dash add s] = widgets_on [canvas_main env dash add]"
  by (simp add: DashboardPage_def side_bar_widgets)

lemma panel_keeps:
  "cs_type (fold (\<lambda>e. canvas_update pd (Panel e)) es s) = cs_type s"
  "cs_metric (fold (\<lambda>e. canvas_update pd (Panel e)) es s) = cs_metric s"
  by (induction es arbitrary: s) (simp_all split: prod.split)

text \<open>
  Claim C39: the filters filter nothing. Whatever is typed and chosen in the filter panel of a
  dashboard, in whatever order, the page draws the same widgets with the same properties and would
  add the same widget; the open panel itself does show what was chosen.
\<close>

theorem filters_change_nothing:
  "let page = (\<lambda>s. [DashboardPage env dash add s]); s' = fold (\<lambda>e. canvas_update parse_date (Panel e)) es s in
     widgets_on (page s') = widgets_on (page s)
     \<and> widget_input (cs_type s') (cs_metric s') = widget_input (cs_type s) (cs_metric s)
     \<and> (cs_panel_open s' \<longrightarrow>
          {fl_country (cs_filters s'), fl_device (cs_filters s'), fl_plan (cs_filters s')}
            \<subseteq> set (attrs_of ''select'' ''value'' (page s')))"
proof -
  have "{fl_country f, fl_device f, fl_plan f} \<subseteq> set (attrs_of ''select'' ''value'' [FilterPanel Panel (True, f)])" for f
    by (simp add: FilterPanel_def panel_date_def panel_select_def Field_def options_of_def shown_if_def own_def)
  then have "{fl_country (cs_filters t), fl_device (cs_filters t), fl_plan (cs_filters t)}
      \<subseteq> set (attrs_of ''select'' ''value'' [DashboardPage env dash add t])" if "cs_panel_open t" for t
    using that by (simp add: DashboardPage_def)
  then show ?thesis by (simp only: Let_def page_widgets_on panel_keeps) blast
qed

theorem filters_change_nothing_witness:
  "let s = canvas_update (\<lambda>_. None) (Panel (FieldChosen Country ''US'')) (fresh_canvas sample_client 0)
   in ''US'' \<in> set (attrs_of ''select'' ''value'' [DashboardPage sample_view Loading Idle s])"
  using filters_change_nothing [of sample_view Loading Idle "\<lambda>_. None" "[FieldChosen Country ''US'']" "fresh_canvas sample_client 0"]
  by (simp add: Let_def fresh_canvas_def setField_def del: attrs_of_rec)

end
