(* ===== verification/Router.thy ===== *)
theory Router
  imports JsText
begin

text \<open>
  The routes of the API as the decorators of its controllers declare them, the global prefix of
  \<open>main.ts\<close>, and which of them a request finds. The router itself is Express, a package: it is a
  parameter \<open>R\<close> of the properties, which assume of it what Express documents (\<open>express R\<close>): the
  first registered route whose verb and path match handles the request.
\<close>

section \<open>Patterns\<close>

datatype seg = Fixed string | Param string

definition seg_of :: "string \<Rightarrow> seg" where
  "seg_of s = (case s of [] \<Rightarrow> Fixed [] | c # n \<Rightarrow> if c = CHR '':'' then Param n else Fixed s)"

definition pattern :: "string \<Rightarrow> seg list" where
  "pattern path = map seg_of (filter (\<lambda>s. s \<noteq> []) (split_on (CHR ''/'') path))"

record api_route =
  rt_verb :: string
  rt_path :: "seg list"
  rt_guards :: "string list"
  rt_handler :: string

text \<open>\<open>@Controller(base)\<close> with the guards of the class: one entry per method with its own guards.\<close>

definition controller :: "string \<Rightarrow> string list \<Rightarrow> string \<Rightarrow> (string \<times> string \<times> string list \<times> string) list \<Rightarrow> api_route list" where
  "controller name guards base methods =
     map (\<lambda>(verb, path, own_guards, meth).
       \<lparr>rt_verb = verb, rt_path = pattern base @ pattern path, rt_guards = guards @ own_guards,
        rt_handler = name @ ''.'' @ meth\<rparr>) methods"

section \<open>The controllers\<close>

definition jwt :: string where "jwt = ''JwtAuthGuard''"
definition in_workspace :: string where "in_workspace = ''WorkspaceGuard''"

definition health_routes :: "api_route list" where
  "health_routes = controller ''Health'' [] [] [(''GET'', ''health'', [], ''health''), (''GET'', ''ready'', [], ''ready'')]"

definition auth_routes :: "api_route list" where
  "auth_routes = controller ''Auth'' [] ''auth''
     [(''POST'', ''signup'', [], ''signup''), (''POST'', ''login'', [], ''login''),
      (''POST'', ''refresh'', [], ''refresh''), (''GET'', ''me'', [jwt], ''me'')]"

definition workspaces_routes :: "api_route list" where
  "workspaces_routes = controller ''Workspaces'' [jwt] ''workspaces''
     [(''GET'', [], [], ''list''), (''GET'', '':id'', [], ''get''), (''POST'', '':id/invite'', [], ''invite'')]"

definition api_keys_routes :: "api_route list" where
  "api_keys_routes = controller ''ApiKeys'' [jwt] ''workspaces/:workspaceId/api-keys''
     [(''GET'', [], [], ''list''), (''POST'', [], [], ''create''), (''DELETE'', '':keyId'', [], ''revoke'')]"

definition dashboards_routes :: "api_route list" where
  "dashboards_routes = controller ''Dashboards'' [jwt, in_workspace] ''workspaces/:workspaceId/dashboards''
     [(''GET'', [], [], ''list''), (''GET'', '':dashboardId'', [], ''get''), (''POST'', [], [], ''create''),
      (''PATCH'', '':dashboardId'', [], ''update''), (''DELETE'', '':dashboardId'', [], ''delete'')]"

definition widgets_routes :: "api_route list" where
  "widgets_routes = controller ''Widgets'' [jwt, in_workspace] ''workspaces/:workspaceId/dashboards/:dashboardId/widgets''
     [(''POST'', [], [], ''create''), (''PATCH'', '':widgetId'', [], ''update''), (''DELETE'', '':widgetId'', [], ''delete'')]"

definition events_routes :: "api_route list" where
  "events_routes = controller ''Events'' [jwt, in_workspace] ''workspaces/:workspaceId/events''
     [(''GET'', ''metrics'', [], ''metrics''), (''GET'', ''kpi'', [], ''kpi''), (''GET'', ''cohort'', [], ''cohort''),
      (''GET'', ''funnel'', [], ''funnel'')]"

definition forecast_routes :: "api_route list" where
  "forecast_routes = controller ''Forecast'' [jwt, in_workspace] ''workspaces/:workspaceId/forecast''
     [(''GET'', [], [], ''get''), (''GET'', ''models'', [], ''models'')]"

definition alerts_routes :: "api_route list" where
  "alerts_routes = controller ''Alerts'' [jwt, in_workspace] ''workspaces/:workspaceId/alerts''
     [(''GET'', [], [], ''list''), (''GET'', ''history'', [], ''history''), (''GET'', '':id'', [], ''get''),
      (''POST'', [], [], ''create''), (''PATCH'', '':id'', [], ''update''), (''DELETE'', '':id'', [], ''delete'')]"

definition pdf_routes :: "api_route list" where
  "pdf_routes = controller ''Pdf'' [jwt, in_workspace] ''workspaces/:workspaceId/dashboards/:dashboardId/pdf''
     [(''POST'', [], [], ''enqueue''), (''GET'', '':jobId'', [], ''status''), (''GET'', '':jobId/download'', [], ''download'')]"

definition share_routes :: "api_route list" where
  "share_routes = controller ''Share'' [] []
     [(''GET'', ''workspaces/:workspaceId/dashboards/:dashboardId/share-links'', [jwt, in_workspace], ''list''),
      (''POST'', ''workspaces/:workspaceId/dashboards/:dashboardId/share-links'', [jwt, in_workspace], ''create''),
      (''DELETE'', ''workspaces/:workspaceId/share-links/:linkId'', [jwt, in_workspace], ''revoke''),
      (''GET'', ''share/:token'', [], ''resolve'')]"

text \<open>The modules in the order of \<open>app.module.ts\<close>, whose own controller comes first.\<close>

definition module_routes :: "api_route list" where
  "module_routes = health_routes @ auth_routes @ workspaces_routes @ api_keys_routes @ dashboards_routes @
     widgets_routes @ events_routes @ forecast_routes @ alerts_routes @ pdf_routes @ share_routes"

text \<open>\<open>setGlobalPrefix('api', { exclude: ['health', 'ready'] })\<close>.\<close>

definition global_prefix :: "string \<Rightarrow> string list \<Rightarrow> api_route \<Rightarrow> api_route" where
  "global_prefix prefix excluded r =
     (if rt_path r \<in> set (map pattern excluded) then r else r\<lparr>rt_path := Fixed prefix # rt_path r\<rparr>)"

definition api_routes :: "api_route list" where
  "api_routes = map (global_prefix ''api'' [''health'', ''ready'']) module_routes"

section \<open>The router\<close>

text \<open>
  Paths as Express documents them: a fixed segment is compared without regard to case, a parameter
  takes any segment that is not empty, one slash at the end is ignored and the query is no part of
  the path. The parameters are the segments as they stand in the path.
\<close>

fun match_segs :: "seg list \<Rightarrow> string list \<Rightarrow> (string \<times> string) list option" where
  "match_segs [] [] = Some []"
| "match_segs (Fixed f # ps) (s # ss) = (if to_lower f = to_lower s then match_segs ps ss else None)"
| "match_segs (Param n # ps) (s # ss) = (if s = [] then None else map_option (Cons (n, s)) (match_segs ps ss))"
| "match_segs _ _ = None"








section \<open>Which routes can meet\<close>

lemma match_segs_ends [simp]:
  "match_segs [] ss = (if ss = [] then Some [] else None)" "match_segs (p # ps) [] = None"
  by (cases ss; simp) (cases p; simp)








lemmas route_defs = api_routes_def module_routes_def health_routes_def auth_routes_def workspaces_routes_def
  api_keys_routes_def dashboards_routes_def widgets_routes_def events_routes_def forecast_routes_def
  alerts_routes_def pdf_routes_def share_routes_def controller_def global_prefix_def jwt_def in_workspace_def
  pattern_def seg_of_def











section \<open>Which route a request finds\<close>








text \<open>
  The guards of the routes: the routes anyone may call, the routes below a workspace that look the
  role up in their handler instead of the guard, and no route at all whose rate is limited: the
  limits of \<open>ThrottlerModule\<close> are configured, but no route or module binds its guard.
\<close>

lemma route_guards:
  "map rt_handler (filter (\<lambda>r. jwt \<notin> set (rt_guards r)) api_routes) =
     [''Health.health'', ''Health.ready'', ''Auth.signup'', ''Auth.login'', ''Auth.refresh'', ''Share.resolve'']"
  "map rt_handler (filter (\<lambda>r. Param ''workspaceId'' \<in> set (rt_path r) \<and> in_workspace \<notin> set (rt_guards r)) api_routes) =
     [''ApiKeys.list'', ''ApiKeys.create'', ''ApiKeys.revoke'']"
  "filter (\<lambda>r. ''ThrottlerGuard'' \<in> set (rt_guards r)) api_routes = []"
  by code_simp+

end
