(* ===== verification/Routing.thy ===== *)
theory Routing
  imports Router Shell
begin

text \<open>
  The calls of the front end against the routes of the API: where each call of \<open>frontend/lib\<close>, of the
  widgets and of the share page ends up, under any router that keeps the promise of Express.
\<close>




























end
