(* ===== verification/Spec2Isabelle.thy ===== *)
theory Spec2Isabelle
  imports ApiKeys Share AlertEvaluator Auth Events SdkClient Pdf Forecast Realtime Bootstrap Client Charts KpiTile Pages Shell Stack Isolation Integrity SiteFacts Routing
begin

text \<open>
  InsightFlow: a verification of its API, its browser SDK and its front end.

  The program. InsightFlow is a multi-tenant analytics service. Applications send events (with the SDK
  of \<open>sdk/src\<close>) that end up in ClickHouse; users of a workspace log in at the front end
  (\<open>frontend\<close>), which talks to the API (\<open>api/src\<close>). The API keeps users, workspaces, members, API keys,
  dashboards, widgets, share links, alert rules and export jobs in Postgres (\<open>api/prisma/schema.prisma\<close>),
  reads the events from ClickHouse through one tenant filter, caches answers in Redis, evaluates alert
  rules on a timer, delivers what they fire to e-mail, Slack and webhooks, prints dashboards to PDF in
  a queue, and relays live ticks to browsers over web sockets. Forecasts and anomalies come from a
  Python service behind a proxy.

  How the theories follow the code. Every theory opens with the files it models. A service method or a
  route is one definition with its guards, its database calls and its errors in the order of the code;
  a class's state is a record; an exception is the left side of a sum, and \<open>try\<close> is a case on it.

    \<^item> Foundations: \<open>Prelude\<close> (the request monad, \<open>keeps\<close> and \<open>obeys\<close>, the locales \<open>frame_condition\<close>
      and \<open>inductive_invariant\<close>), \<open>JsText\<close>, \<open>Json\<close>, \<open>JsDate\<close>, \<open>Bytes\<close>, \<open>Base64Url\<close> (what the code
      uses of the language's library), \<open>Store\<close> (the tables; locale \<open>tenant_table\<close>), \<open>Sample\<close>.
    \<^item> API, below a workspace: \<open>Workspaces\<close> (roles, guard, invitation), \<open>ApiKeys\<close>, \<open>Dashboards\<close> (with
      widgets), \<open>Share\<close>, \<open>Metrics\<close>, \<open>Alerts\<close>, \<open>Pdf\<close> with \<open>S3\<close>, \<open>Forecast\<close>, \<open>Events\<close> over \<open>TenantGuard\<close> and
      \<open>Cache\<close> (locale \<open>kv_cache\<close>).
    \<^item> API, elsewhere: \<open>Auth\<close> (sign-up, login, tokens), \<open>AlertEvaluator\<close> over \<open>Notifier\<close>, \<open>Realtime\<close>,
      \<open>Bootstrap\<close> (CORS and health), \<open>Router\<close> (the routes of all controllers, for any router that
      keeps the promise \<open>express\<close>).
    \<^item> SDK: \<open>SdkClient\<close>.
    \<^item> Front end, state and calls: \<open>Client\<close> (\<open>lib\<close>), \<open>Charts\<close> and \<open>KpiTile\<close> (what widgets compute, the
      tile over any query cache that keeps the promises \<open>react_query\<close>), \<open>Pages\<close> and \<open>Shell\<close> (what the pages compute and do).
    \<^item> Front end, what is rendered: \<open>Markup\<close> (trees of elements), \<open>AuthViews\<close>, \<open>ShellViews\<close>,
      \<open>PageViews\<close>, \<open>CanvasView\<close>, \<open>AlertViews\<close> (one view per component) and \<open>SiteMap\<close> (all pages in
      their layouts).
    \<^item> Compositions: \<open>Isolation\<close> (all requests below a workspace that are not a \<open>GET\<close>, exports
      among them), \<open>Integrity\<close> (all writers of the database), \<open>Stack\<close> and \<open>Routing\<close> (front end against API), \<open>SiteFacts\<close> (facts about all pages).

  State machines. Where the code awaits, others may run. The evaluator (\<open>eval_step\<close>), the export jobs
  (\<open>pdf_step\<close>), the gateway (\<open>gw_step\<close>), the analytics cache (\<open>events_step\<close>), the SDK (\<open>sdk_step\<close>) and the
  whole database (\<open>site_step\<close>) are inductive step relations; their invariants are interpretations of
  \<open>inductive_invariant\<close>. The executable handlers are the steps, so the relations add only the order.

  What the lemmas show. First the tenant boundary: no request, and no history of requests and sign-ups,
  changes a row of a workspace for those outside it (\<open>Isolation\<close>, \<open>Integrity\<close>); queries, cached answers,
  share links and live ticks stay inside theirs (\<open>TenantGuard\<close>, \<open>Events\<close>, \<open>Share\<close>, \<open>Realtime\<close>). An export
  does not: it shows the dashboard of any workspace whose id is known (\<open>Pdf\<close>). Nor does the handshake
  of the web socket tell a refresh token from an access token (\<open>Realtime\<close>), as the HTTP guard does
  (\<open>Auth\<close>). Then the invariants: the schema, the grid of the widgets, the life of an export job, the
  bookkeeping of the SDK. Then what operations do on each branch (keys, invitation, evaluation of a rule,
  funnels and cohorts), round trips (JSON, base64, UTF-8, share tokens, sessions), termination of the
  retry loop and the parser, and facts about the whole of the front end. Several theorems state a
  defect: that an exported PDF is blank, that a KPI tile never shows its number, that alerts never
  reach the toasts, that the filters of a dashboard filter nothing.

  Bounds and fuel. No definition runs on fuel: the JSON parser and \<open>send_loop\<close> have termination proofs,
  everything else is structural, and the draws of a prefix and of a slug are the code's own bounded loops.
  Bytes are 8-bit and base64 digits 6-bit words. Numbers of the language are rationals (or integers
  where the code only counts), so the rounding of doubles is outside the model, and whole numbers print with all their
  digits (the language's library uses an exponent from \<open>10 ^ 21\<close> on); characters are code units below
  256.

  Parameters. What is not under the repository's sources is an argument: argon2, bcrypt, the JWT
  library, SHA-256 and HMAC, random bytes and generated ids, the clock and the calendar arithmetic of
  \<open>setDate\<close>, the network, ClickHouse, the headless browser, \<open>Intl\<close>, the e-mail test of \<open>zod\<close>. The
  router of Express and the query cache of the front end are arguments too, with what is documented
  of them as the hypotheses \<open>express\<close> and \<open>react_query\<close>. Redis and Socket.IO behave as documented.

  Not modelled. The forecast service (Python) and the ingestion and consumer services are in other
  languages. The dependency-injection modules only declare wiring; server start-up, the construction
  of clients, logging, the query client's options and the root element hold no logic of their own.
  Class names, styles and the insides of drawings are left out of the mark-up, and the charts are
  drawn by \<open>recharts\<close>. BullMQ's re-delivery of stalled jobs and the ingestion service's writes to
  \<open>lastUsedAt\<close> are not steps of the models. The option \<open>onError\<close> of the SDK is taken to return: one
  that throws would leave the promises of its batch unsettled. Tests and configuration files are not program.
\<close>

end
